(* ===== verification/GoPrelude.thy ===== *)
theory GoPrelude
  imports Main "HOL-Library.AList" "HOL-Library.Sublist" "HOL-Library.Multiset"
begin

text \<open>
  What every component shares: Go errors and panics as values, the state-passing composition the
  handlers use, \<^verbatim>\<open>int\<close> arithmetic at its 64 bits with the wrap-around written
  out, the byte-string operations of \<^verbatim>\<open>strings\<close> and \<^verbatim>\<open>strconv\<close>
  the code calls, and the list and association-list facts the component proofs use.
  A Go map that the code iterates over is an association list; its order stands for the order in
  which the runtime happens to iterate.
\<close>

named_theorems res_simps \<open>evaluation of the result and state-passing combinators\<close>
named_theorems frame_simps \<open>what an operation leaves unchanged\<close>

section \<open>Errors, panics, results\<close>

text \<open>
  An error value.  \<open>Wrap\<close> is \<^verbatim>\<open>fmt.Errorf\<close> with the verb \<open>%w\<close>, which keeps the cause
  reachable for \<^verbatim>\<open>errors.As\<close>; \<open>Msg\<close> is an error without a reachable cause.
  The string names the message, without the formatted arguments.
\<close>

datatype gerror =
    NotFoundErr
  | AlreadyExistsErr
  | ConflictErr
  | ApiErr string
  | Msg string
  | Wrap string gerror
  | MultiErr "string list"

primrec is_not_found :: "gerror \<Rightarrow> bool" where
  "is_not_found NotFoundErr = True"
| "is_not_found AlreadyExistsErr = False"
| "is_not_found ConflictErr = False"
| "is_not_found (ApiErr m) = False"
| "is_not_found (Msg m) = False"
| "is_not_found (Wrap m e) = is_not_found e"
| "is_not_found (MultiErr ms) = False"

primrec is_already_exists :: "gerror \<Rightarrow> bool" where
  "is_already_exists NotFoundErr = False"
| "is_already_exists AlreadyExistsErr = True"
| "is_already_exists ConflictErr = False"
| "is_already_exists (ApiErr m) = False"
| "is_already_exists (Msg m) = False"
| "is_already_exists (Wrap m e) = is_already_exists e"
| "is_already_exists (MultiErr ms) = False"

primrec is_conflict :: "gerror \<Rightarrow> bool" where
  "is_conflict NotFoundErr = False"
| "is_conflict AlreadyExistsErr = False"
| "is_conflict ConflictErr = True"
| "is_conflict (ApiErr m) = False"
| "is_conflict (Msg m) = False"
| "is_conflict (Wrap m e) = is_conflict e"
| "is_conflict (MultiErr ms) = False"

text \<open>A read that found nothing\<close>

definition missing :: "gerror + 'a \<Rightarrow> bool" where
  "missing r \<longleftrightarrow> (case r of Inl e \<Rightarrow> is_not_found e | Inr x \<Rightarrow> False)"

lemma missing_simps [simp]: "missing (Inl e) \<longleftrightarrow> is_not_found e" "\<not> missing (Inr x)"
  by (simp_all add: missing_def)

text \<open>The runtime panics the modelled code can raise.\<close>

datatype gpanic = IndexOutOfRange | NilMapWrite | NilDeref | BadArgument string | Raised gerror

datatype 'a res = Ok 'a | Err gerror | Panic gpanic

primrec rbind :: "'a res \<Rightarrow> ('a \<Rightarrow> 'b res) \<Rightarrow> 'b res" where
  "rbind (Ok x) f = f x"
| "rbind (Err e) f = Err e"
| "rbind (Panic p) f = Panic p"

primrec is_ok :: "'a res \<Rightarrow> bool" where
  "is_ok (Ok x) = True"
| "is_ok (Err e) = False"
| "is_ok (Panic p) = False"

primrec is_panic :: "'a res \<Rightarrow> bool" where
  "is_panic (Ok x) = False"
| "is_panic (Err e) = False"
| "is_panic (Panic p) = True"

text \<open>
  A step that reads and writes the outside world: its result and the state after it. The state
  of a failed step is kept, since what it did before failing is done.
\<close>

definition sbind :: "'a res \<times> 's \<Rightarrow> ('a \<Rightarrow> 's \<Rightarrow> 'b res \<times> 's) \<Rightarrow> 'b res \<times> 's" where
  "sbind m f = (case m of (Ok x, s) \<Rightarrow> f x s | (Err e, s) \<Rightarrow> (Err e, s) | (Panic p, s) \<Rightarrow> (Panic p, s))"

lemma sbind_simps [simp, res_simps]:
  "sbind (Ok x, s) f = f x s"
  "sbind (Err e, s) f = (Err e, s)"
  "sbind (Panic p, s) f = (Panic p, s)"
  by (simp_all add: sbind_def)

text \<open>\<^verbatim>\<open>if err != nil { return fmt.Errorf("...: %w", err) }\<close>\<close>

definition wrap_err :: "string \<Rightarrow> 'a res \<Rightarrow> 'a res" where
  "wrap_err m r = (case r of Ok x \<Rightarrow> Ok x | Err e \<Rightarrow> Err (Wrap m e) | Panic p \<Rightarrow> Panic p)"

lemma wrap_err_simps [simp, res_simps]:
  "wrap_err m (Ok x) = Ok x"
  "wrap_err m (Err e) = Err (Wrap m e)"
  "wrap_err m (Panic p) = Panic p"
  by (simp_all add: wrap_err_def)

lemma wrap_err_eq_Ok [simp]: "wrap_err m r = Ok x \<longleftrightarrow> r = Ok x"
  by (cases r) simp_all

lemma is_ok_iff: "is_ok r \<longleftrightarrow> (\<exists>x. r = Ok x)"
  by (cases r) simp_all

lemma rbind_eq_Ok: "rbind r f = Ok y \<longleftrightarrow> (\<exists>x. r = Ok x \<and> f x = Ok y)"
  by (cases r) simp_all

lemma rbind_assoc: "rbind (rbind r f) g = rbind r (\<lambda>x. rbind (f x) g)"
  by (cases r) simp_all

lemma sbind_eq_OkD:
  assumes "sbind m f = (Ok y, s')"
  obtains x s where "m = (Ok x, s)" and "f x s = (Ok y, s')"
  using assms by (cases m; cases "fst m") (auto simp: sbind_def split: res.splits)

text \<open>A loop over a list that may fail at each element, and an access by index.\<close>

fun mapM_res :: "('a \<Rightarrow> 'b res) \<Rightarrow> 'a list \<Rightarrow> 'b list res" where
  "mapM_res f [] = Ok []"
| "mapM_res f (x # xs) = rbind (f x) (\<lambda>y. rbind (mapM_res f xs) (\<lambda>ys. Ok (y # ys)))"

definition index_res :: "'a list \<Rightarrow> int \<Rightarrow> 'a res" where
  "index_res xs i = (if i < 0 \<or> int (length xs) \<le> i then Panic IndexOutOfRange else Ok (xs ! nat i))"

lemma index_res_ok [simp]: "0 \<le> i \<Longrightarrow> i < int (length xs) \<Longrightarrow> index_res xs i = Ok (xs ! nat i)"
  by (simp add: index_res_def)

lemma mapM_res_list_all2: "mapM_res f xs = Ok ys \<longleftrightarrow> list_all2 (\<lambda>x y. f x = Ok y) xs ys"
proof (induction xs arbitrary: ys)
  case Nil
  show ?case by auto
next
  case (Cons x xs)
  show ?case by (cases ys) (auto simp: rbind_eq_Ok Cons.IH)
qed

lemma mapM_res_panic: "(\<And>x. x \<in> set xs \<Longrightarrow> is_ok (f x)) \<Longrightarrow> is_ok (mapM_res f xs)"
proof (induction xs)
  case Nil
  show ?case by simp
next
  case (Cons x xs)
  then have "is_ok (f x)" and "is_ok (mapM_res f xs)" by simp_all
  then show ?case by (cases "f x"; cases "mapM_res f xs") simp_all
qed

lemma mapM_res_all:
  assumes "mapM_res f xs = Ok ys" and "list_all P xs" and "\<And>x y. P x \<Longrightarrow> f x = Ok y \<Longrightarrow> Q y"
  shows "list_all Q ys"
  using assms by (auto simp: mapM_res_list_all2 list_all_length list_all2_conv_all_nth)

section \<open>64-bit integers\<close>

text \<open>Go's \<^verbatim>\<open>int\<close> and \<^verbatim>\<open>int64\<close>: two's complement of 64 bits.\<close>

definition wrap64 :: "int \<Rightarrow> int" where
  "wrap64 x = (x + 2 ^ 63) mod 2 ^ 64 - 2 ^ 63"

definition in64 :: "int \<Rightarrow> bool" where
  "in64 x \<longleftrightarrow> - (2 ^ 63) \<le> x \<and> x < 2 ^ 63"

lemma wrap64_id [simp]: "in64 x \<Longrightarrow> wrap64 x = x"
  by (simp add: wrap64_def in64_def)

lemma in64_wrap64 [simp]: "in64 (wrap64 x)"
  by (simp add: wrap64_def in64_def)

text \<open>Go's \<open>/\<close> and \<open>%\<close> truncate towards zero.\<close>

definition go_div :: "int \<Rightarrow> int \<Rightarrow> int" where
  "go_div a b = sgn a * sgn b * (\<bar>a\<bar> div \<bar>b\<bar>)"

definition go_mod :: "int \<Rightarrow> int \<Rightarrow> int" where
  "go_mod a b = a - b * go_div a b"

lemma go_div_nonneg: "0 \<le> a \<Longrightarrow> 0 < b \<Longrightarrow> go_div a b = a div b"
  by (cases "a = 0") (simp_all add: go_div_def)

lemma go_mod_nonneg: "0 \<le> a \<Longrightarrow> 0 < b \<Longrightarrow> go_mod a b = a mod b"
  by (simp add: go_mod_def go_div_nonneg minus_mult_div_eq_mod)

lemma go_div_exact: "b \<noteq> 0 \<Longrightarrow> go_div (a * b) b = a"
  by (simp add: go_div_def abs_mult sgn_mult mult.assoc)
    (metis mult.assoc mult.commute mult_sgn_abs sgn_mult_self_eq mult_1 of_bool_eq(2))

section \<open>Byte strings\<close>

definition digit_char :: "nat \<Rightarrow> char" where
  "digit_char d = char_of (48 + d)"

fun itoa_nat :: "nat \<Rightarrow> string" where
  "itoa_nat n = (if n < 10 then [digit_char n] else itoa_nat (n div 10) @ [digit_char (n mod 10)])"

declare itoa_nat.simps [simp del]

text \<open>\<^verbatim>\<open>strconv.Itoa\<close>, and \<^verbatim>\<open>%d\<close>\<close>

definition itoa :: "int \<Rightarrow> string" where
  "itoa i = (if i < 0 then CHR ''-'' # itoa_nat (nat (- i)) else itoa_nat (nat i))"

definition is_digit :: "char \<Rightarrow> bool" where
  "is_digit c \<longleftrightarrow> 48 \<le> (of_char c :: nat) \<and> (of_char c :: nat) \<le> 57"

definition digit_val :: "char \<Rightarrow> nat" where
  "digit_val c = of_char c - 48"

text \<open>The value of a string of decimal digits.\<close>

definition digits_val :: "string \<Rightarrow> nat" where
  "digits_val s = foldl (\<lambda>n c. 10 * n + digit_val c) 0 s"

text \<open>\<^verbatim>\<open>strconv.Atoi\<close>: an optional sign, then digits; an error outside 64 bits.\<close>

definition atoi :: "string \<Rightarrow> int option" where
  "atoi s =
     (let (neg, ds) = (case s of
            c # cs \<Rightarrow> if c = CHR ''-'' then (True, cs) else if c = CHR ''+'' then (False, cs) else (False, s)
          | [] \<Rightarrow> (False, []))
      in if ds = [] \<or> \<not> list_all is_digit ds then None
         else let v = (if neg then - int (digits_val ds) else int (digits_val ds))
              in if in64 v then Some v else None)"

lemma digit_char_simps [simp]:
  assumes "d < 10"
  shows "is_digit (digit_char d)" and "digit_val (digit_char d) = d"
  using assms by (simp_all add: is_digit_def digit_val_def digit_char_def)

lemma itoa_nat_ne [simp]: "itoa_nat n \<noteq> []"
  by (subst itoa_nat.simps) simp

lemma itoa_nat_digits [simp]: "list_all is_digit (itoa_nat n)"
proof (induction n rule: itoa_nat.induct)
  case (1 n)
  then show ?case by (cases "n < 10") (simp_all add: itoa_nat.simps [of n])
qed

lemma digits_val_snoc [simp]: "digits_val (s @ [c]) = 10 * digits_val s + digit_val c"
  by (simp add: digits_val_def)

lemma digits_val_itoa_nat [simp]: "digits_val (itoa_nat n) = n"
proof (induction n rule: itoa_nat.induct)
  case (1 n)
  show ?case
  proof (cases "n < 10")
    case True
    then show ?thesis by (simp add: itoa_nat.simps [of n]) (simp add: digits_val_def)
  next
    case False
    with 1 have "digits_val (itoa_nat (n div 10)) = n div 10" by simp
    with False show ?thesis by (simp add: itoa_nat.simps [of n])
  qed
qed

lemma itoa_nat_hd: "\<exists>c cs. itoa_nat n = c # cs \<and> is_digit c"
  using itoa_nat_digits [of n] itoa_nat_ne [of n] by (cases "itoa_nat n") auto

lemma not_digit_sign [simp]:
  "is_digit c \<Longrightarrow> c \<noteq> CHR ''-''" "is_digit c \<Longrightarrow> c \<noteq> CHR ''+''"
  by (auto simp: is_digit_def)

lemma atoi_digits:
  assumes "s \<noteq> []" and "list_all is_digit s" and "in64 (int (digits_val s))"
  shows "atoi s = Some (int (digits_val s))"
proof -
  from assms obtain c cs where "s = c # cs" and "is_digit c" by (cases s) auto
  with assms show ?thesis by (simp add: atoi_def)
qed

lemma atoi_itoa: "in64 i \<Longrightarrow> atoi (itoa i) = Some i"
proof (cases "i < 0")
  case True
  assume "in64 i"
  with True show ?thesis by (simp add: atoi_def itoa_def)
next
  case False
  assume "in64 i"
  with False show ?thesis by (simp add: itoa_def atoi_digits)
qed

lemma itoa_nat_inj: "itoa_nat m = itoa_nat n \<Longrightarrow> m = n"
  by (metis digits_val_itoa_nat)

text \<open>\<^verbatim>\<open>strings.Contains\<close>, \<^verbatim>\<open>strings.ReplaceAll\<close> of one byte by another\<close>

fun str_contains :: "string \<Rightarrow> string \<Rightarrow> bool" where
  "str_contains [] t = (t = [])"
| "str_contains (c # cs) t = (prefix t (c # cs) \<or> str_contains cs t)"

definition replace_char :: "char \<Rightarrow> char \<Rightarrow> string \<Rightarrow> string" where
  "replace_char a b s = map (\<lambda>c. if c = a then b else c) s"

text \<open>\<^verbatim>\<open>strings.Join\<close>\<close>

fun str_join :: "string \<Rightarrow> string list \<Rightarrow> string" where
  "str_join sep [] = []"
| "str_join sep [x] = x"
| "str_join sep (x # y # ys) = x @ sep @ str_join sep (y # ys)"

text \<open>
  Case folding of ASCII bytes; \<^verbatim>\<open>strings.ToLower\<close> and
  \<^verbatim>\<open>strings.EqualFold\<close> on ASCII strings, which device and GPU identifiers are.
\<close>

definition char_lower :: "char \<Rightarrow> char" where
  "char_lower c = (if 65 \<le> (of_char c :: nat) \<and> (of_char c :: nat) \<le> 90 then char_of (of_char c + 32 :: nat) else c)"

definition to_lower :: "string \<Rightarrow> string" where
  "to_lower s = map char_lower s"

definition equal_fold :: "string \<Rightarrow> string \<Rightarrow> bool" where
  "equal_fold s t \<longleftrightarrow> to_lower s = to_lower t"

lemma char_lower_idem [simp]: "char_lower (char_lower c) = char_lower c"
  by (simp add: char_lower_def)

lemma to_lower_idem [simp]: "to_lower (to_lower s) = to_lower s"
  by (simp add: to_lower_def)

lemma equal_fold_to_lower [simp]:
  "equal_fold s (to_lower t) = equal_fold s t" "equal_fold (to_lower s) t = equal_fold s t"
  by (simp_all add: equal_fold_def)

section \<open>Lists and association lists\<close>

text \<open>The position of the first element that satisfies \<open>P\<close>; \<open>-1\<close> when there is none.\<close>

fun first_index :: "('a \<Rightarrow> bool) \<Rightarrow> 'a list \<Rightarrow> int" where
  "first_index P [] = -1"
| "first_index P (x # xs) = (if P x then 0 else if first_index P xs = -1 then -1 else first_index P xs + 1)"

lemma first_index_ge: "-1 \<le> first_index P xs"
  by (induction xs) auto

lemma first_index_none: "first_index P xs = -1 \<longleftrightarrow> (\<forall>x \<in> set xs. \<not> P x)"
proof (induction xs)
  case Nil
  show ?case by simp
next
  case (Cons x xs)
  then show ?case using first_index_ge [of P xs] by auto
qed

lemma first_index_props:
  assumes "first_index P xs \<noteq> -1"
  shows "0 \<le> first_index P xs \<and> nat (first_index P xs) < length xs \<and> P (xs ! nat (first_index P xs)) \<and>
    (\<forall>j < nat (first_index P xs). \<not> P (xs ! j))"
  using assms
proof (induction xs)
  case Nil
  then show ?case by simp
next
  case (Cons x xs)
  show ?case
  proof (cases "P x")
    case True
    then show ?thesis by simp
  next
    case False
    with Cons.prems have ne: "first_index P xs \<noteq> -1" by (auto split: if_splits)
    note IH = Cons.IH [OF ne]
    from IH have nat_eq: "nat (first_index P (x # xs)) = Suc (nat (first_index P xs))"
      using False ne by (simp add: nat_add_distrib)
    have before: "\<not> P ((x # xs) ! j)" if "j < Suc (nat (first_index P xs))" for j
      using that IH False by (cases j) auto
    from nat_eq IH False before show ?thesis by (simp add: nat_eq)
  qed
qed

lemma map_of_update: "map_of (AList.update k v xs) k' = (if k' = k then Some v else map_of xs k')"
  by (simp add: update_conv')

lemma map_of_delete: "map_of (AList.delete k xs) k' = (if k' = k then None else map_of xs k')"
  by (simp add: delete_conv')

lemma distinct_fst_update [simp]:
  "distinct (map fst xs) \<Longrightarrow> distinct (map fst (AList.update k v xs))"
  by (rule distinct_update)

lemma map_of_perm:
  assumes "mset xs = mset ys" and "distinct (map fst xs)"
  shows "map_of xs = map_of ys"
proof -
  from assms have "distinct (map fst ys)"
    by (metis mset_eq_imp_distinct_iff mset_map)
  moreover from assms(1) have "set xs = set ys" by (rule mset_eq_setD)
  ultimately show ?thesis using assms(2) by (simp add: map_of_inject_set)
qed

end
