(* ===== verification/GoFloat.thy ===== *)
theory GoFloat
  imports Complex_Main GoPrelude
begin

text \<open>
  Go's \<^verbatim>\<open>float64\<close> and \<^verbatim>\<open>float32\<close> as far as the code computes with them:
  a finite value is the rational number it stands for, and every operation rounds its exact result
  to the nearest representable value, ties to even (IEEE 754).  \<^verbatim>\<open>strconv.ParseFloat\<close> is
  translated from its documented grammar.  The lemmas say that integers below \<open>2 ^ 53\<close> are exact and
  that rounding never crosses an integer, which is what the users of floating point here rely on.
\<close>

section \<open>Rounding\<close>

text \<open>Round half to even.\<close>

definition rhe :: "rat \<Rightarrow> int" where
  "rhe y = (let f = \<lfloor>y\<rfloor>; d = y - of_int f
            in if d < 1 / 2 then f else if 1 / 2 < d then f + 1 else if even f then f else f + 1)"

text \<open>\<open>2 ^ e\<close> for an integer exponent.\<close>

definition pow2 :: "int \<Rightarrow> rat" where
  "pow2 e = (if 0 \<le> e then 2 ^ nat e else 1 / 2 ^ nat (- e))"

text \<open>The exponent \<open>e\<close> with \<open>2 ^ e \<le> a / b < 2 ^ (e + 1)\<close>, for positive \<open>a\<close>, \<open>b\<close>.\<close>

function bits :: "int \<Rightarrow> nat" where
  "bits n = (if n \<le> 0 then 0 else Suc (bits (n div 2)))"
  by pat_completeness auto
termination
  by (relation "measure nat") auto

declare bits.simps [simp del]

definition flog2 :: "rat \<Rightarrow> int" where
  "flog2 q = (let (a, b) = quotient_of q; e = int (bits a) - int (bits b)
              in if pow2 e \<le> q then e else e - 1)"

text \<open>
  Rounding to \<open>p\<close> significant bits with the least exponent \<open>emin\<close> of the last bit:
  (53, -1074) for \<^verbatim>\<open>float64\<close>, (24, -149) for \<^verbatim>\<open>float32\<close>.
\<close>

definition rnd :: "int \<Rightarrow> int \<Rightarrow> rat \<Rightarrow> rat" where
  "rnd p emin q =
     (if q = 0 then 0
      else let e = max (flog2 \<bar>q\<bar> - (p - 1)) emin in of_int (rhe (q / pow2 e)) * pow2 e)"

definition rnd64 :: "rat \<Rightarrow> rat" where "rnd64 = rnd 53 (-1074)"
definition rnd32 :: "rat \<Rightarrow> rat" where "rnd32 = rnd 24 (-149)"

section \<open>Values\<close>

datatype gofloat = Fin rat | PosInf | NegInf | NaN

text \<open>A result too large for \<^verbatim>\<open>float64\<close> becomes infinite.\<close>

definition to_f64 :: "rat \<Rightarrow> gofloat" where
  "to_f64 q = (let r = rnd64 q
               in if r \<noteq> 0 \<and> 1024 \<le> flog2 \<bar>r\<bar> then if 0 < r then PosInf else NegInf else Fin r)"

text \<open>The conversion \<^verbatim>\<open>float64(i)\<close> of a 64-bit integer.\<close>

definition f64_of_int :: "int \<Rightarrow> gofloat" where
  "f64_of_int i = Fin (rnd64 (of_int i))"

text \<open>Multiplication, with IEEE's special cases.\<close>

fun f64_mul :: "gofloat \<Rightarrow> gofloat \<Rightarrow> gofloat" where
  "f64_mul (Fin a) (Fin b) = to_f64 (a * b)"
| "f64_mul NaN y = NaN"
| "f64_mul x NaN = NaN"
| "f64_mul (Fin a) PosInf = (if a = 0 then NaN else if 0 < a then PosInf else NegInf)"
| "f64_mul (Fin a) NegInf = (if a = 0 then NaN else if 0 < a then NegInf else PosInf)"
| "f64_mul PosInf (Fin b) = (if b = 0 then NaN else if 0 < b then PosInf else NegInf)"
| "f64_mul NegInf (Fin b) = (if b = 0 then NaN else if 0 < b then NegInf else PosInf)"
| "f64_mul PosInf PosInf = PosInf"
| "f64_mul PosInf NegInf = NegInf"
| "f64_mul NegInf PosInf = NegInf"
| "f64_mul NegInf NegInf = PosInf"

text \<open>Truncation towards zero.\<close>

definition rat_trunc :: "rat \<Rightarrow> int" where
  "rat_trunc q = (if 0 \<le> q then \<lfloor>q\<rfloor> else \<lceil>q\<rceil>)"

text \<open>
  The conversion \<^verbatim>\<open>int(f)\<close> truncates; outside the 64 bits, and for infinities and NaN, the
  language leaves the value to the implementation: it is the parameter \<open>oor\<close>.
\<close>

fun int_of_f64 :: "(gofloat \<Rightarrow> int) \<Rightarrow> gofloat \<Rightarrow> int" where
  "int_of_f64 oor (Fin q) = (if in64 (rat_trunc q) then rat_trunc q else oor (Fin q))"
| "int_of_f64 oor f = oor f"

section \<open>strconv.ParseFloat\<close>

definition hex_val :: "char \<Rightarrow> nat option" where
  "hex_val c = (let n = (of_char c :: nat) in
     if 48 \<le> n \<and> n \<le> 57 then Some (n - 48)
     else if 97 \<le> n \<and> n \<le> 102 then Some (n - 87)
     else if 65 \<le> n \<and> n \<le> 70 then Some (n - 55) else None)"

text \<open>The digit of a base, ten or sixteen.\<close>

definition base_digit :: "bool \<Rightarrow> char \<Rightarrow> nat option" where
  "base_digit hex c = (if hex then hex_val c else if is_digit c then Some (digit_val c) else None)"

text \<open>
  The mantissa: digits, underscores and at most one point.  The result is the value of the digits
  read as an integer, how many of them stand after the point, whether there was a digit, whether
  there was an underscore, and what is left of the text.
\<close>

fun scan_mant :: "bool \<Rightarrow> bool \<Rightarrow> nat \<Rightarrow> nat \<Rightarrow> bool \<Rightarrow> bool \<Rightarrow> string \<Rightarrow> nat \<times> nat \<times> bool \<times> bool \<times> string" where
  "scan_mant hex dot m k dig und [] = (m, k, dig, und, [])"
| "scan_mant hex dot m k dig und (c # cs) =
     (if c = CHR ''_'' then scan_mant hex dot m k dig True cs
      else if c = CHR ''.'' then (if dot then (m, k, dig, und, c # cs) else scan_mant hex True m k dig und cs)
      else case base_digit hex c of
             Some d \<Rightarrow> scan_mant hex dot ((if hex then 16 else 10) * m + d) (if dot then Suc k else k) True und cs
           | None \<Rightarrow> (m, k, dig, und, c # cs))"

text \<open>The digits of the exponent, capped at \<open>10000\<close> as the source caps them.\<close>

fun scan_exp :: "nat \<Rightarrow> bool \<Rightarrow> string \<Rightarrow> nat \<times> bool \<times> string" where
  "scan_exp e und [] = (e, und, [])"
| "scan_exp e und (c # cs) =
     (if is_digit c then scan_exp (if e < 10000 then 10 * e + digit_val c else e) und cs
      else if c = CHR ''_'' then scan_exp e True cs
      else (e, und, c # cs))"

text \<open>Underscores stand between digits, or between the base prefix and a digit; only with a base prefix.\<close>

fun underscores_ok :: "bool \<Rightarrow> char \<Rightarrow> string \<Rightarrow> bool" where
  "underscores_ok hex prev [] = (prev \<noteq> CHR ''_'')"
| "underscores_ok hex prev (c # cs) =
     (if is_digit c \<or> (hex \<and> hex_val c \<noteq> None) then underscores_ok hex CHR ''0'' cs
      else if c = CHR ''_'' then prev = CHR ''0'' \<and> underscores_ok hex CHR ''_'' cs
      else prev \<noteq> CHR ''_'' \<and> underscores_ok hex CHR ''!'' cs)"

text \<open>
  The exact value of a numeral and whether it is well formed to its end, after the sign:
  an optional hexadecimal prefix, the mantissa, the exponent (required in hexadecimal).
\<close>

definition parse_number :: "string \<Rightarrow> rat option" where
  "parse_number s =
     (let hex = (2 < length s \<and> s ! 0 = CHR ''0'' \<and> to_lower [s ! 1] = ''x'');
          body = (if hex then drop 2 s else s);
          (m, k, dig, und, rest) = scan_mant hex False 0 0 False False body;
          scale = (if hex then pow2 (- 4 * int k) else 1 / 10 ^ k)
      in if \<not> dig then None
         else case rest of
           [] \<Rightarrow> if hex then None
                 else if und \<and> \<not> underscores_ok hex CHR ''^'' body then None
                 else Some (of_nat m * scale)
         | c # cs \<Rightarrow>
             if to_lower [c] \<noteq> (if hex then ''p'' else ''e'') then None
             else (let (neg, es) = (case cs of d # ds \<Rightarrow> if d = CHR ''+'' then (False, ds)
                                                          else if d = CHR ''-'' then (True, ds) else (False, cs)
                                            | [] \<Rightarrow> (False, []))
                   in if es = [] \<or> \<not> is_digit (hd es) then None
                      else (let (e, und', rest') = scan_exp 0 und es;
                                e' = (if neg then - int e else int e)
                            in if rest' \<noteq> [] then None
                               else if und' \<and> \<not> underscores_ok hex (if hex then CHR ''0'' else CHR ''^'') body then None
                               else Some (of_nat m * scale *
                                      (if hex then pow2 e' else if neg then 1 / 10 ^ e else 10 ^ e)))))"

text \<open>
  \<^verbatim>\<open>strconv.ParseFloat(s, 32)\<close>: the nearest 32-bit value; an error for bad syntax and for
  a value beyond the largest 32-bit number.  Infinities and NaN have names, in any case.
\<close>

definition parse_float32 :: "string \<Rightarrow> gofloat option" where
  "parse_float32 s =
     (let (neg, body) = (case s of c # cs \<Rightarrow> if c = CHR ''+'' then (False, cs)
                                              else if c = CHR ''-'' then (True, cs) else (False, s)
                                | [] \<Rightarrow> (False, []));
          low = to_lower body
      in if low = ''inf'' \<or> low = ''infinity'' then Some (if neg then NegInf else PosInf)
         else if to_lower s = ''nan'' then Some NaN
         else case parse_number body of
                None \<Rightarrow> None
              | Some q \<Rightarrow> (let r = rnd32 q
                          in if r \<noteq> 0 \<and> 128 \<le> flog2 r then None else Some (Fin (if neg then - r else r))))"

section \<open>Facts about rounding\<close>

lemma pow2_pos [simp]: "0 < pow2 e"
  by (simp add: pow2_def)

lemma pow2_nonzero [simp]: "pow2 e \<noteq> 0"
  using pow2_pos [of e] by linarith

lemma pow2_0 [simp]: "pow2 0 = 1"
  by (simp add: pow2_def)

lemma pow2_powi: "pow2 e = 2 powi e"
  by (simp add: pow2_def power_int_def power_inverse field_simps)

lemma pow2_add: "pow2 (a + b) = pow2 a * pow2 b"
  by (simp add: pow2_powi power_int_add)

lemma pow2_mono: "a \<le> b \<Longrightarrow> pow2 a \<le> pow2 b"
  by (simp add: pow2_powi power_int_increasing)

lemma pow2_strict: "a < b \<Longrightarrow> pow2 a < pow2 b"
  by (simp add: pow2_powi power_int_strict_increasing)

lemma pow2_neg_int: "e \<le> 0 \<Longrightarrow> of_int n / pow2 e = (of_int (n * 2 ^ nat (- e)) :: rat)"
  by (simp add: pow2_def)

lemma rhe_of_int [simp]: "rhe (of_int n) = n"
  by (simp add: rhe_def)

lemma rhe_near: "\<bar>of_int (rhe y) - y\<bar> \<le> 1 / 2"
proof -
  have "of_int \<lfloor>y\<rfloor> \<le> y" and "y < of_int \<lfloor>y\<rfloor> + 1" by linarith+
  then show ?thesis by (simp add: rhe_def Let_def abs_if) linarith
qed

lemma rhe_le: "y \<le> of_int m \<Longrightarrow> rhe y \<le> m"
proof (rule ccontr)
  assume a: "y \<le> of_int m" and "\<not> rhe y \<le> m"
  then have "m + 1 \<le> rhe y" by simp
  then have "of_int (m + 1) \<le> (of_int (rhe y) :: rat)" by (simp only: of_int_le_iff)
  then show False using a rhe_near [of y] by (simp add: abs_le_iff)
qed

lemma rhe_ge: "of_int m \<le> y \<Longrightarrow> m \<le> rhe y"
proof -
  assume a: "of_int m \<le> y"
  then have "m \<le> \<lfloor>y\<rfloor>" by (simp add: le_floor_iff)
  then show ?thesis by (simp add: rhe_def Let_def)
qed

text \<open>\<open>flog2\<close> is the binary logarithm, rounded down.\<close>

lemma bits_bounds: "0 < n \<Longrightarrow> 2 ^ (bits n - 1) \<le> n \<and> n < 2 ^ bits n \<and> 0 < bits n"
proof (induction n rule: bits.induct)
  case (1 n)
  show ?case
  proof (cases "n div 2 = 0")
    case True
    with 1 have "n = 1" by simp
    moreover have "bits 1 = 1" by (simp add: bits.simps)
    ultimately show ?thesis by simp
  next
    case False
    with 1 have IH: "2 ^ (bits (n div 2) - 1) \<le> n div 2" "n div 2 < 2 ^ bits (n div 2)" "0 < bits (n div 2)"
      by auto
    from IH(1,3) have "2 * 2 ^ (bits (n div 2) - 1) \<le> n" by linarith
    then have "2 ^ bits (n div 2) \<le> n"
      using IH(3) by (metis Suc_diff_1 power_Suc)
    moreover from IH(2) have "n < 2 * 2 ^ bits (n div 2)" by linarith
    ultimately show ?thesis using 1 by (simp add: bits.simps [of n])
  qed
qed

lemma bits_pow2:
  assumes "0 < n"
  shows "pow2 (int (bits n) - 1) \<le> of_int n" and "of_int n < pow2 (int (bits n))"
proof -
  have b: "2 ^ (bits n - 1) \<le> n" "n < 2 ^ bits n" "0 < bits n"
    using bits_bounds [OF assms] by blast+
  have e: "int (bits n) - 1 = int (bits n - 1)" using b(3) by linarith
  have "of_int (2 ^ (bits n - 1)) \<le> (of_int n :: rat)" using b(1) by (simp only: of_int_le_iff)
  then show "pow2 (int (bits n) - 1) \<le> of_int n" by (simp add: pow2_def e del: of_nat_diff)
  have "of_int n < (of_int (2 ^ bits n) :: rat)" using b(2) by (simp only: of_int_less_iff)
  then show "of_int n < pow2 (int (bits n))" by (simp add: pow2_def)
qed

lemma flog2_bounds:
  assumes "0 < q"
  shows "pow2 (flog2 q) \<le> q \<and> q < pow2 (flog2 q + 1)"
proof -
  obtain a b where ab: "quotient_of q = (a, b)" by force
  then have b: "0 < b" and q: "q = of_int a / of_int b"
    by (auto simp: quotient_of_denom_pos quotient_of_div)
  with assms have a: "0 < a" by (simp add: zero_less_divide_iff)
  define m n where "m = bits a" and "n = bits b"
  have am: "pow2 (int m - 1) \<le> of_int a" "of_int a < pow2 (int m)"
    and bn: "pow2 (int n - 1) \<le> of_int b" "of_int b < pow2 (int n)"
    using bits_pow2 [OF a] bits_pow2 [OF b] by (simp_all add: m_def n_def)
  have bpos: "(0 :: rat) < of_int b" using b by simp
  have up: "q < pow2 (int m - int n + 1)"
  proof -
    have "pow2 (int m) = pow2 (int m - int n + 1) * pow2 (int n - 1)" by (simp flip: pow2_add)
    also have "\<dots> \<le> pow2 (int m - int n + 1) * of_int b" using bn(1) by (simp add: mult_left_mono less_imp_le)
    finally show ?thesis using am(2) bpos by (simp add: q pos_divide_less_eq)
  qed
  have lo: "pow2 (int m - int n - 1) \<le> q"
  proof -
    have "pow2 (int m - int n - 1) * of_int b \<le> pow2 (int m - int n - 1) * pow2 (int n)"
      using bn(2) by (simp add: mult_left_mono less_imp_le)
    also have "\<dots> = pow2 (int m - 1)" by (simp flip: pow2_add)
    finally show ?thesis using am(1) bpos by (simp add: q pos_le_divide_eq)
  qed
  show ?thesis
    using up lo by (auto simp: flog2_def ab Let_def simp flip: m_def n_def)
qed

lemma flog2_less: "0 < q \<Longrightarrow> q < pow2 e \<Longrightarrow> flog2 q < e"
  using flog2_bounds [of q] pow2_mono [of e "flog2 q"] by linarith

text \<open>Rounding keeps the sign and never crosses an integer that the format represents.\<close>

definition ulp_exp :: "int \<Rightarrow> int \<Rightarrow> rat \<Rightarrow> int" where
  "ulp_exp p emin q = max (flog2 \<bar>q\<bar> - (p - 1)) emin"

lemma rnd_ulp: "q \<noteq> 0 \<Longrightarrow> rnd p emin q = of_int (rhe (q / pow2 (ulp_exp p emin q))) * pow2 (ulp_exp p emin q)"
  by (simp add: rnd_def ulp_exp_def Let_def)

lemma ulp_exp_nonpos:
  assumes "q \<noteq> 0" and "\<bar>q\<bar> < pow2 p" and "emin \<le> 0"
  shows "ulp_exp p emin q \<le> 0"
  using flog2_less [of "\<bar>q\<bar>" p] assms by (simp add: ulp_exp_def)

lemma rnd_le_int:
  assumes "q \<le> of_int n" and "\<bar>q\<bar> < pow2 p" and "emin \<le> 0"
  shows "rnd p emin q \<le> of_int n"
proof (cases "q = 0")
  case True
  with assms show ?thesis by (simp add: rnd_def)
next
  case False
  define e where "e = ulp_exp p emin q"
  have e: "e \<le> 0" using ulp_exp_nonpos [OF False assms(2,3)] by (simp add: e_def)
  have "q / pow2 e \<le> of_int n / pow2 e" using assms(1) by (simp add: divide_right_mono less_imp_le)
  then have "rhe (q / pow2 e) \<le> n * 2 ^ nat (- e)"
    by (intro rhe_le) (simp only: pow2_neg_int [OF e])
  then have "of_int (rhe (q / pow2 e)) \<le> (of_int n / pow2 e :: rat)"
    by (simp only: pow2_neg_int [OF e] of_int_le_iff)
  then show ?thesis
    by (simp add: rnd_ulp [OF False] pos_le_divide_eq flip: e_def)
qed

lemma rnd_ge_int:
  assumes "of_int n \<le> q" and "\<bar>q\<bar> < pow2 p" and "emin \<le> 0"
  shows "of_int n \<le> rnd p emin q"
proof (cases "q = 0")
  case True
  with assms show ?thesis by (simp add: rnd_def)
next
  case False
  define e where "e = ulp_exp p emin q"
  have e: "e \<le> 0" using ulp_exp_nonpos [OF False assms(2,3)] by (simp add: e_def)
  have "of_int n / pow2 e \<le> q / pow2 e" using assms(1) by (simp add: divide_right_mono less_imp_le)
  then have "n * 2 ^ nat (- e) \<le> rhe (q / pow2 e)"
    by (intro rhe_ge) (simp only: pow2_neg_int [OF e])
  then have "(of_int n / pow2 e :: rat) \<le> of_int (rhe (q / pow2 e))"
    by (simp only: pow2_neg_int [OF e] of_int_le_iff)
  then show ?thesis
    by (simp add: rnd_ulp [OF False] pos_divide_le_eq flip: e_def)
qed

lemma rnd_of_int:
  assumes "\<bar>of_int n\<bar> < pow2 p" and "emin \<le> 0"
  shows "rnd p emin (of_int n) = of_int n"
  using rnd_le_int [of "of_int n" n p emin] rnd_ge_int [of n "of_int n" p emin] assms by force

lemma rnd64_of_int: "\<bar>n\<bar> < 2 ^ 53 \<Longrightarrow> rnd64 (of_int n) = of_int n"
proof -
  assume "\<bar>n\<bar> < 2 ^ 53"
  then have "of_int \<bar>n\<bar> < (of_int (2 ^ 53) :: rat)" by (simp only: of_int_less_iff)
  then have "\<bar>of_int n\<bar> < pow2 53" by (simp add: pow2_def)
  then show ?thesis unfolding rnd64_def by (rule rnd_of_int) simp
qed

text \<open>The error of a rounding is at most half a unit in the last place.\<close>

lemma rnd_error:
  assumes "q \<noteq> 0"
  shows "\<bar>rnd p emin q - q\<bar> \<le> pow2 (ulp_exp p emin q) / 2"
proof -
  define e where "e = ulp_exp p emin q"
  have "\<bar>of_int (rhe (q / pow2 e)) - q / pow2 e\<bar> \<le> 1 / 2" by (rule rhe_near)
  then have "\<bar>of_int (rhe (q / pow2 e)) - q / pow2 e\<bar> * pow2 e \<le> 1 / 2 * pow2 e"
    by (rule mult_right_mono) (simp add: less_imp_le)
  then have "\<bar>(of_int (rhe (q / pow2 e)) - q / pow2 e) * pow2 e\<bar> \<le> pow2 e / 2"
    by (simp only: abs_mult) (simp add: abs_of_pos)
  then show ?thesis
    by (simp add: rnd_ulp [OF assms] left_diff_distrib flip: e_def)
qed

text \<open>Rounding never crosses a power of two either, of any size.\<close>

lemma rnd_abs_le_pow2:
  assumes "\<bar>q\<bar> \<le> pow2 k" and "1 \<le> p" and "emin \<le> k"
  shows "\<bar>rnd p emin q\<bar> \<le> pow2 k"
proof (cases "q = 0")
  case True
  then show ?thesis by (simp add: rnd_def less_imp_le)
next
  case False
  define e N where "e = ulp_exp p emin q" and "N = (2 :: int) ^ nat (k - e)"
  have "flog2 \<bar>q\<bar> < k + 1"
    using assms(1) False pow2_strict [of k "k + 1"] by (intro flog2_less) simp_all
  then have e: "e \<le> k" using assms(2,3) by (simp add: e_def ulp_exp_def)
  then have N: "pow2 (k - e) = of_int N" by (simp add: pow2_def N_def)
  have k: "pow2 k = pow2 (k - e) * pow2 e" by (simp flip: pow2_add)
  from assms(1) have "q \<le> of_int N * pow2 e" "- (of_int N * pow2 e) \<le> q" by (simp_all add: k N abs_le_iff)
  then have "q / pow2 e \<le> of_int N" "of_int (- N) \<le> q / pow2 e"
    by (simp_all add: pos_divide_le_eq pos_le_divide_eq)
  then have "rhe (q / pow2 e) \<le> N" "- N \<le> rhe (q / pow2 e)"
    by (auto intro: rhe_le rhe_ge)
  then have "\<bar>rhe (q / pow2 e)\<bar> \<le> N" by simp
  then have "of_int \<bar>rhe (q / pow2 e)\<bar> \<le> (of_int N :: rat)" by (simp only: of_int_le_iff)
  then have "\<bar>of_int (rhe (q / pow2 e))\<bar> * pow2 e \<le> of_int N * pow2 e"
    by (intro mult_right_mono) (simp_all add: less_imp_le)
  then show ?thesis
    by (simp add: rnd_ulp [OF False] abs_mult k N flip: e_def) (simp add: abs_of_pos)
qed

text \<open>
  The floor of a rounded quotient of positive integers is the integer quotient, as long as the
  dividend is below \<open>2 ^ 53\<close>.
\<close>

lemma floor_rnd64_div:
  assumes "0 \<le> a" and "a < 2 ^ 53" and "0 < b"
  shows "\<lfloor>rnd64 (of_int a / of_int b)\<rfloor> = a div b"
proof (cases "a = 0")
  case True
  then show ?thesis by (simp add: rnd64_def rnd_def)
next
  case False
  define q where "q = (of_int a / of_int b :: rat)"
  have q0: "0 < q" using False assms by (simp add: q_def)
  have b1: "(1 :: rat) \<le> of_int b" using assms(3) by simp
  have "q \<le> of_int a" using b1 assms(1) by (simp add: q_def pos_divide_le_eq mult_le_cancel_left1)
  moreover have "of_int a < (of_int (2 ^ 53) :: rat)" using assms(2) by (simp only: of_int_less_iff)
  ultimately have q53: "\<bar>q\<bar> < pow2 53" using q0 by (simp add: pow2_def)
  have fl: "\<lfloor>q\<rfloor> = a div b" by (simp add: q_def floor_divide_of_int_eq)
  have lo: "of_int (a div b) \<le> rnd64 q"
    unfolding rnd64_def using q53 by (intro rnd_ge_int) (simp_all flip: fl)
  have err: "rnd64 q \<le> q + pow2 (ulp_exp 53 (-1074) q) / 2"
    using rnd_error [of q 53 "-1074"] q0 unfolding rnd64_def by linarith
  have up: "rnd64 q < of_int (a div b) + 1"
  proof (cases "flog2 q - 52 \<le> -1074")
    case True
    then have "pow2 (flog2 q + 1) \<le> pow2 (-2)" by (intro pow2_mono) simp
    then have "q < 1 / 4" using flog2_bounds [OF q0] by (simp add: pow2_def)
    moreover have "pow2 (ulp_exp 53 (-1074) q) \<le> pow2 0"
      using True q0 by (intro pow2_mono) (simp add: ulp_exp_def)
    moreover have "(0 :: rat) \<le> of_int (a div b)"
      using assms by (simp add: pos_imp_zdiv_nonneg_iff)
    ultimately show ?thesis using err by simp
  next
    case False
    have "a + 1 \<le> (a div b + 1) * b"
      using assms(3) pos_mod_bound [of b a] div_mult_mod_eq [of a b] unfolding distrib_right by linarith
    then have "of_int (a + 1) \<le> (of_int ((a div b + 1) * b) :: rat)" by (simp only: of_int_le_iff)
    then have gap: "q + 1 / of_int b \<le> of_int (a div b) + 1"
      using assms(3) by (simp add: q_def field_simps)
    have "ulp_exp 53 (-1074) q = flog2 q + (-52)"
      using False q0 by (simp add: ulp_exp_def)
    then have "pow2 (ulp_exp 53 (-1074) q) = pow2 (flog2 q) / 2 ^ 52"
      by (simp only: pow2_add) (simp add: pow2_def [of "-52"])
    also have "\<dots> \<le> q / 2 ^ 52" using flog2_bounds [OF q0] by (simp add: divide_right_mono)
    finally have "pow2 (ulp_exp 53 (-1074) q) / 2 \<le> q / 2 ^ 53" by simp
    also have "\<dots> = of_int a / 2 ^ 53 / of_int b" by (simp add: q_def)
    also have "\<dots> < 1 / of_int b"
    proof -
      have "of_int a < (of_int (2 ^ 53) :: rat)" using assms(2) by (simp only: of_int_less_iff)
      then have "of_int a / 2 ^ 53 < (1 :: rat)" by simp
      then show ?thesis by (rule divide_strict_right_mono) (use assms(3) in simp)
    qed
    finally show ?thesis using err gap by linarith
  qed
  from lo up show ?thesis by (simp add: floor_eq_iff q_def)
qed

end
