(* ===== verification/Topology.thy ===== *)
theory Topology
  imports GoFloat
begin

text \<open>
  The data model of \<^verbatim>\<open>internal/common/topology\<close> (types.go, range.go,
  podGpuUsageStatusMap.go): cluster and node topologies, the status of a GPU, and the two figures
  that are computed from a GPU's usage map, utilization and used framebuffer memory.
  A \<^verbatim>\<open>PodGpuUsageStatusMap\<close> is a partial map, and \<open>None\<close> is Go's nil map:
  reading it is reading an empty map, writing to it panics.  The order in which \<^verbatim>\<open>range\<close>
  visits the map is a parameter.
\<close>

section \<open>Types\<close>

record Range =
  Min :: int
  Max :: int

record GpuUsageStatus =
  Utilization_field :: Range
  FbUsed_field :: int
  UseKnativeUtilization :: bool

type_synonym usage_map = "(string \<rightharpoonup> GpuUsageStatus) option"

record ContainerDetails =
  cd_Namespace :: string
  cd_Pod :: string
  cd_Container :: string

record GpuStatus =
  AllocatedBy :: ContainerDetails
  PodGpuUsageStatus :: usage_map

record GpuDetails =
  ID :: string
  Status :: GpuStatus

record GenericDevice =
  gd_Name :: string
  gd_Count :: int

record NodeTopology =
  GpuMemory :: int
  GpuProduct :: string
  DriverVersion :: string
  CudaVersion :: string
  Gpus :: "GpuDetails list"
  MigStrategy :: string
  OtherDevices :: "GenericDevice list"

text \<open>The zero values \<^verbatim>\<open>ContainerDetails{}\<close> and \<^verbatim>\<open>GpuStatus{}\<close>.\<close>

definition zero_container :: ContainerDetails where
  "zero_container = \<lparr>cd_Namespace = [], cd_Pod = [], cd_Container = []\<rparr>"

definition zero_status :: GpuStatus where
  "zero_status = \<lparr>AllocatedBy = zero_container, PodGpuUsageStatus = None\<rparr>"

text \<open>The legacy cluster configuration.\<close>

record NodePoolTopology =
  np_GpuCount :: int
  np_GpuMemory :: int
  np_GpuProduct :: string
  np_OtherDevices :: "GenericDevice list"

record ClusterTopology =
  ct_NodePools :: "(string \<times> NodePoolTopology) list"
  ct_NodePoolLabelKey :: string
  ct_MigStrategy :: string

record NumaDistances =
  nd_Self :: int
  nd_Remote :: int

record NumaConfig =
  Zones :: int
  GpusPerZone :: "int list"
  TopologyManagerPolicy :: string
  TopologyManagerScope :: string
  CPUPerZone :: string
  MemPerZone :: string
  Distances :: "NumaDistances option"

section \<open>The cluster configuration\<close>

text \<open>
  What the YAML library decodes into \<^verbatim>\<open>interface{}\<close>.  A nil value is \<open>GNil\<close>; a value of
  any other Go type is \<open>GOther\<close>.
\<close>

datatype gval =
    GNil
  | GBool bool
  | GInt int
  | GInt64 int
  | GFloat gofloat
  | GStr string
  | GList "gval list"
  | GMap "(string \<times> gval) list"
  | GOther string

type_synonym gmap = "(string \<times> gval) list"

record GpuConfig =
  Backend :: string
  gc_Profile :: string
  Overrides :: "gmap option"

record NodePoolConfig =
  Gpu :: GpuConfig
  Numa :: "NumaConfig option"
  Resources :: "(string \<times> int) list list"

record GpuOperatorConfig =
  Version :: string
  Values :: "gmap option"

record ClusterConfig =
  NodePoolLabelKey :: string
  cc_MigStrategy :: string
  NodePools :: "(string \<times> NodePoolConfig) list"
  GpuOperator :: "GpuOperatorConfig option"

section \<open>Maps of usage records\<close>

definition usage_lookup :: "usage_map \<Rightarrow> string \<rightharpoonup> GpuUsageStatus" where
  "usage_lookup m = (case m of None \<Rightarrow> Map.empty | Some f \<Rightarrow> f)"

text \<open>\<^verbatim>\<open>m[k] = v\<close>, a panic on the nil map, and \<^verbatim>\<open>delete(m, k)\<close>\<close>

definition usage_set :: "usage_map \<Rightarrow> string \<Rightarrow> GpuUsageStatus \<Rightarrow> usage_map res" where
  "usage_set m k v = (case m of None \<Rightarrow> Panic NilMapWrite | Some f \<Rightarrow> Ok (Some (f(k \<mapsto> v))))"

definition usage_delete :: "usage_map \<Rightarrow> string \<Rightarrow> usage_map" where
  "usage_delete m k = map_option (\<lambda>f. f(k := None)) m"

lemma usage_lookup_simps [simp]: "usage_lookup None = Map.empty" "usage_lookup (Some f) = f"
  by (simp_all add: usage_lookup_def)

lemma usage_set_simps [simp]:
  "usage_set None k v = Panic NilMapWrite" "usage_set (Some f) k v = Ok (Some (f(k \<mapsto> v)))"
  by (simp_all add: usage_set_def)

lemma usage_delete_simps [simp]: "usage_delete None k = None" "usage_delete (Some f) k = Some (f(k := None))"
  by (simp_all add: usage_delete_def)

lemma usage_set_lookup: "usage_set m k v = Ok m' \<Longrightarrow> usage_lookup m' = (usage_lookup m)(k \<mapsto> v)"
  by (cases m) auto

lemma usage_delete_lookup: "usage_lookup (usage_delete m k) = (usage_lookup m)(k := None)"
  by (cases m) auto

section \<open>Utilization\<close>

text \<open>
  What the exporters get from outside: the answer of Prometheus to a query (the
  \<^verbatim>\<open>value\<close> arrays of the result, \<open>None\<close> when the request or the reading fails), the
  random draw made for a pod, the implementation's value for a float outside the integers, and the
  order in which \<^verbatim>\<open>range\<close> visits the entries of a map.
\<close>

record metrics_env =
  prom :: "string \<Rightarrow> gofloat list list option"
  draw :: "string \<Rightarrow> int \<Rightarrow> int"
  oor :: "gofloat \<Rightarrow> int"
  range_of :: "(string \<rightharpoonup> GpuUsageStatus) \<Rightarrow> (string \<times> GpuUsageStatus) list"

text \<open>A visit of a map meets every entry once.\<close>

definition visits :: "('k \<times> 'v) list \<Rightarrow> ('k \<rightharpoonup> 'v) \<Rightarrow> bool" where
  "visits es m \<longleftrightarrow> distinct (map fst es) \<and> map_of es = m"

text \<open>\<^verbatim>\<open>rand.Intn(n)\<close> panics unless \<open>n\<close> is positive.\<close>

definition Random :: "(int \<Rightarrow> int) \<Rightarrow> Range \<Rightarrow> int res" where
  "Random intn r =
     (if Min r = Max r then Ok (Min r)
      else let n = wrap64 (Max r - Min r)
           in if n \<le> 0 then Panic (BadArgument ''Intn'') else Ok (wrap64 (Min r + intn n)))"

definition knative_query :: "string \<Rightarrow> string" where
  "knative_query uid =
     ''(rate(revision_app_request_count[1m]) + on(pod) group_left(uid) kube_pod_info{uid='' @ [CHR 0x22]
       @ uid @ [CHR 0x22] @ ''})''"

definition knativeUtilization :: "metrics_env \<Rightarrow> string \<Rightarrow> int" where
  "knativeUtilization env uid =
     (case prom env (knative_query uid) of
        None \<Rightarrow> 0
      | Some [] \<Rightarrow> 0
      | Some (val # _) \<Rightarrow> if length val < 2 then 0 else int_of_f64 (oor env) (val ! 1))"

fun util_sum :: "metrics_env \<Rightarrow> (string \<times> GpuUsageStatus) list \<Rightarrow> int \<Rightarrow> int res" where
  "util_sum env [] acc = Ok acc"
| "util_sum env ((k, v) # rest) acc =
     (if UseKnativeUtilization v then util_sum env rest (wrap64 (acc + knativeUtilization env k))
      else rbind (Random (draw env k) (Utilization_field v)) (\<lambda>x. util_sum env rest (wrap64 (acc + x))))"

text \<open>\<^verbatim>\<open>math.Min\<close> of two finite values\<close>

fun f64_min :: "gofloat \<Rightarrow> gofloat \<Rightarrow> gofloat" where
  "f64_min (Fin a) (Fin b) = Fin (min a b)"
| "f64_min NaN y = NaN"
| "f64_min x NaN = NaN"
| "f64_min NegInf y = NegInf"
| "f64_min x NegInf = NegInf"
| "f64_min PosInf y = y"
| "f64_min x PosInf = x"

definition Utilization :: "metrics_env \<Rightarrow> usage_map \<Rightarrow> int res" where
  "Utilization env m =
     rbind (util_sum env (range_of env (usage_lookup m)) 0)
       (\<lambda>total. Ok (int_of_f64 (oor env) (f64_min (Fin 100) (f64_of_int total))))"

section \<open>Framebuffer memory\<close>

definition fb_sum :: "(string \<times> GpuUsageStatus) list \<Rightarrow> int" where
  "fb_sum es = foldl (\<lambda>acc kv. wrap64 (acc + FbUsed_field (snd kv))) 0 es"

definition FbUsed :: "metrics_env \<Rightarrow> usage_map \<Rightarrow> int \<Rightarrow> int" where
  "FbUsed env m fbTotal =
     int_of_f64 (oor env) (f64_min (f64_of_int fbTotal) (f64_of_int (fb_sum (range_of env (usage_lookup m)))))"

section \<open>Lemmas\<close>

lemma rat_trunc_mono: "a \<le> b \<Longrightarrow> rat_trunc a \<le> rat_trunc b"
proof -
  assume "a \<le> b"
  moreover have "\<lceil>a\<rceil> \<le> \<lfloor>b\<rfloor>" if "a < 0" "0 \<le> b"
    using that by (meson ceiling_le_zero le_floor_iff of_int_0 order.trans less_imp_le of_int_0_le_iff zero_le_floor)
  ultimately show ?thesis by (auto simp: rat_trunc_def floor_mono ceiling_mono)
qed

lemma rat_trunc_of_int [simp]: "rat_trunc (of_int i) = i"
  by (simp add: rat_trunc_def)

lemma rat_trunc_minus: "rat_trunc (- q) = - rat_trunc q"
  by (auto simp: rat_trunc_def floor_minus ceiling_minus)

text \<open>The float nearest to a 64-bit integer is at least \<open>- (2 ^ 63)\<close>.\<close>

lemma f64_of_int_lower:
  assumes "in64 i"
  shows "- (2 ^ 63) \<le> rat_trunc (rnd64 (of_int i))"
proof -
  have "of_int \<bar>i\<bar> \<le> (of_int (2 ^ 63) :: rat)" using assms by (simp only: of_int_le_iff) (auto simp: in64_def abs_le_iff)
  then have "\<bar>of_int i :: rat\<bar> \<le> pow2 63" by (simp add: pow2_def)
  then have "\<bar>rnd64 (of_int i)\<bar> \<le> pow2 63" unfolding rnd64_def by (intro rnd_abs_le_pow2) simp_all
  then have "of_int (- (2 ^ 63)) \<le> rnd64 (of_int i)" by (simp add: pow2_def abs_le_iff)
  from rat_trunc_mono [OF this] show ?thesis by (simp only: rat_trunc_of_int)
qed

lemma int_of_f64_min_int:
  assumes "\<bar>c\<bar> < 2 ^ 53" and "in64 i"
  shows "int_of_f64 conv (f64_min (Fin (of_int c)) (f64_of_int i)) = min c (rat_trunc (rnd64 (of_int i)))"
proof -
  have "rat_trunc (min (of_int c) (rnd64 (of_int i))) = min c (rat_trunc (rnd64 (of_int i)))"
    using rat_trunc_mono [of "of_int c" "rnd64 (of_int i)"] rat_trunc_mono [of "rnd64 (of_int i)" "of_int c"]
    by (auto simp: min_def)
  moreover have "in64 (min c (rat_trunc (rnd64 (of_int i))))"
    using assms f64_of_int_lower [OF assms(2)] by (auto simp: in64_def min_def)
  ultimately show ?thesis by (simp add: f64_of_int_def)
qed

text \<open>A range with its bounds in order draws from \<open>[Min, Max)\<close>; one with them inverted panics.\<close>

lemma Random_ok:
  assumes "Min r \<le> Max r" and "in64 (Min r)" and "in64 (Max r)" and "in64 (Max r - Min r)"
    and "0 < Max r - Min r \<Longrightarrow> 0 \<le> intn (Max r - Min r) \<and> intn (Max r - Min r) < Max r - Min r"
  shows "\<exists>x. Random intn r = Ok x \<and> Min r \<le> x \<and> x \<le> Max r"
proof (cases "Min r = Max r")
  case True
  then show ?thesis by (simp add: Random_def)
next
  case False
  with assms have "in64 (Min r + intn (Max r - Min r))" by (auto simp: in64_def)
  with False assms show ?thesis by (auto simp: Random_def Let_def)
qed

lemma Random_panic:
  "Max r < Min r \<Longrightarrow> in64 (Max r - Min r) \<Longrightarrow> Random intn r = Panic (BadArgument ''Intn'')"
  by (simp add: Random_def Let_def)

lemma util_sum_in64: "in64 acc \<Longrightarrow> util_sum env es acc = Ok n \<Longrightarrow> in64 n"
  by (induction env es acc rule: util_sum.induct) (auto simp: rbind_eq_Ok split: if_splits)

lemma fb_sum_in64: "in64 (fb_sum es)"
proof -
  have "in64 acc \<Longrightarrow> in64 (foldl (\<lambda>acc kv. wrap64 (acc + FbUsed_field (snd kv))) acc es)" for acc
    by (induction es arbitrary: acc) simp_all
  from this [of 0] show ?thesis by (simp add: fb_sum_def in64_def)
qed

lemma fb_sum_eq:
  assumes "\<And>kv. kv \<in> set es \<Longrightarrow> 0 \<le> FbUsed_field (snd kv)"
    and "sum_list (map (\<lambda>kv. FbUsed_field (snd kv)) es) < 2 ^ 63"
  shows "fb_sum es = sum_list (map (\<lambda>kv. FbUsed_field (snd kv)) es)"
proof -
  have "foldl (\<lambda>acc kv. wrap64 (acc + FbUsed_field (snd kv))) a es = a + sum_list (map (\<lambda>kv. FbUsed_field (snd kv)) es)"
    if "0 \<le> a" and "a + sum_list (map (\<lambda>kv. FbUsed_field (snd kv)) es) < 2 ^ 63"
      and "\<forall>kv \<in> set es. 0 \<le> FbUsed_field (snd kv)" for a
    using that
  proof (induction es arbitrary: a)
    case Nil
    then show ?case by simp
  next
    case (Cons kv es)
    have "0 \<le> sum_list (map (\<lambda>kv. FbUsed_field (snd kv)) es)"
      using Cons.prems(3) by (intro sum_list_nonneg) auto
    with Cons.prems have "in64 (a + FbUsed_field (snd kv))" by (simp add: in64_def)
    with Cons show ?case by (simp add: add.assoc)
  qed
  from this [of 0] assms show ?thesis by (simp add: fb_sum_def)
qed

end
