(* ===== verification/KubeApi.thy ===== *)
theory KubeApi
  imports Topology
begin

text \<open>
  The Kubernetes objects the program reads and writes, the operations of the API it calls, and
  \<^verbatim>\<open>internal/common/topology/kubernetes.go\<close>, the functions that keep a node's topology in a
  ConfigMap.  The API server is not part of the program: its operations are the fields of the record
  \<open>kube_env\<close>, over a state type \<open>'s\<close> that stands for all it stores; so are the YAML codec
  (texts of a type \<open>'y\<close>), the arithmetic of \<^verbatim>\<open>resource.Quantity\<close> (a type
  \<open>'q\<close>) and the values read from the environment by \<^verbatim>\<open>viper\<close>.  What the development
  relies on is stated by the predicates \<open>codec_ok\<close> and \<open>store_ok\<close>, and shown to be satisfiable
  by a concrete in-memory server in the theory \<open>RefServer\<close>.
\<close>

section \<open>Objects\<close>

record 'q Container =
  c_Name :: string
  c_Limits :: "string \<rightharpoonup> 'q"
  c_Requests :: "string \<rightharpoonup> 'q"
  c_Claims :: "string list"

record 'q Pod =
  p_Name :: string
  p_Namespace :: string
  p_UID :: string
  p_Annotations :: "string \<rightharpoonup> string"
  p_Labels :: "string \<rightharpoonup> string"
  p_NodeName :: string
  p_Containers :: "'q Container list"
  p_ResourceClaims :: "(string \<times> string option) list"
  p_Phase :: string
  p_ResourceClaimStatuses :: "(string \<times> string option) list"

record 'q Node =
  n_Name :: string
  n_UID :: string
  n_Labels :: "string \<rightharpoonup> string"
  n_Annotations :: "string \<rightharpoonup> string"
  n_Allocatable :: "string \<rightharpoonup> 'q"
  \<comment> \<open>whether the label map, the annotation map is nil, which an object without any has\<close>
  n_LabelsNil :: bool
  n_AnnotationsNil :: bool

record 'y ConfigMap =
  cm_Name :: string
  cm_Namespace :: string
  cm_Labels :: "string \<rightharpoonup> string"
  cm_Annotations :: "string \<rightharpoonup> string"
  cm_Data :: "string \<rightharpoonup> 'y"

text \<open>The fields a server-side apply of a ConfigMap sets.\<close>

record 'y ConfigMapApply =
  ap_Name :: string
  ap_Namespace :: string
  ap_Labels :: "string \<rightharpoonup> string"
  ap_Data :: "string \<rightharpoonup> 'y"

text \<open>One device of the allocation of a \<^verbatim>\<open>ResourceClaim\<close>.\<close>

record AllocResult =
  ar_Request :: string
  ar_Driver :: string
  ar_Pool :: string
  ar_Device :: string

section \<open>The environment\<close>

record ('s, 'q, 'y) kube_env =
  \<comment> \<open>ConfigMaps: namespace, then name\<close>
  cm_get :: "string \<Rightarrow> string \<Rightarrow> 's \<Rightarrow> gerror + 'y ConfigMap"
  cm_create :: "string \<Rightarrow> 'y ConfigMap \<Rightarrow> 's \<Rightarrow> (gerror + unit) \<times> 's"
  cm_apply :: "string \<Rightarrow> 'y ConfigMapApply \<Rightarrow> 's \<Rightarrow> (gerror + unit) \<times> 's"
  cm_delete :: "string \<Rightarrow> string \<Rightarrow> 's \<Rightarrow> (gerror + unit) \<times> 's"
  \<comment> \<open>the ConfigMaps of a namespace with a label at a value\<close>
  cm_list :: "string \<Rightarrow> string \<Rightarrow> string \<Rightarrow> 's \<Rightarrow> gerror + 'y ConfigMap list"
  \<comment> \<open>Pods: namespace, then name; the pods of a namespace (all, for the empty name) on a node\<close>
  pod_get :: "string \<Rightarrow> string \<Rightarrow> 's \<Rightarrow> gerror + 'q Pod"
  pod_list :: "string \<Rightarrow> string \<Rightarrow> 's \<Rightarrow> gerror + 'q Pod list"
  pod_annotate :: "string \<Rightarrow> string \<Rightarrow> string \<Rightarrow> string \<Rightarrow> 's \<Rightarrow> (gerror + unit) \<times> 's"
  \<comment> \<open>Nodes; the nodes that have a label; a merge patch of labels, where \<open>None\<close> removes\<close>
  node_get :: "string \<Rightarrow> 's \<Rightarrow> gerror + 'q Node"
  node_list :: "string \<Rightarrow> 's \<Rightarrow> gerror + 'q Node list"
  node_patch_labels :: "string \<Rightarrow> (string \<times> string option) list \<Rightarrow> 's \<Rightarrow> (gerror + unit) \<times> 's"
  node_update :: "'q Node \<Rightarrow> 's \<Rightarrow> (gerror + unit) \<times> 's"
  \<comment> \<open>the device allocation of a claim, \<open>None\<close> while it is not allocated\<close>
  claim_get :: "string \<Rightarrow> string \<Rightarrow> 's \<Rightarrow> gerror + AllocResult list option"
  \<comment> \<open>a pod group's \<^verbatim>\<open>spec.priorityClassName\<close>: the lookup of the object, then of the field\<close>
  podgroup_class :: "string \<Rightarrow> string \<Rightarrow> 's \<Rightarrow> gerror + (gerror + string option)"
  \<comment> \<open>YAML\<close>
  empty_text :: 'y
  unmarshal_nt :: "'y \<Rightarrow> gerror + NodeTopology"
  marshal_nt :: "NodeTopology \<Rightarrow> gerror + 'y"
  unmarshal_gmap :: "'y \<Rightarrow> gerror + gmap option"
  unmarshal_ClusterTopology :: "'y \<Rightarrow> gerror + ClusterTopology"
  unmarshal_ClusterConfig :: "'y \<Rightarrow> gerror + ClusterConfig"
  blank_text :: "'y \<Rightarrow> bool"
  \<comment> \<open>quantities\<close>
  q_zero :: 'q
  q_equal :: "'q \<Rightarrow> 'q \<Rightarrow> bool"
  q_value :: "'q \<Rightarrow> int"
  q_milli :: "'q \<Rightarrow> int"
  q_add :: "'q \<Rightarrow> 'q \<Rightarrow> 'q"
  q_new :: "int \<Rightarrow> 'q"
  q_new_milli :: "int \<Rightarrow> 'q"
  q_parse :: "string \<Rightarrow> gerror + 'q"
  \<comment> \<open>\<^verbatim>\<open>viper\<close>\<close>
  TopologyCmName :: string
  TopologyCmNamespace :: string
  ResourceReservationNamespace :: string
  EnvNodeName :: string
  \<comment> \<open>the implementation's conversion of a float outside the integers\<close>
  conv_oor :: "gofloat \<Rightarrow> int"

definition of_sum :: "gerror + 'a \<Rightarrow> 'a res" where
  "of_sum r = (case r of Inl e \<Rightarrow> Err e | Inr x \<Rightarrow> Ok x)"

lemma of_sum_simps [simp, res_simps]: "of_sum (Inl e) = Err e" "of_sum (Inr x) = Ok x"
  by (simp_all add: of_sum_def)

lemma of_sum_not_panic [simp]: "of_sum r \<noteq> Panic p"
  by (cases r) simp_all

lemma of_sum_eq_Ok [simp]: "of_sum r = Ok x \<longleftrightarrow> r = Inr x"
  by (cases r) simp_all

lemma of_sum_eq_Err [simp]: "of_sum r = Err x \<longleftrightarrow> r = Inl x"
  by (cases r) simp_all

text \<open>A call of the API that changes the state.\<close>

definition api_call :: "(gerror + 'a) \<times> 's \<Rightarrow> 'a res \<times> 's" where
  "api_call r = (of_sum (fst r), snd r)"

lemma api_call_simps [simp, res_simps]: "api_call (r, s) = (of_sum r, s)"
  by (simp add: api_call_def)

lemma api_call_eq_Ok [simp]: "api_call r = (Ok x, s) \<longleftrightarrow> r = (Inr x, s)"
  by (cases r) simp

section \<open>constants.go\<close>

definition AnnotationGpuIdx :: string where "AnnotationGpuIdx = ''runai-gpu''"
definition AnnotationGpuFraction :: string where "AnnotationGpuFraction = ''gpu-fraction''"
definition AnnotationPodGroupName :: string where "AnnotationPodGroupName = ''pod-group-name''"
definition AnnotationReservationPodGpuIdx :: string where
  "AnnotationReservationPodGpuIdx = ''run.ai/reserve_for_gpu_index''"
definition AnnotationKwokNode :: string where "AnnotationKwokNode = ''kwok.x-k8s.io/node''"
definition LabelGpuGroup :: string where "LabelGpuGroup = ''runai-gpu-group''"
definition LabelTopologyCMNodeTopology :: string where "LabelTopologyCMNodeTopology = ''node-topology''"
definition LabelTopologyCMNodeName :: string where "LabelTopologyCMNodeName = ''node-name''"
definition GpuResourceName :: string where "GpuResourceName = ''nvidia.com/gpu''"
definition CmTopologyKey :: string where "CmTopologyKey = ''topology.yml''"

section \<open>kubernetes.go\<close>

definition GetNodeTopologyCMName :: "('s, 'q, 'y) kube_env \<Rightarrow> string \<Rightarrow> string" where
  "GetNodeTopologyCMName K nodeName = TopologyCmName K @ ''-'' @ nodeName"

definition FromNodeTopologyCM :: "('s, 'q, 'y) kube_env \<Rightarrow> 'y ConfigMap \<Rightarrow> NodeTopology res" where
  "FromNodeTopologyCM K cm =
     of_sum (unmarshal_nt K (case cm_Data cm CmTopologyKey of None \<Rightarrow> empty_text K | Some y \<Rightarrow> y))"

definition ToNodeTopologyCM ::
    "('s, 'q, 'y) kube_env \<Rightarrow> NodeTopology \<Rightarrow> string \<Rightarrow> ('y ConfigMap \<times> 'y ConfigMapApply) res" where
  "ToNodeTopologyCM K nt nodeName =
     (let cm = \<lparr>cm_Name = GetNodeTopologyCMName K nodeName, cm_Namespace = TopologyCmNamespace K,
                cm_Labels = [LabelTopologyCMNodeTopology \<mapsto> ''true'', LabelTopologyCMNodeName \<mapsto> nodeName],
                cm_Annotations = Map.empty, cm_Data = Map.empty\<rparr>
      in rbind (of_sum (marshal_nt K nt)) (\<lambda>y.
           let cm' = cm\<lparr>cm_Data := (cm_Data cm)(CmTopologyKey \<mapsto> y)\<rparr>
           in Ok (cm', \<lparr>ap_Name = cm_Name cm, ap_Namespace = cm_Namespace cm, ap_Labels = cm_Labels cm,
                        ap_Data = cm_Data cm'\<rparr>)))"

definition GetNodeTopologyFromCM :: "('s, 'q, 'y) kube_env \<Rightarrow> string \<Rightarrow> 's \<Rightarrow> NodeTopology res" where
  "GetNodeTopologyFromCM K nodeName s =
     rbind (of_sum (cm_get K (TopologyCmNamespace K) (GetNodeTopologyCMName K nodeName) s)) (FromNodeTopologyCM K)"

definition CreateNodeTopologyCM ::
    "('s, 'q, 'y) kube_env \<Rightarrow> NodeTopology \<Rightarrow> 'q Node \<Rightarrow> 's \<Rightarrow> unit res \<times> 's" where
  "CreateNodeTopologyCM K nt node s =
     sbind (ToNodeTopologyCM K nt (n_Name node), s) (\<lambda>(cm, _) s.
       let cm = (case n_Annotations node AnnotationKwokNode of
                   None \<Rightarrow> cm
                 | Some v \<Rightarrow> cm\<lparr>cm_Annotations := (cm_Annotations cm)(AnnotationKwokNode \<mapsto> v)\<rparr>)
       in api_call (cm_create K (TopologyCmNamespace K) cm s))"

definition UpdateNodeTopologyCM ::
    "('s, 'q, 'y) kube_env \<Rightarrow> NodeTopology \<Rightarrow> string \<Rightarrow> 's \<Rightarrow> unit res \<times> 's" where
  "UpdateNodeTopologyCM K nt nodeName s =
     sbind (ToNodeTopologyCM K nt nodeName, s) (\<lambda>(_, ap) s. api_call (cm_apply K (TopologyCmNamespace K) ap s))"

definition DeleteNodeTopologyCM :: "('s, 'q, 'y) kube_env \<Rightarrow> string \<Rightarrow> 's \<Rightarrow> unit res \<times> 's" where
  "DeleteNodeTopologyCM K nodeName s =
     api_call (cm_delete K (TopologyCmNamespace K) (GetNodeTopologyCMName K nodeName) s)"

definition FromClusterTopologyCM :: "('s, 'q, 'y) kube_env \<Rightarrow> 'y ConfigMap \<Rightarrow> ClusterTopology res" where
  "FromClusterTopologyCM K cm =
     of_sum (unmarshal_ClusterTopology K (case cm_Data cm CmTopologyKey of None \<Rightarrow> empty_text K | Some y \<Rightarrow> y))"

definition GetClusterTopologyFromCM :: "('s, 'q, 'y) kube_env \<Rightarrow> 's \<Rightarrow> ClusterTopology res" where
  "GetClusterTopologyFromCM K s =
     (case of_sum (cm_get K (TopologyCmNamespace K) (TopologyCmName K) s) of
        Err e \<Rightarrow> Err (Msg ''failed to get topology configmap'')
      | Panic p \<Rightarrow> Panic p
      | Ok cm \<Rightarrow> (case FromClusterTopologyCM K cm of
                    Err e \<Rightarrow> Err (Msg ''failed to parse topology configmap'')
                  | Panic p \<Rightarrow> Panic p
                  | Ok ct \<Rightarrow> Ok ct))"

section \<open>What is relied on\<close>

text \<open>
  Decoding what was encoded gives the topology back, with every nil map as an empty one (YAML writes
  both as \<^verbatim>\<open>{}\<close>).
\<close>

definition norm_status :: "GpuStatus \<Rightarrow> GpuStatus" where
  "norm_status st = st\<lparr>PodGpuUsageStatus := Some (usage_lookup (PodGpuUsageStatus st))\<rparr>"

definition norm_nt :: "NodeTopology \<Rightarrow> NodeTopology" where
  "norm_nt nt = nt\<lparr>Gpus := map (\<lambda>g. g\<lparr>Status := norm_status (Status g)\<rparr>) (Gpus nt)\<rparr>"

definition codec_ok :: "('s, 'q, 'y) kube_env \<Rightarrow> bool" where
  "codec_ok K \<longleftrightarrow> (\<forall>nt. \<exists>y. marshal_nt K nt = Inr y \<and> unmarshal_nt K y = Inr (norm_nt nt))"

text \<open>
  The documented behaviour of the requests on ConfigMaps: a server-side apply creates or
  updates the object, setting the fields it carries and keeping the annotations, which it does not; a
  create fails on an existing object; a deleted object is not found; other objects are not touched, and
  an apply that is answered with an error stores nothing.
\<close>

definition others_kept :: "('s, 'q, 'y) kube_env \<Rightarrow> string \<Rightarrow> string \<Rightarrow> 's \<Rightarrow> 's \<Rightarrow> bool" where
  "others_kept K ns n s s' \<longleftrightarrow> (\<forall>ns' n'. (ns', n') \<noteq> (ns, n) \<longrightarrow> cm_get K ns' n' s' = cm_get K ns' n' s)"

definition applied :: "('s, 'q, 'y) kube_env \<Rightarrow> string \<Rightarrow> 'y ConfigMapApply \<Rightarrow> 's \<Rightarrow> 'y ConfigMap \<Rightarrow> bool" where
  "applied K ns ap s cm \<longleftrightarrow>
     ap_Data ap \<subseteq>\<^sub>m cm_Data cm \<and> ap_Labels ap \<subseteq>\<^sub>m cm_Labels cm \<and>
     cm_Annotations cm = (case cm_get K ns (ap_Name ap) s of Inl e \<Rightarrow> Map.empty | Inr cm0 \<Rightarrow> cm_Annotations cm0)"

definition apply_ok :: "('s, 'q, 'y) kube_env \<Rightarrow> bool" where
  "apply_ok K \<longleftrightarrow>
     (\<forall>ns ap s r s'. cm_apply K ns ap s = (r, s') \<longrightarrow>
        others_kept K ns (ap_Name ap) s s' \<and>
        (case r of
           Inl e \<Rightarrow> cm_get K ns (ap_Name ap) s' = cm_get K ns (ap_Name ap) s
         | Inr u \<Rightarrow> (\<exists>cm. cm_get K ns (ap_Name ap) s' = Inr cm \<and> applied K ns ap s cm)))"

definition create_ok :: "('s, 'q, 'y) kube_env \<Rightarrow> bool" where
  "create_ok K \<longleftrightarrow>
     (\<forall>ns cm s u s'. cm_create K ns cm s = (Inr u, s') \<longrightarrow>
        others_kept K ns (cm_Name cm) s s' \<and> cm_get K ns (cm_Name cm) s' = Inr cm \<and>
        (\<exists>e. cm_get K ns (cm_Name cm) s = Inl e))"

definition delete_ok :: "('s, 'q, 'y) kube_env \<Rightarrow> bool" where
  "delete_ok K \<longleftrightarrow>
     (\<forall>ns n s u s'. cm_delete K ns n s = (Inr u, s') \<longrightarrow>
        others_kept K ns n s s' \<and> (\<exists>e. cm_get K ns n s' = Inl e \<and> is_not_found e))"

definition annotate_ok :: "('s, 'q, 'y) kube_env \<Rightarrow> bool" where
  "annotate_ok K \<longleftrightarrow>
     (\<forall>ns n k v s ns' n'. cm_get K ns' n' (snd (pod_annotate K ns n k v s)) = cm_get K ns' n' s)"

definition store_ok :: "('s, 'q, 'y) kube_env \<Rightarrow> bool" where
  "store_ok K \<longleftrightarrow> apply_ok K \<and> create_ok K \<and> delete_ok K \<and> annotate_ok K"

lemma apply_okD:
  assumes "store_ok K" and "cm_apply K ns ap s = (r, s')"
  shows "others_kept K ns (ap_Name ap) s s'"
    and "case r of Inl e \<Rightarrow> cm_get K ns (ap_Name ap) s' = cm_get K ns (ap_Name ap) s
         | Inr u \<Rightarrow> (\<exists>cm. cm_get K ns (ap_Name ap) s' = Inr cm \<and> applied K ns ap s cm)"
  using assms(1) [unfolded store_ok_def apply_ok_def, THEN conjunct1, rule_format, OF assms(2)] by simp_all

lemma others_keptD: "others_kept K ns n s s' \<Longrightarrow> ns' \<noteq> ns \<or> n' \<noteq> n \<Longrightarrow> cm_get K ns' n' s' = cm_get K ns' n' s"
  by (auto simp: others_kept_def)

lemma store_ok_apply_err:
  assumes "store_ok K" and "cm_apply K ns ap s = (Inl e, s')"
  shows "cm_get K ns' n s' = cm_get K ns' n s"
  using apply_okD [OF assms] others_keptD [of K ns "ap_Name ap" s s' ns' n] by (cases "ns' = ns \<and> n = ap_Name ap") auto

lemma store_ok_apply:
  assumes "store_ok K" and "cm_apply K ns ap s = (Inr u, s')"
  obtains cm where "cm_get K ns (ap_Name ap) s' = Inr cm" and "applied K ns ap s cm"
  using apply_okD(2) [OF assms] that by auto

lemma store_ok_apply_frame:
  assumes "store_ok K" and "cm_apply K ns ap s = (Inr u, s')" and "(ns', n) \<noteq> (ns, ap_Name ap)"
  shows "cm_get K ns' n s' = cm_get K ns' n s"
  using others_keptD [OF apply_okD(1) [OF assms(1,2)], of ns' n] assms(3) by auto

lemma store_ok_create:
  assumes "store_ok K" and "cm_create K ns cm s = (Inr u, s')"
  shows "cm_get K ns (cm_Name cm) s' = Inr cm" and "\<exists>e. cm_get K ns (cm_Name cm) s = Inl e"
    and "others_kept K ns (cm_Name cm) s s'"
  using assms by (auto simp: store_ok_def create_ok_def)

lemma store_ok_delete:
  assumes "store_ok K" and "cm_delete K ns n s = (Inr u, s')"
  shows "\<exists>e. cm_get K ns n s' = Inl e \<and> is_not_found e" and "others_kept K ns n s s'"
  using assms by (auto simp: store_ok_def delete_ok_def)

lemma GetNodeTopologyCMName_inj [simp]:
  "GetNodeTopologyCMName K m = GetNodeTopologyCMName K n \<longleftrightarrow> m = n"
  by (simp add: GetNodeTopologyCMName_def)

lemma norm_nt_simps [simp]:
  "GpuMemory (norm_nt nt) = GpuMemory nt" "length (Gpus (norm_nt nt)) = length (Gpus nt)"
  "map ID (Gpus (norm_nt nt)) = map ID (Gpus nt)"
  "norm_nt (norm_nt nt) = norm_nt nt"
  by (simp_all add: norm_nt_def norm_status_def)

lemma norm_nt_nth:
  "i < length (Gpus nt) \<Longrightarrow> Gpus (norm_nt nt) ! i = (Gpus nt ! i)\<lparr>Status := norm_status (Status (Gpus nt ! i))\<rparr>"
  by (simp add: norm_nt_def)

text \<open>The stored ConfigMaps are the same in two states.\<close>

definition same_cms :: "('s, 'q, 'y) kube_env \<Rightarrow> 's \<Rightarrow> 's \<Rightarrow> bool" where
  "same_cms K s s' \<longleftrightarrow> (\<forall>ns n. cm_get K ns n s' = cm_get K ns n s)"

lemma same_cms_refl [simp]: "same_cms K s s"
  by (simp add: same_cms_def)

lemma same_cms_trans: "same_cms K s1 s2 \<Longrightarrow> same_cms K s2 s3 \<Longrightarrow> same_cms K s1 s3"
  by (simp add: same_cms_def)

lemma same_cms_get: "same_cms K s s' \<Longrightarrow> GetNodeTopologyFromCM K n s' = GetNodeTopologyFromCM K n s"
  by (simp add: same_cms_def GetNodeTopologyFromCM_def)

lemma annotate_same_cms: "store_ok K \<Longrightarrow> same_cms K s (snd (pod_annotate K ns n k v s))"
  by (simp add: store_ok_def annotate_ok_def same_cms_def)

section \<open>The topology store\<close>

text \<open>
  What the handlers rely on: a read after a write returns what was written, and a write to one
  node is not seen at another.
\<close>

locale topo_store =
  fixes get :: "string \<Rightarrow> 's \<Rightarrow> NodeTopology res"
    and put :: "NodeTopology \<Rightarrow> string \<Rightarrow> 's \<Rightarrow> unit res \<times> 's"
  assumes get_put: "put nt n s = (Ok (), s') \<Longrightarrow> get n s' = Ok (norm_nt nt)"
    and get_put_other: "put nt n s = (Ok (), s') \<Longrightarrow> m \<noteq> n \<Longrightarrow> get m s' = get m s"
begin

text \<open>A read, a change and a write of it, with what the change keeps.\<close>

lemma read_modify_write:
  assumes "sbind (f nt, s) (\<lambda>nt' s. put nt' n s) = (Ok (), s')" and "\<And>nt'. f nt = Ok nt' \<Longrightarrow> P nt'"
  shows "\<exists>nt'. P nt' \<and> get n s' = Ok (norm_nt nt')"
  using assms by (cases "f nt") (auto dest: get_put)

lemma last_write:
  assumes "put nt1 n s = (Ok (), s1)" and "put nt2 n s1 = (Ok (), s2)"
  shows "get n s2 = Ok (norm_nt nt2)"
  using assms by (auto dest: get_put)

end

lemma UpdateNodeTopologyCM_Ok:
  assumes "UpdateNodeTopologyCM K nt n s = (Ok (), s')"
  obtains y ap where "marshal_nt K nt = Inr y" and "ap_Name ap = GetNodeTopologyCMName K n"
    and "ap_Data ap = [CmTopologyKey \<mapsto> y]"
    and "ap_Labels ap = [LabelTopologyCMNodeTopology \<mapsto> ''true'', LabelTopologyCMNodeName \<mapsto> n]"
    and "cm_apply K (TopologyCmNamespace K) ap s = (Inr (), s')"
proof -
  obtain y where y: "marshal_nt K nt = Inr y"
    using assms by (cases "marshal_nt K nt") (simp_all add: UpdateNodeTopologyCM_def ToNodeTopologyCM_def)
  define ap where "ap = \<lparr>ap_Name = GetNodeTopologyCMName K n, ap_Namespace = TopologyCmNamespace K,
    ap_Labels = [LabelTopologyCMNodeTopology \<mapsto> ''true'', LabelTopologyCMNodeName \<mapsto> n],
    ap_Data = [CmTopologyKey \<mapsto> y]\<rparr>"
  have "cm_apply K (TopologyCmNamespace K) ap s = (Inr (), s')"
    using assms y by (simp add: UpdateNodeTopologyCM_def ToNodeTopologyCM_def ap_def api_call_def prod_eq_iff)
  then show thesis by (rule that [OF y, rotated 3]) (simp_all add: ap_def)
qed

lemma UpdateNodeTopologyCM_Err:
  assumes "store_ok K" and "fst (UpdateNodeTopologyCM K nt n s) \<noteq> Ok ()"
  shows "same_cms K s (snd (UpdateNodeTopologyCM K nt n s))"
proof (cases "marshal_nt K nt")
  case (Inl e)
  then show ?thesis by (simp add: UpdateNodeTopologyCM_def ToNodeTopologyCM_def)
next
  case (Inr y)
  obtain ap where u: "UpdateNodeTopologyCM K nt n s = api_call (cm_apply K (TopologyCmNamespace K) ap s)"
    using Inr by (simp add: UpdateNodeTopologyCM_def ToNodeTopologyCM_def)
  obtain r s' where r: "cm_apply K (TopologyCmNamespace K) ap s = (r, s')" by force
  with assms(2) u obtain e where "r = Inl e" by (cases r) auto
  with r assms(1) have "same_cms K s s'" by (auto simp: same_cms_def dest: store_ok_apply_err)
  with u r show ?thesis by simp
qed

lemma UpdateNodeTopologyCM_no_panic: "\<not> is_panic (fst (UpdateNodeTopologyCM K nt n s))"
  by (cases "marshal_nt K nt"; cases "fst (cm_apply K (TopologyCmNamespace K) ap s)")
    (simp_all add: UpdateNodeTopologyCM_def ToNodeTopologyCM_def api_call_def of_sum_def split: sum.splits)

lemma topo_store_of:
  assumes "store_ok K" and "codec_ok K"
  shows "topo_store (GetNodeTopologyFromCM K) (UpdateNodeTopologyCM K)"
proof
  fix nt n s s'
  assume "UpdateNodeTopologyCM K nt n s = (Ok (), s')"
  then obtain y ap where y: "marshal_nt K nt = Inr y" and ap: "ap_Name ap = GetNodeTopologyCMName K n"
      "ap_Data ap = [CmTopologyKey \<mapsto> y]" "cm_apply K (TopologyCmNamespace K) ap s = (Inr (), s')"
    by (rule UpdateNodeTopologyCM_Ok)
  obtain cm where cm: "cm_get K (TopologyCmNamespace K) (ap_Name ap) s' = Inr cm"
      and "applied K (TopologyCmNamespace K) ap s cm"
    by (rule store_ok_apply [OF assms(1) ap(3)])
  with ap have "cm_get K (TopologyCmNamespace K) (GetNodeTopologyCMName K n) s' = Inr cm"
      and "[CmTopologyKey \<mapsto> y] \<subseteq>\<^sub>m cm_Data cm"
    by (simp_all add: applied_def)
  moreover from this(2) have "cm_Data cm CmTopologyKey = Some y" by (auto simp: map_le_def)
  moreover have "unmarshal_nt K y = Inr (norm_nt nt)" using assms(2) y unfolding codec_ok_def by (metis Inr_inject)
  ultimately show "GetNodeTopologyFromCM K n s' = Ok (norm_nt nt)"
    by (simp add: GetNodeTopologyFromCM_def FromNodeTopologyCM_def)
next
  fix nt n s s' m
  assume "UpdateNodeTopologyCM K nt n s = (Ok (), s')" and "m \<noteq> n"
  then obtain ap where "ap_Name ap = GetNodeTopologyCMName K n"
      "cm_apply K (TopologyCmNamespace K) ap s = (Inr (), s')"
    by (metis UpdateNodeTopologyCM_Ok)
  with \<open>m \<noteq> n\<close> assms(1)
  have "cm_get K (TopologyCmNamespace K) (GetNodeTopologyCMName K m) s' =
      cm_get K (TopologyCmNamespace K) (GetNodeTopologyCMName K m) s"
    by (intro store_ok_apply_frame) auto
  then show "GetNodeTopologyFromCM K m s' = GetNodeTopologyFromCM K m s"
    by (simp add: GetNodeTopologyFromCM_def)
qed

end
