(* ===== verification/RefServer.thy ===== *)
theory RefServer
  imports KubeApi
begin

text \<open>
  A concrete API server and codec, the instance at which the general theorems are applied: the
  objects are in association lists, a YAML text is the value it encodes, a quantity is a number of
  thousandths.  It shows that \<open>codec_ok\<close> and \<open>store_ok\<close> can hold together.
\<close>

datatype ref_text =
    TEmpty
  | TNode NodeTopology
  | TMap "gmap option"
  | TCluster ClusterTopology
  | TConfig ClusterConfig

record ref_state =
  rs_cms :: "((string \<times> string) \<times> ref_text ConfigMap) list"
  rs_pods :: "((string \<times> string) \<times> int Pod) list"
  rs_nodes :: "(string \<times> int Node) list"
  rs_claims :: "((string \<times> string) \<times> AllocResult list option) list"
  rs_classes :: "((string \<times> string) \<times> string) list"

definition ref_find :: "('k \<times> 'v) list \<Rightarrow> 'k \<Rightarrow> gerror + 'v" where
  "ref_find xs k = (case map_of xs k of None \<Rightarrow> Inl NotFoundErr | Some v \<Rightarrow> Inr v)"

definition zero_nt :: NodeTopology where
  "zero_nt = \<lparr>GpuMemory = 0, GpuProduct = [], DriverVersion = [], CudaVersion = [], Gpus = [], MigStrategy = [],
              OtherDevices = []\<rparr>"

definition ref_apply :: "string \<Rightarrow> ref_text ConfigMapApply \<Rightarrow> ref_state \<Rightarrow> (gerror + unit) \<times> ref_state" where
  "ref_apply ns ap s =
     (let cm0 = (case map_of (rs_cms s) (ns, ap_Name ap) of
                   Some cm \<Rightarrow> cm
                 | None \<Rightarrow> \<lparr>cm_Name = ap_Name ap, cm_Namespace = ns, cm_Labels = Map.empty,
                            cm_Annotations = Map.empty, cm_Data = Map.empty\<rparr>);
          cm = cm0\<lparr>cm_Labels := cm_Labels cm0 ++ ap_Labels ap, cm_Data := cm_Data cm0 ++ ap_Data ap\<rparr>
      in (Inr (), s\<lparr>rs_cms := AList.update (ns, ap_Name ap) cm (rs_cms s)\<rparr>))"

definition ref_create :: "string \<Rightarrow> ref_text ConfigMap \<Rightarrow> ref_state \<Rightarrow> (gerror + unit) \<times> ref_state" where
  "ref_create ns cm s =
     (case map_of (rs_cms s) (ns, cm_Name cm) of
        Some _ \<Rightarrow> (Inl AlreadyExistsErr, s)
      | None \<Rightarrow> (Inr (), s\<lparr>rs_cms := AList.update (ns, cm_Name cm) cm (rs_cms s)\<rparr>))"

definition ref_delete :: "string \<Rightarrow> string \<Rightarrow> ref_state \<Rightarrow> (gerror + unit) \<times> ref_state" where
  "ref_delete ns n s =
     (case map_of (rs_cms s) (ns, n) of
        None \<Rightarrow> (Inl NotFoundErr, s)
      | Some _ \<Rightarrow> (Inr (), s\<lparr>rs_cms := AList.delete (ns, n) (rs_cms s)\<rparr>))"

definition ref_annotate ::
    "string \<Rightarrow> string \<Rightarrow> string \<Rightarrow> string \<Rightarrow> ref_state \<Rightarrow> (gerror + unit) \<times> ref_state" where
  "ref_annotate ns n k v s =
     (case map_of (rs_pods s) (ns, n) of
        None \<Rightarrow> (Inl NotFoundErr, s)
      | Some p \<Rightarrow> (Inr (), s\<lparr>rs_pods := AList.update (ns, n) (p\<lparr>p_Annotations := (p_Annotations p)(k \<mapsto> v)\<rparr>) (rs_pods s)\<rparr>))"

definition ref_patch_node :: "string \<Rightarrow> (string \<times> string option) list \<Rightarrow> ref_state \<Rightarrow> (gerror + unit) \<times> ref_state" where
  "ref_patch_node n ls s =
     (case map_of (rs_nodes s) n of
        None \<Rightarrow> (Inl NotFoundErr, s)
      | Some nd \<Rightarrow> (Inr (), s\<lparr>rs_nodes := AList.update n
                        (nd\<lparr>n_Labels := foldl (\<lambda>m (k, v). m(k := v)) (n_Labels nd) ls, n_LabelsNil := False\<rparr>) (rs_nodes s)\<rparr>))"

definition ref_env :: "(ref_state, int, ref_text) kube_env" where
  "ref_env = \<lparr>
     cm_get = (\<lambda>ns n s. ref_find (rs_cms s) (ns, n)),
     cm_create = ref_create,
     cm_apply = ref_apply,
     cm_delete = ref_delete,
     cm_list = (\<lambda>ns k v s. Inr [cm. ((ns', _), cm) \<leftarrow> rs_cms s, ns' = ns \<and> cm_Labels cm k = Some v]),
     pod_get = (\<lambda>ns n s. if n = [] then Inl (ApiErr ''resource name may not be empty'') else ref_find (rs_pods s) (ns, n)),
     pod_list = (\<lambda>ns node s. Inr [p. ((ns', _), p) \<leftarrow> rs_pods s, (ns = [] \<or> ns' = ns) \<and> p_NodeName p = node]),
     pod_annotate = ref_annotate,
     node_get = (\<lambda>n s. ref_find (rs_nodes s) n),
     node_list = (\<lambda>k s. Inr [nd. (_, nd) \<leftarrow> rs_nodes s, n_Labels nd k \<noteq> None]),
     node_patch_labels = ref_patch_node,
     node_update = (\<lambda>nd s. (Inr (), s\<lparr>rs_nodes := AList.update (n_Name nd) nd (rs_nodes s)\<rparr>)),
     claim_get = (\<lambda>ns n s. ref_find (rs_claims s) (ns, n)),
     podgroup_class = (\<lambda>ns n s. case ref_find (rs_classes s) (ns, n) of Inl e \<Rightarrow> Inl e | Inr c \<Rightarrow> Inr (Inr (Some c))),
     empty_text = TEmpty,
     unmarshal_nt = (\<lambda>y. case y of TNode nt \<Rightarrow> Inr nt | TEmpty \<Rightarrow> Inr zero_nt | _ \<Rightarrow> Inl (Msg ''yaml'')),
     marshal_nt = (\<lambda>nt. Inr (TNode (norm_nt nt))),
     unmarshal_gmap = (\<lambda>y. case y of TMap m \<Rightarrow> Inr m | TEmpty \<Rightarrow> Inr None | _ \<Rightarrow> Inl (Msg ''yaml'')),
     unmarshal_ClusterTopology = (\<lambda>y. case y of TCluster c \<Rightarrow> Inr c | _ \<Rightarrow> Inl (Msg ''yaml'')),
     unmarshal_ClusterConfig = (\<lambda>y. case y of TConfig c \<Rightarrow> Inr c | _ \<Rightarrow> Inl (Msg ''yaml'')),
     blank_text = (\<lambda>y. case y of TEmpty \<Rightarrow> True | _ \<Rightarrow> False),
     q_zero = 0,
     q_equal = (=),
     q_value = (\<lambda>q. - ((- q) div 1000)),
     q_milli = (\<lambda>q. q),
     q_add = (+),
     q_new = (\<lambda>i. i * 1000),
     q_new_milli = (\<lambda>i. i),
     q_parse = (\<lambda>s. case atoi s of None \<Rightarrow> Inl (Msg ''quantity'') | Some i \<Rightarrow> Inr (i * 1000)),
     TopologyCmName = ''topology'',
     TopologyCmNamespace = ''gpu-operator'',
     ResourceReservationNamespace = ''runai-reservation'',
     EnvNodeName = ''node1'',
     conv_oor = (\<lambda>_. 0)\<rparr>"

lemma ref_find_simps [simp]:
  "ref_find xs k = Inr v \<longleftrightarrow> map_of xs k = Some v"
  "ref_find xs k = Inl e \<longleftrightarrow> map_of xs k = None \<and> e = NotFoundErr"
  by (auto simp: ref_find_def split: option.splits)

lemma ref_find_cong: "map_of xs k = map_of ys k \<Longrightarrow> ref_find xs k = ref_find ys k"
  by (simp add: ref_find_def)

lemma ref_codec_ok [simp]: "codec_ok ref_env"
  by (simp add: codec_ok_def ref_env_def)

lemma ref_store_ok [simp]: "store_ok ref_env"
  unfolding store_ok_def
proof (intro conjI)
  show "apply_ok ref_env"
    by (auto simp: apply_ok_def applied_def others_kept_def ref_env_def ref_apply_def Let_def map_of_update
        ref_find_def map_add_le_mapI split: option.splits)
  show "create_ok ref_env"
    by (auto simp: create_ok_def others_kept_def ref_env_def ref_create_def map_of_update ref_find_def split: option.splits)
  show "delete_ok ref_env"
    by (auto simp: delete_ok_def others_kept_def ref_env_def ref_delete_def map_of_delete ref_find_def split: option.splits)
  show "annotate_ok ref_env"
    by (auto simp: annotate_ok_def ref_env_def ref_annotate_def split: option.splits)
qed

interpretation ref_store: topo_store "GetNodeTopologyFromCM ref_env" "UpdateNodeTopologyCM ref_env"
  by (rule topo_store_of) simp_all

end
