(* ===== verification/Fixtures.thy ===== *)
theory Fixtures
  imports RefServer
begin

text \<open>
  Concrete objects for the closed instances of the properties: states of the in-memory server that hold
  the topologies of some nodes, pods and nodes.
\<close>

text \<open>The operations of the server, field by field\<close>

lemma ref_env_simps:
  "cm_get ref_env ns n s = ref_find (rs_cms s) (ns, n)"
  "cm_create ref_env = ref_create" "cm_apply ref_env = ref_apply" "cm_delete ref_env = ref_delete"
  "pod_get ref_env ns n s = (if n = [] then Inl (ApiErr ''resource name may not be empty'') else ref_find (rs_pods s) (ns, n))"
  "pod_list ref_env ns node s = Inr [p. ((ns', _), p) \<leftarrow> rs_pods s, (ns = [] \<or> ns' = ns) \<and> p_NodeName p = node]"
  "pod_annotate ref_env = ref_annotate" "node_get ref_env n s = ref_find (rs_nodes s) n"
  "node_patch_labels ref_env = ref_patch_node" "claim_get ref_env ns n s = ref_find (rs_claims s) (ns, n)"
  "unmarshal_nt ref_env (TNode nt) = Inr nt" "marshal_nt ref_env nt = Inr (TNode (norm_nt nt))"
  "q_zero ref_env = 0" "q_equal ref_env = (=)" "q_value ref_env q = - ((- q) div 1000)"
  "TopologyCmName ref_env = ''topology''" "TopologyCmNamespace ref_env = ''gpu-operator''"
  "ResourceReservationNamespace ref_env = ''runai-reservation''" "EnvNodeName ref_env = ''node1''"
  by (simp_all add: ref_env_def)

definition w_cm :: "string \<Rightarrow> NodeTopology \<Rightarrow> ref_text ConfigMap" where
  "w_cm n nt = \<lparr>cm_Name = ''topology-'' @ n, cm_Namespace = ''gpu-operator'',
     cm_Labels = [LabelTopologyCMNodeTopology \<mapsto> ''true'', LabelTopologyCMNodeName \<mapsto> n],
     cm_Annotations = Map.empty, cm_Data = [CmTopologyKey \<mapsto> TNode nt]\<rparr>"

definition w_state :: "(string \<times> NodeTopology) list \<Rightarrow> int Pod list \<Rightarrow> int Node list \<Rightarrow> ref_state" where
  "w_state nts pods nodes =
     \<lparr>rs_cms = map (\<lambda>(n, nt). ((''gpu-operator'', ''topology-'' @ n), w_cm n nt)) nts,
      rs_pods = map (\<lambda>p. ((p_Namespace p, p_Name p), p)) pods,
      rs_nodes = map (\<lambda>nd. (n_Name nd, nd)) nodes, rs_claims = [], rs_classes = []\<rparr>"

definition w_gpu :: "string \<Rightarrow> string \<Rightarrow> usage_map \<Rightarrow> GpuDetails" where
  "w_gpu gid pod usage =
     \<lparr>ID = gid, Status = \<lparr>AllocatedBy = (if pod = [] then zero_container
                                        else \<lparr>cd_Namespace = ''ns1'', cd_Pod = pod, cd_Container = ''main''\<rparr>),
                        PodGpuUsageStatus = usage\<rparr>\<rparr>"

definition w_nt :: "GpuDetails list \<Rightarrow> NodeTopology" where
  "w_nt gpus = zero_nt\<lparr>GpuMemory := 16384, GpuProduct := ''T4'', Gpus := gpus\<rparr>"

definition w_node :: "int Node" where
  "w_node = \<lparr>n_Name = ''node1'', n_UID = ''u1'', n_Labels = [''pool'' \<mapsto> ''a''], n_Annotations = Map.empty,
             n_Allocatable = [''cpu'' \<mapsto> 4000, ''memory'' \<mapsto> 8000], n_LabelsNil = False, n_AnnotationsNil = True\<rparr>"

lemma w_nt_simps [simp]: "Gpus (w_nt gs) = gs" "GpuMemory (w_nt gs) = 16384"
  by (simp_all add: w_nt_def)

lemma w_state_pods [simp]: "rs_pods (w_state nts pods nodes) = map (\<lambda>p. ((p_Namespace p, p_Name p), p)) pods"
  by (simp add: w_state_def)

lemma w_state_topology [simp]:
  "map_of nts n = Some nt \<Longrightarrow> GetNodeTopologyFromCM ref_env n (w_state nts pods nodes) = Ok nt"
  "map_of nts n = None \<Longrightarrow> GetNodeTopologyFromCM ref_env n (w_state nts pods nodes) = Err NotFoundErr"
proof -
  have "map_of (map (\<lambda>(n, nt). ((''gpu-operator'', ''topology-'' @ n), w_cm n nt)) nts) (''gpu-operator'', ''topology-'' @ n) =
      map_option (w_cm n) (map_of nts n)"
    by (induction nts) auto
  then show "map_of nts n = Some nt \<Longrightarrow> GetNodeTopologyFromCM ref_env n (w_state nts pods nodes) = Ok nt"
    and "map_of nts n = None \<Longrightarrow> GetNodeTopologyFromCM ref_env n (w_state nts pods nodes) = Err NotFoundErr"
    by (simp_all add: GetNodeTopologyFromCM_def FromNodeTopologyCM_def GetNodeTopologyCMName_def ref_env_def w_state_def
        ref_find_def w_cm_def)
qed

text \<open>A step known to succeed\<close>

lemma ok_pair: "fst m = Ok () \<Longrightarrow> m = (Ok (), snd m)"
  by (simp add: prod_eq_iff)

end
