(* ===== verification/UsageCalc.thy ===== *)
theory UsageCalc
  imports RefServer
begin

text \<open>
  \<^verbatim>\<open>internal/status-updater/util/util.go\<close>, the predicates that classify a pod, and
  \<^verbatim>\<open>handlers/pod/gpu_usage_calculator.go\<close>, which derives the usage record of a pod on a GPU
  from its annotations, its phase, its name and the kind of its workload.
\<close>

section \<open>util.go\<close>

definition IsGpuReservationPod :: "('s, 'q, 'y) kube_env \<Rightarrow> 'q Pod \<Rightarrow> bool" where
  "IsGpuReservationPod K pod \<longleftrightarrow> p_Namespace pod = ResourceReservationNamespace K"

definition IsSharedGpuPod :: "('s, 'q, 'y) kube_env \<Rightarrow> 'q Pod \<Rightarrow> bool" where
  "IsSharedGpuPod K pod \<longleftrightarrow>
     \<not> IsGpuReservationPod K pod \<and> (p_Annotations pod AnnotationGpuIdx \<noteq> None \<or> p_Labels pod LabelGpuGroup \<noteq> None)"

text \<open>The limit of the first container; a pod without containers is an index out of range.\<close>

definition gpu_limit :: "('s, 'q, 'y) kube_env \<Rightarrow> 'q Container \<Rightarrow> 'q" where
  "gpu_limit K c = (case c_Limits c GpuResourceName of None \<Rightarrow> q_zero K | Some q \<Rightarrow> q)"

definition IsDedicatedGpuPod :: "('s, 'q, 'y) kube_env \<Rightarrow> 'q Pod \<Rightarrow> bool res" where
  "IsDedicatedGpuPod K pod =
     (case p_Containers pod of [] \<Rightarrow> Panic IndexOutOfRange | c # _ \<Rightarrow> Ok (\<not> q_equal K (gpu_limit K c) (q_zero K)))"

definition IsPodRunning :: "'q Pod \<Rightarrow> bool" where
  "IsPodRunning pod \<longleftrightarrow> p_Phase pod = ''Running''"

definition IsPodTerminated :: "'q Pod \<Rightarrow> bool" where
  "IsPodTerminated pod \<longleftrightarrow> p_Phase pod = ''Succeeded'' \<or> p_Phase pod = ''Failed''"

definition IsPodScheduled :: "'q Pod \<Rightarrow> bool" where
  "IsPodScheduled pod \<longleftrightarrow> p_NodeName pod \<noteq> []"

definition IsDraPod :: "'q Pod \<Rightarrow> bool" where
  "IsDraPod pod \<longleftrightarrow> p_ResourceClaims pod \<noteq> []"

section \<open>gpu_usage_calculator.go\<close>

definition idleGpuPodNamePrefix :: string where "idleGpuPodNamePrefix = ''runai-idle-gpu-''"
definition gpuUtilizationAnnotationKey :: string where
  "gpuUtilizationAnnotationKey = ''run.ai/simulated-gpu-utilization''"

definition defaultGpuUtil :: Range where "defaultGpuUtil = \<lparr>Min = 100, Max = 100\<rparr>"

definition isPodNameMarkedAsIdle :: "string \<Rightarrow> bool" where
  "isPodNameMarkedAsIdle podName \<longleftrightarrow> prefix idleGpuPodNamePrefix podName"

definition generateGpuUsageStatus :: "(gofloat \<Rightarrow> int) \<Rightarrow> Range \<Rightarrow> gofloat \<Rightarrow> int \<Rightarrow> bool \<Rightarrow> GpuUsageStatus" where
  "generateGpuUsageStatus conv util fraction totalGpuMemory knative =
     \<lparr>Utilization_field = util, FbUsed_field = int_of_f64 conv (f64_mul (f64_of_int totalGpuMemory) fraction),
      UseKnativeUtilization = knative\<rparr>"

text \<open>
  The groups of the match of \<^verbatim>\<open>(\d*)-*(\d*)\<close>: the expression always matches at the start, and
  each repetition takes as much as it can.
\<close>

definition utilization_groups :: "string \<Rightarrow> string \<times> string" where
  "utilization_groups s =
     (let g1 = takeWhile is_digit s;
          rest = dropWhile (\<lambda>c. c = CHR ''-'') (dropWhile is_digit s)
      in (g1, takeWhile is_digit rest))"

definition calculateUtilizationFromAnnotation :: "string \<Rightarrow> Range res" where
  "calculateUtilizationFromAnnotation s =
     (let (g1, g2) = utilization_groups s
      in case atoi g1 of
           None \<Rightarrow> Err (Msg ''failed to parse to int'')
         | Some mn \<Rightarrow>
             if g2 = [] then Ok \<lparr>Min = mn, Max = mn\<rparr>
             else (case atoi g2 of
                     None \<Rightarrow> Err (Msg ''failed to parse to intt'')
                   | Some mx \<Rightarrow> Ok \<lparr>Min = mn, Max = mx\<rparr>))"

definition workload_type :: "string \<Rightarrow> string option" where
  "workload_type kind =
     (if kind = ''TrainingWorkload'' then Some ''train''
      else if kind = ''DistributedWorkload'' then Some ''distributed-inference''
      else if kind = ''InferenceWorkload'' then Some ''inference''
      else if kind = ''InteractiveWorkload'' then Some ''interactive''
      else None)"

definition getPodType :: "('s, 'q, 'y) kube_env \<Rightarrow> 'q Pod \<Rightarrow> 's \<Rightarrow> string res" where
  "getPodType K pod s =
     (case Option.bind (p_Labels pod ''workloadKind'') workload_type of
        Some t \<Rightarrow> Ok t
      | None \<Rightarrow>
          let podGroupName = (case p_Annotations pod AnnotationPodGroupName of None \<Rightarrow> [] | Some n \<Rightarrow> n)
          in if podGroupName = [] then Err (Msg ''pod has no constants.PodGroupNameAnnotation annotation'')
             else case podgroup_class K (p_Namespace pod) podGroupName s of
                    Inl e \<Rightarrow> Err (Msg ''error getting podgroup'')
                  | Inr (Inl e) \<Rightarrow> Err (Msg ''error getting podgroup class name'')
                  | Inr (Inr None) \<Rightarrow> Err (Msg ''podgroup has no class name'')
                  | Inr (Inr (Some c)) \<Rightarrow> Ok c)"

definition zero_range :: Range where "zero_range = \<lparr>Min = 0, Max = 0\<rparr>"

definition calculateGpuUsageFromPodType ::
    "('s, 'q, 'y) kube_env \<Rightarrow> 'q Pod \<Rightarrow> gofloat \<Rightarrow> int \<Rightarrow> 's \<Rightarrow> GpuUsageStatus" where
  "calculateGpuUsageFromPodType K pod fraction totalGpuMemory s =
     (let podType = (case getPodType K pod s of Ok t \<Rightarrow> t | Err e \<Rightarrow> [] | Panic p \<Rightarrow> []);
          gen = (\<lambda>r. generateGpuUsageStatus (conv_oor K) r fraction totalGpuMemory)
      in if podType = ''train'' then gen \<lparr>Min = 80, Max = 100\<rparr> False
         else if podType \<in> {''build'', ''interactive-preemptible'', ''interactive'', ''distributed''} then gen zero_range False
         else if podType \<in> {''inference'', ''distributed-inference''} then gen zero_range True
         else gen defaultGpuUtil False)"

definition gpu_fraction :: "'q Pod \<Rightarrow> gofloat" where
  "gpu_fraction pod =
     (case p_Annotations pod AnnotationGpuFraction of
        None \<Rightarrow> Fin 1
      | Some a \<Rightarrow> (case parse_float32 a of Some f \<Rightarrow> f | None \<Rightarrow> Fin 1))"

definition calculateUsage :: "('s, 'q, 'y) kube_env \<Rightarrow> 'q Pod \<Rightarrow> int \<Rightarrow> 's \<Rightarrow> GpuUsageStatus" where
  "calculateUsage K pod totalGpuMemory s =
     (let gpuFraction = gpu_fraction pod
      in if \<not> IsPodRunning pod then generateGpuUsageStatus (conv_oor K) zero_range gpuFraction totalGpuMemory False
         else if isPodNameMarkedAsIdle (p_Name pod) then generateGpuUsageStatus (conv_oor K) zero_range gpuFraction totalGpuMemory False
         else case Option.bind (p_Annotations pod gpuUtilizationAnnotationKey)
                     (\<lambda>a. case calculateUtilizationFromAnnotation a of Ok r \<Rightarrow> Some r | Err e \<Rightarrow> None | Panic p \<Rightarrow> None) of
                Some r \<Rightarrow> generateGpuUsageStatus (conv_oor K) r gpuFraction totalGpuMemory False
              | None \<Rightarrow> calculateGpuUsageFromPodType K pod gpuFraction totalGpuMemory s)"

section \<open>The annotation\<close>

lemma calculateUtilization_not_panic [simp]: "calculateUtilizationFromAnnotation s \<noteq> Panic p"
  by (auto simp: calculateUtilizationFromAnnotation_def Let_def split: prod.splits option.splits)

lemma utilization_groups_single: "list_all is_digit ds \<Longrightarrow> utilization_groups ds = (ds, [])"
  by (simp add: utilization_groups_def list_all_iff takeWhile_eq_all_conv [THEN iffD2] dropWhile_eq_Nil_conv [THEN iffD2])

lemma utilization_groups_pair:
  assumes "list_all is_digit ds" and "list_all is_digit es" and "es \<noteq> []"
  shows "utilization_groups (ds @ CHR ''-'' # es) = (ds, es)"
proof -
  obtain e es' where es: "es = e # es'" and "is_digit e" using assms by (cases es) auto
  then have "e \<noteq> CHR ''-''" by (auto simp: is_digit_def)
  moreover have "\<not> is_digit (CHR ''-'')" by (simp add: is_digit_def)
  moreover have "takeWhile is_digit es = es" using assms(2) by (simp add: list_all_iff)
  ultimately show ?thesis using assms(1) es
    by (simp add: utilization_groups_def list_all_iff takeWhile_append dropWhile_append)
qed

text \<open>The bounds a range annotation is written with are the bounds read back.\<close>

lemma annotation_range:
  assumes "0 \<le> a" and "0 \<le> b" and "in64 a" and "in64 b"
  shows "calculateUtilizationFromAnnotation (itoa a @ ''-'' @ itoa b) = Ok \<lparr>Min = a, Max = b\<rparr>"
proof -
  have "utilization_groups (itoa a @ CHR ''-'' # itoa b) = (itoa a, itoa b)"
    using assms by (intro utilization_groups_pair) (simp_all add: itoa_def)
  with assms show ?thesis by (simp add: calculateUtilizationFromAnnotation_def atoi_itoa) (simp add: itoa_def)
qed

lemma annotation_single:
  assumes "0 \<le> a" and "in64 a"
  shows "calculateUtilizationFromAnnotation (itoa a) = Ok \<lparr>Min = a, Max = a\<rparr>"
proof -
  have "utilization_groups (itoa a) = (itoa a, [])"
    using assms by (intro utilization_groups_single) (simp add: itoa_def)
  with assms show ?thesis by (simp add: calculateUtilizationFromAnnotation_def atoi_itoa)
qed

end
