(* ===== verification/GpuFrame.thy ===== *)
theory GpuFrame
  imports UsageCalc
begin

text \<open>
  The contract between the pod handler and the three groups of routines that edit a node topology
  for it (dedicated, shared and DRA pods): what such a routine may change.  The locale \<open>pod_op\<close> is
  that interface; its lemmas carry the contract through a sequence of routines, and every routine
  of the three groups interprets it.
\<close>

section \<open>Ownership of a GPU\<close>

definition is_free :: "GpuDetails \<Rightarrow> bool" where
  "is_free g \<longleftrightarrow> cd_Pod (AllocatedBy (Status g)) = []"

text \<open>Allocated to the pod, whichever its container.\<close>

definition owned_by :: "'q Pod \<Rightarrow> GpuDetails \<Rightarrow> bool" where
  "owned_by pod g \<longleftrightarrow>
     cd_Namespace (AllocatedBy (Status g)) = p_Namespace pod \<and> cd_Pod (AllocatedBy (Status g)) = p_Name pod"

definition foreign :: "'q Pod \<Rightarrow> GpuDetails \<Rightarrow> bool" where
  "foreign pod g \<longleftrightarrow> \<not> is_free g \<and> \<not> owned_by pod g"

definition usage_of :: "GpuDetails \<Rightarrow> string \<rightharpoonup> GpuUsageStatus" where
  "usage_of g = usage_lookup (PodGpuUsageStatus (Status g))"

section \<open>What an operation for a pod keeps\<close>

text \<open>
  The identity of the GPU; and on a GPU that another pod holds, the allocation and every usage
  record but the pod's own.
\<close>

definition gpu_kept :: "'q Pod \<Rightarrow> GpuDetails \<Rightarrow> GpuDetails \<Rightarrow> bool" where
  "gpu_kept pod g g' \<longleftrightarrow>
     ID g' = ID g \<and>
     (foreign pod g \<longrightarrow>
        AllocatedBy (Status g') = AllocatedBy (Status g) \<and>
        (\<forall>u. u \<noteq> p_UID pod \<longrightarrow> usage_of g' u = usage_of g u))"

definition nt_kept :: "'q Pod \<Rightarrow> NodeTopology \<Rightarrow> NodeTopology \<Rightarrow> bool" where
  "nt_kept pod nt nt' \<longleftrightarrow> nt' = nt\<lparr>Gpus := Gpus nt'\<rparr> \<and> list_all2 (gpu_kept pod) (Gpus nt) (Gpus nt')"

text \<open>No usage map is the nil map.\<close>

definition maps_made :: "NodeTopology \<Rightarrow> bool" where
  "maps_made nt \<longleftrightarrow> list_all (\<lambda>g. PodGpuUsageStatus (Status g) \<noteq> None) (Gpus nt)"

lemma maps_made_update:
  assumes "maps_made nt" and "PodGpuUsageStatus (Status g) \<noteq> None"
  shows "maps_made (nt\<lparr>Gpus := (Gpus nt)[i := g]\<rparr>)"
  using assms set_update_subset_insert [of "Gpus nt" i g] by (auto simp: maps_made_def list_all_iff)

lemma gpu_kept_refl [simp, intro]: "gpu_kept pod g g"
  by (simp add: gpu_kept_def)

lemma foreign_kept: "gpu_kept pod g g' \<Longrightarrow> foreign pod g \<Longrightarrow> foreign pod g'"
  by (simp add: gpu_kept_def foreign_def is_free_def owned_by_def)

lemma gpu_kept_trans: "gpu_kept pod g1 g2 \<Longrightarrow> gpu_kept pod g2 g3 \<Longrightarrow> gpu_kept pod g1 g3"
  using foreign_kept [of pod g1 g2] by (auto simp: gpu_kept_def)

lemma gpu_kept_not_foreign: "\<not> foreign pod g \<Longrightarrow> ID g' = ID g \<Longrightarrow> gpu_kept pod g g'"
  by (simp add: gpu_kept_def)

lemma gpu_kept_usage:
  "gpu_kept pod g (g\<lparr>Status := Status g\<lparr>PodGpuUsageStatus := Some ((usage_of g)(p_UID pod \<mapsto> v))\<rparr>\<rparr>)"
  by (simp add: gpu_kept_def usage_of_def)

lemma nt_kept_refl [simp, intro]: "nt_kept pod nt nt"
  by (simp add: nt_kept_def list_all2_refl)

lemma nt_kept_trans: "nt_kept pod n1 n2 \<Longrightarrow> nt_kept pod n2 n3 \<Longrightarrow> nt_kept pod n1 n3"
  unfolding nt_kept_def
  by (auto intro: list_all2_trans [where ?P1.0 = "gpu_kept pod" and ?P2.0 = "gpu_kept pod"] gpu_kept_trans)
    (metis NodeTopology.surjective NodeTopology.update_convs(5))

lemma nt_kept_gpus:
  assumes "list_all2 (gpu_kept pod) (Gpus nt) gs"
  shows "nt_kept pod nt (nt\<lparr>Gpus := gs\<rparr>)"
  using assms by (simp add: nt_kept_def)

lemma nt_kept_map:
  assumes "\<And>g. g \<in> set (Gpus nt) \<Longrightarrow> gpu_kept pod g (f g)"
  shows "nt_kept pod nt (nt\<lparr>Gpus := map f (Gpus nt)\<rparr>)"
  using assms by (intro nt_kept_gpus) (simp add: list_all2_conv_all_nth)

lemma nt_kept_update_gpu:
  assumes "i < length (Gpus nt)" and "gpu_kept pod (Gpus nt ! i) g"
  shows "nt_kept pod nt (nt\<lparr>Gpus := (Gpus nt)[i := g]\<rparr>)"
  using assms by (intro nt_kept_gpus) (simp add: list_all2_conv_all_nth nth_list_update)

lemma nt_kept_length: "nt_kept pod nt nt' \<Longrightarrow> length (Gpus nt') = length (Gpus nt)"
  by (auto simp: nt_kept_def dest: list_all2_lengthD)

lemma nt_kept_ids: "nt_kept pod nt nt' \<Longrightarrow> map ID (Gpus nt') = map ID (Gpus nt)"
  unfolding nt_kept_def by (auto simp: list_all2_conv_all_nth gpu_kept_def intro: nth_equalityI)

lemma nt_kept_foreign:
  assumes "nt_kept pod nt nt'" and "i < length (Gpus nt)" and "foreign pod (Gpus nt ! i)"
  shows "AllocatedBy (Status (Gpus nt' ! i)) = AllocatedBy (Status (Gpus nt ! i))"
    and "u \<noteq> p_UID pod \<Longrightarrow> usage_of (Gpus nt' ! i) u = usage_of (Gpus nt ! i) u"
  using assms by (auto simp: nt_kept_def list_all2_conv_all_nth gpu_kept_def)

lemma nt_kept_fields:
  assumes "nt_kept pod nt nt'"
  shows "GpuMemory nt' = GpuMemory nt" and "GpuProduct nt' = GpuProduct nt"
    and "DriverVersion nt' = DriverVersion nt" and "CudaVersion nt' = CudaVersion nt"
    and "MigStrategy nt' = MigStrategy nt" and "OtherDevices nt' = OtherDevices nt"
proof -
  have "nt' = nt\<lparr>Gpus := Gpus nt'\<rparr>" using assms by (simp add: nt_kept_def)
  then obtain gs where "nt' = nt\<lparr>Gpus := gs\<rparr>" by blast
  then show "GpuMemory nt' = GpuMemory nt" and "GpuProduct nt' = GpuProduct nt"
    and "DriverVersion nt' = DriverVersion nt" and "CudaVersion nt' = CudaVersion nt"
    and "MigStrategy nt' = MigStrategy nt" and "OtherDevices nt' = OtherDevices nt"
    by simp_all
qed

section \<open>The interface\<close>

locale pod_op =
  fixes step :: "'q Pod \<Rightarrow> NodeTopology \<Rightarrow> NodeTopology res"
  assumes kept: "step pod nt = Ok nt' \<Longrightarrow> nt_kept pod nt nt'"
begin

lemma ids: "step pod nt = Ok nt' \<Longrightarrow> map ID (Gpus nt') = map ID (Gpus nt)"
  by (rule nt_kept_ids [OF kept])

lemma then_kept: "nt_kept pod nt0 nt \<Longrightarrow> step pod nt = Ok nt' \<Longrightarrow> nt_kept pod nt0 nt'"
  by (rule nt_kept_trans [OF _ kept])

end

text \<open>
  A routine for pods with a container that does not panic while the usage maps are made, and keeps
  them made.
\<close>

locale safe_pod_op = pod_op +
  assumes no_panic: "p_Containers pod \<noteq> [] \<Longrightarrow> maps_made nt \<Longrightarrow> \<not> is_panic (step pod nt)"
    and made: "maps_made nt \<Longrightarrow> step pod nt = Ok nt' \<Longrightarrow> maps_made nt'"
begin

lemma run:
  assumes "p_Containers pod \<noteq> []" and "maps_made nt"
  obtains (ok) nt' where "step pod nt = Ok nt'" and "maps_made nt'" and "nt_kept pod nt nt'"
  | (err) e where "step pod nt = Err e"
  using no_panic [OF assms] made [OF assms(2)] kept by (cases "step pod nt") auto

end

end
