(* ===== verification/PodDedicated.thy ===== *)
theory PodDedicated
  imports GpuFrame
begin

text \<open>
  \<^verbatim>\<open>handlers/pod/dedicated_gpu_pod_handler.go\<close> and
  \<^verbatim>\<open>handlers/pod/gpu_reservation_pod_handler.go\<close>: allocation of whole GPUs to a pod that
  requests them, refresh of its usage records, release, and the annotation of a reservation pod with
  the GPU it holds.
\<close>

section \<open>Reservation pods\<close>

fun find_gpu_of :: "string \<Rightarrow> GpuDetails list \<Rightarrow> string option" where
  "find_gpu_of name [] = None"
| "find_gpu_of name (g # gs) = (if cd_Pod (AllocatedBy (Status g)) = name then Some (ID g) else find_gpu_of name gs)"

definition findPodGpuID :: "'q Pod \<Rightarrow> NodeTopology \<Rightarrow> string res" where
  "findPodGpuID pod nt =
     (case find_gpu_of (p_Name pod) (Gpus nt) of
        Some i \<Rightarrow> Ok i
      | None \<Rightarrow> Err (Msg ''pod does not have a GPU allocated''))"

definition setReservationPodGpuIdxAnnotationIfNeeded ::
    "('s, 'q, 'y) kube_env \<Rightarrow> 'q Pod \<Rightarrow> NodeTopology \<Rightarrow> 's \<Rightarrow> unit res \<times> 's" where
  "setReservationPodGpuIdxAnnotationIfNeeded K pod nt s =
     (if p_Annotations pod AnnotationReservationPodGpuIdx \<noteq> None then (Ok (), s)
      else sbind (wrap_err ''failed to find GPU allocated by pod'' (findPodGpuID pod nt), s) (\<lambda>gpuID s.
             let (r, s') = pod_annotate K (p_Namespace pod) (p_Name pod) AnnotationReservationPodGpuIdx gpuID s
             in (wrap_err ''failed to update pod'' (of_sum r), s')))"

definition handleGpuReservationPodAddition ::
    "('s, 'q, 'y) kube_env \<Rightarrow> 'q Pod \<Rightarrow> NodeTopology \<Rightarrow> 's \<Rightarrow> unit res \<times> 's" where
  "handleGpuReservationPodAddition K pod nt s =
     (if \<not> IsGpuReservationPod K pod then (Ok (), s)
      else let (r, s') = setReservationPodGpuIdxAnnotationIfNeeded K pod nt s
           in (wrap_err ''failed to set GPU index annotation for reservation pod'' r, s'))"

section \<open>Addition\<close>

text \<open>Allocated to the first container of the pod.\<close>

definition isGpuOccupiedByPod :: "'q Pod \<Rightarrow> GpuDetails \<Rightarrow> bool" where
  "isGpuOccupiedByPod pod g \<longleftrightarrow>
     cd_Namespace (AllocatedBy (Status g)) = p_Namespace pod \<and>
     cd_Pod (AllocatedBy (Status g)) = p_Name pod \<and>
     cd_Container (AllocatedBy (Status g)) = c_Name (hd (p_Containers pod))"

definition isAlreadyAllocated :: "'q Pod \<Rightarrow> NodeTopology \<Rightarrow> bool" where
  "isAlreadyAllocated pod nt \<longleftrightarrow> list_ex (isGpuOccupiedByPod pod) (Gpus nt)"

definition container_details :: "'q Pod \<Rightarrow> string \<Rightarrow> ContainerDetails" where
  "container_details pod c = \<lparr>cd_Namespace = p_Namespace pod, cd_Pod = p_Name pod, cd_Container = c\<rparr>"

text \<open>A free GPU given to the pod, with the usage record of a pod that is not a reservation.\<close>

definition allocate_gpu ::
    "('s, 'q, 'y) kube_env \<Rightarrow> 'q Pod \<Rightarrow> int \<Rightarrow> 's \<Rightarrow> GpuDetails \<Rightarrow> GpuDetails res" where
  "allocate_gpu K pod memory s g =
     (let g' = g\<lparr>Status := Status g\<lparr>AllocatedBy := container_details pod (c_Name (hd (p_Containers pod)))\<rparr>\<rparr>
      in if IsGpuReservationPod K pod then Ok g'
         else rbind (usage_set (PodGpuUsageStatus (Status g')) (p_UID pod) (calculateUsage K pod memory s))
                (\<lambda>m. Ok (g'\<lparr>Status := Status g'\<lparr>PodGpuUsageStatus := m\<rparr>\<rparr>)))"

fun allocate_loop ::
    "('s, 'q, 'y) kube_env \<Rightarrow> 'q Pod \<Rightarrow> int \<Rightarrow> 's \<Rightarrow> int \<Rightarrow> GpuDetails list \<Rightarrow> GpuDetails list res" where
  "allocate_loop K pod memory s remaining [] = Ok []"
| "allocate_loop K pod memory s remaining (g # gs) =
     (if remaining \<le> 0 then Ok (g # gs)
      else if is_free g then
        rbind (allocate_gpu K pod memory s g) (\<lambda>g'.
          rbind (allocate_loop K pod memory s (remaining - 1) gs) (\<lambda>gs'. Ok (g' # gs')))
      else rbind (allocate_loop K pod memory s remaining gs) (\<lambda>gs'. Ok (g # gs')))"

definition handleDedicatedGpuPodAddition ::
    "('s, 'q, 'y) kube_env \<Rightarrow> 'q Pod \<Rightarrow> NodeTopology \<Rightarrow> 's \<Rightarrow> NodeTopology res \<times> 's" where
  "handleDedicatedGpuPodAddition K pod nt s =
     sbind (IsDedicatedGpuPod K pod, s) (\<lambda>ded s.
       if \<not> ded then (Ok nt, s)
       else if isAlreadyAllocated pod nt then (Ok nt, s)
       else let requestedGpusCount = q_value K (gpu_limit K (hd (p_Containers pod)))
            in sbind (allocate_loop K pod (GpuMemory nt) s requestedGpusCount (Gpus nt), s) (\<lambda>gpus s.
                 let nt' = nt\<lparr>Gpus := gpus\<rparr>;
                     (r, s') = handleGpuReservationPodAddition K pod nt' s
                 in (rbind (wrap_err ''failed to handle GPU reservation pod addition'' r) (\<lambda>_. Ok nt'), s')))"

section \<open>Update and deletion\<close>

definition set_usage_of ::
    "('s, 'q, 'y) kube_env \<Rightarrow> 'q Pod \<Rightarrow> int \<Rightarrow> 's \<Rightarrow> GpuDetails \<Rightarrow> GpuDetails res" where
  "set_usage_of K pod memory s g =
     rbind (usage_set (PodGpuUsageStatus (Status g)) (p_UID pod) (calculateUsage K pod memory s))
       (\<lambda>m. Ok (g\<lparr>Status := Status g\<lparr>PodGpuUsageStatus := m\<rparr>\<rparr>))"

definition handleDedicatedGpuPodUpdate ::
    "('s, 'q, 'y) kube_env \<Rightarrow> 'q Pod \<Rightarrow> NodeTopology \<Rightarrow> 's \<Rightarrow> NodeTopology res" where
  "handleDedicatedGpuPodUpdate K pod nt s =
     rbind (IsDedicatedGpuPod K pod) (\<lambda>ded.
       if \<not> ded then Ok nt
       else rbind (mapM_res (\<lambda>g. if isGpuOccupiedByPod pod g \<and> \<not> IsGpuReservationPod K pod
                                 then set_usage_of K pod (GpuMemory nt) s g else Ok g) (Gpus nt))
              (\<lambda>gpus. Ok (nt\<lparr>Gpus := gpus\<rparr>)))"

definition handleDedicatedGpuPodDeletion :: "('s, 'q, 'y) kube_env \<Rightarrow> 'q Pod \<Rightarrow> NodeTopology \<Rightarrow> NodeTopology res" where
  "handleDedicatedGpuPodDeletion K pod nt =
     rbind (IsDedicatedGpuPod K pod) (\<lambda>ded.
       if \<not> ded then Ok nt
       else Ok (nt\<lparr>Gpus := map (\<lambda>g. if isGpuOccupiedByPod pod g then g\<lparr>Status := zero_status\<rparr> else g) (Gpus nt)\<rparr>))"

section \<open>Loops over the GPUs\<close>

lemma nt_kept_mapM_res:
  assumes "mapM_res f (Gpus nt) = Ok gs" and "\<And>g g'. g \<in> set (Gpus nt) \<Longrightarrow> f g = Ok g' \<Longrightarrow> gpu_kept pod g g'"
  shows "nt_kept pod nt (nt\<lparr>Gpus := gs\<rparr>)"
  using assms by (intro nt_kept_gpus) (auto simp: mapM_res_list_all2 list_all2_conv_all_nth)

lemma gpu_kept_set_usage: "set_usage_of K pod m s g = Ok g' \<Longrightarrow> gpu_kept pod g g'"
  by (cases "PodGpuUsageStatus (Status g)")
    (auto simp: set_usage_of_def gpu_kept_def usage_of_def)

lemma set_usage_of_made:
  assumes "PodGpuUsageStatus (Status g) \<noteq> None"
  shows "is_ok (set_usage_of K pod m s g)"
    and "set_usage_of K pod m s g = Ok g' \<Longrightarrow> PodGpuUsageStatus (Status g') \<noteq> None"
  using assms by (auto simp: set_usage_of_def)

lemma gpu_kept_allocate: "is_free g \<Longrightarrow> allocate_gpu K pod m s g = Ok g' \<Longrightarrow> gpu_kept pod g g'"
  by (cases "PodGpuUsageStatus (Status g)")
    (auto simp: allocate_gpu_def gpu_kept_def foreign_def Let_def split: if_splits)

lemma allocate_gpu_made:
  assumes "PodGpuUsageStatus (Status g) \<noteq> None"
  shows "is_ok (allocate_gpu K pod m s g)"
    and "allocate_gpu K pod m s g = Ok g' \<Longrightarrow> PodGpuUsageStatus (Status g') \<noteq> None"
  using assms by (auto simp: allocate_gpu_def Let_def split: if_splits)

lemma allocate_loop_kept:
  "allocate_loop K pod m s n gs = Ok gs' \<Longrightarrow> list_all2 (gpu_kept pod) gs gs'"
  by (induction K pod m s n gs arbitrary: gs' rule: allocate_loop.induct)
    (auto simp: rbind_eq_Ok gpu_kept_allocate list_all2_refl split: if_splits)

lemma allocate_loop_made:
  assumes "list_all (\<lambda>g. PodGpuUsageStatus (Status g) \<noteq> None) gs"
  shows "\<exists>gs'. allocate_loop K pod m s n gs = Ok gs' \<and> list_all (\<lambda>g. PodGpuUsageStatus (Status g) \<noteq> None) gs'"
  using assms
proof (induction gs arbitrary: n)
  case Nil
  show ?case by simp
next
  case (Cons g gs)
  obtain g' where g': "allocate_gpu K pod m s g = Ok g'"
    using allocate_gpu_made(1) [of g K pod m s] Cons.prems by (cases "allocate_gpu K pod m s g") auto
  from allocate_gpu_made(2) [OF _ this] Cons.prems have "PodGpuUsageStatus (Status g') \<noteq> None" by simp
  moreover obtain gs1 where "allocate_loop K pod m s (n - 1) gs = Ok gs1"
      and "list_all (\<lambda>g. PodGpuUsageStatus (Status g) \<noteq> None) gs1"
    using Cons.IH [of "n - 1"] Cons.prems by auto
  moreover obtain gs2 where "allocate_loop K pod m s n gs = Ok gs2"
      and "list_all (\<lambda>g. PodGpuUsageStatus (Status g) \<noteq> None) gs2"
    using Cons.IH [of n] Cons.prems by auto
  ultimately show ?case using Cons.prems g' by simp
qed

section \<open>Which GPUs the loop allocates\<close>

text \<open>
  The GPU at \<open>i\<close> is taken exactly when it is free and fewer free GPUs than requested come
  before it.
\<close>

definition takes_gpu :: "int \<Rightarrow> GpuDetails list \<Rightarrow> nat \<Rightarrow> bool" where
  "takes_gpu n gs i \<longleftrightarrow> is_free (gs ! i) \<and> int (length (filter is_free (take i gs))) < n"

lemma allocate_loop_length: "allocate_loop K pod m s n gs = Ok gs' \<Longrightarrow> length gs' = length gs"
  by (rule list_all2_lengthD [OF allocate_loop_kept, symmetric])

lemma allocate_loop_nth:
  assumes "allocate_loop K pod m s n gs = Ok gs'" and "i < length gs"
  shows "if takes_gpu n gs i then allocate_gpu K pod m s (gs ! i) = Ok (gs' ! i) else gs' ! i = gs ! i"
  using assms
proof (induction gs arbitrary: n gs' i)
  case Nil
  then show ?case by simp
next
  case (Cons g gs)
  show ?case
  proof (cases "n \<le> 0")
    case True
    with Cons.prems show ?thesis by (simp add: takes_gpu_def)
  next
    case False
    show ?thesis
    proof (cases i)
      case 0
      with False Cons.prems show ?thesis by (auto simp: takes_gpu_def rbind_eq_Ok split: if_splits)
    next
      case (Suc j)
      define n' where "n' = (if is_free g then n - 1 else n)"
      have takes: "takes_gpu n (g # gs) (Suc j) = takes_gpu n' gs j"
        by (auto simp: takes_gpu_def n'_def)
      obtain gs1 where "allocate_loop K pod m s n' gs = Ok gs1" and "gs' ! Suc j = gs1 ! j"
        using Cons.prems(1) False by (auto simp: n'_def rbind_eq_Ok split: if_splits)
      with Cons.IH [of n' gs1 j] Cons.prems(2) Suc show ?thesis by (simp add: takes)
    qed
  qed
qed

lemma allocate_gpu_owner:
  assumes "allocate_gpu K pod m s g = Ok g'"
  shows "AllocatedBy (Status g') = container_details pod (c_Name (hd (p_Containers pod)))"
    and "isGpuOccupiedByPod pod g'" and "ID g' = ID g"
  using assms by (cases "PodGpuUsageStatus (Status g)";
      auto simp: allocate_gpu_def container_details_def isGpuOccupiedByPod_def Let_def split: if_splits)+

lemma allocate_gpu_usage:
  assumes "allocate_gpu K pod m s g = Ok g'"
  shows "usage_of g' = (if IsGpuReservationPod K pod then usage_of g else (usage_of g)(p_UID pod \<mapsto> calculateUsage K pod m s))"
  using assms by (cases "PodGpuUsageStatus (Status g)")
    (auto simp: allocate_gpu_def usage_of_def Let_def split: if_splits)

text \<open>How many free GPUs are left.\<close>

lemma allocate_loop_free:
  assumes "allocate_loop K pod m s n gs = Ok gs'" and "p_Name pod \<noteq> []"
  shows "length (filter is_free gs') = length (filter is_free gs) - nat n"
  using assms
proof (induction gs arbitrary: n gs')
  case Nil
  then show ?case by simp
next
  case (Cons g gs)
  show ?case
  proof (cases "n \<le> 0")
    case True
    with Cons.prems show ?thesis by simp
  next
    case False
    show ?thesis
    proof (cases "is_free g")
      case True
      with False Cons.prems obtain g' gs1 where g': "allocate_gpu K pod m s g = Ok g'"
          and gs1: "allocate_loop K pod m s (n - 1) gs = Ok gs1" and "gs' = g' # gs1"
        by (auto simp: rbind_eq_Ok)
      moreover have "\<not> is_free g'"
        using allocate_gpu_owner(1) [OF g'] Cons.prems(2) by (simp add: is_free_def container_details_def)
      ultimately show ?thesis using Cons.IH [OF gs1 Cons.prems(2)] True False by simp
    next
      case nf: False
      with False Cons.prems obtain gs1 where gs1: "allocate_loop K pod m s n gs = Ok gs1" and "gs' = g # gs1"
        by (auto simp: rbind_eq_Ok)
      with Cons.IH [OF gs1 Cons.prems(2)] nf show ?thesis by simp
    qed
  qed
qed

section \<open>The three handlers meet the contract\<close>

lemma IsDedicated_simps [simp]:
  "IsDedicatedGpuPod K pod \<noteq> Err e"
  "p_Containers pod \<noteq> [] \<Longrightarrow> IsDedicatedGpuPod K pod \<noteq> Panic q"
  by (auto simp: IsDedicatedGpuPod_def split: list.splits)

lemma dedicated_add_Ok:
  assumes "fst (handleDedicatedGpuPodAddition K pod nt s) = Ok nt'"
  shows "nt' = nt \<or> (\<exists>gs. allocate_loop K pod (GpuMemory nt) s (q_value K (gpu_limit K (hd (p_Containers pod)))) (Gpus nt) = Ok gs
      \<and> nt' = nt\<lparr>Gpus := gs\<rparr>)"
  using assms unfolding handleDedicatedGpuPodAddition_def
  by (cases "IsDedicatedGpuPod K pod")
    (auto simp: Let_def rbind_eq_Ok sbind_def split: if_splits res.splits prod.splits)

text \<open>The reservation step never panics, and leaves the topology alone.\<close>

lemma wrap_err_not_panic [simp]: "is_panic (wrap_err m r) = is_panic r"
  by (cases r) simp_all

lemma is_panic_of_sum [simp]: "\<not> is_panic (of_sum r)"
  by (cases r) simp_all

lemma reservation_no_panic: "\<not> is_panic (fst (handleGpuReservationPodAddition K pod nt s))"
  by (auto simp: handleGpuReservationPodAddition_def setReservationPodGpuIdxAnnotationIfNeeded_def findPodGpuID_def
      Let_def split: option.splits prod.splits)

lemma reservation_other [simp]: "\<not> IsGpuReservationPod K pod \<Longrightarrow> handleGpuReservationPodAddition K pod nt s = (Ok (), s)"
  by (simp add: handleGpuReservationPodAddition_def)

lemma dedicated_add_no_panic:
  assumes "p_Containers pod \<noteq> []" and "maps_made nt"
  shows "\<not> is_panic (fst (handleDedicatedGpuPodAddition K pod nt s))"
proof -
  obtain gs where "allocate_loop K pod (GpuMemory nt) s (q_value K (gpu_limit K (hd (p_Containers pod)))) (Gpus nt) = Ok gs"
    using allocate_loop_made [OF assms(2) [unfolded maps_made_def]] by metis
  moreover have "\<not> is_panic (rbind (wrap_err m (fst (handleGpuReservationPodAddition K pod n s))) (\<lambda>_. Ok n))" for m n
    using reservation_no_panic [of K pod n s] by (cases "fst (handleGpuReservationPodAddition K pod n s)") simp_all
  ultimately show ?thesis using assms(1)
    by (cases "IsDedicatedGpuPod K pod") (simp_all add: handleDedicatedGpuPodAddition_def Let_def split_def)
qed

lemma dedicated_add_made:
  assumes "maps_made nt" and "fst (handleDedicatedGpuPodAddition K pod nt s) = Ok nt'"
  shows "maps_made nt'"
  using dedicated_add_Ok [OF assms(2)]
    allocate_loop_made [OF assms(1) [unfolded maps_made_def], of K pod "GpuMemory nt" s
      "q_value K (gpu_limit K (hd (p_Containers pod)))"] assms(1)
  by (auto simp: maps_made_def)

interpretation ded_add: safe_pod_op "\<lambda>pod nt. fst (handleDedicatedGpuPodAddition K pod nt s)"
proof
  fix pod :: "'a Pod" and nt nt'
  assume "fst (handleDedicatedGpuPodAddition K pod nt s) = Ok nt'"
  from dedicated_add_Ok [OF this] show "nt_kept pod nt nt'"
    by (auto intro: nt_kept_gpus allocate_loop_kept)
qed (fact dedicated_add_no_panic dedicated_add_made)+

lemma dedicated_update_Ok:
  assumes "handleDedicatedGpuPodUpdate K pod nt s = Ok nt'"
  shows "nt' = nt \<or> (\<exists>gs. mapM_res (\<lambda>g. if isGpuOccupiedByPod pod g \<and> \<not> IsGpuReservationPod K pod
      then set_usage_of K pod (GpuMemory nt) s g else Ok g) (Gpus nt) = Ok gs \<and> nt' = nt\<lparr>Gpus := gs\<rparr>)"
  using assms by (cases "IsDedicatedGpuPod K pod")
    (auto simp: handleDedicatedGpuPodUpdate_def rbind_eq_Ok split: if_splits)

interpretation ded_update: safe_pod_op "\<lambda>pod nt. handleDedicatedGpuPodUpdate K pod nt s"
proof
  fix pod :: "'a Pod" and nt nt'
  assume "handleDedicatedGpuPodUpdate K pod nt s = Ok nt'"
  then show "nt_kept pod nt nt'"
    using dedicated_update_Ok
    by (force intro: nt_kept_mapM_res gpu_kept_set_usage split: if_splits)
next
  fix pod :: "'a Pod" and nt
  assume "p_Containers pod \<noteq> []" and m: "maps_made nt"
  moreover have "is_ok (mapM_res (\<lambda>g. if isGpuOccupiedByPod pod g \<and> \<not> IsGpuReservationPod K pod
      then set_usage_of K pod (GpuMemory nt) s g else Ok g) (Gpus nt))"
    by (rule mapM_res_panic) (use m in \<open>auto simp: maps_made_def list_all_iff intro: set_usage_of_made(1)\<close>)
  ultimately show "\<not> is_panic (handleDedicatedGpuPodUpdate K pod nt s)"
    by (cases "IsDedicatedGpuPod K pod")
      (auto simp: handleDedicatedGpuPodUpdate_def is_ok_iff)
next
  fix pod :: "'a Pod" and nt nt'
  assume m: "maps_made nt" and "handleDedicatedGpuPodUpdate K pod nt s = Ok nt'"
  from dedicated_update_Ok [OF this(2)] show "maps_made nt'"
  proof (elim disjE exE conjE)
    fix gs
    assume gs: "mapM_res (\<lambda>g. if isGpuOccupiedByPod pod g \<and> \<not> IsGpuReservationPod K pod
        then set_usage_of K pod (GpuMemory nt) s g else Ok g) (Gpus nt) = Ok gs" and nt': "nt' = nt\<lparr>Gpus := gs\<rparr>"
    have "list_all (\<lambda>g. PodGpuUsageStatus (Status g) \<noteq> None) gs"
      by (rule mapM_res_all [OF gs m [unfolded maps_made_def]]) (metis res.inject(1) set_usage_of_made(2))
    with nt' show ?thesis by (simp add: maps_made_def)
  qed (use m in simp)
qed

lemma gpu_kept_release: "isGpuOccupiedByPod pod g \<Longrightarrow> gpu_kept pod g (g\<lparr>Status := zero_status\<rparr>)"
  by (rule gpu_kept_not_foreign) (auto simp: foreign_def owned_by_def isGpuOccupiedByPod_def)

interpretation ded_delete: pod_op "handleDedicatedGpuPodDeletion K"
proof
  fix pod :: "'b Pod" and nt nt'
  assume "handleDedicatedGpuPodDeletion K pod nt = Ok nt'"
  then show "nt_kept pod nt nt'"
    by (auto simp: handleDedicatedGpuPodDeletion_def rbind_eq_Ok gpu_kept_release intro!: nt_kept_map split: if_splits)
qed

end
