(* ===== verification/PodShared.thy ===== *)
theory PodShared
  imports PodDedicated
begin

text \<open>
  \<^verbatim>\<open>handlers/pod/shared_gpu_pod_handler.go\<close>: a pod that shares a GPU has a reservation pod
  that holds the whole GPU; the usage record of the pod is kept on the GPU of its reservation pod.
\<close>

section \<open>The reservation pod of a shared pod\<close>

definition annotation_or_empty :: "(string \<rightharpoonup> string) \<Rightarrow> string \<Rightarrow> string" where
  "annotation_or_empty m k = (case m k of None \<Rightarrow> [] | Some v \<Rightarrow> v)"

definition getNodeReservationPods :: "('s, 'q, 'y) kube_env \<Rightarrow> string \<Rightarrow> 's \<Rightarrow> 'q Pod list res" where
  "getNodeReservationPods K nodeName s = of_sum (pod_list K (ResourceReservationNamespace K) nodeName s)"

definition getMatchingReservationPodNameByRunaiGpuAnnotation ::
    "('s, 'q, 'y) kube_env \<Rightarrow> 'q Pod \<Rightarrow> 's \<Rightarrow> string res" where
  "getMatchingReservationPodNameByRunaiGpuAnnotation K pod s =
     (let runaiGpu = annotation_or_empty (p_Annotations pod) AnnotationGpuIdx
      in if runaiGpu = [] then Err (Msg ''pod has empty runai-gpu annotation'')
         else case atoi runaiGpu of
                None \<Rightarrow> Err (Msg ''Atoi'')
              | Some gpuIdx \<Rightarrow>
                  rbind (getNodeReservationPods K (p_NodeName pod) s) (\<lambda>pods.
                    case find (\<lambda>p. annotation_or_empty (p_Annotations p) AnnotationReservationPodGpuIdx = runaiGpu) pods of
                      Some p \<Rightarrow> Ok (p_Name p)
                    | None \<Rightarrow> Err (Msg ''no reservation pod found for gpu'')))"

definition getMatchingReservationPodNameByRunaiGpuGroupLabel ::
    "('s, 'q, 'y) kube_env \<Rightarrow> 'q Pod \<Rightarrow> 's \<Rightarrow> string res" where
  "getMatchingReservationPodNameByRunaiGpuGroupLabel K pod s =
     (let runaiGpuGroup = annotation_or_empty (p_Labels pod) LabelGpuGroup
      in if runaiGpuGroup = [] then Err (Msg ''pod has empty runai-gpu-group label'')
         else rbind (getNodeReservationPods K (p_NodeName pod) s) (\<lambda>pods.
                case find (\<lambda>p. annotation_or_empty (p_Labels p) LabelGpuGroup = runaiGpuGroup) pods of
                  Some p \<Rightarrow> Ok (p_Name p)
                | None \<Rightarrow> Err (Msg ''no reservation pod found for gpu group'')))"

definition getMatchingReservationPodName :: "('s, 'q, 'y) kube_env \<Rightarrow> 'q Pod \<Rightarrow> 's \<Rightarrow> string res" where
  "getMatchingReservationPodName K pod s =
     (case getMatchingReservationPodNameByRunaiGpuAnnotation K pod s of
        Ok n \<Rightarrow> Ok n
      | Panic p \<Rightarrow> Panic p
      | Err e1 \<Rightarrow>
          (case getMatchingReservationPodNameByRunaiGpuGroupLabel K pod s of
             Ok n \<Rightarrow> Ok n
           | Panic p \<Rightarrow> Panic p
           | Err e2 \<Rightarrow> Err (MultiErr [''failed to find reservation pod by runai-gpu annotation'',
                                        ''failed to find reservation pod by runai-gpu-group label''])))"

text \<open>The first GPU held by a pod of that name; \<open>-1\<close>, without an error, for the empty name.\<close>

definition getMatchingReservationPodGpuIdx ::
    "('s, 'q, 'y) kube_env \<Rightarrow> 'q Pod \<Rightarrow> NodeTopology \<Rightarrow> 's \<Rightarrow> int res" where
  "getMatchingReservationPodGpuIdx K pod nt s =
     rbind (getMatchingReservationPodName K pod s) (\<lambda>name.
       if name = [] then Ok (-1)
       else let i = first_index (\<lambda>g. cd_Pod (AllocatedBy (Status g)) = name) (Gpus nt)
            in if i = -1 then Err (Msg ''could not find reservation pod in node topology'') else Ok i)"

section \<open>The handlers\<close>

text \<open>An assignment to a part of \<^verbatim>\<open>nodeTopology.Gpus[i]\<close>.\<close>

definition at_gpu :: "NodeTopology \<Rightarrow> int \<Rightarrow> (GpuDetails \<Rightarrow> GpuDetails res) \<Rightarrow> NodeTopology res" where
  "at_gpu nt i f =
     (if i < 0 \<or> int (length (Gpus nt)) \<le> i then Panic IndexOutOfRange
      else rbind (f (Gpus nt ! nat i)) (\<lambda>g. Ok (nt\<lparr>Gpus := (Gpus nt)[nat i := g]\<rparr>)))"

definition calculateAndSetPodGpuUsageStatus ::
    "('s, 'q, 'y) kube_env \<Rightarrow> 'q Pod \<Rightarrow> NodeTopology \<Rightarrow> 's \<Rightarrow> NodeTopology res" where
  "calculateAndSetPodGpuUsageStatus K pod nt s =
     rbind (getMatchingReservationPodGpuIdx K pod nt s) (\<lambda>i. at_gpu nt i (set_usage_of K pod (GpuMemory nt) s))"

definition handleSharedGpuPodAddition ::
    "('s, 'q, 'y) kube_env \<Rightarrow> 'q Pod \<Rightarrow> NodeTopology \<Rightarrow> 's \<Rightarrow> NodeTopology res" where
  "handleSharedGpuPodAddition K pod nt s =
     (if \<not> IsSharedGpuPod K pod then Ok nt else calculateAndSetPodGpuUsageStatus K pod nt s)"

definition handleSharedGpuPodUpdate ::
    "('s, 'q, 'y) kube_env \<Rightarrow> 'q Pod \<Rightarrow> NodeTopology \<Rightarrow> 's \<Rightarrow> NodeTopology res" where
  "handleSharedGpuPodUpdate K pod nt s =
     (if \<not> IsSharedGpuPod K pod then Ok nt else calculateAndSetPodGpuUsageStatus K pod nt s)"

definition delete_usage_of :: "'q Pod \<Rightarrow> GpuDetails \<Rightarrow> GpuDetails" where
  "delete_usage_of pod g =
     g\<lparr>Status := Status g\<lparr>PodGpuUsageStatus := usage_delete (PodGpuUsageStatus (Status g)) (p_UID pod)\<rparr>\<rparr>"

definition handleSharedGpuPodDeletion ::
    "('s, 'q, 'y) kube_env \<Rightarrow> 'q Pod \<Rightarrow> NodeTopology \<Rightarrow> 's \<Rightarrow> NodeTopology res" where
  "handleSharedGpuPodDeletion K pod nt s =
     (if \<not> IsSharedGpuPod K pod then Ok nt
      else rbind (getMatchingReservationPodGpuIdx K pod nt s) (\<lambda>i. at_gpu nt i (\<lambda>g. Ok (delete_usage_of pod g))))"

section \<open>The contract\<close>

lemma at_gpu_kept:
  assumes "at_gpu nt i f = Ok nt'" and "\<And>g g'. f g = Ok g' \<Longrightarrow> gpu_kept pod g g'"
  shows "nt_kept pod nt nt'"
  using assms by (auto simp: at_gpu_def rbind_eq_Ok intro!: nt_kept_update_gpu split: if_splits)

lemma at_gpu_made:
  assumes "maps_made nt" and "at_gpu nt i f = Ok nt'"
    and "\<And>g g'. PodGpuUsageStatus (Status g) \<noteq> None \<Longrightarrow> f g = Ok g' \<Longrightarrow> PodGpuUsageStatus (Status g') \<noteq> None"
  shows "maps_made nt'"
  using assms(1,2) assms(3) [of "Gpus nt ! nat i"]
  by (auto simp: at_gpu_def maps_made_def rbind_eq_Ok list_all_length nth_list_update split: if_splits)

lemma gpu_kept_delete_usage: "gpu_kept pod g (delete_usage_of pod g)"
  by (simp add: gpu_kept_def delete_usage_of_def usage_of_def usage_delete_lookup)

lemma shared_set_kept: "calculateAndSetPodGpuUsageStatus K pod nt s = Ok nt' \<Longrightarrow> nt_kept pod nt nt'"
  unfolding calculateAndSetPodGpuUsageStatus_def by (auto simp: rbind_eq_Ok intro: at_gpu_kept gpu_kept_set_usage)

interpretation sh_add: pod_op "\<lambda>pod nt. handleSharedGpuPodAddition K pod nt s"
  by unfold_locales (auto simp: handleSharedGpuPodAddition_def intro: shared_set_kept split: if_splits)

interpretation sh_update: pod_op "\<lambda>pod nt. handleSharedGpuPodUpdate K pod nt s"
  by unfold_locales (auto simp: handleSharedGpuPodUpdate_def intro: shared_set_kept split: if_splits)

interpretation sh_delete: pod_op "\<lambda>pod nt. handleSharedGpuPodDeletion K pod nt s"
  by unfold_locales
    (auto simp: handleSharedGpuPodDeletion_def rbind_eq_Ok gpu_kept_delete_usage intro: at_gpu_kept split: if_splits)

text \<open>
  The API gives every pod a name.  Under it the index found is in range, so that no routine panics.
\<close>

definition names_ok :: "('s, 'q, 'y) kube_env \<Rightarrow> 's \<Rightarrow> bool" where
  "names_ok K s \<longleftrightarrow> (\<forall>ns node ps. pod_list K ns node s = Inr ps \<longrightarrow> list_all (\<lambda>p. p_Name p \<noteq> []) ps)"

lemma find_SomeD: "find P xs = Some x \<Longrightarrow> x \<in> set xs \<and> P x"
  by (induction xs) (auto split: if_splits)

lemma reservation_name_not_empty:
  assumes "names_ok K s" and "getMatchingReservationPodName K pod s = Ok n"
  shows "n \<noteq> []"
proof -
  have *: "p_Name p \<noteq> []" if "getNodeReservationPods K node s = Ok ps" and "find P ps = Some p" for node ps P p
    using assms(1) find_SomeD [OF that(2)] that(1) by (auto simp: getNodeReservationPods_def names_ok_def list_all_iff)
  show ?thesis using assms(2) *
    by (fastforce simp: getMatchingReservationPodName_def getMatchingReservationPodNameByRunaiGpuAnnotation_def
        getMatchingReservationPodNameByRunaiGpuGroupLabel_def Let_def rbind_eq_Ok split: res.splits if_splits option.splits)
qed

lemma reservation_name_no_panic: "getMatchingReservationPodName K pod s \<noteq> Panic q"
proof -
  have "getNodeReservationPods K node s \<noteq> Panic r" for node r by (simp add: getNodeReservationPods_def)
  then have "getMatchingReservationPodNameByRunaiGpuAnnotation K pod s \<noteq> Panic r"
    "getMatchingReservationPodNameByRunaiGpuGroupLabel K pod s \<noteq> Panic r" for r
    by (cases "getNodeReservationPods K (p_NodeName pod) s";
        simp add: getMatchingReservationPodNameByRunaiGpuAnnotation_def
          getMatchingReservationPodNameByRunaiGpuGroupLabel_def Let_def split: option.splits)+
  then show ?thesis by (auto simp: getMatchingReservationPodName_def split: res.splits)
qed

lemma reservation_idx_in_range:
  assumes "names_ok K s" and "getMatchingReservationPodGpuIdx K pod nt s = Ok i"
  shows "0 \<le> i \<and> i < int (length (Gpus nt))"
proof -
  obtain n where "getMatchingReservationPodName K pod s = Ok n"
      and i: "(if n = [] then Ok (-1) else let i = first_index (\<lambda>g. cd_Pod (AllocatedBy (Status g)) = n) (Gpus nt)
             in if i = -1 then Err (Msg ''could not find reservation pod in node topology'') else Ok i) = Ok i"
    using assms(2) by (auto simp: getMatchingReservationPodGpuIdx_def rbind_eq_Ok)
  then have "n \<noteq> []" using reservation_name_not_empty [OF assms(1)] by blast
  with i show ?thesis
    using first_index_props [of "\<lambda>g. cd_Pod (AllocatedBy (Status g)) = n" "Gpus nt"]
    by (auto simp: Let_def split: if_splits)
qed

lemma reservation_idx_no_panic: "getMatchingReservationPodGpuIdx K pod nt s \<noteq> Panic q"
  using reservation_name_no_panic [of K pod s]
  by (cases "getMatchingReservationPodName K pod s") (simp_all add: getMatchingReservationPodGpuIdx_def Let_def)

lemma at_idx_no_panic:
  assumes "names_ok K s" and "maps_made nt"
    and "\<And>g. PodGpuUsageStatus (Status g) \<noteq> None \<Longrightarrow> is_ok (f g)"
  shows "\<not> is_panic (rbind (getMatchingReservationPodGpuIdx K pod nt s) (\<lambda>i. at_gpu nt i f))"
proof (cases "getMatchingReservationPodGpuIdx K pod nt s")
  case (Ok i)
  with reservation_idx_in_range [OF assms(1) Ok] assms(2) assms(3) [of "Gpus nt ! nat i"] show ?thesis
    by (auto simp: at_gpu_def maps_made_def list_all_length is_ok_iff)
qed (simp_all add: reservation_idx_no_panic)

lemma shared_set_no_panic:
  assumes "names_ok K s" and "maps_made nt"
  shows "\<not> is_panic (calculateAndSetPodGpuUsageStatus K pod nt s)"
  unfolding calculateAndSetPodGpuUsageStatus_def
  by (rule at_idx_no_panic [OF assms]) (rule set_usage_of_made(1))

lemma shared_set_made:
  assumes "maps_made nt" and "calculateAndSetPodGpuUsageStatus K pod nt s = Ok nt'"
  shows "maps_made nt'"
proof -
  from assms(2) obtain i where "at_gpu nt i (set_usage_of K pod (GpuMemory nt) s) = Ok nt'"
    by (auto simp: calculateAndSetPodGpuUsageStatus_def rbind_eq_Ok)
  then show ?thesis by (rule at_gpu_made [OF assms(1)]) (rule set_usage_of_made(2))
qed

lemma shared_add_safe: "names_ok K s \<Longrightarrow> safe_pod_op (\<lambda>pod nt. handleSharedGpuPodAddition K pod nt s)"
  by unfold_locales
    (auto simp: handleSharedGpuPodAddition_def shared_set_no_panic intro: shared_set_made split: if_splits)

lemma shared_update_safe: "names_ok K s \<Longrightarrow> safe_pod_op (\<lambda>pod nt. handleSharedGpuPodUpdate K pod nt s)"
  by unfold_locales
    (auto simp: handleSharedGpuPodUpdate_def shared_set_no_panic intro: shared_set_made split: if_splits)

text \<open>Deletion does not need made maps: \<^verbatim>\<open>delete\<close> on the nil map does nothing.\<close>

lemma shared_delete_no_panic:
  assumes "names_ok K s"
  shows "\<not> is_panic (handleSharedGpuPodDeletion K pod nt s)"
proof (cases "getMatchingReservationPodGpuIdx K pod nt s")
  case (Ok i)
  with reservation_idx_in_range [OF assms Ok] show ?thesis
    by (auto simp: handleSharedGpuPodDeletion_def at_gpu_def)
qed (simp_all add: handleSharedGpuPodDeletion_def reservation_idx_no_panic)

end
