(* ===== verification/PodDra.thy ===== *)
theory PodDra
  imports PodShared
begin

text \<open>
  \<^verbatim>\<open>handlers/pod/dra_gpu_pod_handler.go\<close>: a pod that gets its GPUs through resource claims
  holds the GPUs its claims' allocations name.
\<close>

definition draDriverName :: string where "draDriverName = ''gpu.nvidia.com''"

section \<open>The devices of a pod\<close>

text \<open>The names in order of first mention, each once: first the generated claims, then the direct ones.\<close>

fun collect_names :: "string list \<Rightarrow> (string \<times> string option) list \<Rightarrow> string list" where
  "collect_names acc [] = acc"
| "collect_names acc ((k, None) # rest) = collect_names acc rest"
| "collect_names acc ((k, Some n) # rest) =
     (if n \<noteq> [] \<and> n \<notin> set acc then collect_names (acc @ [n]) rest else collect_names acc rest)"

definition getResourceClaimNamesFromPod :: "'q Pod \<Rightarrow> string list" where
  "getResourceClaimNamesFromPod pod =
     collect_names (collect_names [] (p_ResourceClaimStatuses pod)) (p_ResourceClaims pod)"

definition getDevicesFromClaim :: "AllocResult list option \<Rightarrow> string list" where
  "getDevicesFromClaim alloc =
     (case alloc of None \<Rightarrow> [] | Some rs \<Rightarrow> map ar_Device (filter (\<lambda>r. ar_Driver r = draDriverName) rs))"

fun device_names_loop :: "('s, 'q, 'y) kube_env \<Rightarrow> string \<Rightarrow> 's \<Rightarrow> string list \<Rightarrow> string list res" where
  "device_names_loop K ns s [] = Ok []"
| "device_names_loop K ns s (c # cs) =
     rbind (wrap_err ''failed to get ResourceClaim'' (of_sum (claim_get K ns c s))) (\<lambda>claim.
       rbind (device_names_loop K ns s cs) (\<lambda>rest. Ok (getDevicesFromClaim claim @ rest)))"

definition getDeviceNamesFromClaims :: "('s, 'q, 'y) kube_env \<Rightarrow> 'q Pod \<Rightarrow> 's \<Rightarrow> string list res" where
  "getDeviceNamesFromClaims K pod s = device_names_loop K (p_Namespace pod) s (getResourceClaimNamesFromPod pod)"

definition findGpuIndexByID :: "NodeTopology \<Rightarrow> string \<Rightarrow> int" where
  "findGpuIndexByID nt gpuID = first_index (\<lambda>g. equal_fold (ID g) gpuID) (Gpus nt)"

definition isDraAlreadyAllocated :: "'q Pod \<Rightarrow> NodeTopology \<Rightarrow> bool" where
  "isDraAlreadyAllocated pod nt \<longleftrightarrow> list_ex (owned_by pod) (Gpus nt)"

definition getContainerWithClaim :: "'q Pod \<Rightarrow> string" where
  "getContainerWithClaim pod =
     (case find (\<lambda>c. c_Claims c \<noteq> []) (p_Containers pod) of
        Some c \<Rightarrow> c_Name c
      | None \<Rightarrow> (case p_Containers pod of [] \<Rightarrow> [] | c # _ \<Rightarrow> c_Name c))"

section \<open>The handlers\<close>

text \<open>The usage record set on a GPU whose map is made first when it is nil.\<close>

definition put_usage :: "('s, 'q, 'y) kube_env \<Rightarrow> 'q Pod \<Rightarrow> int \<Rightarrow> 's \<Rightarrow> GpuDetails \<Rightarrow> GpuDetails" where
  "put_usage K pod memory s g =
     g\<lparr>Status := Status g\<lparr>PodGpuUsageStatus := Some ((usage_of g)(p_UID pod \<mapsto> calculateUsage K pod memory s))\<rparr>\<rparr>"

definition dra_allocate_gpu :: "('s, 'q, 'y) kube_env \<Rightarrow> 'q Pod \<Rightarrow> int \<Rightarrow> 's \<Rightarrow> GpuDetails \<Rightarrow> GpuDetails" where
  "dra_allocate_gpu K pod memory s g =
     put_usage K pod memory s
       (g\<lparr>Status := Status g\<lparr>AllocatedBy := container_details pod (getContainerWithClaim pod)\<rparr>\<rparr>)"

text \<open>One device name: an unknown device and a GPU that is not free are skipped.\<close>

definition dra_allocate_device ::
    "('s, 'q, 'y) kube_env \<Rightarrow> 'q Pod \<Rightarrow> 's \<Rightarrow> NodeTopology \<Rightarrow> string \<Rightarrow> NodeTopology" where
  "dra_allocate_device K pod s nt device =
     (let i = findGpuIndexByID nt device
      in if i = -1 then nt
         else if is_free (Gpus nt ! nat i)
              then nt\<lparr>Gpus := (Gpus nt)[nat i := dra_allocate_gpu K pod (GpuMemory nt) s (Gpus nt ! nat i)]\<rparr>
              else nt)"

definition dra_allocate ::
    "('s, 'q, 'y) kube_env \<Rightarrow> 'q Pod \<Rightarrow> 's \<Rightarrow> NodeTopology \<Rightarrow> string list \<Rightarrow> NodeTopology" where
  "dra_allocate K pod s nt devices = foldl (dra_allocate_device K pod s) nt devices"

definition handleDraGpuPodAddition ::
    "('s, 'q, 'y) kube_env \<Rightarrow> 'q Pod \<Rightarrow> NodeTopology \<Rightarrow> 's \<Rightarrow> NodeTopology res" where
  "handleDraGpuPodAddition K pod nt s =
     (if \<not> IsDraPod pod then Ok nt
      else if isDraAlreadyAllocated pod nt then Ok nt
      else rbind (wrap_err ''failed to get device names from claims'' (getDeviceNamesFromClaims K pod s)) (\<lambda>devices.
             if devices = [] then Ok nt else Ok (dra_allocate K pod s nt devices)))"

definition handleDraGpuPodUpdate ::
    "('s, 'q, 'y) kube_env \<Rightarrow> 'q Pod \<Rightarrow> NodeTopology \<Rightarrow> 's \<Rightarrow> NodeTopology res" where
  "handleDraGpuPodUpdate K pod nt s =
     (if \<not> IsDraPod pod then Ok nt
      else if \<not> isDraAlreadyAllocated pod nt then
        rbind (wrap_err ''failed to get device names from claims'' (getDeviceNamesFromClaims K pod s)) (\<lambda>devices.
          if devices \<noteq> [] then Ok (dra_allocate K pod s nt devices) else Ok nt)
      else Ok (nt\<lparr>Gpus := map (\<lambda>g. if owned_by pod g then put_usage K pod (GpuMemory nt) s g else g) (Gpus nt)\<rparr>))"

definition handleDraGpuPodDeletion :: "'q Pod \<Rightarrow> NodeTopology \<Rightarrow> NodeTopology" where
  "handleDraGpuPodDeletion pod nt =
     (if \<not> IsDraPod pod then nt
      else nt\<lparr>Gpus := map (\<lambda>g. if owned_by pod g then g\<lparr>Status := zero_status\<rparr> else g) (Gpus nt)\<rparr>)"

section \<open>Claim names\<close>

lemma collect_names_props:
  assumes "distinct acc"
  shows "distinct (collect_names acc xs)"
    and "set (collect_names acc xs) = set acc \<union> {n. n \<noteq> [] \<and> Some n \<in> snd ` set xs}"
    and "prefix acc (collect_names acc xs)"
  using assms by (induction acc xs rule: collect_names.induct) (auto simp: image_iff prefix_def)

section \<open>The contract\<close>

lemma put_usage_kept: "gpu_kept pod g (put_usage K pod m s g)"
  by (simp add: put_usage_def gpu_kept_usage)

lemma dra_allocate_gpu_kept: "is_free g \<Longrightarrow> gpu_kept pod g (dra_allocate_gpu K pod m s g)"
  by (rule gpu_kept_not_foreign) (simp_all add: foreign_def dra_allocate_gpu_def put_usage_def)

lemma findGpuIndexByID_range:
  assumes "findGpuIndexByID nt d \<noteq> -1"
  shows "0 \<le> findGpuIndexByID nt d \<and> nat (findGpuIndexByID nt d) < length (Gpus nt) \<and>
    equal_fold (ID (Gpus nt ! nat (findGpuIndexByID nt d))) d"
  using first_index_props assms unfolding findGpuIndexByID_def by blast

lemma dra_allocate_device_kept: "nt_kept pod nt (dra_allocate_device K pod s nt d)"
  using findGpuIndexByID_range [of nt d]
  by (auto simp: dra_allocate_device_def Let_def intro!: nt_kept_update_gpu dra_allocate_gpu_kept)

lemma dra_allocate_kept: "nt_kept pod nt (dra_allocate K pod s nt ds)"
proof (induction ds arbitrary: nt)
  case Nil
  show ?case by (simp add: dra_allocate_def)
next
  case (Cons d ds)
  from nt_kept_trans [OF dra_allocate_device_kept Cons.IH] show ?case by (simp add: dra_allocate_def)
qed

lemma dra_allocate_device_made: "maps_made nt \<Longrightarrow> maps_made (dra_allocate_device K pod s nt d)"
  by (auto simp: dra_allocate_device_def Let_def intro!: maps_made_update)
    (simp add: dra_allocate_gpu_def put_usage_def)

lemma dra_allocate_made: "maps_made nt \<Longrightarrow> maps_made (dra_allocate K pod s nt ds)"
  by (induction ds arbitrary: nt) (simp_all add: dra_allocate_def dra_allocate_device_made)

lemma device_names_no_panic: "device_names_loop K ns s cs \<noteq> Panic q"
proof (induction cs)
  case Nil
  show ?case by simp
next
  case (Cons c cs)
  then show ?case by (cases "claim_get K ns c s"; cases "device_names_loop K ns s cs") simp_all
qed

lemma dra_release_kept: "owned_by pod g \<Longrightarrow> gpu_kept pod g (g\<lparr>Status := zero_status\<rparr>)"
  by (rule gpu_kept_not_foreign) (simp_all add: foreign_def)

interpretation dra_add: safe_pod_op "\<lambda>pod nt. handleDraGpuPodAddition K pod nt s"
proof
  fix pod nt nt'
  assume "handleDraGpuPodAddition K pod nt s = Ok nt'"
  then show "nt_kept pod nt nt'"
    by (auto simp: handleDraGpuPodAddition_def rbind_eq_Ok dra_allocate_kept split: if_splits)
next
  fix pod nt
  show "\<not> is_panic (handleDraGpuPodAddition K pod nt s)"
    using device_names_no_panic [of K "p_Namespace pod" s "getResourceClaimNamesFromPod pod"]
    by (cases "getDeviceNamesFromClaims K pod s")
      (simp_all add: handleDraGpuPodAddition_def getDeviceNamesFromClaims_def)
next
  fix pod nt nt'
  assume "maps_made nt" and "handleDraGpuPodAddition K pod nt s = Ok nt'"
  then show "maps_made nt'"
    by (auto simp: handleDraGpuPodAddition_def rbind_eq_Ok dra_allocate_made split: if_splits)
qed

interpretation dra_update: safe_pod_op "\<lambda>pod nt. handleDraGpuPodUpdate K pod nt s"
proof
  fix pod nt nt'
  assume "handleDraGpuPodUpdate K pod nt s = Ok nt'"
  then show "nt_kept pod nt nt'"
    by (auto simp: handleDraGpuPodUpdate_def rbind_eq_Ok dra_allocate_kept put_usage_kept
        intro!: nt_kept_map split: if_splits)
next
  fix pod nt
  show "\<not> is_panic (handleDraGpuPodUpdate K pod nt s)"
    using device_names_no_panic [of K "p_Namespace pod" s "getResourceClaimNamesFromPod pod"]
    by (cases "getDeviceNamesFromClaims K pod s")
      (simp_all add: handleDraGpuPodUpdate_def getDeviceNamesFromClaims_def)
next
  fix pod nt nt'
  assume "maps_made nt" and "handleDraGpuPodUpdate K pod nt s = Ok nt'"
  then show "maps_made nt'"
    by (auto simp: handleDraGpuPodUpdate_def rbind_eq_Ok dra_allocate_made split: if_splits)
      (simp add: maps_made_def list_all_length put_usage_def)
qed

interpretation dra_delete: pod_op "\<lambda>pod nt. Ok (handleDraGpuPodDeletion pod nt)"
  by unfold_locales (auto simp: handleDraGpuPodDeletion_def dra_release_kept intro!: nt_kept_map)

end
