(* ===== verification/PodHandler.thy ===== *)
theory PodHandler
  imports PodDra
begin

text \<open>
  \<^verbatim>\<open>handlers/pod/handler.go\<close> and \<^verbatim>\<open>controllers/pod/controller.go\<close>: a pod event reads the
  topology of the pod's node, runs the dedicated, shared and DRA routines on it in that order and
  writes it back.  The controller filters the events, runs them one after the other and logs errors.
\<close>

section \<open>handler.go\<close>

definition HandleAdd :: "('s, 'q, 'y) kube_env \<Rightarrow> 'q Pod \<Rightarrow> 's \<Rightarrow> unit res \<times> 's" where
  "HandleAdd K pod s =
     sbind (wrap_err ''could not get node topology'' (GetNodeTopologyFromCM K (p_NodeName pod) s), s) (\<lambda>nt s.
     sbind (handleDedicatedGpuPodAddition K pod nt s) (\<lambda>nt s.
     sbind (handleSharedGpuPodAddition K pod nt s, s) (\<lambda>nt s.
     sbind (handleDraGpuPodAddition K pod nt s, s) (\<lambda>nt s.
     UpdateNodeTopologyCM K nt (p_NodeName pod) s))))"

definition HandleUpdate :: "('s, 'q, 'y) kube_env \<Rightarrow> 'q Pod \<Rightarrow> 's \<Rightarrow> unit res \<times> 's" where
  "HandleUpdate K pod s =
     sbind (wrap_err ''could not get node topology'' (GetNodeTopologyFromCM K (p_NodeName pod) s), s) (\<lambda>nt s.
     sbind (handleDedicatedGpuPodUpdate K pod nt s, s) (\<lambda>nt s.
     sbind (handleSharedGpuPodUpdate K pod nt s, s) (\<lambda>nt s.
     sbind (handleDraGpuPodUpdate K pod nt s, s) (\<lambda>nt s.
     UpdateNodeTopologyCM K nt (p_NodeName pod) s))))"

definition HandleDelete :: "('s, 'q, 'y) kube_env \<Rightarrow> 'q Pod \<Rightarrow> 's \<Rightarrow> unit res \<times> 's" where
  "HandleDelete K pod s =
     sbind (wrap_err ''could not get node topology'' (GetNodeTopologyFromCM K (p_NodeName pod) s), s) (\<lambda>nt s.
     sbind (handleDedicatedGpuPodDeletion K pod nt, s) (\<lambda>nt s.
     sbind (handleSharedGpuPodDeletion K pod nt s, s) (\<lambda>nt s.
     UpdateNodeTopologyCM K (handleDraGpuPodDeletion pod nt) (p_NodeName pod) s)))"

section \<open>controller.go\<close>

text \<open>The filter, with Go's short-circuit evaluation.\<close>

definition pod_filter :: "('s, 'q, 'y) kube_env \<Rightarrow> 'q Pod \<Rightarrow> bool res" where
  "pod_filter K pod =
     (if \<not> (IsPodScheduled pod \<and> \<not> IsPodTerminated pod) then Ok False
      else rbind (IsDedicatedGpuPod K pod) (\<lambda>ded. Ok (ded \<or> IsSharedGpuPod K pod \<or> IsDraPod pod)))"

text \<open>
  An event of the informer.  \<open>Tombstone\<close> is a deletion whose last state the informer missed: its
  object is not a pod, so the filter drops it.
\<close>

datatype 'q pod_event = Added "'q Pod" | Updated "'q Pod" "'q Pod" | Deleted "'q Pod" | Tombstone

definition logged :: "unit res \<times> 's \<Rightarrow> unit res \<times> 's" where
  "logged r = (case r of (Err e, s) \<Rightarrow> (Ok (), s) | (Ok u, s) \<Rightarrow> (Ok (), s) | (Panic p, s) \<Rightarrow> (Panic p, s))"

text \<open>
  The dispatch of \<^verbatim>\<open>FilteringResourceEventHandler\<close>: an object that starts passing the filter
  is added, one that stops passing it is deleted in its old state.
\<close>

definition dispatch :: "('s, 'q, 'y) kube_env \<Rightarrow> 'q pod_event \<Rightarrow> 's \<Rightarrow> unit res \<times> 's" where
  "dispatch K ev s =
     (case ev of
        Added pod \<Rightarrow> sbind (pod_filter K pod, s) (\<lambda>b s. if b then logged (HandleAdd K pod s) else (Ok (), s))
      | Updated old new \<Rightarrow>
          sbind (pod_filter K new, s) (\<lambda>newer s. sbind (pod_filter K old, s) (\<lambda>older s.
            if newer \<and> older then logged (HandleUpdate K new s)
            else if newer then logged (HandleAdd K new s)
            else if older then logged (HandleDelete K old s)
            else (Ok (), s)))
      | Deleted pod \<Rightarrow> sbind (pod_filter K pod, s) (\<lambda>b s. if b then logged (HandleDelete K pod s) else (Ok (), s))
      | Tombstone \<Rightarrow> (Ok (), s))"

section \<open>One event\<close>

text \<open>
  What a handler does to the store: it either changes no ConfigMap, or it writes one topology, that
  of the pod's node, which keeps what the contract of the routines keeps.
\<close>

definition handles :: "('s, 'q, 'y) kube_env \<Rightarrow> 'q Pod \<Rightarrow> 's \<Rightarrow> unit res \<times> 's \<Rightarrow> bool" where
  "handles K pod s r \<longleftrightarrow>
     (if fst r = Ok () then
        (\<exists>nt nt' s1. GetNodeTopologyFromCM K (p_NodeName pod) s = Ok nt \<and> nt_kept pod nt nt' \<and> same_cms K s s1 \<and>
                     UpdateNodeTopologyCM K nt' (p_NodeName pod) s1 = (Ok (), snd r))
      else same_cms K s (snd r))"

lemma dedicated_add_same_cms:
  assumes "store_ok K"
  shows "same_cms K s (snd (handleDedicatedGpuPodAddition K pod nt s))"
proof -
  have "same_cms K s (snd (handleGpuReservationPodAddition K pod n s))" for n
    using annotate_same_cms [OF assms]
    by (auto simp: handleGpuReservationPodAddition_def setReservationPodGpuIdxAnnotationIfNeeded_def findPodGpuID_def
        Let_def split_def split: option.splits)
  then show ?thesis unfolding handleDedicatedGpuPodAddition_def
    by (cases "IsDedicatedGpuPod K pod";
        cases "allocate_loop K pod (GpuMemory nt) s (q_value K (gpu_limit K (hd (p_Containers pod)))) (Gpus nt)")
      (simp_all add: Let_def split_def)
qed

lemma handles_tail:
  assumes "store_ok K" and "GetNodeTopologyFromCM K (p_NodeName pod) s = Ok nt" and "nt_kept pod nt nt'"
    and "same_cms K s s1"
  shows "handles K pod s (UpdateNodeTopologyCM K nt' (p_NodeName pod) s1)"
proof (cases "fst (UpdateNodeTopologyCM K nt' (p_NodeName pod) s1) = Ok ()")
  case True
  with assms show ?thesis unfolding handles_def by (metis (full_types) prod.collapse)
next
  case False
  with UpdateNodeTopologyCM_Err [OF assms(1) this] assms(4) show ?thesis
    by (auto simp: handles_def intro: same_cms_trans)
qed

lemma handles_stop: "same_cms K s s' \<Longrightarrow> handles K pod s (Err e, s')" "same_cms K s s' \<Longrightarrow> handles K pod s (Panic p, s')"
  by (simp_all add: handles_def)

lemma handles_step:
  assumes "same_cms K s s1" and "\<And>nt'. m = Ok nt' \<Longrightarrow> handles K pod s (f nt' s1)"
  shows "handles K pod s (sbind (m, s1) f)"
  using assms by (cases m) (simp_all add: handles_stop)

lemma HandleAdd_handles:
  assumes "store_ok K"
  shows "handles K pod s (HandleAdd K pod s)"
proof -
  have "handles K pod s (sbind (handleDedicatedGpuPodAddition K pod nt s) (\<lambda>nt s.
     sbind (handleSharedGpuPodAddition K pod nt s, s) (\<lambda>nt s.
     sbind (handleDraGpuPodAddition K pod nt s, s) (\<lambda>nt s. UpdateNodeTopologyCM K nt (p_NodeName pod) s))))"
    if nt: "GetNodeTopologyFromCM K (p_NodeName pod) s = Ok nt" for nt
  proof -
    obtain m s1 where d: "handleDedicatedGpuPodAddition K pod nt s = (m, s1)" by force
    then have s1: "same_cms K s s1" using dedicated_add_same_cms [OF assms, of s pod nt] by simp
    have "m = Ok nt1 \<Longrightarrow> nt_kept pod nt nt1" for nt1 using ded_add.kept [of K pod nt s] d by simp
    with s1 show ?thesis unfolding d
      by (intro handles_step handles_tail [OF assms nt])
        (auto dest: sh_add.then_kept dra_add.then_kept)
  qed
  then show ?thesis unfolding HandleAdd_def by (intro handles_step) simp_all
qed

lemma HandleUpdate_handles:
  assumes "store_ok K"
  shows "handles K pod s (HandleUpdate K pod s)"
  unfolding HandleUpdate_def
  by (intro handles_step same_cms_refl handles_tail [OF assms])
    (auto dest: ded_update.kept sh_update.then_kept dra_update.then_kept)

lemma HandleDelete_handles:
  assumes "store_ok K"
  shows "handles K pod s (HandleDelete K pod s)"
  unfolding HandleDelete_def
  by (intro handles_step same_cms_refl handles_tail [OF assms])
    (auto intro: dra_delete.then_kept dest: ded_delete.kept sh_delete.then_kept)

section \<open>Any number of events\<close>

definition ev_pods :: "'q pod_event \<Rightarrow> 'q Pod set" where
  "ev_pods ev = (case ev of Added p \<Rightarrow> {p} | Updated old new \<Rightarrow> {old, new} | Deleted p \<Rightarrow> {p} | Tombstone \<Rightarrow> {})"

text \<open>
  The states the cluster gets into from \<open>s0\<close> while the controller handles events about pods that
  satisfy \<open>P\<close>, in any order and with any outcome (a panic is followed by a restart), interleaved
  with changes of anything but the ConfigMaps by others.
\<close>

inductive ctl_reach :: "('s, 'q, 'y) kube_env \<Rightarrow> ('q Pod \<Rightarrow> bool) \<Rightarrow> 's \<Rightarrow> 's \<Rightarrow> bool" for K P s0 where
  start: "ctl_reach K P s0 s0"
| event: "ctl_reach K P s0 s \<Longrightarrow> \<forall>p \<in> ev_pods ev. P p \<Longrightarrow> dispatch K ev s = (r, s') \<Longrightarrow> ctl_reach K P s0 s'"
| world: "ctl_reach K P s0 s \<Longrightarrow> same_cms K s s' \<Longrightarrow> ctl_reach K P s0 s'"

inductive_cases ctl_reachE: "ctl_reach K P s0 s"

lemma gpu_kept_norm: "gpu_kept pod g (g\<lparr>Status := norm_status (Status g)\<rparr>)"
  by (simp add: gpu_kept_def usage_of_def norm_status_def)

lemma nt_kept_norm: "nt_kept pod nt (norm_nt nt)"
  unfolding norm_nt_def by (rule nt_kept_map) (rule gpu_kept_norm)

text \<open>What a reader of any node's topology sees of a handler: a topology that keeps what the contract keeps.\<close>

lemma handles_kept:
  assumes K: "store_ok K" "codec_ok K" and h: "handles K pod s r"
    and nt: "GetNodeTopologyFromCM K n s = Ok nt"
  shows "\<exists>nt'. GetNodeTopologyFromCM K n (snd r) = Ok nt' \<and> nt_kept pod nt nt'"
proof (cases "fst r = Ok ()")
  case False
  with h have "same_cms K s (snd r)" by (simp add: handles_def)
  from same_cms_get [OF this] nt show ?thesis by auto
next
  case True
  note store = topo_store_of [OF K]
  from True h obtain nt0 nt1 s1 where g: "GetNodeTopologyFromCM K (p_NodeName pod) s = Ok nt0"
      and k: "nt_kept pod nt0 nt1" and s1: "same_cms K s s1"
      and u: "UpdateNodeTopologyCM K nt1 (p_NodeName pod) s1 = (Ok (), snd r)"
    unfolding handles_def by auto
  show ?thesis
  proof (cases "n = p_NodeName pod")
    case True
    with g nt have "nt0 = nt" by simp
    with topo_store.get_put [OF store u] nt_kept_trans [OF k nt_kept_norm] True show ?thesis by auto
  next
    case False
    with topo_store.get_put_other [OF store u False] same_cms_get [OF s1] nt show ?thesis by auto
  qed
qed

lemma logged_snd [simp]: "snd (logged r) = snd r"
  by (auto simp: logged_def split: prod.splits res.splits)

text \<open>An event runs at most one handler, for a pod of the event.\<close>

definition one_handler :: "('s, 'q, 'y) kube_env \<Rightarrow> 'q pod_event \<Rightarrow> 's \<Rightarrow> 's \<Rightarrow> bool" where
  "one_handler K ev s s' \<longleftrightarrow> s' = s \<or> (\<exists>pod \<in> ev_pods ev. \<exists>r. handles K pod s r \<and> s' = snd r)"

lemma one_handler_idle [simp]: "one_handler K ev s s"
  by (simp add: one_handler_def)

lemma one_handler_ran: "pod \<in> ev_pods ev \<Longrightarrow> handles K pod s r \<Longrightarrow> one_handler K ev s (snd r)"
  unfolding one_handler_def by blast

lemma one_handler_filter:
  assumes "\<And>b. one_handler K ev s (snd (f b s))"
  shows "one_handler K ev s (snd (sbind (pod_filter K pod, s) f))"
  using assms by (cases "pod_filter K pod") simp_all

lemma dispatch_one_handler:
  assumes "store_ok K"
  shows "one_handler K ev s (snd (dispatch K ev s))"
  unfolding dispatch_def
  by (cases ev)
    (auto intro!: one_handler_filter simp: ev_pods_def
      one_handler_ran [OF _ HandleAdd_handles [OF assms]] one_handler_ran [OF _ HandleUpdate_handles [OF assms]]
      one_handler_ran [OF _ HandleDelete_handles [OF assms]])

lemma dispatch_kept:
  assumes "store_ok K" and "codec_ok K" and "GetNodeTopologyFromCM K n s = Ok nt"
  shows "\<exists>nt'. GetNodeTopologyFromCM K n (snd (dispatch K ev s)) = Ok nt' \<and>
    (nt' = nt \<or> (\<exists>pod \<in> ev_pods ev. nt_kept pod nt nt'))"
  using dispatch_one_handler [OF assms(1), of ev s] handles_kept [OF assms(1,2) _ assms(3)] assms(3)
  unfolding one_handler_def by (metis (no_types, lifting))

text \<open>A relation between topologies that every kept step is in, and that is transitive, holds along a run.\<close>

lemma ctl_reach_induct_nt:
  assumes "ctl_reach K P s0 s" and K: "store_ok K" "codec_ok K" and "GetNodeTopologyFromCM K n s0 = Ok nt0"
    and "R nt0" and step: "\<And>pod nt nt'. P pod \<Longrightarrow> R nt \<Longrightarrow> nt_kept pod nt nt' \<Longrightarrow> R nt'"
  shows "\<exists>nt. GetNodeTopologyFromCM K n s = Ok nt \<and> R nt"
  using assms(1)
proof (induction rule: ctl_reach.induct)
  case start
  from assms show ?case by blast
next
  case (event s ev r s')
  then obtain nt where nt: "GetNodeTopologyFromCM K n s = Ok nt" and "R nt" by blast
  with dispatch_kept [OF K nt, of ev] event.hyps step show ?case by auto
next
  case (world s s')
  with same_cms_get [OF world.hyps(2)] show ?case by auto
qed

section \<open>The stages of a handler that returns without an error\<close>

lemma sbind_pure_Ok: "sbind (m, s) f = (Ok y, s') \<longleftrightarrow> (\<exists>x. m = Ok x \<and> f x s = (Ok y, s'))"
  by (cases m) simp_all

lemma HandleAdd_stages:
  assumes K: "store_ok K" "codec_ok K" and "HandleAdd K pod s = (Ok (), s')"
  obtains nt nt1 s1 nt2 nt3 where "GetNodeTopologyFromCM K (p_NodeName pod) s = Ok nt"
    and "handleDedicatedGpuPodAddition K pod nt s = (Ok nt1, s1)"
    and "handleSharedGpuPodAddition K pod nt1 s1 = Ok nt2" and "handleDraGpuPodAddition K pod nt2 s1 = Ok nt3"
    and "GetNodeTopologyFromCM K (p_NodeName pod) s' = Ok (norm_nt nt3)"
proof -
  from assms(3) obtain nt where nt: "GetNodeTopologyFromCM K (p_NodeName pod) s = Ok nt"
      and r: "sbind (handleDedicatedGpuPodAddition K pod nt s) (\<lambda>nt s.
     sbind (handleSharedGpuPodAddition K pod nt s, s) (\<lambda>nt s.
     sbind (handleDraGpuPodAddition K pod nt s, s) (\<lambda>nt s. UpdateNodeTopologyCM K nt (p_NodeName pod) s))) = (Ok (), s')"
    by (auto simp: HandleAdd_def sbind_pure_Ok)
  from r obtain nt1 s1 where d: "handleDedicatedGpuPodAddition K pod nt s = (Ok nt1, s1)"
      and r1: "sbind (handleSharedGpuPodAddition K pod nt1 s1, s1) (\<lambda>nt s.
     sbind (handleDraGpuPodAddition K pod nt s, s) (\<lambda>nt s. UpdateNodeTopologyCM K nt (p_NodeName pod) s)) = (Ok (), s')"
    by (rule sbind_eq_OkD)
  from r1 topo_store.get_put [OF topo_store_of [OF K]] show thesis
    by (auto simp: sbind_pure_Ok intro: that [OF nt d])
qed

lemma HandleDelete_stages:
  assumes K: "store_ok K" "codec_ok K" and "HandleDelete K pod s = (Ok (), s')"
  obtains nt nt1 nt2 where "GetNodeTopologyFromCM K (p_NodeName pod) s = Ok nt"
    and "handleDedicatedGpuPodDeletion K pod nt = Ok nt1"
    and "handleSharedGpuPodDeletion K pod nt1 s = Ok nt2"
    and "GetNodeTopologyFromCM K (p_NodeName pod) s' = Ok (norm_nt (handleDraGpuPodDeletion pod nt2))"
  using assms(3) topo_store.get_put [OF topo_store_of [OF K]]
  by (auto simp: HandleDelete_def sbind_pure_Ok intro: that)

lemma norm_nt_made: "maps_made nt \<Longrightarrow> norm_nt nt = nt"
proof -
  assume "maps_made nt"
  then have "map (\<lambda>g. g\<lparr>Status := norm_status (Status g)\<rparr>) (Gpus nt) = Gpus nt"
    by (intro map_idI) (auto simp: maps_made_def list_all_iff norm_status_def)
  then show ?thesis by (simp add: norm_nt_def)
qed

lemma maps_made_norm [simp]: "maps_made (norm_nt nt)"
  by (simp add: maps_made_def norm_nt_def norm_status_def list_all_iff)

lemma not_shared_dra [simp]:
  "\<not> IsSharedGpuPod K pod \<Longrightarrow> handleSharedGpuPodAddition K pod nt s = Ok nt"
  "\<not> IsSharedGpuPod K pod \<Longrightarrow> handleSharedGpuPodUpdate K pod nt s = Ok nt"
  "\<not> IsSharedGpuPod K pod \<Longrightarrow> handleSharedGpuPodDeletion K pod nt s = Ok nt"
  "\<not> IsDraPod pod \<Longrightarrow> handleDraGpuPodAddition K pod nt s = Ok nt"
  "\<not> IsDraPod pod \<Longrightarrow> handleDraGpuPodUpdate K pod nt s = Ok nt"
  "\<not> IsDraPod pod \<Longrightarrow> handleDraGpuPodDeletion pod nt = nt"
  by (simp_all add: handleSharedGpuPodAddition_def handleSharedGpuPodUpdate_def handleSharedGpuPodDeletion_def
      handleDraGpuPodAddition_def handleDraGpuPodUpdate_def handleDraGpuPodDeletion_def)

text \<open>A pod that holds whole GPUs and nothing else.\<close>

definition dedicated_only :: "('s, 'q, 'y) kube_env \<Rightarrow> 'q Pod \<Rightarrow> bool" where
  "dedicated_only K pod \<longleftrightarrow> IsDedicatedGpuPod K pod = Ok True \<and> \<not> IsSharedGpuPod K pod \<and> \<not> IsDraPod pod"

lemma dedicated_add_new:
  assumes "IsDedicatedGpuPod K pod = Ok True" and "\<not> isAlreadyAllocated pod nt" and "\<not> IsGpuReservationPod K pod"
  shows "handleDedicatedGpuPodAddition K pod nt s =
    sbind (allocate_loop K pod (GpuMemory nt) s (q_value K (gpu_limit K (hd (p_Containers pod)))) (Gpus nt), s)
      (\<lambda>gpus s. (Ok (nt\<lparr>Gpus := gpus\<rparr>), s))"
  using assms by (simp add: handleDedicatedGpuPodAddition_def Let_def)

lemma dedicated_add_known:
  assumes "IsDedicatedGpuPod K pod = Ok True" and "isAlreadyAllocated pod nt"
  shows "handleDedicatedGpuPodAddition K pod nt s = (Ok nt, s)"
  using assms by (simp add: handleDedicatedGpuPodAddition_def)

lemma HandleAdd_dedicated:
  assumes "store_ok K" and "codec_ok K" and "dedicated_only K pod"
    and "GetNodeTopologyFromCM K (p_NodeName pod) s = Ok nt"
    and "handleDedicatedGpuPodAddition K pod nt s = (Ok nt1, s1)" and "HandleAdd K pod s = (Ok (), s')"
  shows "GetNodeTopologyFromCM K (p_NodeName pod) s' = Ok (norm_nt nt1)"
proof -
  obtain nt' nt1' s1' nt2 nt3 where st: "GetNodeTopologyFromCM K (p_NodeName pod) s = Ok nt'"
      "handleDedicatedGpuPodAddition K pod nt' s = (Ok nt1', s1')"
      "handleSharedGpuPodAddition K pod nt1' s1' = Ok nt2" "handleDraGpuPodAddition K pod nt2 s1' = Ok nt3"
      "GetNodeTopologyFromCM K (p_NodeName pod) s' = Ok (norm_nt nt3)"
    by (rule HandleAdd_stages [OF assms(1,2,6)])
  with assms(3-5) show ?thesis by (simp add: dedicated_only_def)
qed

section \<open>Properties\<close>

text \<open>
  While the controller handles any pod events in any order, with any failures and restarts in
  between, the topology of a node stays readable and keeps its GPUs, in number, order and identity,
  and every field but the status of the GPUs.
\<close>

theorem topology_shape_kept:
  assumes "store_ok K" and "codec_ok K" and "GetNodeTopologyFromCM K n s0 = Ok nt0"
    and "ctl_reach K (\<lambda>_. True) s0 s"
  shows "\<exists>nt. GetNodeTopologyFromCM K n s = Ok nt \<and> map ID (Gpus nt) = map ID (Gpus nt0) \<and>
    GpuMemory nt = GpuMemory nt0 \<and> GpuProduct nt = GpuProduct nt0 \<and> MigStrategy nt = MigStrategy nt0 \<and>
    OtherDevices nt = OtherDevices nt0"
  using assms(4,1,2,3)
  by (rule ctl_reach_induct_nt) (auto dest: nt_kept_ids nt_kept_fields)

text \<open>
  A GPU that a pod holds is not taken from it, nor are its usage records of that pod changed, by
  any sequence of events about other pods (pods with another namespace or name, and another UID).
\<close>

theorem allocation_kept_until_own_event:
  assumes "store_ok K" and "codec_ok K" and "GetNodeTopologyFromCM K n s0 = Ok nt0"
    and "i < length (Gpus nt0)"
    and "owned_by (q :: 'q Pod) (Gpus nt0 ! i)" and "p_Name q \<noteq> []"
    and "ctl_reach K (\<lambda>p. (p_Namespace p, p_Name p) \<noteq> (p_Namespace q, p_Name q) \<and> p_UID p \<noteq> p_UID q) s0 s"
  shows "\<exists>nt. GetNodeTopologyFromCM K n s = Ok nt \<and>
    AllocatedBy (Status (Gpus nt ! i)) = AllocatedBy (Status (Gpus nt0 ! i)) \<and>
    usage_of (Gpus nt ! i) (p_UID q) = usage_of (Gpus nt0 ! i) (p_UID q)"
proof -
  define R where "R = (\<lambda>nt :: NodeTopology. length (Gpus nt) = length (Gpus nt0) \<and>
    AllocatedBy (Status (Gpus nt ! i)) = AllocatedBy (Status (Gpus nt0 ! i)) \<and>
    usage_of (Gpus nt ! i) (p_UID q) = usage_of (Gpus nt0 ! i) (p_UID q))"
  have "\<exists>nt. GetNodeTopologyFromCM K n s = Ok nt \<and> R nt"
  proof (rule ctl_reach_induct_nt [OF assms(7,1-3)])
    fix p nt nt'
    assume p: "(p_Namespace p, p_Name p) \<noteq> (p_Namespace q, p_Name q) \<and> p_UID p \<noteq> p_UID q"
      and "R nt" and k: "nt_kept p nt nt'"
    then have "foreign p (Gpus nt ! i)" using assms(5,6) by (auto simp: R_def foreign_def is_free_def owned_by_def)
    with \<open>R nt\<close> assms(4) p nt_kept_foreign [OF k, of i] nt_kept_length [OF k] show "R nt'" by (auto simp: R_def)
  qed (simp add: R_def)
  then show ?thesis by (auto simp: R_def)
qed

text \<open>The topology after the addition of a pod of its own GPUs\<close>

lemma add_allocates:
  assumes "store_ok K" "codec_ok K" and "dedicated_only K pod" "\<not> IsGpuReservationPod K pod"
    and "GetNodeTopologyFromCM K (p_NodeName pod) s = Ok nt" "maps_made nt" "\<not> isAlreadyAllocated pod nt"
    and "HandleAdd K pod s = (Ok (), s')"
  obtains gs where "GetNodeTopologyFromCM K (p_NodeName pod) s' = Ok (nt\<lparr>Gpus := gs\<rparr>)"
    and "allocate_loop K pod (GpuMemory nt) s (q_value K (gpu_limit K (hd (p_Containers pod)))) (Gpus nt) = Ok gs"
proof -
  let ?r = "q_value K (gpu_limit K (hd (p_Containers pod)))"
  obtain gs where gs: "allocate_loop K pod (GpuMemory nt) s ?r (Gpus nt) = Ok gs"
      and made: "list_all (\<lambda>g. PodGpuUsageStatus (Status g) \<noteq> None) gs"
    using allocate_loop_made [OF assms(6) [unfolded maps_made_def]] by metis
  then have ded: "handleDedicatedGpuPodAddition K pod nt s = (Ok (nt\<lparr>Gpus := gs\<rparr>), s)"
    using dedicated_add_new [of K pod nt s] assms by (simp add: dedicated_only_def)
  have "GetNodeTopologyFromCM K (p_NodeName pod) s' = Ok (nt\<lparr>Gpus := gs\<rparr>)"
    using HandleAdd_dedicated [OF assms(1-3,5) ded assms(8)] norm_nt_made [of "nt\<lparr>Gpus := gs\<rparr>"] made
    by (simp add: maps_made_def)
  with gs that show ?thesis by blast
qed

text \<open>
  C2. The addition of a pod that asks for \<open>r\<close> whole GPUs gives it the first \<open>r\<close> free GPUs of
  its node, or all of them when there are fewer: a GPU changes exactly if it is free and fewer than
  \<open>r\<close> free ones come before it; it is then allocated to the pod's first container with the pod's
  computed usage record, and the number of free GPUs goes down by \<open>r\<close> (to zero at most).
\<close>

theorem add_allocates_first_free:
  assumes K: "store_ok K" "codec_ok K" and pod: "dedicated_only K pod" "\<not> IsGpuReservationPod K pod" "p_Name pod \<noteq> []"
    and nt: "GetNodeTopologyFromCM K (p_NodeName pod) s = Ok nt" "maps_made nt" "\<not> isAlreadyAllocated pod nt"
    and add: "HandleAdd K pod s = (Ok (), s')"
  shows "\<exists>nt'. GetNodeTopologyFromCM K (p_NodeName pod) s' = Ok nt' \<and>
    (let r = q_value K (gpu_limit K (hd (p_Containers pod))) in
     (\<forall>i < length (Gpus nt). if takes_gpu r (Gpus nt) i
        then isGpuOccupiedByPod pod (Gpus nt' ! i) \<and> ID (Gpus nt' ! i) = ID (Gpus nt ! i) \<and>
             usage_of (Gpus nt' ! i) = (usage_of (Gpus nt ! i))(p_UID pod \<mapsto> calculateUsage K pod (GpuMemory nt) s)
        else Gpus nt' ! i = Gpus nt ! i) \<and>
     length (filter is_free (Gpus nt')) = length (filter is_free (Gpus nt)) - nat r)"
proof -
  define r where "r = q_value K (gpu_limit K (hd (p_Containers pod)))"
  obtain gs where get: "GetNodeTopologyFromCM K (p_NodeName pod) s' = Ok (nt\<lparr>Gpus := gs\<rparr>)"
    and gs: "allocate_loop K pod (GpuMemory nt) s r (Gpus nt) = Ok gs"
    unfolding r_def by (rule add_allocates [OF K pod(1,2) nt add])
  have "if takes_gpu r (Gpus nt) i
      then isGpuOccupiedByPod pod (gs ! i) \<and> ID (gs ! i) = ID (Gpus nt ! i) \<and>
           usage_of (gs ! i) = (usage_of (Gpus nt ! i))(p_UID pod \<mapsto> calculateUsage K pod (GpuMemory nt) s)
      else gs ! i = Gpus nt ! i" if "i < length (Gpus nt)" for i
    using allocate_loop_nth [OF gs that] allocate_gpu_owner [of K pod "GpuMemory nt" s "Gpus nt ! i" "gs ! i"]
      allocate_gpu_usage [of K pod "GpuMemory nt" s "Gpus nt ! i" "gs ! i"] pod(2)
    by (cases "takes_gpu r (Gpus nt) i") simp_all
  with get allocate_loop_free [OF gs pod(3)] show ?thesis
    unfolding r_def [symmetric] Let_def by (intro exI [of _ "nt\<lparr>Gpus := gs\<rparr>"]) simp
qed

end
