(* ===== verification/PodProps.thy ===== *)
theory PodProps
  imports PodHandler
begin

text \<open>
  What the pod handler and its controller guarantee, beyond the frame of \<^verbatim>\<open>PodHandler\<close>: release of
  the GPUs of a deleted pod, repeated and undone additions, failed requests, the absence of panics, and
  what pods with resource claims and pods that share a GPU are given.
\<close>

section \<open>Deletion\<close>

definition releases :: "('s, 'q, 'y) kube_env \<Rightarrow> 'q Pod \<Rightarrow> GpuDetails \<Rightarrow> bool" where
  "releases K pod g \<longleftrightarrow>
     (IsDedicatedGpuPod K pod = Ok True \<and> isGpuOccupiedByPod pod g) \<or> (IsDraPod pod \<and> owned_by pod g)"

lemma dedicated_delete_nth:
  assumes "handleDedicatedGpuPodDeletion K pod nt = Ok nt1" and "i < length (Gpus nt)"
  shows "Gpus nt1 ! i = (if IsDedicatedGpuPod K pod = Ok True \<and> isGpuOccupiedByPod pod (Gpus nt ! i)
                         then (Gpus nt ! i)\<lparr>Status := zero_status\<rparr> else Gpus nt ! i)"
    and "length (Gpus nt1) = length (Gpus nt)"
  using assms by (cases "IsDedicatedGpuPod K pod"; simp add: handleDedicatedGpuPodDeletion_def split: if_splits; force)+

lemma shared_delete_nth:
  assumes "handleSharedGpuPodDeletion K pod nt s = Ok nt1"
  shows "length (Gpus nt1) = length (Gpus nt)"
    and "i < length (Gpus nt) \<Longrightarrow> Gpus nt1 ! i = Gpus nt ! i \<or> Gpus nt1 ! i = delete_usage_of pod (Gpus nt ! i)"
  using assms by (auto simp: handleSharedGpuPodDeletion_def at_gpu_def rbind_eq_Ok nth_list_update split: if_splits)

lemma dra_delete_nth:
  assumes "i < length (Gpus nt)"
  shows "Gpus (handleDraGpuPodDeletion pod nt) ! i =
    (if IsDraPod pod \<and> owned_by pod (Gpus nt ! i) then (Gpus nt ! i)\<lparr>Status := zero_status\<rparr> else Gpus nt ! i)"
  using assms by (simp add: handleDraGpuPodDeletion_def)

lemma owned_by_cong: "AllocatedBy (Status g) = AllocatedBy (Status h) \<Longrightarrow> owned_by pod g = owned_by pod h"
  by (simp add: owned_by_def)

lemma delete_usage_simps [simp]:
  "AllocatedBy (Status (delete_usage_of pod g)) = AllocatedBy (Status g)"
  "usage_of (delete_usage_of pod g) = (usage_of g)(p_UID pod := None)"
  "ID (delete_usage_of pod g) = ID g"
  by (simp_all add: delete_usage_of_def usage_of_def usage_delete_lookup)

lemma zero_status_simps [simp]:
  "AllocatedBy zero_status = zero_container" "PodGpuUsageStatus zero_status = None"
  by (simp_all add: zero_status_def)

lemma norm_status_simps [simp]:
  "AllocatedBy (norm_status st) = AllocatedBy st" "PodGpuUsageStatus (norm_status st) = Some (usage_lookup (PodGpuUsageStatus st))"
  by (simp_all add: norm_status_def)

text \<open>
  C3. After the deletion of a pod every GPU it held is free, without any usage record, and every other
  GPU is allocated as before.
\<close>

theorem delete_releases:
  assumes K: "store_ok K" "codec_ok K" and del: "HandleDelete K pod s = (Ok (), s')"
    and nt: "GetNodeTopologyFromCM K (p_NodeName pod) s = Ok nt" and i: "i < length (Gpus nt)"
  shows "\<exists>nt'. GetNodeTopologyFromCM K (p_NodeName pod) s' = Ok nt' \<and>
    (if releases K pod (Gpus nt ! i)
     then AllocatedBy (Status (Gpus nt' ! i)) = zero_container \<and> usage_of (Gpus nt' ! i) = Map.empty
     else AllocatedBy (Status (Gpus nt' ! i)) = AllocatedBy (Status (Gpus nt ! i)))"
proof -
  obtain nt0 nt1 nt2 where "GetNodeTopologyFromCM K (p_NodeName pod) s = Ok nt0"
      and d0: "handleDedicatedGpuPodDeletion K pod nt0 = Ok nt1" and sh: "handleSharedGpuPodDeletion K pod nt1 s = Ok nt2"
      and get: "GetNodeTopologyFromCM K (p_NodeName pod) s' = Ok (norm_nt (handleDraGpuPodDeletion pod nt2))"
    by (rule HandleDelete_stages [OF K del])
  with nt have d: "handleDedicatedGpuPodDeletion K pod nt = Ok nt1" by simp
  note g1 = dedicated_delete_nth [OF d i]
  have i2: "i < length (Gpus nt2)" using shared_delete_nth(1) [OF sh] g1(2) i by simp
  have len: "length (Gpus (handleDraGpuPodDeletion pod nt2)) = length (Gpus nt2)"
    by (simp add: handleDraGpuPodDeletion_def)
  have g2: "AllocatedBy (Status (Gpus nt2 ! i)) = AllocatedBy (Status (Gpus nt1 ! i))"
    "usage_of (Gpus nt1 ! i) = Map.empty \<Longrightarrow> usage_of (Gpus nt2 ! i) = Map.empty"
    using shared_delete_nth(2) [OF sh, of i] g1(2) i by auto
  have g3: "Gpus (norm_nt (handleDraGpuPodDeletion pod nt2)) ! i =
      (let g = Gpus (handleDraGpuPodDeletion pod nt2) ! i in g\<lparr>Status := norm_status (Status g)\<rparr>)"
    using i2 len by (simp add: norm_nt_nth Let_def)
  show ?thesis
  proof (intro exI conjI)
    show "GetNodeTopologyFromCM K (p_NodeName pod) s' = Ok (norm_nt (handleDraGpuPodDeletion pod nt2))" by (fact get)
    show "if releases K pod (Gpus nt ! i)
      then AllocatedBy (Status (Gpus (norm_nt (handleDraGpuPodDeletion pod nt2)) ! i)) = zero_container \<and>
           usage_of (Gpus (norm_nt (handleDraGpuPodDeletion pod nt2)) ! i) = Map.empty
      else AllocatedBy (Status (Gpus (norm_nt (handleDraGpuPodDeletion pod nt2)) ! i)) = AllocatedBy (Status (Gpus nt ! i))"
      unfolding g3 Let_def using g1(1) g2 dra_delete_nth [OF i2, of pod] owned_by_cong [OF g2(1), of pod]
      by (auto simp: releases_def usage_of_def owned_by_def)
  qed
qed

section \<open>Repetition\<close>

lemma allocate_loop_again:
  assumes "allocate_loop K pod m s n gs = Ok gs'" and "\<forall>g \<in> set gs'. \<not> isGpuOccupiedByPod pod g"
  shows "gs' = gs"
proof (rule nth_equalityI)
  show "length gs' = length gs" by (rule allocate_loop_length [OF assms(1)])
  fix i
  assume "i < length gs'"
  then have i: "i < length gs" and "\<not> isGpuOccupiedByPod pod (gs' ! i)"
    using assms(2) allocate_loop_length [OF assms(1)] by auto
  with allocate_loop_nth [OF assms(1) i] show "gs' ! i = gs ! i"
    using allocate_gpu_owner(2) by (metis (full_types))
qed

lemma norm_gpu_simps [simp]:
  "is_free (g\<lparr>Status := norm_status (Status g)\<rparr>) = is_free g"
  "isGpuOccupiedByPod pod (g\<lparr>Status := norm_status (Status g)\<rparr>) = isGpuOccupiedByPod pod g"
  "owned_by pod (g\<lparr>Status := norm_status (Status g)\<rparr>) = owned_by pod g"
  "usage_of (g\<lparr>Status := norm_status (Status g)\<rparr>) = usage_of g"
  by (simp_all add: is_free_def isGpuOccupiedByPod_def owned_by_def usage_of_def)

lemma isAlreadyAllocated_norm [simp]: "isAlreadyAllocated pod (norm_nt nt) = isAlreadyAllocated pod nt"
  by (simp add: isAlreadyAllocated_def norm_nt_def list_ex_iff)

lemma takes_gpu_norm: "i < length (Gpus nt) \<Longrightarrow> takes_gpu r (Gpus (norm_nt nt)) i = takes_gpu r (Gpus nt) i"
  by (simp add: takes_gpu_def norm_nt_def take_map filter_map comp_def)

lemma no_takes:
  assumes "allocate_loop K pod m s n gs = Ok gs'" and "\<And>i. i < length gs \<Longrightarrow> \<not> takes_gpu n gs i"
  shows "gs' = gs"
  using allocate_loop_length [OF assms(1)] allocate_loop_nth [OF assms(1)] assms(2) by (auto intro: nth_equalityI)

text \<open>A dedicated addition that leaves the pod without a GPU had none to give, and will not give one later.\<close>

lemma dedicated_add_again:
  assumes "fst (handleDedicatedGpuPodAddition K pod nt s) = Ok nt1" and "\<not> isAlreadyAllocated pod nt1"
    and "fst (handleDedicatedGpuPodAddition K pod (norm_nt nt1) s1) = Ok nt2"
  shows "nt2 = norm_nt nt1"
  using assms
proof (cases "IsDedicatedGpuPod K pod = Ok True")
  case False
  with assms show ?thesis by (cases "IsDedicatedGpuPod K pod") (auto simp: handleDedicatedGpuPodAddition_def)
next
  case ded: True
  define r where "r = q_value K (gpu_limit K (hd (p_Containers pod)))"
  have "\<not> isAlreadyAllocated pod nt" using assms(1,2) dedicated_add_known [OF ded] by fastforce
  with ded assms(1) obtain gs where gs: "allocate_loop K pod (GpuMemory nt) s r (Gpus nt) = Ok gs" and "nt1 = nt\<lparr>Gpus := gs\<rparr>"
    by (cases "allocate_loop K pod (GpuMemory nt) s r (Gpus nt)")
      (auto simp: handleDedicatedGpuPodAddition_def r_def Let_def split_def rbind_eq_Ok)
  moreover from this assms(2) have same: "gs = Gpus nt"
    by (intro allocate_loop_again [OF gs]) (simp add: isAlreadyAllocated_def list_ex_iff)
  ultimately have nt1: "nt1 = nt" by simp
  have none: "\<not> takes_gpu r (Gpus nt) i" if "i < length (Gpus nt)" for i
    using allocate_loop_nth [OF gs that] allocate_gpu_owner(2) [of K pod "GpuMemory nt" s "Gpus nt ! i" "Gpus nt ! i"]
      assms(2) that nt1 same
    by (auto simp: isAlreadyAllocated_def list_ex_length split: if_splits)
  from dedicated_add_Ok [OF assms(3)] show ?thesis
  proof (elim disjE exE conjE)
    fix gs2
    assume gs2: "allocate_loop K pod (GpuMemory (norm_nt nt1)) s1 (q_value K (gpu_limit K (hd (p_Containers pod))))
        (Gpus (norm_nt nt1)) = Ok gs2" and "nt2 = norm_nt nt1\<lparr>Gpus := gs2\<rparr>"
    moreover from no_takes [OF gs2] have "gs2 = Gpus (norm_nt nt1)"
      using none takes_gpu_norm [of _ nt r] nt1 by (simp add: r_def)
    ultimately show "nt2 = norm_nt nt1" by simp
  qed
qed

text \<open>
  C6. Handling the addition of a pod a second time (the informer lists every pod again when the status
  updater restarts) leaves the topology of its node as the first time left it.
\<close>

theorem add_idempotent:
  assumes K: "store_ok K" "codec_ok K" and pod: "dedicated_only K pod"
    and a1: "HandleAdd K pod s = (Ok (), s1)" and a2: "HandleAdd K pod s1 = (Ok (), s2)"
  shows "GetNodeTopologyFromCM K (p_NodeName pod) s2 = GetNodeTopologyFromCM K (p_NodeName pod) s1"
proof -
  obtain nt nt1 t1 where nt: "GetNodeTopologyFromCM K (p_NodeName pod) s = Ok nt"
      and d1: "handleDedicatedGpuPodAddition K pod nt s = (Ok nt1, t1)"
    by (rule HandleAdd_stages [OF K a1])
  have g1: "GetNodeTopologyFromCM K (p_NodeName pod) s1 = Ok (norm_nt nt1)"
    by (rule HandleAdd_dedicated [OF K pod nt d1 a1])
  obtain nt2 t2 where d2: "handleDedicatedGpuPodAddition K pod (norm_nt nt1) s1 = (Ok nt2, t2)"
    using HandleAdd_stages [OF K a2] g1 by (metis res.inject(1))
  have g2: "GetNodeTopologyFromCM K (p_NodeName pod) s2 = Ok (norm_nt nt2)"
    by (rule HandleAdd_dedicated [OF K pod g1 d2 a2])
  have "nt2 = norm_nt nt1"
  proof (cases "isAlreadyAllocated pod nt1")
    case True
    with dedicated_add_known [of K pod "norm_nt nt1" s1] d2 pod show ?thesis by (simp add: dedicated_only_def)
  next
    case False
    with dedicated_add_again [of K pod nt s nt1 s1 nt2] d1 d2 show ?thesis by simp
  qed
  with g1 g2 show ?thesis by simp
qed

lemma HandleDelete_dedicated:
  assumes "store_ok K" and "codec_ok K" and "dedicated_only K pod"
    and "GetNodeTopologyFromCM K (p_NodeName pod) s = Ok nt" and "HandleDelete K pod s = (Ok (), s')"
  shows "GetNodeTopologyFromCM K (p_NodeName pod) s' = Ok (norm_nt (nt\<lparr>Gpus :=
    map (\<lambda>g. if isGpuOccupiedByPod pod g then g\<lparr>Status := zero_status\<rparr> else g) (Gpus nt)\<rparr>))"
proof -
  obtain nt0 nt1 nt2 where st: "GetNodeTopologyFromCM K (p_NodeName pod) s = Ok nt0"
      "handleDedicatedGpuPodDeletion K pod nt0 = Ok nt1" "handleSharedGpuPodDeletion K pod nt1 s = Ok nt2"
      "GetNodeTopologyFromCM K (p_NodeName pod) s' = Ok (norm_nt (handleDraGpuPodDeletion pod nt2))"
    by (rule HandleDelete_stages [OF assms(1,2,5)])
  with assms(3,4) show ?thesis by (auto simp: dedicated_only_def handleDedicatedGpuPodDeletion_def)
qed

text \<open>A free GPU carries no trace of a pod.\<close>

definition clean_free :: "NodeTopology \<Rightarrow> bool" where
  "clean_free nt \<longleftrightarrow> list_all (\<lambda>g. is_free g \<longrightarrow> Status g = \<lparr>AllocatedBy = zero_container, PodGpuUsageStatus = Some Map.empty\<rparr>) (Gpus nt)"

text \<open>
  C1. The deletion of a dedicated pod undoes its first addition.  For a pod with whole GPUs that is not a reservation pod
  and holds no GPU of its node yet, on a node whose usage maps are made and whose free GPUs carry no trace of a pod, an addition
  and then a deletion that succeed leave the stored topology exactly as it was.
\<close>

theorem delete_undoes_add:
  assumes K: "store_ok K" "codec_ok K" and pod: "dedicated_only K pod" "\<not> IsGpuReservationPod K pod"
    and nt: "GetNodeTopologyFromCM K (p_NodeName pod) s = Ok nt" "maps_made nt" "clean_free nt" "\<not> isAlreadyAllocated pod nt"
    and add: "HandleAdd K pod s = (Ok (), s1)" and del: "HandleDelete K pod s1 = (Ok (), s2)"
  shows "GetNodeTopologyFromCM K (p_NodeName pod) s2 = Ok nt"
proof -
  define r where "r = q_value K (gpu_limit K (hd (p_Containers pod)))"
  obtain gs where gs: "allocate_loop K pod (GpuMemory nt) s r (Gpus nt) = Ok gs"
      and made: "list_all (\<lambda>g. PodGpuUsageStatus (Status g) \<noteq> None) gs"
    using allocate_loop_made [OF nt(2) [unfolded maps_made_def]] by metis
  then have d: "handleDedicatedGpuPodAddition K pod nt s = (Ok (nt\<lparr>Gpus := gs\<rparr>), s)"
    using dedicated_add_new [of K pod nt s] pod nt by (simp add: dedicated_only_def r_def)
  have g1: "GetNodeTopologyFromCM K (p_NodeName pod) s1 = Ok (nt\<lparr>Gpus := gs\<rparr>)"
    using HandleAdd_dedicated [OF K pod(1) nt(1) d add] norm_nt_made [of "nt\<lparr>Gpus := gs\<rparr>"] made
    by (simp add: maps_made_def)
  define freed where "freed = map (\<lambda>g. if isGpuOccupiedByPod pod g then g\<lparr>Status := zero_status\<rparr> else g) gs"
  have "GetNodeTopologyFromCM K (p_NodeName pod) s2 = Ok (norm_nt (nt\<lparr>Gpus := freed\<rparr>))"
    using HandleDelete_dedicated [OF K pod(1) g1 del] by (simp add: freed_def)
  moreover have "norm_nt (nt\<lparr>Gpus := freed\<rparr>) = nt"
  proof -
    have "map (\<lambda>g. g\<lparr>Status := norm_status (Status g)\<rparr>) freed = Gpus nt"
    proof (rule nth_equalityI)
      show "length (map (\<lambda>g. g\<lparr>Status := norm_status (Status g)\<rparr>) freed) = length (Gpus nt)"
        by (simp add: freed_def allocate_loop_length [OF gs])
      fix i
      assume "i < length (map (\<lambda>g. g\<lparr>Status := norm_status (Status g)\<rparr>) freed)"
      then have i: "i < length (Gpus nt)" and "i < length gs" by (simp_all add: freed_def allocate_loop_length [OF gs])
      have "\<not> isGpuOccupiedByPod pod (Gpus nt ! i)" using nt(4) i by (simp add: isAlreadyAllocated_def list_ex_length)
      moreover have "PodGpuUsageStatus (Status (Gpus nt ! i)) \<noteq> None"
        using nt(2) i by (simp add: maps_made_def list_all_length)
      moreover have "is_free (Gpus nt ! i) \<Longrightarrow>
          Status (Gpus nt ! i) = \<lparr>AllocatedBy = zero_container, PodGpuUsageStatus = Some Map.empty\<rparr>"
        using nt(3) i by (simp add: clean_free_def list_all_length)
      ultimately show "map (\<lambda>g. g\<lparr>Status := norm_status (Status g)\<rparr>) freed ! i = Gpus nt ! i"
        using allocate_loop_nth [OF gs i] allocate_gpu_owner [of K pod "GpuMemory nt" s "Gpus nt ! i" "gs ! i"] \<open>i < length gs\<close>
        by (cases "Gpus nt ! i"; cases "gs ! i") (auto simp: freed_def takes_gpu_def norm_status_def zero_status_def split: if_splits)
    qed
    then show ?thesis by (simp add: norm_nt_def)
  qed
  ultimately show ?thesis by simp
qed

section \<open>Failures\<close>

text \<open>A handler that returns an error, or panics, has changed no ConfigMap.\<close>

theorem failed_event_writes_nothing:
  assumes "store_ok K"
  shows "(fst (HandleAdd K pod s) \<noteq> Ok () \<longrightarrow> same_cms K s (snd (HandleAdd K pod s))) \<and>
    (fst (HandleUpdate K pod s) \<noteq> Ok () \<longrightarrow> same_cms K s (snd (HandleUpdate K pod s))) \<and>
    (fst (HandleDelete K pod s) \<noteq> Ok () \<longrightarrow> same_cms K s (snd (HandleDelete K pod s)))"
  using HandleAdd_handles [OF assms, of pod s] HandleUpdate_handles [OF assms, of pod s]
    HandleDelete_handles [OF assms, of pod s]
  by (simp add: handles_def)

lemma dedicated_add_state:
  "\<not> IsGpuReservationPod K pod \<Longrightarrow> snd (handleDedicatedGpuPodAddition K pod nt s) = s"
  by (cases "IsDedicatedGpuPod K pod";
      cases "allocate_loop K pod (GpuMemory nt) s (q_value K (gpu_limit K (hd (p_Containers pod)))) (Gpus nt)")
    (simp_all add: handleDedicatedGpuPodAddition_def Let_def)

lemma sbind_no_panic:
  assumes "\<not> is_panic (fst m)" and "\<And>x. fst m = Ok x \<Longrightarrow> \<not> is_panic (fst (f x (snd m)))"
  shows "\<not> is_panic (fst (sbind m f))"
  using assms by (cases m; cases "fst m") auto

lemma get_no_panic: "\<not> is_panic (GetNodeTopologyFromCM K n s)"
  by (cases "cm_get K (TopologyCmNamespace K) (GetNodeTopologyCMName K n) s")
    (simp_all add: GetNodeTopologyFromCM_def FromNodeTopologyCM_def)

definition topologies_made :: "('s, 'q, 'y) kube_env \<Rightarrow> 's \<Rightarrow> bool" where
  "topologies_made K s \<longleftrightarrow> (\<forall>n nt. GetNodeTopologyFromCM K n s = Ok nt \<longrightarrow> maps_made nt)"

lemma HandleAdd_no_panic:
  assumes "names_ok K s" and "topologies_made K s" and c: "p_Containers pod \<noteq> []"
  shows "\<not> is_panic (fst (HandleAdd K pod s))"
  unfolding HandleAdd_def
proof (intro sbind_no_panic, goal_cases)
  case 1
  then show ?case by (simp add: get_no_panic)
next
  case (2 nt)
  with assms have "maps_made nt" by (simp add: topologies_made_def)
  with 2 show ?case using ded_add.no_panic [OF c] by simp
next
  case (3 nt nt1)
  then have m: "maps_made nt1" using assms(2) ded_add.made [of nt K pod s nt1] by (simp add: topologies_made_def)
  show ?case
  proof (cases "IsSharedGpuPod K pod")
    case True
    then have "snd (handleDedicatedGpuPodAddition K pod nt s) = s" by (simp add: IsSharedGpuPod_def dedicated_add_state)
    with m 3 show ?thesis using safe_pod_op.no_panic [OF shared_add_safe [OF assms(1)] c m] by simp
  qed simp
next
  case (4 nt nt1 nt2)
  then have "maps_made nt1" using assms(2) ded_add.made [of nt K pod s nt1] by (simp add: topologies_made_def)
  then have "maps_made nt2" using 4 by (auto simp: handleSharedGpuPodAddition_def intro: shared_set_made split: if_splits)
  then show ?case using dra_add.no_panic [OF c] by simp
next
  case (5 nt nt1 nt2 nt3)
  show ?case by (rule UpdateNodeTopologyCM_no_panic)
qed

lemma HandleUpdate_no_panic:
  assumes "names_ok K s" and "topologies_made K s" and c: "p_Containers pod \<noteq> []"
  shows "\<not> is_panic (fst (HandleUpdate K pod s))"
  unfolding HandleUpdate_def
proof (intro sbind_no_panic, goal_cases)
  case 1
  then show ?case by (simp add: get_no_panic)
next
  case (2 nt)
  with assms have "maps_made nt" by (simp add: topologies_made_def)
  with 2 show ?case using ded_update.no_panic [OF c] by simp
next
  case (3 nt nt1)
  then have m: "maps_made nt1" using assms(2) ded_update.made [of nt K pod s nt1] by (simp add: topologies_made_def)
  with 3 show ?case using safe_pod_op.no_panic [OF shared_update_safe [OF assms(1)] c m] by simp
next
  case (4 nt nt1 nt2)
  then have "maps_made nt1" using assms(2) ded_update.made [of nt K pod s nt1] by (simp add: topologies_made_def)
  then have "maps_made nt2" using 4 by (auto simp: handleSharedGpuPodUpdate_def intro: shared_set_made split: if_splits)
  then show ?case using dra_update.no_panic [OF c] by simp
next
  case (5 nt nt1 nt2 nt3)
  show ?case by (rule UpdateNodeTopologyCM_no_panic)
qed

lemma HandleDelete_no_panic:
  assumes "names_ok K s" and c: "p_Containers pod \<noteq> []"
  shows "\<not> is_panic (fst (HandleDelete K pod s))"
  unfolding HandleDelete_def
proof (intro sbind_no_panic, goal_cases)
  case 1
  then show ?case by (simp add: get_no_panic)
next
  case (2 nt)
  show ?case using c by (cases "IsDedicatedGpuPod K pod") (simp_all add: handleDedicatedGpuPodDeletion_def)
next
  case (3 nt nt1)
  then show ?case using shared_delete_no_panic [OF assms(1)] by simp
next
  case (4 nt nt1 nt2)
  show ?case by (rule UpdateNodeTopologyCM_no_panic)
qed

lemma filter_no_panic:
  assumes "p_Containers pod \<noteq> []" and "\<And>b. \<not> is_panic (fst (f b s))"
  shows "\<not> is_panic (fst (sbind (pod_filter K pod, s) f))"
proof -
  obtain b where "pod_filter K pod = Ok b"
    using assms(1) by (cases "IsDedicatedGpuPod K pod"; cases "IsPodScheduled pod \<and> \<not> IsPodTerminated pod")
      (simp_all add: pod_filter_def)
  with assms(2) show ?thesis by simp
qed

lemma logged_no_panic: "\<not> is_panic (fst r) \<Longrightarrow> \<not> is_panic (fst (logged r))"
  by (cases r; cases "fst r") (auto simp: logged_def)

text \<open>
  C7. No event makes the controller panic, while every pod of the API has a name and a container
  and every stored topology spells out the usage maps of its GPUs (as the program's own writes do).
\<close>

theorem dispatch_no_panic:
  assumes "names_ok K s" and "topologies_made K s" and "\<forall>pod \<in> ev_pods ev. p_Containers pod \<noteq> []"
  shows "\<not> is_panic (fst (dispatch K ev s))"
proof -
  note np = HandleAdd_no_panic [OF assms(1,2)] HandleUpdate_no_panic [OF assms(1,2)] HandleDelete_no_panic [OF assms(1)]
  show ?thesis
  proof (cases ev)
    case (Added pod)
    with assms(3) have "p_Containers pod \<noteq> []" by (simp add: ev_pods_def)
    with Added np(1) show ?thesis by (simp add: dispatch_def filter_no_panic logged_no_panic)
  next
    case (Updated old new)
    with assms(3) have "p_Containers new \<noteq> []" and "p_Containers old \<noteq> []" by (simp_all add: ev_pods_def)
    with Updated np(1,2) [of new] np(3) [of old] show ?thesis
      by (simp add: dispatch_def filter_no_panic logged_no_panic)
  next
    case (Deleted pod)
    with assms(3) have "p_Containers pod \<noteq> []" by (simp add: ev_pods_def)
    with Deleted np(3) show ?thesis by (simp add: dispatch_def filter_no_panic logged_no_panic)
  qed (simp add: dispatch_def)
qed

section \<open>Resource claims\<close>

text \<open>
  The claims of a pod are looked up once each, generated claims before direct references, and every
  non-empty name that the pod's status or specification mentions is among them.
\<close>

theorem claim_names:
  "distinct (getResourceClaimNamesFromPod pod) \<and>
   set (getResourceClaimNamesFromPod pod) =
     {n. n \<noteq> [] \<and> Some n \<in> snd ` (set (p_ResourceClaimStatuses pod) \<union> set (p_ResourceClaims pod))} \<and>
   prefix (collect_names [] (p_ResourceClaimStatuses pod)) (getResourceClaimNamesFromPod pod)"
proof -
  have d: "distinct (collect_names [] (p_ResourceClaimStatuses pod))" by (rule collect_names_props(1)) simp
  show ?thesis
    using collect_names_props [OF d, of "p_ResourceClaims pod"] collect_names_props(2) [of "[]" "p_ResourceClaimStatuses pod"]
    by (auto simp: getResourceClaimNamesFromPod_def)
qed

definition lower_ids :: "NodeTopology \<Rightarrow> string list" where
  "lower_ids nt = map (\<lambda>g. to_lower (ID g)) (Gpus nt)"

lemma dra_allocate_gpu_simps [simp]:
  "ID (dra_allocate_gpu K pod m s g) = ID g"
  "AllocatedBy (Status (dra_allocate_gpu K pod m s g)) = container_details pod (getContainerWithClaim pod)"
  "usage_of (dra_allocate_gpu K pod m s g) = (usage_of g)(p_UID pod \<mapsto> calculateUsage K pod m s)"
  by (simp_all add: dra_allocate_gpu_def put_usage_def usage_of_def)

lemma dra_allocate_device_nth:
  assumes "distinct (lower_ids nt)" and i: "i < length (Gpus nt)"
  shows "Gpus (dra_allocate_device K pod s nt d) ! i =
    (if is_free (Gpus nt ! i) \<and> equal_fold (ID (Gpus nt ! i)) d
     then dra_allocate_gpu K pod (GpuMemory nt) s (Gpus nt ! i) else Gpus nt ! i)"
proof (cases "findGpuIndexByID nt d = -1")
  case True
  then have "\<not> equal_fold (ID (Gpus nt ! i)) d" using i by (simp add: findGpuIndexByID_def first_index_none)
  with True show ?thesis by (simp add: dra_allocate_device_def)
next
  case False
  note r = findGpuIndexByID_range [OF False]
  have "equal_fold (ID (Gpus nt ! i)) d \<longleftrightarrow> i = nat (findGpuIndexByID nt d)"
    using r assms(1) [unfolded distinct_conv_nth, rule_format, of i "nat (findGpuIndexByID nt d)"] i
    by (auto simp: lower_ids_def equal_fold_def)
  with False r i show ?thesis by (auto simp: dra_allocate_device_def Let_def)
qed

lemma dra_allocate_device_frame [simp]:
  "GpuMemory (dra_allocate_device K pod s nt d) = GpuMemory nt"
  "length (Gpus (dra_allocate_device K pod s nt d)) = length (Gpus nt)"
  "lower_ids (dra_allocate_device K pod s nt d) = lower_ids nt"
proof -
  note k = dra_allocate_device_kept [of pod nt K s d]
  show "GpuMemory (dra_allocate_device K pod s nt d) = GpuMemory nt" by (rule nt_kept_fields(1) [OF k])
  show "length (Gpus (dra_allocate_device K pod s nt d)) = length (Gpus nt)" by (rule nt_kept_length [OF k])
  have "map to_lower (map ID (Gpus (dra_allocate_device K pod s nt d))) = map to_lower (map ID (Gpus nt))"
    by (simp only: nt_kept_ids [OF k])
  then show "lower_ids (dra_allocate_device K pod s nt d) = lower_ids nt" by (simp add: lower_ids_def comp_def)
qed

lemma dra_allocate_nth:
  assumes "distinct (lower_ids nt)" and "i < length (Gpus nt)" and "p_Name pod \<noteq> []"
  shows "Gpus (dra_allocate K pod s nt ds) ! i =
    (if is_free (Gpus nt ! i) \<and> (\<exists>d \<in> set ds. equal_fold (ID (Gpus nt ! i)) d)
     then dra_allocate_gpu K pod (GpuMemory nt) s (Gpus nt ! i) else Gpus nt ! i)"
  using assms
proof (induction ds arbitrary: nt)
  case Nil
  show ?case by (simp add: dra_allocate_def)
next
  case (Cons d ds)
  have "\<not> is_free (dra_allocate_gpu K pod (GpuMemory nt) s (Gpus nt ! i))"
    using Cons.prems(3) by (simp add: is_free_def container_details_def)
  moreover have "Gpus (dra_allocate K pod s nt (d # ds)) ! i = Gpus (dra_allocate K pod s (dra_allocate_device K pod s nt d) ds) ! i"
    by (simp add: dra_allocate_def)
  ultimately show ?case
    using Cons.IH [of "dra_allocate_device K pod s nt d"] Cons.prems dra_allocate_device_nth [OF Cons.prems(1,2), of K pod s d]
    by auto
qed

text \<open>
  C8. A pod with resource claims is given exactly the free GPUs that the allocations of its claims
  name, whatever the case of the name; unknown devices and GPUs that others hold are left out.
\<close>

theorem dra_add_allocates:
  assumes "IsDraPod pod" and "\<not> isDraAlreadyAllocated pod nt" and "p_Name pod \<noteq> []"
    and "getDeviceNamesFromClaims K pod s = Ok devices" and "distinct (lower_ids nt)"
  shows "\<exists>nt'. handleDraGpuPodAddition K pod nt s = Ok nt' \<and> length (Gpus nt') = length (Gpus nt) \<and>
    (\<forall>i < length (Gpus nt). Gpus nt' ! i =
       (if is_free (Gpus nt ! i) \<and> (\<exists>d \<in> set devices. equal_fold (ID (Gpus nt ! i)) d)
        then dra_allocate_gpu K pod (GpuMemory nt) s (Gpus nt ! i) else Gpus nt ! i))"
proof -
  have "handleDraGpuPodAddition K pod nt s = Ok (dra_allocate K pod s nt devices)"
    using assms(1,2,4) by (simp add: handleDraGpuPodAddition_def dra_allocate_def)
  moreover have "length (Gpus (dra_allocate K pod s nt devices)) = length (Gpus nt)"
    by (rule nt_kept_length [OF dra_allocate_kept])
  ultimately show ?thesis by (intro exI conjI allI impI) (assumption, assumption, rule dra_allocate_nth [OF assms(5) _ assms(3)])
qed

text \<open>
  An update that finds the pod without GPUs (its claims were allocated after it was added) does what
  the addition would do now.
\<close>

theorem dra_late_allocation:
  assumes "\<not> isDraAlreadyAllocated pod nt"
  shows "handleDraGpuPodUpdate K pod nt s = handleDraGpuPodAddition K pod nt s"
  using assms by (cases "getDeviceNamesFromClaims K pod s") (auto simp: handleDraGpuPodUpdate_def handleDraGpuPodAddition_def)

section \<open>Shared GPUs\<close>

lemma shared_add_Ok:
  assumes "IsSharedGpuPod K pod" and "handleSharedGpuPodAddition K pod nt s = Ok nt'"
  obtains i where "getMatchingReservationPodGpuIdx K pod nt s = Ok i" and "0 \<le> i" and "nat i < length (Gpus nt)"
    and "PodGpuUsageStatus (Status (Gpus nt ! nat i)) \<noteq> None"
    and "nt' = nt\<lparr>Gpus := (Gpus nt)[nat i := put_usage K pod (GpuMemory nt) s (Gpus nt ! nat i)]\<rparr>"
proof -
  from assms obtain i where i: "getMatchingReservationPodGpuIdx K pod nt s = Ok i"
      and at: "at_gpu nt i (set_usage_of K pod (GpuMemory nt) s) = Ok nt'"
    by (auto simp: handleSharedGpuPodAddition_def calculateAndSetPodGpuUsageStatus_def rbind_eq_Ok)
  from at have "0 \<le> i" and "nat i < length (Gpus nt)" by (auto simp: at_gpu_def split: if_splits)
  moreover from at obtain f where "PodGpuUsageStatus (Status (Gpus nt ! nat i)) = Some f"
    by (cases "PodGpuUsageStatus (Status (Gpus nt ! nat i))") (auto simp: at_gpu_def set_usage_of_def split: if_splits)
  ultimately show thesis using that [OF i] at
    by (auto simp: at_gpu_def set_usage_of_def put_usage_def usage_of_def split: if_splits)
qed

lemma delete_put_usage:
  assumes "PodGpuUsageStatus (Status g) \<noteq> None" and "usage_of g (p_UID pod) = None"
  shows "delete_usage_of pod (put_usage K pod m s g) = g"
proof -
  obtain f where f: "PodGpuUsageStatus (Status g) = Some f" using assms(1) by blast
  with assms(2) have "f(p_UID pod := None) = f" by (auto simp: usage_of_def)
  with f have "(Status g)\<lparr>PodGpuUsageStatus := Some (f(p_UID pod := None))\<rparr> = Status g" by (cases "Status g") simp
  with f show ?thesis by (cases g) (simp add: delete_usage_of_def put_usage_def usage_of_def)
qed

text \<open>
  C9. The usage record of a pod that shares a GPU is set on the first GPU held by its reservation pod, and
  nothing else changes; the deletion of the pod takes the record away again and restores the topology.
\<close>

theorem shared_usage_round_trip:
  assumes shared: "IsSharedGpuPod K pod" and add: "handleSharedGpuPodAddition K pod nt s = Ok nt1"
    and fresh: "\<forall>g \<in> set (Gpus nt). usage_of g (p_UID pod) = None"
  shows "\<exists>i < length (Gpus nt).
      getMatchingReservationPodName K pod s = Ok (cd_Pod (AllocatedBy (Status (Gpus nt ! i)))) \<and>
      (\<forall>j < i. getMatchingReservationPodName K pod s \<noteq> Ok (cd_Pod (AllocatedBy (Status (Gpus nt ! j))))) \<and>
      nt1 = nt\<lparr>Gpus := (Gpus nt)[i := put_usage K pod (GpuMemory nt) s (Gpus nt ! i)]\<rparr> \<and>
      handleSharedGpuPodDeletion K pod nt1 s = Ok nt"
proof -
  obtain i where idx: "getMatchingReservationPodGpuIdx K pod nt s = Ok i" and i: "0 \<le> i" "nat i < length (Gpus nt)"
      and made: "PodGpuUsageStatus (Status (Gpus nt ! nat i)) \<noteq> None"
      and nt1: "nt1 = nt\<lparr>Gpus := (Gpus nt)[nat i := put_usage K pod (GpuMemory nt) s (Gpus nt ! nat i)]\<rparr>"
    by (rule shared_add_Ok [OF shared add])
  from idx i(1) obtain n where n: "getMatchingReservationPodName K pod s = Ok n"
      and fi: "first_index (\<lambda>g. cd_Pod (AllocatedBy (Status g)) = n) (Gpus nt) = i"
    by (auto simp: getMatchingReservationPodGpuIdx_def rbind_eq_Ok Let_def split: if_splits)
  have ne: "first_index (\<lambda>g. cd_Pod (AllocatedBy (Status g)) = n) (Gpus nt) \<noteq> -1" using fi i(1) by simp
  note props = first_index_props [OF ne, unfolded fi]
  have same: "map (\<lambda>g. cd_Pod (AllocatedBy (Status g))) (Gpus nt1) = map (\<lambda>g. cd_Pod (AllocatedBy (Status g))) (Gpus nt)"
    unfolding nt1 using i(2) by (intro nth_equalityI) (auto simp: nth_list_update put_usage_def)
  have "first_index (\<lambda>g. cd_Pod (AllocatedBy (Status g)) = n) gs = first_index (\<lambda>x. x = n) (map (\<lambda>g. cd_Pod (AllocatedBy (Status g))) gs)"
    for gs :: "GpuDetails list" by (induction gs) simp_all
  with same fi have "first_index (\<lambda>g. cd_Pod (AllocatedBy (Status g)) = n) (Gpus nt1) = i" by metis
  with idx n i(1) have idx1: "getMatchingReservationPodGpuIdx K pod nt1 s = Ok i"
    by (auto simp: getMatchingReservationPodGpuIdx_def split: if_splits)
  have "usage_of (Gpus nt ! nat i) (p_UID pod) = None" using fresh i(2) by simp
  then have gone: "delete_usage_of pod (put_usage K pod (GpuMemory nt) s (Gpus nt ! nat i)) = Gpus nt ! nat i"
    by (rule delete_put_usage [OF made])
  have "handleSharedGpuPodDeletion K pod nt1 s = Ok nt"
    using shared idx1 i nt1 gone by (simp add: handleSharedGpuPodDeletion_def at_gpu_def)
  with n props nt1 i show ?thesis by (intro exI [of _ "nat i"]) auto
qed

end
