(* ===== verification/WitnessPods.thy ===== *)
theory WitnessPods
  imports Fixtures PodProps
begin

text \<open>
  The properties of the pod handlers and the pod controller at concrete inputs: a node with two GPUs, a pod
  that requests one, a pod with a claim, a pod that shares the GPU of a reservation pod.
\<close>

definition w_pod :: "string \<Rightarrow> int Pod" where
  "w_pod name = \<lparr>p_Name = name, p_Namespace = ''ns1'', p_UID = name, p_Annotations = Map.empty, p_Labels = Map.empty,
     p_NodeName = ''node1'',
     p_Containers = [\<lparr>c_Name = ''main'', c_Limits = [GpuResourceName \<mapsto> 1000], c_Requests = Map.empty, c_Claims = []\<rparr>],
     p_ResourceClaims = [], p_Phase = ''Running'', p_ResourceClaimStatuses = []\<rparr>"

definition w_free :: "string \<Rightarrow> GpuDetails" where
  "w_free gid = w_gpu gid [] (Some Map.empty)"

definition w_two :: NodeTopology where
  "w_two = w_nt [w_free ''g0'', w_gpu ''g1'' ''other'' (Some Map.empty)]"

definition w_s :: ref_state where
  "w_s = w_state [(''node1'', w_two)] [] []"

lemma w_s_topology [simp]: "GetNodeTopologyFromCM ref_env ''node1'' w_s = Ok w_two"
  by (simp add: w_s_def)

lemma w_update [simp]: "fst (UpdateNodeTopologyCM ref_env nt n s) = Ok ()"
  by (simp add: UpdateNodeTopologyCM_def ToNodeTopologyCM_def ref_env_simps ref_apply_def Let_def)

lemma w_pod_props [simp]:
  "p_NodeName (w_pod n) = ''node1''" "p_Name (w_pod n) = n" "p_Namespace (w_pod n) = ''ns1''" "p_UID (w_pod n) = n"
  "p_Containers (w_pod n) = [\<lparr>c_Name = ''main'', c_Limits = [GpuResourceName \<mapsto> 1000], c_Requests = Map.empty, c_Claims = []\<rparr>]"
  "\<not> IsGpuReservationPod ref_env (w_pod n)" "\<not> IsSharedGpuPod ref_env (w_pod n)" "\<not> IsDraPod (w_pod n)"
  "IsDedicatedGpuPod ref_env (w_pod n) = Ok True"
  by (simp_all add: w_pod_def IsGpuReservationPod_def IsSharedGpuPod_def IsDraPod_def IsDedicatedGpuPod_def gpu_limit_def
      ref_env_simps)

lemma w_dedicated: "dedicated_only ref_env (w_pod n)"
  by (simp add: dedicated_only_def)

lemma w_made: "maps_made w_two" and w_clean: "clean_free w_two"
  by (simp_all add: w_two_def maps_made_def clean_free_def w_free_def w_gpu_def is_free_def zero_container_def)

lemma w_fresh: "\<not> isAlreadyAllocated (w_pod ''p'') w_two"
  by (simp add: w_two_def isAlreadyAllocated_def isGpuOccupiedByPod_def w_free_def w_gpu_def zero_container_def)

text \<open>A dedicated pod is handled without an error whenever the node's maps are made.\<close>

lemma w_limit: "gpu_limit ref_env (hd (p_Containers (w_pod n))) = 1000"
  by (simp add: gpu_limit_def)

lemma w_add_ok:
  assumes nt: "GetNodeTopologyFromCM ref_env ''node1'' s = Ok nt" and "maps_made nt"
  shows "HandleAdd ref_env (w_pod n) s = (Ok (), snd (HandleAdd ref_env (w_pod n) s))"
proof (rule ok_pair)
  have "\<exists>nt'. handleDedicatedGpuPodAddition ref_env (w_pod n) nt s = (Ok nt', s)"
  proof (cases "isAlreadyAllocated (w_pod n) nt")
    case True
    then show ?thesis by (simp add: handleDedicatedGpuPodAddition_def)
  next
    case False
    obtain gs where "allocate_loop ref_env (w_pod n) (GpuMemory nt) s (q_value ref_env 1000) (Gpus nt) = Ok gs"
      using allocate_loop_made [OF assms(2) [unfolded maps_made_def], of ref_env "w_pod n" "GpuMemory nt" s "q_value ref_env 1000"] by blast
    with False show ?thesis by (simp add: handleDedicatedGpuPodAddition_def w_limit [simplified] Let_def)
  qed
  then obtain nt' where d: "handleDedicatedGpuPodAddition ref_env (w_pod n) nt s = (Ok nt', s)" by blast
  show "fst (HandleAdd ref_env (w_pod n) s) = Ok ()" unfolding HandleAdd_def
    by (simp add: nt d handleSharedGpuPodAddition_def handleDraGpuPodAddition_def)
qed

lemma w_delete_ok:
  assumes "GetNodeTopologyFromCM ref_env ''node1'' s = Ok nt"
  shows "HandleDelete ref_env (w_pod n) s = (Ok (), snd (HandleDelete ref_env (w_pod n) s))"
  by (rule ok_pair) (simp add: assms HandleDelete_def handleDedicatedGpuPodDeletion_def handleSharedGpuPodDeletion_def)

lemma w_added: "HandleAdd ref_env (w_pod ''p'') w_s = (Ok (), snd (HandleAdd ref_env (w_pod ''p'') w_s))"
  by (rule w_add_ok [OF w_s_topology w_made])

section \<open>Dedicated pods\<close>

theorem add_allocates_witness:
  "\<exists>nt'. GetNodeTopologyFromCM ref_env ''node1'' (snd (HandleAdd ref_env (w_pod ''p'') w_s)) = Ok nt' \<and>
    length (filter is_free (Gpus nt')) = 0"
  using add_allocates_first_free [OF ref_store_ok ref_codec_ok w_dedicated _ _ _ w_made w_fresh w_added]
  by (force simp: w_two_def w_free_def w_gpu_def is_free_def zero_container_def gpu_limit_def ref_env_simps)

theorem delete_releases_witness:
  "\<exists>nt'. GetNodeTopologyFromCM ref_env ''node1'' (snd (HandleDelete ref_env (w_pod ''other'') w_s)) = Ok nt' \<and>
    AllocatedBy (Status (Gpus nt' ! 1)) = zero_container"
  using delete_releases [OF ref_store_ok ref_codec_ok w_delete_ok [OF w_s_topology], of "''other''" w_two 1]
  by (auto simp: w_two_def w_gpu_def releases_def isGpuOccupiedByPod_def)

text \<open>After an addition the node's topology can be read again and its maps are made.\<close>

lemma w_added_topology:
  assumes "HandleAdd ref_env (w_pod n) s = (Ok (), s')"
  shows "\<exists>nt. GetNodeTopologyFromCM ref_env ''node1'' s' = Ok nt \<and> maps_made nt"
proof -
  obtain nt' s1 where "UpdateNodeTopologyCM ref_env nt' ''node1'' s1 = (Ok (), s')"
    using HandleAdd_handles [OF ref_store_ok, of "w_pod n" s] assms by (auto simp: handles_def)
  from ref_store.get_put [OF this] show ?thesis by simp
qed

theorem add_idempotent_witness:
  "GetNodeTopologyFromCM ref_env ''node1'' (snd (HandleAdd ref_env (w_pod ''p'') (snd (HandleAdd ref_env (w_pod ''p'') w_s)))) =
   GetNodeTopologyFromCM ref_env ''node1'' (snd (HandleAdd ref_env (w_pod ''p'') w_s))"
proof -
  obtain nt where "GetNodeTopologyFromCM ref_env ''node1'' (snd (HandleAdd ref_env (w_pod ''p'') w_s)) = Ok nt" and "maps_made nt"
    using w_added_topology [OF w_added] by blast
  note again = w_add_ok [OF this, of "''p''"]
  from add_idempotent [OF ref_store_ok ref_codec_ok w_dedicated w_added again] show ?thesis by simp
qed

theorem delete_undoes_add_witness:
  "GetNodeTopologyFromCM ref_env ''node1'' (snd (HandleDelete ref_env (w_pod ''p'') (snd (HandleAdd ref_env (w_pod ''p'') w_s)))) = Ok w_two"
proof -
  obtain nt where "GetNodeTopologyFromCM ref_env ''node1'' (snd (HandleAdd ref_env (w_pod ''p'') w_s)) = Ok nt"
    using w_added_topology [OF w_added] by blast
  note del = w_delete_ok [OF this, of "''p''"]
  from delete_undoes_add [OF ref_store_ok ref_codec_ok w_dedicated _ _ w_made w_clean w_fresh w_added del] show ?thesis by simp
qed

section \<open>Errors and runs\<close>

theorem failed_event_witness:
  "same_cms ref_env (w_state [] [] []) (snd (HandleAdd ref_env (w_pod ''p'') (w_state [] [] [])))"
proof -
  have "fst (HandleAdd ref_env (w_pod ''p'') (w_state [] [] [])) \<noteq> Ok ()" by (simp add: HandleAdd_def)
  with failed_event_writes_nothing [OF ref_store_ok] show ?thesis by blast
qed

lemma w_s_only: "GetNodeTopologyFromCM ref_env n w_s = Ok nt \<Longrightarrow> nt = w_two"
  by (cases "n = ''node1''") (simp_all add: w_s_def)

theorem dispatch_no_panic_witness: "\<not> is_panic (fst (dispatch ref_env (Added (w_pod ''p'')) w_s))"
  by (rule dispatch_no_panic)
    (auto simp: names_ok_def topologies_made_def ref_env_simps w_s_def [symmetric] ev_pods_def w_made dest: w_s_only, simp add: w_s_def)

theorem topology_shape_kept_witness:
  "\<exists>nt. GetNodeTopologyFromCM ref_env ''node1'' (snd (dispatch ref_env (Added (w_pod ''p'')) w_s)) = Ok nt \<and> map ID (Gpus nt) = [''g0'', ''g1'']"
proof -
  have "ctl_reach ref_env (\<lambda>_. True) w_s (snd (dispatch ref_env (Added (w_pod ''p'')) w_s))"
    by (rule ctl_reach.event [OF ctl_reach.start _ prod.collapse [symmetric]]) simp
  from topology_shape_kept [OF ref_store_ok ref_codec_ok w_s_topology this] show ?thesis
    by (auto simp: w_two_def w_free_def w_gpu_def)
qed

theorem allocation_kept_witness:
  "\<exists>nt. GetNodeTopologyFromCM ref_env ''node1'' (snd (dispatch ref_env (Added (w_pod ''p'')) w_s)) = Ok nt \<and>
    cd_Pod (AllocatedBy (Status (Gpus nt ! 1))) = ''other''"
proof -
  have "ctl_reach ref_env (\<lambda>p. (p_Namespace p, p_Name p) \<noteq> (p_Namespace (w_pod ''other''), p_Name (w_pod ''other'')) \<and>
      p_UID p \<noteq> p_UID (w_pod ''other'')) w_s (snd (dispatch ref_env (Added (w_pod ''p'')) w_s))"
    by (rule ctl_reach.event [OF ctl_reach.start _ prod.collapse [symmetric]]) (simp add: ev_pods_def)
  note reach = this
  have g: "1 < length (Gpus w_two)" "owned_by (w_pod ''other'') (Gpus w_two ! 1)" "cd_Pod (AllocatedBy (Status (Gpus w_two ! 1))) = ''other''"
    by (simp_all add: owned_by_def w_two_def w_gpu_def)
  have "p_Name (w_pod ''other'') \<noteq> []" by simp
  from allocation_kept_until_own_event [OF ref_store_ok ref_codec_ok w_s_topology g(1,2) this reach] g(3)
  show ?thesis by metis
qed

section \<open>Claims and shared GPUs\<close>

definition w_claim_pod :: "int Pod" where
  "w_claim_pod = (w_pod ''d'')\<lparr>p_ResourceClaims := [(''c'', Some ''claim'')]\<rparr>"

definition w_claim_state :: ref_state where
  "w_claim_state = w_s\<lparr>rs_claims := [((''ns1'', ''claim''),
     Some [\<lparr>ar_Request = ''r'', ar_Driver = draDriverName, ar_Pool = ''node1'', ar_Device = ''G0''\<rparr>])]\<rparr>"

theorem dra_add_witness:
  "\<exists>nt'. handleDraGpuPodAddition ref_env w_claim_pod w_two w_claim_state = Ok nt' \<and>
    Gpus nt' ! 0 = dra_allocate_gpu ref_env w_claim_pod 16384 w_claim_state (w_free ''g0'')"
proof -
  have names: "getDeviceNamesFromClaims ref_env w_claim_pod w_claim_state = Ok [''G0'']"
    by (simp add: getDeviceNamesFromClaims_def getResourceClaimNamesFromPod_def w_claim_pod_def w_pod_def w_claim_state_def
        ref_env_simps ref_find_def getDevicesFromClaim_def)
  have g: "Gpus w_two ! 0 = w_free ''g0''" "is_free (w_free ''g0'')" "0 < length (Gpus w_two)"
    by (simp_all add: w_two_def w_free_def w_gpu_def is_free_def zero_container_def)
  have e: "equal_fold (ID (w_free ''g0'')) ''G0''" by code_simp
  have "distinct (lower_ids w_two)"
    by code_simp
  moreover have "IsDraPod w_claim_pod" "p_Name w_claim_pod \<noteq> []" "\<not> isDraAlreadyAllocated w_claim_pod w_two"
    by (simp_all add: w_claim_pod_def w_pod_def IsDraPod_def isDraAlreadyAllocated_def owned_by_def w_two_def w_free_def
        w_gpu_def zero_container_def)
  ultimately obtain nt' where nt': "handleDraGpuPodAddition ref_env w_claim_pod w_two w_claim_state = Ok nt'"
    and "\<forall>i < length (Gpus w_two). Gpus nt' ! i = (if is_free (Gpus w_two ! i) \<and> (\<exists>d \<in> set [''G0'']. equal_fold (ID (Gpus w_two ! i)) d)
        then dra_allocate_gpu ref_env w_claim_pod (GpuMemory w_two) w_claim_state (Gpus w_two ! i) else Gpus w_two ! i)"
    using dra_add_allocates [of w_claim_pod w_two ref_env w_claim_state "[''G0'']"] names by blast
  from this(2) [rule_format, OF g(3)] g(1,2) e have "Gpus nt' ! 0 = dra_allocate_gpu ref_env w_claim_pod 16384 w_claim_state (w_free ''g0'')"
    by (simp add: w_two_def)
  with nt' show ?thesis by blast
qed

definition w_shared_pod :: "int Pod" where
  "w_shared_pod = (w_pod ''s'')\<lparr>p_Annotations := [AnnotationGpuIdx \<mapsto> ''0'']\<rparr>"

definition w_reservation :: "int Pod" where
  "w_reservation = (w_pod ''other'')\<lparr>p_Namespace := ''runai-reservation'', p_Annotations := [AnnotationReservationPodGpuIdx \<mapsto> ''0'']\<rparr>"

definition w_shared_state :: ref_state where
  "w_shared_state = w_state [(''node1'', w_two)] [w_reservation] []"

theorem shared_usage_witness:
  "\<exists>nt1. handleSharedGpuPodAddition ref_env w_shared_pod w_two w_shared_state = Ok nt1 \<and>
    handleSharedGpuPodDeletion ref_env w_shared_pod nt1 w_shared_state = Ok w_two"
proof -
  have shared: "IsSharedGpuPod ref_env w_shared_pod"
    by (simp add: w_shared_pod_def w_pod_def IsSharedGpuPod_def IsGpuReservationPod_def ref_env_simps)
  have a: "atoi ''0'' = Some 0" by code_simp
  have "getMatchingReservationPodName ref_env w_shared_pod w_shared_state = Ok ''other''"
    by (simp add: getMatchingReservationPodName_def getMatchingReservationPodNameByRunaiGpuAnnotation_def annotation_or_empty_def
        getNodeReservationPods_def w_shared_pod_def w_pod_def w_shared_state_def w_reservation_def ref_env_simps a)
  then have "getMatchingReservationPodGpuIdx ref_env w_shared_pod w_two w_shared_state = Ok 1"
    by (simp add: getMatchingReservationPodGpuIdx_def w_two_def w_free_def w_gpu_def zero_container_def)
  with shared obtain nt1 where nt1: "handleSharedGpuPodAddition ref_env w_shared_pod w_two w_shared_state = Ok nt1"
    by (simp add: handleSharedGpuPodAddition_def calculateAndSetPodGpuUsageStatus_def at_gpu_def set_usage_of_def w_two_def w_gpu_def)
  have fresh: "\<forall>g \<in> set (Gpus w_two). usage_of g (p_UID w_shared_pod) = None"
    by (simp add: w_two_def w_free_def w_gpu_def usage_of_def)
  from shared_usage_round_trip [OF shared nt1 fresh] nt1 show ?thesis by blast
qed

end
