(* ===== verification/Profile.thy ===== *)
theory Profile
  imports RefServer
begin

text \<open>
  \<^verbatim>\<open>internal/common/profile/profile.go\<close>: GPU profiles, trees of decoded YAML.  A profile is
  loaded from a ConfigMap, a pool's overrides are merged onto it, and the GPU specification is read off
  the result.
\<close>

record GpuSpec =
  gs_GpuProduct :: string
  gs_GpuMemory :: int
  gs_GpuCount :: int
  gs_Architecture :: string
  gs_DriverVersion :: string
  gs_CudaVersion :: string

definition zero_spec :: GpuSpec where
  "zero_spec = \<lparr>gs_GpuProduct = [], gs_GpuMemory = 0, gs_GpuCount = 0, gs_Architecture = [], gs_DriverVersion = [],
                gs_CudaVersion = []\<rparr>"

section \<open>Loading\<close>

definition CmNamePrefix :: string where "CmNamePrefix = ''gpu-profile-''"
definition CmProfileKey :: string where "CmProfileKey = ''profile.yaml''"

definition Load :: "('s, 'q, 'y) kube_env \<Rightarrow> string \<Rightarrow> string \<Rightarrow> 's \<Rightarrow> gmap option res" where
  "Load K namespace profileName s =
     rbind (wrap_err ''failed to load GPU profile'' (of_sum (cm_get K namespace (CmNamePrefix @ profileName) s))) (\<lambda>cm.
       case cm_Data cm CmProfileKey of
         None \<Rightarrow> Err (Msg ''GPU profile ConfigMap missing key'')
       | Some data \<Rightarrow> wrap_err ''failed to parse GPU profile'' (of_sum (unmarshal_gmap K data)))"

section \<open>Merging\<close>

fun as_map :: "gval \<Rightarrow> gmap option" where
  "as_map (GMap m) = Some m"
| "as_map v = None"

definition gmap_size :: "gmap \<Rightarrow> nat" where
  "gmap_size m = size_list (size_prod (\<lambda>_. 0) size) m"

lemma gmap_size_nested [simp]:
  "gmap_size om < gmap_size ((k, GMap om) # rest)" "gmap_size rest < gmap_size ((k, v) # rest)"
  by (simp_all add: gmap_size_def)

text \<open>The overrides are visited one after the other; a map is merged into a map, all else replaces.\<close>

function Merge :: "gmap \<Rightarrow> gmap \<Rightarrow> gmap" where
  "Merge base [] = base"
| "Merge base ((key, overrideVal) # rest) =
     Merge (AList.update key
              (case map_of base key of
                 None \<Rightarrow> overrideVal
               | Some baseVal \<Rightarrow>
                   (case baseVal of
                      GMap baseMap \<Rightarrow> (case overrideVal of GMap overrideMap \<Rightarrow> GMap (Merge baseMap overrideMap) | _ \<Rightarrow> overrideVal)
                    | _ \<Rightarrow> overrideVal))
              base) rest"
  by pat_completeness auto
termination
  by (relation "measure (\<lambda>(b, ov). gmap_size ov)") simp_all

section \<open>Reading the specification\<close>

definition getMap :: "gmap \<Rightarrow> string \<Rightarrow> gmap option" where
  "getMap m key = Option.bind (map_of m key) as_map"

fun as_string :: "gval option \<Rightarrow> string" where
  "as_string (Some (GStr t)) = t"
| "as_string v = []"

text \<open>\<^verbatim>\<open>f / (1024 * 1024)\<close> of a float\<close>

fun f64_div_mib :: "gofloat \<Rightarrow> gofloat" where
  "f64_div_mib (Fin q) = to_f64 (q / 1048576)"
| "f64_div_mib f = f"

fun toMiB :: "(gofloat \<Rightarrow> int) \<Rightarrow> gval option \<Rightarrow> int" where
  "toMiB conv (Some (GInt n)) = go_div n (1024 * 1024)"
| "toMiB conv (Some (GInt64 n)) = go_div n (1024 * 1024)"
| "toMiB conv (Some (GFloat f)) = int_of_f64 conv (f64_div_mib f)"
| "toMiB conv v = 0"

fun as_count :: "(gofloat \<Rightarrow> int) \<Rightarrow> gval option \<Rightarrow> int" where
  "as_count conv (Some (GInt n)) = n"
| "as_count conv (Some (GInt64 n)) = n"
| "as_count conv (Some (GFloat f)) = int_of_f64 conv f"
| "as_count conv v = 0"

definition DeviceCount :: "(gofloat \<Rightarrow> int) \<Rightarrow> gmap \<Rightarrow> int" where
  "DeviceCount conv profile =
     (let n = as_count conv (map_of profile ''device_count'')
      in if 0 < n then n
         else case map_of profile ''devices'' of Some (GList devices) \<Rightarrow> int (length devices) | _ \<Rightarrow> 0)"

definition Extract :: "(gofloat \<Rightarrow> int) \<Rightarrow> gmap option \<Rightarrow> GpuSpec" where
  "Extract conv profile =
     (case profile of
        None \<Rightarrow> zero_spec
      | Some p \<Rightarrow>
          let spec = (case getMap p ''device_defaults'' of
                        None \<Rightarrow> zero_spec
                      | Some dd \<Rightarrow>
                          let sp = zero_spec\<lparr>gs_GpuProduct := as_string (map_of dd ''name''),
                                             gs_Architecture := as_string (map_of dd ''architecture'')\<rparr>
                          in case getMap dd ''memory'' of
                               None \<Rightarrow> sp
                             | Some mem \<Rightarrow> sp\<lparr>gs_GpuMemory := toMiB conv (map_of mem ''total_bytes'')\<rparr>);
              spec = (case getMap p ''system'' of
                        None \<Rightarrow> spec
                      | Some sys \<Rightarrow> spec\<lparr>gs_DriverVersion := as_string (map_of sys ''driver_version''),
                                         gs_CudaVersion := as_string (map_of sys ''cuda_version'')\<rparr>)
          in spec\<lparr>gs_GpuCount := DeviceCount conv p\<rparr>)"

section \<open>What a merge holds\<close>

text \<open>The value one key of the result has.\<close>

definition merge_value :: "gval option \<Rightarrow> gval \<Rightarrow> gval" where
  "merge_value b v =
     (case b of
        Some (GMap bm) \<Rightarrow> (case v of GMap om \<Rightarrow> GMap (Merge bm om) | _ \<Rightarrow> v)
      | _ \<Rightarrow> v)"

lemma Merge_step: "Merge base ((k, v) # rest) = Merge (AList.update k (merge_value (map_of base k) v) base) rest"
  by (simp add: merge_value_def split: option.splits gval.splits)

lemma Merge_lookup:
  assumes "distinct (map fst ov)"
  shows "map_of (Merge base ov) k =
    (case map_of ov k of None \<Rightarrow> map_of base k | Some v \<Rightarrow> Some (merge_value (map_of base k) v))"
  using assms
proof (induction ov arbitrary: base)
  case Nil
  show ?case by simp
next
  case (Cons kv ov)
  obtain j v where kv: "kv = (j, v)" by force
  have fresh: "map_of ov j = None" using Cons.prems kv by (simp add: map_of_eq_None_iff)
  show ?case
    using Cons.IH [of "AList.update j (merge_value (map_of base j) v) base"] Cons.prems fresh
    by (auto simp only: kv Merge_step) (auto simp: map_of_update split: option.splits)
qed

text \<open>The value at a path of keys.\<close>

fun lookup_path :: "gval \<Rightarrow> string list \<Rightarrow> gval option" where
  "lookup_path v [] = Some v"
| "lookup_path v (k # ks) = (case as_map v of None \<Rightarrow> None | Some m \<Rightarrow> Option.bind (map_of m k) (\<lambda>w. lookup_path w ks))"

text \<open>Overrides that say nothing about a path: no value at it or above it.\<close>

fun untouched :: "gmap \<Rightarrow> string list \<Rightarrow> bool" where
  "untouched m [] = False"
| "untouched m (k # ks) = (case map_of m k of None \<Rightarrow> True | Some (GMap om) \<Rightarrow> untouched om ks | Some v \<Rightarrow> False)"

text \<open>Every map in a tree has each key once.\<close>

inductive wf_gval :: "gval \<Rightarrow> bool" where
  "(\<And>m. v = GMap m \<Longrightarrow> distinct (map fst m)) \<Longrightarrow> (\<And>m k w. v = GMap m \<Longrightarrow> (k, w) \<in> set m \<Longrightarrow> wf_gval w) \<Longrightarrow> wf_gval v"

inductive_simps wf_GMap: "wf_gval (GMap m)"

lemma wf_gval_lookup: "wf_gval (GMap m) \<Longrightarrow> map_of m k = Some v \<Longrightarrow> wf_gval v"
  by (auto simp: wf_GMap dest: map_of_SomeD)

lemma merge_keeps_base:
  assumes "wf_gval (GMap ov)" and "lookup_path (GMap base) p = Some v" and "untouched ov p"
  shows "lookup_path (GMap (Merge base ov)) p = Some v"
  using assms
proof (induction p arbitrary: base ov)
  case Nil
  then show ?case by simp
next
  case (Cons k ks)
  have d: "distinct (map fst ov)" using Cons.prems(1) by (simp add: wf_GMap)
  obtain w where w: "map_of base k = Some w" "lookup_path w ks = Some v" using Cons.prems(2) by (auto simp: bind_eq_Some_conv)
  show ?case
  proof (cases "map_of ov k")
    case None
    with w show ?thesis by (simp add: Merge_lookup [OF d])
  next
    case (Some u)
    with Cons.prems(3) obtain om where om: "u = GMap om" and un: "untouched om ks" by (cases u) auto
    from un obtain k' ks' where "ks = k' # ks'" by (cases ks) auto
    with w(2) obtain bm where bm: "w = GMap bm" by (cases w) auto
    have "lookup_path (GMap (Merge bm om)) ks = Some v"
      using Cons.IH [of om bm] w(2) bm un wf_gval_lookup [OF Cons.prems(1) Some] om by simp
    with Some om bm w(1) show ?thesis by (simp add: Merge_lookup [OF d] merge_value_def)
  qed
qed

lemma merge_takes_override:
  assumes "wf_gval (GMap ov)" and "lookup_path (GMap ov) p = Some v" and "as_map v = None"
  shows "lookup_path (GMap (Merge base ov)) p = Some v"
  using assms
proof (induction p arbitrary: base ov)
  case Nil
  then show ?case by auto
next
  case (Cons k ks)
  have d: "distinct (map fst ov)" using Cons.prems(1) by (simp add: wf_GMap)
  obtain w where w: "map_of ov k = Some w" "lookup_path w ks = Some v" using Cons.prems(2) by (auto simp: bind_eq_Some_conv)
  show ?case
  proof (cases "\<exists>bm om. map_of base k = Some (GMap bm) \<and> w = GMap om")
    case True
    then obtain bm om where b: "map_of base k = Some (GMap bm)" and om: "w = GMap om" by blast
    have "lookup_path (GMap (Merge bm om)) ks = Some v"
      using Cons.IH [of om bm] w(2) om Cons.prems(3) wf_gval_lookup [OF Cons.prems(1) w(1)] by simp
    with b om w(1) show ?thesis by (simp add: Merge_lookup [OF d] merge_value_def)
  next
    case False
    then have "merge_value (map_of base k) w = w" by (auto simp: merge_value_def split: option.splits gval.splits)
    with w show ?thesis by (simp add: Merge_lookup [OF d])
  qed
qed

text \<open>
  A merge puts every scalar and list of the overrides at its path, and keeps every value of the
  profile that the overrides do not mention.
\<close>

theorem merge_overrides_and_keeps:
  assumes "wf_gval (GMap overrides)"
  shows "(\<forall>p v. lookup_path (GMap overrides) p = Some v \<and> as_map v = None \<longrightarrow>
            lookup_path (GMap (Merge base overrides)) p = Some v) \<and>
         (\<forall>p v. lookup_path (GMap base) p = Some v \<and> untouched overrides p \<longrightarrow>
            lookup_path (GMap (Merge base overrides)) p = Some v)"
  using merge_takes_override [OF assms] merge_keeps_base [OF assms] by blast

text \<open>
  The result of a merge does not depend on the order in which the runtime visits the overrides.
\<close>

theorem merge_order_independent:
  assumes "mset ov = mset ov'" and "distinct (map fst ov)"
  shows "map_of (Merge base ov) = map_of (Merge base ov')"
proof -
  have "distinct (map fst ov')" using assms by (metis mset_eq_imp_distinct_iff mset_map)
  with map_of_perm [OF assms] assms(2) show ?thesis by (auto simp: fun_eq_iff Merge_lookup)
qed

end
