(* ===== verification/Normalize.thy ===== *)
theory Normalize
  imports Profile "HOL-Library.List_Lexorder" "HOL-Library.Char_ord"
begin

text \<open>
  \<^verbatim>\<open>internal/common/topology/normalize.go\<close> and \<^verbatim>\<open>resolve.go\<close>: the cluster
  configuration in its old and its new format, and the GPU specification of a node pool.
  \<^verbatim>\<open>sort.Slice\<close> promises a sorted permutation and no more, so the sort is a parameter.
\<close>

section \<open>normalize.go\<close>

definition normalizeNodePool :: "NodePoolTopology \<Rightarrow> NodePoolConfig res" where
  "normalizeNodePool old =
     (let deviceDefaults = [(''name'', GStr (np_GpuProduct old)),
                            (''memory'', GMap [(''total_bytes'', GInt64 (wrap64 (wrap64 (np_GpuMemory old * 1024) * 1024)))])]
      in if np_GpuCount old < 0 then Panic (BadArgument ''makeslice'')
         else let devices = replicate (nat (np_GpuCount old)) (GMap []);
                  overrides = [(''device_defaults'', GMap deviceDefaults), (''devices'', GList devices)]
              in Ok \<lparr>Gpu = \<lparr>Backend = ''fake'', gc_Profile = [], Overrides = Some overrides\<rparr>, Numa = None,
                      Resources = map (\<lambda>dev. [(gd_Name dev, gd_Count dev)]) (np_OtherDevices old)\<rparr>)"

fun normalize_pools :: "(string \<times> NodePoolTopology) list \<Rightarrow> (string \<times> NodePoolConfig) list res" where
  "normalize_pools [] = Ok []"
| "normalize_pools ((name, pool) # rest) =
     rbind (normalizeNodePool pool) (\<lambda>c. rbind (normalize_pools rest) (\<lambda>cs. Ok ((name, c) # cs)))"

definition normalizeOldToClusterConfig :: "ClusterTopology \<Rightarrow> ClusterConfig res" where
  "normalizeOldToClusterConfig old =
     rbind (normalize_pools (ct_NodePools old)) (\<lambda>pools.
       Ok \<lparr>NodePoolLabelKey = ct_NodePoolLabelKey old, cc_MigStrategy = ct_MigStrategy old, NodePools = pools,
           GpuOperator = None\<rparr>)"

text \<open>The loop over the pools: it stops at the first pool with a \<^verbatim>\<open>gpu\<close> block.\<close>

fun scan_pools :: "bool \<Rightarrow> (string \<times> gval) list \<Rightarrow> bool option" where
  "scan_pools legacy [] = (if legacy then Some False else None)"
| "scan_pools legacy ((name, pool) # rest) =
     (case as_map pool of
        None \<Rightarrow> scan_pools legacy rest
      | Some m \<Rightarrow>
          if map_of m ''gpu'' \<noteq> None then Some True
          else scan_pools (legacy \<or> map_of m ''gpuProduct'' \<noteq> None \<or> map_of m ''gpuCount'' \<noteq> None) rest)"

definition new_format :: "gmap \<Rightarrow> bool" where
  "new_format raw =
     (case map_of raw ''nodePools'' of
        None \<Rightarrow> False
      | Some nodePools \<Rightarrow>
          (case as_map nodePools of
             None \<Rightarrow> False
           | Some poolsMap \<Rightarrow>
               (case scan_pools False poolsMap of
                  Some b \<Rightarrow> b
                | None \<Rightarrow> map_of raw ''gpuOperator'' \<noteq> None)))"

definition isNewFormat :: "('s, 'q, 'y) kube_env \<Rightarrow> 'y \<Rightarrow> bool" where
  "isNewFormat K data =
     (case unmarshal_gmap K data of
        Inl e \<Rightarrow> False
      | Inr None \<Rightarrow> new_format []
      | Inr (Some raw) \<Rightarrow> new_format raw)"

definition ParseAndNormalizeTopology :: "('s, 'q, 'y) kube_env \<Rightarrow> 'y \<Rightarrow> ClusterConfig res" where
  "ParseAndNormalizeTopology K data =
     (if blank_text K data then Err (Msg ''topology data is empty'')
      else if isNewFormat K data then wrap_err ''failed to parse new format topology'' (of_sum (unmarshal_ClusterConfig K data))
      else rbind (wrap_err ''failed to parse old format topology'' (of_sum (unmarshal_ClusterTopology K data)))
             normalizeOldToClusterConfig)"

definition FromClusterConfigCM :: "('s, 'q, 'y) kube_env \<Rightarrow> 'y ConfigMap \<Rightarrow> ClusterConfig res" where
  "FromClusterConfigCM K cm =
     (case cm_Data cm CmTopologyKey of
        None \<Rightarrow> Err (Msg ''topology configmap missing key'')
      | Some data \<Rightarrow> ParseAndNormalizeTopology K data)"

definition GetClusterConfigFromCM :: "('s, 'q, 'y) kube_env \<Rightarrow> 's \<Rightarrow> ClusterConfig res" where
  "GetClusterConfigFromCM K s =
     (case of_sum (cm_get K (TopologyCmNamespace K) (TopologyCmName K) s) of
        Err e \<Rightarrow> Err (Msg ''failed to get topology configmap'')
      | Panic p \<Rightarrow> Panic p
      | Ok cm \<Rightarrow> FromClusterConfigCM K cm)"

section \<open>resolve.go\<close>

record ResolvedPool =
  rp_GpuProduct :: string
  rp_GpuMemory :: int
  rp_GpuCount :: int
  rp_DriverVersion :: string
  rp_CudaVersion :: string
  rp_OtherDevices :: "GenericDevice list"

definition zero_pool :: ResolvedPool where
  "zero_pool = \<lparr>rp_GpuProduct = [], rp_GpuMemory = 0, rp_GpuCount = 0, rp_DriverVersion = [], rp_CudaVersion = [],
                rp_OtherDevices = []\<rparr>"

definition other_devices :: "(string \<times> int) list list \<Rightarrow> GenericDevice list" where
  "other_devices resources =
     concat (map (\<lambda>res. map (\<lambda>(name, n). \<lparr>gd_Name = name, gd_Count = n\<rparr>) (filter (\<lambda>(name, n). name \<noteq> ''nvidia.com/gpu'') res))
       resources)"

definition resolveFromOverrides :: "(gofloat \<Rightarrow> int) \<Rightarrow> NodePoolConfig \<Rightarrow> ResolvedPool \<Rightarrow> ResolvedPool" where
  "resolveFromOverrides conv pool resolved =
     (case Overrides (Gpu pool) of
        None \<Rightarrow> resolved
      | Some overrides \<Rightarrow>
          let resolved = (case getMap overrides ''device_defaults'' of
                            None \<Rightarrow> resolved
                          | Some dd \<Rightarrow>
                              let r = resolved\<lparr>rp_GpuProduct := as_string (map_of dd ''name'')\<rparr>
                              in case getMap dd ''memory'' of
                                   None \<Rightarrow> r
                                 | Some mem \<Rightarrow>
                                     (case map_of mem ''total_bytes'' of
                                        Some (GInt v) \<Rightarrow> r\<lparr>rp_GpuMemory := go_div v (1024 * 1024)\<rparr>
                                      | Some (GInt64 v) \<Rightarrow> r\<lparr>rp_GpuMemory := go_div v (1024 * 1024)\<rparr>
                                      | Some (GFloat v) \<Rightarrow> r\<lparr>rp_GpuMemory := int_of_f64 conv (f64_div_mib v)\<rparr>
                                      | _ \<Rightarrow> r))
          in resolved\<lparr>rp_GpuCount := DeviceCount conv overrides\<rparr>)"

definition resolveWithProfile ::
    "('s, 'q, 'y) kube_env \<Rightarrow> string \<Rightarrow> NodePoolConfig \<Rightarrow> ResolvedPool \<Rightarrow> 's \<Rightarrow> ResolvedPool res" where
  "resolveWithProfile K namespace pool resolved s =
     rbind (wrap_err ''failed to resolve profile'' (Load K namespace (gc_Profile (Gpu pool)) s)) (\<lambda>base.
       let merged = Merge (case base of None \<Rightarrow> [] | Some b \<Rightarrow> b) (case Overrides (Gpu pool) of None \<Rightarrow> [] | Some ov \<Rightarrow> ov);
           spec = Extract (conv_oor K) (Some merged)
       in Ok (resolved\<lparr>rp_GpuProduct := gs_GpuProduct spec, rp_GpuMemory := gs_GpuMemory spec,
                       rp_GpuCount := gs_GpuCount spec, rp_DriverVersion := gs_DriverVersion spec,
                       rp_CudaVersion := gs_CudaVersion spec\<rparr>))"

definition ResolveNodePool ::
    "('s, 'q, 'y) kube_env \<Rightarrow> (GenericDevice list \<Rightarrow> GenericDevice list) \<Rightarrow> string \<Rightarrow> NodePoolConfig \<Rightarrow> 's
     \<Rightarrow> ResolvedPool res" where
  "ResolveNodePool K sort_Slice namespace pool s =
     (let resolved = zero_pool\<lparr>rp_OtherDevices := sort_Slice (other_devices (Resources pool))\<rparr>
      in if gc_Profile (Gpu pool) \<noteq> [] then resolveWithProfile K namespace pool resolved s
         else Ok (resolveFromOverrides (conv_oor K) pool resolved))"

section \<open>Properties\<close>

definition has_gpu_block :: "gval \<Rightarrow> bool" where
  "has_gpu_block p \<longleftrightarrow> (case as_map p of None \<Rightarrow> False | Some m \<Rightarrow> map_of m ''gpu'' \<noteq> None)"

definition has_legacy_key :: "gval \<Rightarrow> bool" where
  "has_legacy_key p \<longleftrightarrow>
     (case as_map p of None \<Rightarrow> False | Some m \<Rightarrow> map_of m ''gpuProduct'' \<noteq> None \<or> map_of m ''gpuCount'' \<noteq> None)"

lemma scan_pools_spec:
  "scan_pools legacy ps =
     (if list_ex (\<lambda>np. has_gpu_block (snd np)) ps then Some True
      else if legacy \<or> list_ex (\<lambda>np. has_legacy_key (snd np)) ps then Some False else None)"
proof (induction legacy ps rule: scan_pools.induct)
  case (2 legacy name pool rest)
  then show ?case by (cases "as_map pool") (simp_all add: has_gpu_block_def has_legacy_key_def)
qed simp

text \<open>
  Which format a topology has does not depend on the order in which the runtime visits its pools:
  one pool with a \<^verbatim>\<open>gpu\<close> block makes it new, whatever the others are.
\<close>

theorem format_order_independent:
  assumes "as_map v = Some ps" and "mset ps = mset ps'"
  shows "new_format ((''nodePools'', v) # raw) = new_format ((''nodePools'', GMap ps') # raw)"
  using assms mset_eq_setD [OF assms(2)] by (simp add: new_format_def scan_pools_spec list_ex_iff)

definition sorts_by_name :: "(GenericDevice list \<Rightarrow> GenericDevice list) \<Rightarrow> bool" where
  "sorts_by_name f \<longleftrightarrow> (\<forall>xs. mset (f xs) = mset xs \<and> sorted (map gd_Name (f xs)))"

lemma sorted_distinct_unique:
  assumes "mset xs = mset ys" and "sorted (map f xs)" and "sorted (map f ys)" and "distinct (map f xs)"
  shows "xs = ys"
proof -
  have "map f xs = map f ys"
  proof (rule sorted_distinct_set_unique)
    have m: "mset (map f xs) = mset (map f ys)" using assms(1) by simp
    show "distinct (map f ys)" using assms(4) mset_eq_imp_distinct_iff [OF m] by simp
    show "set (map f xs) = set (map f ys)" by (rule mset_eq_setD [OF m])
  qed (use assms in simp_all)
  moreover have "inj_on f (set xs \<union> set ys)"
    using assms(1,4) mset_eq_setD [OF assms(1)] by (simp add: distinct_map)
  ultimately show ?thesis by (rule map_inj_on)
qed

text \<open>
  C13. The other devices of a pool whose resources name no device twice come out in one order, whatever order the runtime
  visits the resource maps in and whatever sort by name is used: resolving permuted resources gives the same pool.  (A name that
  occurs in two of the maps gives two devices that compare equal, whose order the unstable sort leaves open.)
\<close>

theorem resolve_deterministic:
  assumes "sorts_by_name f" and "sorts_by_name g"
    and "mset (other_devices (Resources pool)) = mset (other_devices rs)"
    and "distinct (map gd_Name (other_devices (Resources pool)))"
  shows "ResolveNodePool K f namespace pool s = ResolveNodePool K g namespace (pool\<lparr>Resources := rs\<rparr>) s"
proof -
  have "f (other_devices (Resources pool)) = g (other_devices rs)"
    using assms(1-3) mset_eq_imp_distinct_iff [of "map gd_Name (f (other_devices (Resources pool)))"
        "map gd_Name (other_devices (Resources pool))"] assms(4)
    by (intro sorted_distinct_unique [where f = gd_Name]) (auto simp: sorts_by_name_def mset_map)
  then show ?thesis
    by (simp add: ResolveNodePool_def resolveWithProfile_def resolveFromOverrides_def Let_def)
qed

text \<open>
  Reading an old-format pool through the new format loses nothing: product, memory, GPU count and
  the other devices, sorted by name and without the GPU itself, are those of the old pool.
\<close>

theorem old_pool_round_trip:
  assumes "0 \<le> np_GpuCount old" and "0 \<le> np_GpuMemory old" and "np_GpuMemory old < 2 ^ 43"
  shows "\<exists>pool r. normalizeNodePool old = Ok pool \<and> ResolveNodePool K f namespace pool s = Ok r \<and>
    rp_GpuProduct r = np_GpuProduct old \<and> rp_GpuMemory r = np_GpuMemory old \<and> rp_GpuCount r = np_GpuCount old \<and>
    rp_OtherDevices r = f (filter (\<lambda>d. gd_Name d \<noteq> ''nvidia.com/gpu'') (np_OtherDevices old))"
proof -
  have w: "wrap64 (wrap64 (np_GpuMemory old * 1024) * 1024) = np_GpuMemory old * (1024 * 1024)"
    using assms by (simp add: in64_def)
  have d: "go_div (np_GpuMemory old * (1024 * 1024)) (1024 * 1024) = np_GpuMemory old" by (rule go_div_exact) simp
  have o: "other_devices (map (\<lambda>dev. [(gd_Name dev, gd_Count dev)]) ds) = filter (\<lambda>d. gd_Name d \<noteq> ''nvidia.com/gpu'') ds" for ds
    by (induction ds) (auto simp: other_devices_def)
  show ?thesis using assms(1)
    by (simp add: normalizeNodePool_def w ResolveNodePool_def resolveFromOverrides_def getMap_def d [simplified] o
        DeviceCount_def zero_pool_def Let_def)
qed

end
