(* ===== verification/NodeHandler.thy ===== *)
theory NodeHandler
  imports Normalize GpuFrame
begin

text \<open>
  \<^verbatim>\<open>handlers/node\<close> (handler.go, topology_cm.go, labels.go, common.go) and
  \<^verbatim>\<open>controllers/node/controller.go\<close>: the topology ConfigMap and the labels of a node that joins
  or leaves, and the pruning of the ConfigMaps when the status updater starts.  The name-based UUID is a
  parameter.
\<close>

section \<open>topology_cm.go\<close>

text \<open>\<^verbatim>\<open>GPU-<uuid of node-idx>\<close>; a negative count is a panic of \<^verbatim>\<open>make\<close>.\<close>

definition gpu_id :: "(string \<Rightarrow> string) \<Rightarrow> string \<Rightarrow> nat \<Rightarrow> string" where
  "gpu_id uuid nodeName idx = ''GPU-'' @ uuid (nodeName @ ''-'' @ itoa (int idx))"

definition generateGpuDetails :: "(string \<Rightarrow> string) \<Rightarrow> int \<Rightarrow> string \<Rightarrow> GpuDetails list res" where
  "generateGpuDetails uuid gpuCount nodeName =
     (if gpuCount < 0 then Panic (BadArgument ''makeslice'')
      else Ok (map (\<lambda>idx. \<lparr>ID = gpu_id uuid nodeName idx, Status = zero_status\<rparr>) [0..<nat gpuCount]))"

definition createNodeTopologyCM ::
    "('s, 'q, 'y) kube_env \<Rightarrow> (GenericDevice list \<Rightarrow> GenericDevice list) \<Rightarrow> (string \<Rightarrow> string) \<Rightarrow> ClusterConfig
     \<Rightarrow> 'q Node \<Rightarrow> 's \<Rightarrow> unit res \<times> 's" where
  "createNodeTopologyCM K sort_Slice uuid cfg node s =
     (case GetNodeTopologyFromCM K (n_Name node) s of
        Ok nt \<Rightarrow> (Ok (), s)
      | Panic p \<Rightarrow> (Panic p, s)
      | Err e \<Rightarrow>
          (case n_Labels node (NodePoolLabelKey cfg) of
             None \<Rightarrow> (Err (Msg ''node does not have a nodepool label''), s)
           | Some nodePoolName \<Rightarrow>
               (case map_of (NodePools cfg) nodePoolName of
                  None \<Rightarrow> (Err (Msg ''nodepool not found in cluster topology''), s)
                | Some poolConfig \<Rightarrow>
                    sbind (wrap_err ''failed to resolve nodepool''
                             (ResolveNodePool K sort_Slice (TopologyCmNamespace K) poolConfig s), s) (\<lambda>resolved s.
                    sbind (generateGpuDetails uuid (rp_GpuCount resolved) (n_Name node), s) (\<lambda>gpus s.
                      let nodeTopology = \<lparr>GpuMemory = rp_GpuMemory resolved, GpuProduct = rp_GpuProduct resolved,
                            DriverVersion = rp_DriverVersion resolved, CudaVersion = rp_CudaVersion resolved,
                            Gpus = gpus, MigStrategy = cc_MigStrategy cfg, OtherDevices = rp_OtherDevices resolved\<rparr>;
                          (r, s') = CreateNodeTopologyCM K nodeTopology node s
                      in (wrap_err ''failed to create node topology'' r, s'))))))"

section \<open>labels.go\<close>

definition isFakeNode :: "'q Node \<Rightarrow> bool" where
  "isFakeNode node \<longleftrightarrow> n_Annotations node AnnotationKwokNode = Some ''fake''"

definition dcgmExporterLabelKey :: string where "dcgmExporterLabelKey = ''nvidia.com/gpu.deploy.dcgm-exporter''"
definition devicePluginLabelKey :: string where "devicePluginLabelKey = ''nvidia.com/gpu.deploy.device-plugin''"
definition draPluginGpuLabelKey :: string where "draPluginGpuLabelKey = ''nvidia.com/gpu.deploy.dra-plugin-gpu''"
definition computeDomainDevicePluginLabelKey :: string where
  "computeDomainDevicePluginLabelKey = ''nvidia.com/gpu.deploy.compute-domain-dra-plugin''"

definition patchNodeLabels ::
    "('s, 'q, 'y) kube_env \<Rightarrow> 'q Node \<Rightarrow> (string \<times> string option) list \<Rightarrow> 's \<Rightarrow> unit res \<times> 's" where
  "patchNodeLabels K node labels s =
     (let (r, s') = node_patch_labels K (n_Name node) labels s
      in (wrap_err ''failed to patch node labels'' (of_sum r), s'))"

definition node_labels :: "'q Node \<Rightarrow> (string \<times> string option) list" where
  "node_labels node =
     (dcgmExporterLabelKey, Some ''true'') #
     (if isFakeNode node then []
      else [(devicePluginLabelKey, Some ''true''), (draPluginGpuLabelKey, Some ''true''),
            (computeDomainDevicePluginLabelKey, Some ''true'')])"

definition labelNode :: "('s, 'q, 'y) kube_env \<Rightarrow> 'q Node \<Rightarrow> 's \<Rightarrow> unit res \<times> 's" where
  "labelNode K node s =
     (let (r, s') = patchNodeLabels K node (node_labels node) s in (wrap_err ''failed to label node'' r, s'))"

definition unlabel_patch :: "(string \<times> string option) list" where
  "unlabel_patch = [(dcgmExporterLabelKey, None), (devicePluginLabelKey, None), (draPluginGpuLabelKey, None),
                    (computeDomainDevicePluginLabelKey, None)]"

definition unlabelNode :: "('s, 'q, 'y) kube_env \<Rightarrow> 'q Node \<Rightarrow> 's \<Rightarrow> unit res \<times> 's" where
  "unlabelNode K node s =
     (case patchNodeLabels K node unlabel_patch s of
        (Err e, s') \<Rightarrow> if is_not_found e then (Ok (), s') else (Err (Wrap ''failed to unlabel node'' e), s')
      | r \<Rightarrow> r)"

section \<open>handler.go\<close>

definition HandleAddNode ::
    "('s, 'q, 'y) kube_env \<Rightarrow> (GenericDevice list \<Rightarrow> GenericDevice list) \<Rightarrow> (string \<Rightarrow> string) \<Rightarrow> ClusterConfig \<Rightarrow> bool
     \<Rightarrow> 'q Node \<Rightarrow> 's \<Rightarrow> unit res \<times> 's" where
  "HandleAddNode K sort_Slice uuid cfg disableLabeling node s =
     (let (r, s1) = createNodeTopologyCM K sort_Slice uuid cfg node s
      in sbind (wrap_err ''failed to create node topology ConfigMap'' r, s1) (\<lambda>_ s.
           if disableLabeling then (Ok (), s)
           else let (r, s') = labelNode K node s in (wrap_err ''failed to label node'' r, s')))"

definition HandleDeleteNode :: "('s, 'q, 'y) kube_env \<Rightarrow> bool \<Rightarrow> 'q Node \<Rightarrow> 's \<Rightarrow> unit res \<times> 's" where
  "HandleDeleteNode K disableLabeling node s =
     (let (r, s1) = DeleteNodeTopologyCM K (n_Name node) s
      in sbind ((case r of Err e \<Rightarrow> if is_not_found e then Ok () else Err (Wrap ''failed to delete node topology'' e) | _ \<Rightarrow> r), s1) (\<lambda>_ s.
           if disableLabeling then (Ok (), s)
           else let (r, s') = unlabelNode K node s in (wrap_err ''failed to unlabel node'' r, s')))"

section \<open>controller.go\<close>

definition isFakeGpuNode :: "ClusterConfig \<Rightarrow> 'q Node \<Rightarrow> bool" where
  "isFakeGpuNode cfg node \<longleftrightarrow> n_Labels node (NodePoolLabelKey cfg) \<noteq> None"

definition isPodExist :: "('s, 'q, 'y) kube_env \<Rightarrow> string \<Rightarrow> string \<Rightarrow> 's \<Rightarrow> bool res" where
  "isPodExist K podName namespace s =
     (case pod_get K namespace podName s of
        Inl e \<Rightarrow> if is_not_found e then Ok False else Err e
      | Inr p \<Rightarrow> Ok True)"

text \<open>The loop over the GPUs of a pruned topology: usage records are dropped, dead pods' allocations too.\<close>

fun prune_gpus :: "('s, 'q, 'y) kube_env \<Rightarrow> 's \<Rightarrow> GpuDetails list \<Rightarrow> GpuDetails list res" where
  "prune_gpus K s [] = Ok []"
| "prune_gpus K s (g # gs) =
     (case isPodExist K (cd_Pod (AllocatedBy (Status g))) (cd_Namespace (AllocatedBy (Status g))) s of
        Err e \<Rightarrow> Err (Msg ''failed to check if pod exists'')
      | Panic p \<Rightarrow> Panic p
      | Ok found \<Rightarrow>
          rbind (prune_gpus K s gs) (\<lambda>gs'.
            Ok (g\<lparr>Status := \<lparr>AllocatedBy = (if found then AllocatedBy (Status g) else zero_container),
                             PodGpuUsageStatus = Some Map.empty\<rparr>\<rparr> # gs')))"

definition pruneTopologyConfigMap ::
    "('s, 'q, 'y) kube_env \<Rightarrow> 'y ConfigMap \<Rightarrow> bool \<Rightarrow> 's \<Rightarrow> unit res \<times> 's" where
  "pruneTopologyConfigMap K cm isValidNodeTopologyCM s =
     (let s1 = (if \<not> isValidNodeTopologyCM then snd (cm_delete K (TopologyCmNamespace K) (cm_Name cm) s) else s)
      in case FromNodeTopologyCM K cm of
           Err e \<Rightarrow> (Err (Msg ''failed to parse node topology cm''), s1)
         | Panic p \<Rightarrow> (Panic p, s1)
         | Ok nodeTopology \<Rightarrow>
             sbind (prune_gpus K s1 (Gpus nodeTopology), s1) (\<lambda>gpus s.
               case cm_Labels cm LabelTopologyCMNodeName of
                 None \<Rightarrow> (Err (Msg ''node topology cm does not have node name label''), s)
               | Some nodeName \<Rightarrow>
                   (case UpdateNodeTopologyCM K (nodeTopology\<lparr>Gpus := gpus\<rparr>) nodeName s of
                      (Err e, s') \<Rightarrow> (Err (Msg ''failed to update node topology cm''), s')
                    | r \<Rightarrow> r)))"

text \<open>The errors of the single ConfigMaps are collected and not returned; a panic is not caught.\<close>

fun prune_loop ::
    "('s, 'q, 'y) kube_env \<Rightarrow> string list \<Rightarrow> 'y ConfigMap list \<Rightarrow> 's \<Rightarrow> unit res \<times> 's" where
  "prune_loop K valid [] s = (Ok (), s)"
| "prune_loop K valid (cm # cms) s =
     (case pruneTopologyConfigMap K cm (cm_Name cm \<in> set valid) s of
        (Panic p, s') \<Rightarrow> (Panic p, s')
      | (r, s') \<Rightarrow> prune_loop K valid cms s')"

definition pruneTopologyConfigMaps :: "('s, 'q, 'y) kube_env \<Rightarrow> ClusterConfig \<Rightarrow> 's \<Rightarrow> unit res \<times> 's" where
  "pruneTopologyConfigMaps K cfg s =
     (case node_list K (NodePoolLabelKey cfg) s of
        Inl e \<Rightarrow> (Err (Msg ''failed listing fake gpu nodes''), s)
      | Inr gpuNodes \<Rightarrow>
          (case cm_list K (TopologyCmNamespace K) LabelTopologyCMNodeTopology ''true'' s of
             Inl e \<Rightarrow> (Err (Msg ''failed listing fake gpu nodes''), s)
           | Inr cms \<Rightarrow> prune_loop K (map (\<lambda>n. GetNodeTopologyCMName K (n_Name n)) gpuNodes) cms s))"

section \<open>Lemmas\<close>

text \<open>Patching a node's labels touches no ConfigMap.\<close>

definition nodes_ok :: "('s, 'q, 'y) kube_env \<Rightarrow> bool" where
  "nodes_ok K \<longleftrightarrow> (\<forall>n ls s. same_cms K s (snd (node_patch_labels K n ls s)))"

lemma ref_nodes_ok [simp]: "nodes_ok ref_env"
  by (auto simp: nodes_ok_def ref_env_def ref_patch_node_def same_cms_def split: option.splits)

lemma patch_same_cms: "nodes_ok K \<Longrightarrow> same_cms K s (snd (patchNodeLabels K node ls s))"
  by (simp add: nodes_ok_def patchNodeLabels_def split_def Let_def)

lemma labelNode_same_cms: "nodes_ok K \<Longrightarrow> same_cms K s (snd (labelNode K node s))"
  by (simp add: labelNode_def split_def Let_def patch_same_cms)

lemma unlabelNode_same_cms: "nodes_ok K \<Longrightarrow> same_cms K s (snd (unlabelNode K node s))"
  using patch_same_cms [of K s node unlabel_patch]
  by (cases "patchNodeLabels K node unlabel_patch s"; cases "fst (patchNodeLabels K node unlabel_patch s)")
    (auto simp: unlabelNode_def split: if_splits)

lemma gpu_details_props:
  assumes "generateGpuDetails uuid n name = Ok gs"
  shows "map ID gs = map (gpu_id uuid name) [0..<nat n]" and "\<forall>g \<in> set gs. Status g = zero_status" and "0 \<le> n"
  using assms by (auto simp: generateGpuDetails_def split: if_splits)

lemma gpu_ids_distinct:
  assumes "inj_on uuid ((\<lambda>i. name @ ''-'' @ itoa (int i)) ` set ks)"
  shows "distinct (map (gpu_id uuid name) ks) \<longleftrightarrow> distinct ks"
proof -
  have "inj_on (gpu_id uuid name) (set ks)"
    using assms by (auto simp: gpu_id_def itoa_def inj_on_def dest: itoa_nat_inj)
  then show ?thesis by (simp add: distinct_map)
qed

lemma prune_gpus_Ok:
  assumes "prune_gpus K s gs = Ok gs'"
  shows "list_all2 (\<lambda>g g'. ID g' = ID g \<and> usage_of g' = Map.empty \<and>
    (\<exists>found. isPodExist K (cd_Pod (AllocatedBy (Status g))) (cd_Namespace (AllocatedBy (Status g))) s = Ok found \<and>
      AllocatedBy (Status g') = (if found then AllocatedBy (Status g) else zero_container))) gs gs'"
  using assms
proof (induction gs arbitrary: gs')
  case Nil
  then show ?case by simp
next
  case (Cons g gs)
  then obtain found gs1 where "isPodExist K (cd_Pod (AllocatedBy (Status g))) (cd_Namespace (AllocatedBy (Status g))) s = Ok found"
      and "prune_gpus K s gs = Ok gs1"
      and "gs' = g\<lparr>Status := \<lparr>AllocatedBy = (if found then AllocatedBy (Status g) else zero_container),
              PodGpuUsageStatus = Some Map.empty\<rparr>\<rparr> # gs1"
    by (cases "isPodExist K (cd_Pod (AllocatedBy (Status g))) (cd_Namespace (AllocatedBy (Status g))) s";
        cases "prune_gpus K s gs") auto
  with Cons.IH show ?case by (simp add: usage_of_def)
qed

lemma prune_gpus_free_err:
  assumes "g \<in> set gs" and "is_free g" and "\<And>ns. \<exists>e. pod_get K ns [] s = Inl e \<and> \<not> is_not_found e"
  shows "\<not> is_ok (prune_gpus K s gs)"
  using assms(1)
proof (induction gs)
  case Nil
  then show ?case by simp
next
  case (Cons h gs)
  show ?case
  proof (cases "h = g")
    case True
    have "\<exists>e. isPodExist K (cd_Pod (AllocatedBy (Status g))) (cd_Namespace (AllocatedBy (Status g))) s = Err e"
      using assms(2) assms(3) [of "cd_Namespace (AllocatedBy (Status g))"] by (auto simp: isPodExist_def is_free_def)
    with True show ?thesis by auto
  next
    case False
    with Cons have "\<not> is_ok (prune_gpus K s gs)" by simp
    then show ?thesis by (cases "prune_gpus K s gs") (auto split: res.splits)
  qed
qed

section \<open>Properties\<close>

text \<open>
  The addition of a node whose topology is already stored changes no ConfigMap: the allocations
  recorded in it survive a restart of the status updater.
\<close>

theorem node_add_keeps_topology:
  assumes "nodes_ok K" and "GetNodeTopologyFromCM K (n_Name node) s = Ok nt"
  shows "same_cms K s (snd (HandleAddNode K f uuid cfg nolabels node s))"
  using assms labelNode_same_cms [OF assms(1), of s node] by (simp add: HandleAddNode_def createNodeTopologyCM_def split_def Let_def)

text \<open>
  What the addition of a node of a known pool stores: a ConfigMap that has the node's name as a label, the mark of a
  simulated node if the node has it, and the pool's specification with free GPUs.
\<close>

lemma node_add_created:
  assumes K: "store_ok K" "codec_ok K" "nodes_ok K"
    and pool: "n_Labels node (NodePoolLabelKey cfg) = Some p" "map_of (NodePools cfg) p = Some pc"
      "ResolveNodePool K f (TopologyCmNamespace K) pc s = Ok r"
    and new: "GetNodeTopologyFromCM K (n_Name node) s = Err e"
    and add: "HandleAddNode K f uuid cfg nolabels node s = (Ok (), s')"
  obtains cm gs where "cm_get K (TopologyCmNamespace K) (GetNodeTopologyCMName K (n_Name node)) s' = Inr cm"
    and "cm_Labels cm LabelTopologyCMNodeName = Some (n_Name node)"
    and "cm_Annotations cm AnnotationKwokNode = n_Annotations node AnnotationKwokNode"
    and "generateGpuDetails uuid (rp_GpuCount r) (n_Name node) = Ok gs"
    and "FromNodeTopologyCM K cm = Ok (norm_nt \<lparr>GpuMemory = rp_GpuMemory r, GpuProduct = rp_GpuProduct r,
      DriverVersion = rp_DriverVersion r, CudaVersion = rp_CudaVersion r, Gpus = gs, MigStrategy = cc_MigStrategy cfg,
      OtherDevices = rp_OtherDevices r\<rparr>)"
    and "cm_Namespace cm = TopologyCmNamespace K"
proof -
  define c where "c = createNodeTopologyCM K f uuid cfg node s"
  have c_ok: "fst c = Ok ()"
    using add by (cases "fst c") (simp_all add: HandleAddNode_def c_def [symmetric] split_def Let_def)
  then have s': "same_cms K (snd c) s'"
    using add labelNode_same_cms [OF K(3), of "snd c" node]
    by (cases nolabels) (auto simp: HandleAddNode_def c_def [symmetric] split_def Let_def)
  obtain gs where gs: "generateGpuDetails uuid (rp_GpuCount r) (n_Name node) = Ok gs"
    using c_ok new pool by (cases "generateGpuDetails uuid (rp_GpuCount r) (n_Name node)")
      (simp_all add: c_def createNodeTopologyCM_def)
  define nt where "nt = \<lparr>GpuMemory = rp_GpuMemory r, GpuProduct = rp_GpuProduct r, DriverVersion = rp_DriverVersion r,
    CudaVersion = rp_CudaVersion r, Gpus = gs, MigStrategy = cc_MigStrategy cfg, OtherDevices = rp_OtherDevices r\<rparr>"
  have c_eq: "fst (CreateNodeTopologyCM K nt node s) = Ok ()" "snd c = snd (CreateNodeTopologyCM K nt node s)"
    using c_ok new pool gs by (simp_all add: c_def createNodeTopologyCM_def nt_def split_def Let_def)
  obtain y where y: "marshal_nt K nt = Inr y" "unmarshal_nt K y = Inr (norm_nt nt)"
    using K(2) by (auto simp: codec_ok_def)
  obtain cm where cm: "cm_create K (TopologyCmNamespace K) cm s = (Inr (), snd c)"
      and n: "cm_Name cm = GetNodeTopologyCMName K (n_Name node)" and d: "cm_Data cm CmTopologyKey = Some y"
      and l: "cm_Labels cm LabelTopologyCMNodeName = Some (n_Name node)"
      and a: "cm_Annotations cm AnnotationKwokNode = n_Annotations node AnnotationKwokNode"
      and ns: "cm_Namespace cm = TopologyCmNamespace K"
    using c_eq y(1)
    by (cases "n_Annotations node AnnotationKwokNode")
      (auto simp: CreateNodeTopologyCM_def ToNodeTopologyCM_def Let_def api_call_def prod_eq_iff)
  have "cm_get K (TopologyCmNamespace K) (GetNodeTopologyCMName K (n_Name node)) s' = Inr cm"
    using store_ok_create(1) [OF K(1) cm] n s' by (simp add: same_cms_def)
  moreover have "FromNodeTopologyCM K cm = Ok (norm_nt nt)" using d y(2) by (simp add: FromNodeTopologyCM_def)
  ultimately show ?thesis using that l a gs ns unfolding nt_def by blast
qed

lemma node_added:
  assumes K: "store_ok K" "codec_ok K" "nodes_ok K"
    and pool: "n_Labels node (NodePoolLabelKey cfg) = Some p" "map_of (NodePools cfg) p = Some pc"
      "ResolveNodePool K f (TopologyCmNamespace K) pc s = Ok r"
    and new: "GetNodeTopologyFromCM K (n_Name node) s = Err e"
    and add: "HandleAddNode K f uuid cfg nolabels node s = (Ok (), s')"
  shows "\<exists>nt. GetNodeTopologyFromCM K (n_Name node) s' = Ok nt \<and>
    GpuMemory nt = rp_GpuMemory r \<and> GpuProduct nt = rp_GpuProduct r \<and> OtherDevices nt = rp_OtherDevices r \<and>
    int (length (Gpus nt)) = rp_GpuCount r \<and> map ID (Gpus nt) = map (gpu_id uuid (n_Name node)) [0..<length (Gpus nt)] \<and>
    list_all is_free (Gpus nt) \<and> maps_made nt"
proof (rule node_add_created [OF K pool new add])
  fix cm gs
  let ?nt = "\<lparr>GpuMemory = rp_GpuMemory r, GpuProduct = rp_GpuProduct r, DriverVersion = rp_DriverVersion r,
    CudaVersion = rp_CudaVersion r, Gpus = gs, MigStrategy = cc_MigStrategy cfg, OtherDevices = rp_OtherDevices r\<rparr>"
  assume "cm_get K (TopologyCmNamespace K) (GetNodeTopologyCMName K (n_Name node)) s' = Inr cm"
    and gs: "generateGpuDetails uuid (rp_GpuCount r) (n_Name node) = Ok gs" and "FromNodeTopologyCM K cm = Ok (norm_nt ?nt)"
  then have "GetNodeTopologyFromCM K (n_Name node) s' = Ok (norm_nt ?nt)" by (simp add: GetNodeTopologyFromCM_def)
  moreover note props = gpu_details_props [OF gs]
  have "length gs = nat (rp_GpuCount r)" using arg_cong [OF props(1), of length] by simp
  moreover have "list_all is_free (Gpus (norm_nt ?nt)) \<and> maps_made (norm_nt ?nt)"
    using props(2) by (auto simp: norm_nt_def norm_status_def list_all_iff is_free_def maps_made_def zero_status_def zero_container_def)
  ultimately show ?thesis using props(1,3)
    by (intro exI [of _ "norm_nt ?nt"]) (simp add: norm_nt_def comp_def)
qed

text \<open>
  C10. The addition of a node of a known pool stores a topology that has the pool's specification, as many
  GPUs as the pool says, all free, and with usage maps ready to be written; their identifiers are distinct as long
  as the hash does not give one UUID to two of the node's own names \<open>node-0\<close>, \<open>node-1\<close>, and so on.
\<close>

theorem node_add_creates_topology:
  assumes K: "store_ok K" "codec_ok K" "nodes_ok K"
    and pool: "n_Labels node (NodePoolLabelKey cfg) = Some p" "map_of (NodePools cfg) p = Some pc"
      "ResolveNodePool K f (TopologyCmNamespace K) pc s = Ok r"
    and new: "GetNodeTopologyFromCM K (n_Name node) s = Err e"
    and add: "HandleAddNode K f uuid cfg nolabels node s = (Ok (), s')"
  shows "\<exists>nt. GetNodeTopologyFromCM K (n_Name node) s' = Ok nt \<and>
    GpuMemory nt = rp_GpuMemory r \<and> GpuProduct nt = rp_GpuProduct r \<and> OtherDevices nt = rp_OtherDevices r \<and>
    int (length (Gpus nt)) = rp_GpuCount r \<and>
    (inj_on uuid ((\<lambda>i. n_Name node @ ''-'' @ itoa (int i)) ` {..<length (Gpus nt)}) \<longrightarrow> distinct (map ID (Gpus nt))) \<and>
    list_all is_free (Gpus nt) \<and> maps_made nt"
proof -
  obtain nt where "GetNodeTopologyFromCM K (n_Name node) s' = Ok nt" "GpuMemory nt = rp_GpuMemory r" "GpuProduct nt = rp_GpuProduct r"
      "OtherDevices nt = rp_OtherDevices r" "int (length (Gpus nt)) = rp_GpuCount r" "list_all is_free (Gpus nt)" "maps_made nt"
      and ids: "map ID (Gpus nt) = map (gpu_id uuid (n_Name node)) [0..<length (Gpus nt)]"
    using node_added [OF K pool new add] by blast
  moreover have "inj_on uuid ((\<lambda>i. n_Name node @ ''-'' @ itoa (int i)) ` {..<length (Gpus nt)}) \<longrightarrow> distinct (map ID (Gpus nt))"
    using gpu_ids_distinct [of uuid "n_Name node" "[0..<length (Gpus nt)]"] ids by (auto simp: atLeast_upt)
  ultimately show ?thesis by blast
qed

text \<open>
  The deletion of a node removes its topology, is not an error when there was none, and leaves the
  topologies of the other nodes alone.
\<close>

theorem node_delete_removes_topology:
  assumes "store_ok K" and "nodes_ok K" and "HandleDeleteNode K nolabels node s = (Ok (), s')"
    and "cm_delete K (TopologyCmNamespace K) (GetNodeTopologyCMName K (n_Name node)) s = (Inr (), s1)"
  shows "(\<exists>e. GetNodeTopologyFromCM K (n_Name node) s' = Err e \<and> is_not_found e) \<and>
    (\<forall>m. m \<noteq> n_Name node \<longrightarrow> GetNodeTopologyFromCM K m s' = GetNodeTopologyFromCM K m s)"
proof -
  have "same_cms K s1 s'"
    using assms(3,4) unlabelNode_same_cms [OF assms(2), of s1 node]
    by (auto simp: HandleDeleteNode_def DeleteNodeTopologyCM_def split_def Let_def split: if_splits)
  moreover have "\<exists>e. GetNodeTopologyFromCM K (n_Name node) s1 = Err e \<and> is_not_found e"
    using store_ok_delete(1) [OF assms(1,4)] by (auto simp: GetNodeTopologyFromCM_def)
  moreover have "GetNodeTopologyFromCM K m s1 = GetNodeTopologyFromCM K m s" if "m \<noteq> n_Name node" for m
    using others_keptD [OF store_ok_delete(2) [OF assms(1,4)]] that by (simp add: GetNodeTopologyFromCM_def)
  ultimately show ?thesis using same_cms_get by metis
qed

text \<open>
  The labels a node gets when it is added are removed when it is deleted: the patch of the deletion
  removes every key the patch of the addition sets.
\<close>

theorem unlabel_removes_labels:
  "foldl (\<lambda>m (k, v). m(k := v)) (foldl (\<lambda>m (k, v). m(k := v)) labels (node_labels node)) unlabel_patch =
   foldl (\<lambda>m (k, v). m(k := v)) labels unlabel_patch"
  by (auto simp: node_labels_def unlabel_patch_def fun_eq_iff)

text \<open>What a pruning that succeeds writes\<close>

lemma prune_writes:
  assumes "FromNodeTopologyCM K cm = Ok nt" and "cm_Labels cm LabelTopologyCMNodeName = Some n"
    and "pruneTopologyConfigMap K cm True s = (Ok (), s')"
  shows "\<exists>gs. prune_gpus K s (Gpus nt) = Ok gs \<and> UpdateNodeTopologyCM K (nt\<lparr>Gpus := gs\<rparr>) n s = (Ok (), s')"
  using assms by (cases "prune_gpus K s (Gpus nt)") (auto simp: pruneTopologyConfigMap_def split: res.splits prod.splits)

lemma pruned_gpus:
  assumes "prune_gpus K s (Gpus nt) = Ok gs"
  shows "map ID (Gpus (norm_nt (nt\<lparr>Gpus := gs\<rparr>))) = map ID (Gpus nt)"
    and "i < length (Gpus nt) \<Longrightarrow> usage_of (Gpus (norm_nt (nt\<lparr>Gpus := gs\<rparr>)) ! i) = Map.empty \<and>
      (\<exists>found. isPodExist K (cd_Pod (AllocatedBy (Status (Gpus nt ! i)))) (cd_Namespace (AllocatedBy (Status (Gpus nt ! i)))) s = Ok found \<and>
        AllocatedBy (Status (Gpus (norm_nt (nt\<lparr>Gpus := gs\<rparr>)) ! i)) = (if found then AllocatedBy (Status (Gpus nt ! i)) else zero_container))"
proof -
  note l = list_all2_lengthD [OF prune_gpus_Ok [OF assms]]
  show "map ID (Gpus (norm_nt (nt\<lparr>Gpus := gs\<rparr>))) = map ID (Gpus nt)"
    using prune_gpus_Ok [OF assms] by (auto simp: list_all2_conv_all_nth intro: nth_equalityI)
  show "i < length (Gpus nt) \<Longrightarrow> usage_of (Gpus (norm_nt (nt\<lparr>Gpus := gs\<rparr>)) ! i) = Map.empty \<and>
      (\<exists>found. isPodExist K (cd_Pod (AllocatedBy (Status (Gpus nt ! i)))) (cd_Namespace (AllocatedBy (Status (Gpus nt ! i)))) s = Ok found \<and>
        AllocatedBy (Status (Gpus (norm_nt (nt\<lparr>Gpus := gs\<rparr>)) ! i)) = (if found then AllocatedBy (Status (Gpus nt ! i)) else zero_container))"
    using prune_gpus_Ok [OF assms] l by (auto simp: list_all2_conv_all_nth norm_nt_nth norm_status_def usage_of_def)
qed

text \<open>What an update writes for a node that has no ConfigMap: a new one, without annotations\<close>

lemma update_of_missing:
  assumes K: "store_ok K" "codec_ok K" and missing: "cm_get K (TopologyCmNamespace K) (GetNodeTopologyCMName K n) s = Inl e"
    and upd: "UpdateNodeTopologyCM K nt n s = (Ok (), s')"
  shows "\<exists>cm. cm_get K (TopologyCmNamespace K) (GetNodeTopologyCMName K n) s' = Inr cm \<and>
    FromNodeTopologyCM K cm = Ok (norm_nt nt) \<and> cm_Labels cm LabelTopologyCMNodeName = Some n \<and> cm_Annotations cm = Map.empty"
proof -
  from upd obtain y ap where y: "marshal_nt K nt = Inr y" and ap: "ap_Name ap = GetNodeTopologyCMName K n"
      "ap_Labels ap = [LabelTopologyCMNodeTopology \<mapsto> ''true'', LabelTopologyCMNodeName \<mapsto> n]"
      "cm_apply K (TopologyCmNamespace K) ap s = (Inr (), s')"
    by (rule UpdateNodeTopologyCM_Ok)
  obtain cm where cm: "cm_get K (TopologyCmNamespace K) (ap_Name ap) s' = Inr cm" "applied K (TopologyCmNamespace K) ap s cm"
    by (rule store_ok_apply [OF K(1) ap(3)])
  with ap(1,2) missing have "cm_Annotations cm = Map.empty" and "cm_Labels cm LabelTopologyCMNodeName = Some n"
    by (auto simp: applied_def map_le_def)
  moreover have "FromNodeTopologyCM K cm = Ok (norm_nt nt)"
    using topo_store.get_put [OF topo_store_of [OF K] upd] cm(1) ap(1) by (simp add: GetNodeTopologyFromCM_def)
  ultimately show ?thesis using cm(1) ap(1) by auto
qed

text \<open>
  With a client that refuses to look up a pod without a name, as the Kubernetes client does, the
  topology of a node with a free GPU is never pruned: the function returns an error and writes nothing.
\<close>

theorem prune_stops_at_free_gpu:
  assumes "FromNodeTopologyCM K cm = Ok nt" and "g \<in> set (Gpus nt)" and "is_free g"
    and "\<forall>ns. \<exists>e. pod_get K ns [] s = Inl e \<and> \<not> is_not_found e"
  shows "fst (pruneTopologyConfigMap K cm True s) \<noteq> Ok () \<and> snd (pruneTopologyConfigMap K cm True s) = s"
  using assms prune_gpus_free_err [OF assms(2,3), of K s]
  by (cases "prune_gpus K s (Gpus nt)") (auto simp: pruneTopologyConfigMap_def)

text \<open>
  C11. Pruning the stored topology of a live node, with a client that refuses to look up a pod without a name as the
  Kubernetes client does, has one of two outcomes.  A topology that has a free GPU is refused with an error, and nothing is written.
  A pruning that succeeds (so that every GPU is held) stores a topology with the same GPUs, in which every usage map is empty
  and a GPU is still allocated exactly if its pod exists.
\<close>

theorem prune_drops_dead_pods:
  assumes K: "store_ok K" "codec_ok K" and client: "\<forall>ns. \<exists>e. pod_get K ns [] s = Inl e \<and> \<not> is_not_found e"
    and cm: "FromNodeTopologyCM K cm = Ok nt" "cm_Labels cm LabelTopologyCMNodeName = Some n"
    and run: "pruneTopologyConfigMap K cm True s = (r, s')"
  shows "(list_ex is_free (Gpus nt) \<longrightarrow> r \<noteq> Ok () \<and> s' = s) \<and>
    (r = Ok () \<longrightarrow> list_all (\<lambda>g. \<not> is_free g) (Gpus nt) \<and>
      (\<exists>nt'. GetNodeTopologyFromCM K n s' = Ok nt' \<and> map ID (Gpus nt') = map ID (Gpus nt) \<and>
        (\<forall>i < length (Gpus nt). usage_of (Gpus nt' ! i) = Map.empty \<and>
          (\<exists>found. isPodExist K (cd_Pod (AllocatedBy (Status (Gpus nt ! i)))) (cd_Namespace (AllocatedBy (Status (Gpus nt ! i)))) s = Ok found \<and>
            AllocatedBy (Status (Gpus nt' ! i)) = (if found then AllocatedBy (Status (Gpus nt ! i)) else zero_container)))))"
    (is "_ \<and> (r = Ok () \<longrightarrow> _ \<and> ?pruned)")
proof -
  have refused: "r \<noteq> Ok () \<and> s' = s" if "list_ex is_free (Gpus nt)"
    using that prune_stops_at_free_gpu [OF cm(1) _ _ client] run by (auto simp: list_ex_iff)
  moreover have ?pruned if ok: "r = Ok ()"
  proof -
    from prune_writes [OF cm run [unfolded ok]] obtain gs where gs: "prune_gpus K s (Gpus nt) = Ok gs"
      and "UpdateNodeTopologyCM K (nt\<lparr>Gpus := gs\<rparr>) n s = (Ok (), s')" by blast
    from topo_store.get_put [OF topo_store_of [OF K] this(2)] pruned_gpus [OF gs] show ?thesis
      by (intro exI [of _ "norm_nt (nt\<lparr>Gpus := gs\<rparr>)"]) auto
  qed
  ultimately show ?thesis by (auto simp: list_ex_iff list_all_iff)
qed

text \<open>
  C12. Pruning does not get rid of the ConfigMap of a node that is gone: when the API server accepts its deletion and
  the pruning succeeds, there is a new ConfigMap of that name in its place, labelled with the node and with a topology that can be read;
  the annotations of the old one, among them the mark of a simulated node, are lost.
\<close>

theorem prune_recreates_deleted:
  assumes K: "store_ok K" "codec_ok K" and cm: "cm_Name cm = GetNodeTopologyCMName K n" "cm_Labels cm LabelTopologyCMNodeName = Some n"
    and del: "cm_delete K (TopologyCmNamespace K) (cm_Name cm) s = (Inr (), s1)"
    and run: "pruneTopologyConfigMap K cm False s = (Ok (), s')"
  shows "\<exists>cm' nt. cm_get K (TopologyCmNamespace K) (GetNodeTopologyCMName K n) s' = Inr cm' \<and>
    FromNodeTopologyCM K cm' = Ok nt \<and> cm_Labels cm' LabelTopologyCMNodeName = Some n \<and> cm_Annotations cm' = Map.empty"
proof -
  obtain nt where nt: "FromNodeTopologyCM K cm = Ok nt"
    using run by (cases "FromNodeTopologyCM K cm") (simp_all add: pruneTopologyConfigMap_def)
  obtain gs where "prune_gpus K s1 (Gpus nt) = Ok gs"
    using run nt del by (cases "prune_gpus K s1 (Gpus nt)") (simp_all add: pruneTopologyConfigMap_def)
  with run cm(2) nt del have upd: "UpdateNodeTopologyCM K (nt\<lparr>Gpus := gs\<rparr>) n s1 = (Ok (), s')"
    by (auto simp: pruneTopologyConfigMap_def split: res.splits prod.splits)
  obtain e where "cm_get K (TopologyCmNamespace K) (GetNodeTopologyCMName K n) s1 = Inl e"
    using store_ok_delete(1) [OF K(1) del] cm(1) by auto
  from update_of_missing [OF K this upd] show ?thesis by blast
qed

end
