(* ===== verification/WitnessCluster.thy ===== *)
theory WitnessCluster
  imports Fixtures NodeHandler Sha1
begin

text \<open>
  The properties of the cluster configuration, the profiles and the nodes at concrete inputs.
\<close>

section \<open>Profiles and pools\<close>

definition w_base :: gmap where
  "w_base = [(''device_defaults'', GMap [(''name'', GStr ''A100''), (''architecture'', GStr ''ampere'')])]"

definition w_over :: gmap where
  "w_over = [(''device_defaults'', GMap [(''name'', GStr ''H100'')]), (''device_count'', GInt 4)]"

lemma w_over_wf: "wf_gval (GMap w_over)"
proof -
  have leaf: "wf_gval (GStr x)" "wf_gval (GInt i)" for x i by (auto intro: wf_gval.intros)
  have "wf_gval (GMap [(''name'', GStr ''H100'')])" by (simp add: wf_GMap leaf)
  then show ?thesis by (simp add: w_over_def wf_GMap leaf)
qed

theorem merge_witness:
  "lookup_path (GMap (Merge w_base w_over)) [''device_defaults'', ''name''] = Some (GStr ''H100'') \<and>
   lookup_path (GMap (Merge w_base w_over)) [''device_defaults'', ''architecture''] = Some (GStr ''ampere'')"
  using merge_overrides_and_keeps [OF w_over_wf, of w_base] by (simp add: w_over_def w_base_def)

theorem merge_order_witness: "map_of (Merge w_base w_over) = map_of (Merge w_base (rev w_over))"
  by (rule merge_order_independent) (simp_all add: w_over_def)

theorem format_order_witness:
  "new_format ((''nodePools'', GMap [(''a'', GMap [(''gpuCount'', GInt 2)]), (''b'', GMap [(''gpu'', GNil)])]) # []) =
   new_format ((''nodePools'', GMap [(''b'', GMap [(''gpu'', GNil)]), (''a'', GMap [(''gpuCount'', GInt 2)])]) # [])"
  by (rule format_order_independent [where ps = "[(''a'', GMap [(''gpuCount'', GInt 2)]), (''b'', GMap [(''gpu'', GNil)])]"]) simp_all

definition w_sort :: "GenericDevice list \<Rightarrow> GenericDevice list" where
  "w_sort = sort_key gd_Name"

lemma w_sort_ok: "sorts_by_name w_sort"
  by (simp add: sorts_by_name_def w_sort_def)

definition w_pool :: NodePoolConfig where
  "w_pool = \<lparr>Gpu = \<lparr>Backend = ''fake'', gc_Profile = [], Overrides = Some w_over\<rparr>, Numa = None,
             Resources = [[(''rdma'', 1)], [(''nic'', 2)]]\<rparr>"

theorem resolve_deterministic_witness:
  "ResolveNodePool ref_env w_sort ''gpu-operator'' w_pool (w_state [] [] []) =
   ResolveNodePool ref_env w_sort ''gpu-operator'' (w_pool\<lparr>Resources := [[(''nic'', 2), (''rdma'', 1)]]\<rparr>) (w_state [] [] [])"
  by (rule resolve_deterministic [OF w_sort_ok w_sort_ok]) (simp_all add: w_pool_def other_devices_def)

theorem old_pool_witness:
  "\<exists>pool r. normalizeNodePool \<lparr>np_GpuCount = 2, np_GpuMemory = 16384, np_GpuProduct = ''T4'', np_OtherDevices = []\<rparr> = Ok pool \<and>
    ResolveNodePool ref_env w_sort ''gpu-operator'' pool (w_state [] [] []) = Ok r \<and> rp_GpuCount r = 2 \<and> rp_GpuMemory r = 16384"
  using old_pool_round_trip [of "\<lparr>np_GpuCount = 2, np_GpuMemory = 16384, np_GpuProduct = ''T4'', np_OtherDevices = []\<rparr>"
      ref_env w_sort "''gpu-operator''" "w_state [] [] []"] by auto

section \<open>Nodes\<close>

definition w_cfg :: ClusterConfig where
  "w_cfg = \<lparr>NodePoolLabelKey = ''pool'', cc_MigStrategy = ''none'', NodePools = [(''a'', w_pool)], GpuOperator = None\<rparr>"

lemma w_pool_resolved:
  "ResolveNodePool ref_env w_sort (TopologyCmNamespace ref_env) w_pool s =
    Ok (zero_pool\<lparr>rp_OtherDevices := [\<lparr>gd_Name = ''nic'', gd_Count = 2\<rparr>, \<lparr>gd_Name = ''rdma'', gd_Count = 1\<rparr>],
        rp_GpuProduct := ''H100'', rp_GpuCount := 4\<rparr>)"
  by (simp add: ResolveNodePool_def resolveFromOverrides_def w_pool_def w_over_def getMap_def DeviceCount_def
      other_devices_def w_sort_def zero_pool_def)

text \<open>A hash of fixed length in the place of the UUID, which does map some names to one value, but none of this node's\<close>

definition w_uuid :: "string \<Rightarrow> string" where
  "w_uuid name = hex_bytes (be_bytes 4 (foldl (\<lambda>h c. (31 * h + of_char c) mod 2 ^ 32) 7 name))"

lemma w_uuids:
  "distinct (map w_uuid (map (\<lambda>i. ''node1'' @ ''-'' @ itoa (int i)) [0..<4]))"
  by code_simp

lemma w_uuid_collides: "w_uuid ''Aa'' = w_uuid ''BB''"
  by code_simp

lemma w_uuid_inj:
  "inj_on w_uuid ((\<lambda>i. ''node1'' @ ''-'' @ itoa (int i)) ` {..<4})"
proof -
  have "{..<4} = set [0..<4::nat]" by (simp add: atLeast_upt)
  with w_uuids show ?thesis unfolding distinct_map by (simp only: image_set)
qed

lemma w_node_added:
  "HandleAddNode ref_env w_sort w_uuid w_cfg False w_node (w_state [] [] [w_node]) =
    (Ok (), snd (HandleAddNode ref_env w_sort w_uuid w_cfg False w_node (w_state [] [] [w_node])))"
  by (rule ok_pair)
    (simp add: HandleAddNode_def createNodeTopologyCM_def w_cfg_def w_node_def w_pool_resolved [unfolded ref_env_simps] generateGpuDetails_def
      GetNodeTopologyFromCM_def ref_find_def CreateNodeTopologyCM_def ToNodeTopologyCM_def labelNode_def patchNodeLabels_def ref_env_simps ref_create_def
      ref_patch_node_def w_state_def Let_def split_def)

theorem node_add_creates_witness:
  "\<exists>nt. GetNodeTopologyFromCM ref_env ''node1''
      (snd (HandleAddNode ref_env w_sort w_uuid w_cfg False w_node (w_state [] [] [w_node]))) = Ok nt \<and>
    GpuProduct nt = ''H100'' \<and> int (length (Gpus nt)) = 4 \<and> distinct (map ID (Gpus nt))"
  using node_add_creates_topology [OF ref_store_ok ref_codec_ok ref_nodes_ok _ _ w_pool_resolved _ w_node_added, of "''a''"] w_uuid_inj
  by (auto simp: w_node_def w_cfg_def zero_pool_def)

theorem node_add_keeps_witness:
  "same_cms ref_env (w_state [(''node1'', w_nt [])] [] [w_node])
    (snd (HandleAddNode ref_env w_sort (\<lambda>x. x) w_cfg False w_node (w_state [(''node1'', w_nt [])] [] [w_node])))"
  by (rule node_add_keeps_topology [where nt = "w_nt []"]) (simp_all add: w_node_def)

lemma w_node_deleted:
  "HandleDeleteNode ref_env False w_node (w_state [(''node1'', w_nt [])] [] [w_node]) =
    (Ok (), snd (HandleDeleteNode ref_env False w_node (w_state [(''node1'', w_nt [])] [] [w_node])))"
  by (rule ok_pair)
    (simp add: HandleDeleteNode_def DeleteNodeTopologyCM_def unlabelNode_def patchNodeLabels_def GetNodeTopologyCMName_def
      ref_env_simps ref_delete_def ref_patch_node_def w_state_def w_node_def Let_def split_def)

theorem node_delete_witness:
  "\<exists>e. GetNodeTopologyFromCM ref_env ''node1''
      (snd (HandleDeleteNode ref_env False w_node (w_state [(''node1'', w_nt [])] [] [w_node]))) = Err e \<and> is_not_found e"
proof -
  have "cm_delete ref_env (TopologyCmNamespace ref_env) (GetNodeTopologyCMName ref_env (n_Name w_node)) (w_state [(''node1'', w_nt [])] [] [w_node]) =
      (Inr (), snd (cm_delete ref_env (TopologyCmNamespace ref_env) (GetNodeTopologyCMName ref_env (n_Name w_node)) (w_state [(''node1'', w_nt [])] [] [w_node])))"
    by (simp add: prod_eq_iff ref_env_simps ref_delete_def w_state_def w_node_def GetNodeTopologyCMName_def)
  from node_delete_removes_topology [OF ref_store_ok ref_nodes_ok w_node_deleted this] show ?thesis by (simp add: w_node_def)
qed

section \<open>Pruning\<close>

definition w_held :: NodeTopology where
  "w_held = w_nt [w_gpu ''g0'' ''gone'' None]"

lemma w_cm_topology [simp]: "FromNodeTopologyCM ref_env (w_cm n nt) = Ok nt"
  by (simp add: FromNodeTopologyCM_def w_cm_def ref_env_simps)

lemma w_cm_label [simp]: "cm_Labels (w_cm n nt) LabelTopologyCMNodeName = Some n"
  by (simp add: w_cm_def)

lemma w_pruned:
  "pruneTopologyConfigMap ref_env (w_cm ''node1'' w_held) valid (w_state [(''node1'', w_held)] [] []) =
    (Ok (), snd (pruneTopologyConfigMap ref_env (w_cm ''node1'' w_held) valid (w_state [(''node1'', w_held)] [] [])))"
  by (rule ok_pair)
    (simp add: pruneTopologyConfigMap_def w_held_def isPodExist_def w_gpu_def w_cm_def w_state_def ref_env_simps ref_find_def
      FromNodeTopologyCM_def UpdateNodeTopologyCM_def ToNodeTopologyCM_def ref_apply_def ref_delete_def Let_def split_def
      LabelTopologyCMNodeName_def LabelTopologyCMNodeTopology_def)

lemma w_refuses_nameless: "\<forall>ns. \<exists>e. pod_get ref_env ns [] s = Inl e \<and> \<not> is_not_found e"
  by (simp add: ref_env_simps)

theorem prune_drops_witness:
  "(\<exists>nt'. GetNodeTopologyFromCM ref_env ''node1''
      (snd (pruneTopologyConfigMap ref_env (w_cm ''node1'' w_held) True (w_state [(''node1'', w_held)] [] []))) = Ok nt' \<and>
    AllocatedBy (Status (Gpus nt' ! 0)) = zero_container)"
proof -
  have "isPodExist ref_env ''gone'' ''ns1'' (w_state [(''node1'', w_held)] [] []) = Ok False"
    by (simp add: isPodExist_def ref_env_simps ref_find_def)
  with prune_drops_dead_pods [OF ref_store_ok ref_codec_ok w_refuses_nameless w_cm_topology w_cm_label w_pruned] show ?thesis
    by (auto simp: w_held_def w_gpu_def)
qed

definition w_marked :: "ref_text ConfigMap" where
  "w_marked = (w_cm ''node1'' w_held)\<lparr>cm_Annotations := [AnnotationKwokNode \<mapsto> ''fake'']\<rparr>"

definition w_marked_state :: ref_state where
  "w_marked_state = (w_state [] [] [])\<lparr>rs_cms := [((''gpu-operator'', ''topology-node1''), w_marked)]\<rparr>"

lemma w_marked_deleted:
  "cm_delete ref_env (TopologyCmNamespace ref_env) (cm_Name w_marked) w_marked_state = (Inr (), w_state [] [] [])"
  by (simp add: ref_env_simps ref_delete_def w_marked_state_def w_marked_def w_cm_def w_state_def)

lemma w_marked_pruned:
  "pruneTopologyConfigMap ref_env w_marked False w_marked_state =
    (Ok (), snd (pruneTopologyConfigMap ref_env w_marked False w_marked_state))"
proof (rule ok_pair)
  have nt: "FromNodeTopologyCM ref_env w_marked = Ok w_held"
    by (simp add: w_marked_def w_cm_def FromNodeTopologyCM_def ref_env_simps)
  show "fst (pruneTopologyConfigMap ref_env w_marked False w_marked_state) = Ok ()"
    unfolding pruneTopologyConfigMap_def w_marked_deleted nt
    by (simp add: w_held_def isPodExist_def w_gpu_def w_marked_def w_cm_def w_state_def ref_env_simps ref_find_def
      UpdateNodeTopologyCM_def ToNodeTopologyCM_def ref_apply_def Let_def split_def LabelTopologyCMNodeName_def LabelTopologyCMNodeTopology_def)
qed

theorem prune_recreates_witness:
  "cm_Annotations w_marked AnnotationKwokNode = Some ''fake'' \<and>
   (\<exists>cm nt. cm_get ref_env ''gpu-operator'' ''topology-node1'' (snd (pruneTopologyConfigMap ref_env w_marked False w_marked_state)) = Inr cm \<and>
      FromNodeTopologyCM ref_env cm = Ok nt \<and> cm_Annotations cm AnnotationKwokNode = None)"
proof -
  have "cm_Name w_marked = GetNodeTopologyCMName ref_env ''node1''" and "cm_Labels w_marked LabelTopologyCMNodeName = Some ''node1''"
    by (simp_all add: w_marked_def w_cm_def GetNodeTopologyCMName_def ref_env_simps)
  from prune_recreates_deleted [OF ref_store_ok ref_codec_ok this w_marked_deleted w_marked_pruned] show ?thesis
    by (auto simp: w_marked_def GetNodeTopologyCMName_def ref_env_simps)
qed

theorem prune_stops_witness:
  "fst (pruneTopologyConfigMap ref_env (w_cm ''node1'' (w_nt [w_gpu ''g0'' [] None])) True (w_state [] [] [])) \<noteq> Ok ()"
  using prune_stops_at_free_gpu [OF w_cm_topology, of "w_gpu ''g0'' [] None" "w_nt [w_gpu ''g0'' [] None]" "w_state [] [] []" "''node1''"]
  by (simp add: ref_env_simps is_free_def w_gpu_def zero_container_def)

end
