(* ===== verification/GoPath.thy ===== *)
theory GoPath
  imports GoPrelude
begin

text \<open>
  \<^verbatim>\<open>strings.Split\<close> at one byte and the paths of \<^verbatim>\<open>path\<close> and \<^verbatim>\<open>path/filepath\<close>.
\<close>

section \<open>strings.Split\<close>

fun split_on :: "char \<Rightarrow> string \<Rightarrow> string list" where
  "split_on c [] = [[]]"
| "split_on c (x # xs) =
     (if x = c then [] # split_on c xs
      else case split_on c xs of [] \<Rightarrow> [[x]] | w # ws \<Rightarrow> (x # w) # ws)"

lemma split_on_none: "c \<notin> set s \<Longrightarrow> split_on c s = [s]"
  by (induction s) auto

lemma split_on_append: "c \<notin> set a \<Longrightarrow> split_on c (a @ c # b) = a # split_on c b"
  by (induction a) auto

lemma split_join:
  assumes "ps \<noteq> []" and "\<forall>p \<in> set ps. c \<notin> set p"
  shows "split_on c (str_join [c] ps) = ps"
  using assms
proof (induction "[c]" ps rule: str_join.induct)
  case (3 x y ys)
  then show ?case by (simp add: split_on_append)
qed (auto simp: split_on_none)

section \<open>path.Join\<close>

text \<open>\<^verbatim>\<open>path.Clean\<close> on the elements between the slashes, the last one first\<close>

fun clean_elems :: "bool \<Rightarrow> string list \<Rightarrow> string list \<Rightarrow> string list" where
  "clean_elems rooted stack [] = rev stack"
| "clean_elems rooted stack (x # xs) =
     (if x = [] \<or> x = ''.'' then clean_elems rooted stack xs
      else if x \<noteq> ''..'' then clean_elems rooted (x # stack) xs
      else case stack of
             [] \<Rightarrow> clean_elems rooted (if rooted then [] else [''..'']) xs
           | y # ys \<Rightarrow> if y = ''..'' then clean_elems rooted (''..'' # stack) xs else clean_elems rooted ys xs)"

definition path_clean :: "string \<Rightarrow> string" where
  "path_clean p =
     (let rooted = prefix ''/'' p;
          elems = clean_elems rooted [] (split_on (CHR ''/'') p)
      in if rooted then ''/'' @ str_join ''/'' elems else if elems = [] then ''.'' else str_join ''/'' elems)"

definition path_join :: "string list \<Rightarrow> string" where
  "path_join xs = (let ys = filter (\<lambda>x. x \<noteq> []) xs in if ys = [] then [] else path_clean (str_join ''/'' ys))"

end
