(* ===== verification/NumaZones.thy ===== *)
theory NumaZones
  imports RefServer GoPath
begin

text \<open>
  \<^verbatim>\<open>internal/status-exporter/export/numazones/layout.go\<close>: how the GPUs, the cores and the
  memory of a node are split over its simulated NUMA zones, and the text of a list of cores.
\<close>

record 'q ZoneLayout =
  zl_Zones :: int
  zl_GpusPerZone :: "int list"
  zl_CPUPerZone :: "'q option"
  zl_MemPerZone :: "'q option"
  zl_CPUIDsPerZone :: "int list list"

section \<open>Distribution of the GPUs\<close>

definition wrap_sum :: "int list \<Rightarrow> int" where
  "wrap_sum xs = foldl (\<lambda>s n. wrap64 (s + n)) 0 xs"

definition distributeGPUs :: "int \<Rightarrow> int \<Rightarrow> int list \<Rightarrow> int list res" where
  "distributeGPUs gpuCount zones explicit =
     (if zones < 1 then Err (Msg ''zones must be >= 1'')
      else if explicit \<noteq> [] then
        (if int (length explicit) \<noteq> zones then Err (Msg ''gpusPerZone entries differ from zones'')
         else if wrap_sum explicit \<noteq> gpuCount then Err (Msg ''gpusPerZone sums to another number of GPUs'')
         else Ok explicit)
      else let base = go_div gpuCount zones; remainder = go_mod gpuCount zones
           in Ok (map (\<lambda>z. if int z < remainder then base + 1 else base) [0..<nat zones]))"

text \<open>The cumulative walk; a write past the end of the slice is a panic.\<close>

fun put_zone :: "nat \<Rightarrow> int \<Rightarrow> int list \<Rightarrow> nat \<Rightarrow> (int list \<times> nat) res" where
  "put_zone 0 zone out idx = Ok (out, idx)"
| "put_zone (Suc k) zone out idx =
     (if idx < length out then put_zone k zone (out[idx := zone]) (Suc idx) else Panic IndexOutOfRange)"

fun put_zones :: "int \<Rightarrow> int list \<Rightarrow> int list \<Rightarrow> nat \<Rightarrow> int list res" where
  "put_zones zone [] out idx = Ok out"
| "put_zones zone (n # ns) out idx =
     rbind (put_zone (nat n) zone out idx) (\<lambda>(out, idx). put_zones (zone + 1) ns out idx)"

definition GPUIndexToZone :: "int list \<Rightarrow> int list res" where
  "GPUIndexToZone gpusPerZone =
     (let n = wrap_sum gpusPerZone
      in if n < 0 then Panic (BadArgument ''makeslice'') else put_zones 0 gpusPerZone (replicate (nat n) 0) 0)"

section \<open>Cores and memory\<close>

definition quantity_of :: "('s, 'q, 'y) kube_env \<Rightarrow> (string \<rightharpoonup> 'q) \<Rightarrow> string \<Rightarrow> 'q" where
  "quantity_of K m name = (case m name of None \<Rightarrow> q_zero K | Some q \<Rightarrow> q)"

definition perZoneCPU :: "('s, 'q, 'y) kube_env \<Rightarrow> NumaConfig \<Rightarrow> (string \<rightharpoonup> 'q) \<Rightarrow> int \<Rightarrow> 'q option res" where
  "perZoneCPU K numa alloc zones =
     (if CPUPerZone numa \<noteq> [] then
        rbind (wrap_err ''invalid cpuPerZone'' (of_sum (q_parse K (CPUPerZone numa)))) (\<lambda>q. Ok (Some q))
      else let cpu = quantity_of K alloc ''cpu''
           in if q_equal K cpu (q_zero K) then Ok None else Ok (Some (q_new_milli K (go_div (q_milli K cpu) zones))))"

definition perZoneMemory :: "('s, 'q, 'y) kube_env \<Rightarrow> NumaConfig \<Rightarrow> (string \<rightharpoonup> 'q) \<Rightarrow> int \<Rightarrow> 'q option res" where
  "perZoneMemory K numa alloc zones =
     (if MemPerZone numa \<noteq> [] then
        rbind (wrap_err ''invalid memPerZone'' (of_sum (q_parse K (MemPerZone numa)))) (\<lambda>q. Ok (Some q))
      else let mem = quantity_of K alloc ''memory''
           in if q_equal K mem (q_zero K) then Ok None else Ok (Some (q_new K (go_div (q_value K mem) zones))))"

text \<open>The core identifiers of the zones, \<open>cores\<close> each, from \<open>offset\<close> on.\<close>

fun zone_cpu_ids :: "nat \<Rightarrow> int \<Rightarrow> nat \<Rightarrow> int list list" where
  "zone_cpu_ids cores offset 0 = []"
| "zone_cpu_ids cores offset (Suc n) =
     map (\<lambda>i. offset + int i) [0..<cores] # zone_cpu_ids cores (offset + int cores) n"

definition ResolveZoneLayout ::
    "('s, 'q, 'y) kube_env \<Rightarrow> NumaConfig \<Rightarrow> int \<Rightarrow> (string \<rightharpoonup> 'q) \<Rightarrow> 'q ZoneLayout option res" where
  "ResolveZoneLayout K numa gpuCount nodeAllocatable =
     (if Zones numa < 1 then Ok None
      else rbind (distributeGPUs gpuCount (Zones numa) (GpusPerZone numa)) (\<lambda>gpusPerZone.
           rbind (perZoneCPU K numa nodeAllocatable (Zones numa)) (\<lambda>cpuPerZone.
           rbind (perZoneMemory K numa nodeAllocatable (Zones numa)) (\<lambda>memPerZone.
             let cores = (case cpuPerZone of None \<Rightarrow> 0 | Some q \<Rightarrow> go_div (wrap64 (q_milli K q + 500)) 1000)
             in if cores < 0 then Panic (BadArgument ''makeslice'')
                else Ok (Some \<lparr>zl_Zones = Zones numa, zl_GpusPerZone = gpusPerZone, zl_CPUPerZone = cpuPerZone,
                               zl_MemPerZone = memPerZone,
                               zl_CPUIDsPerZone = zone_cpu_ids (nat cores) 0 (nat (Zones numa))\<rparr>)))))"

section \<open>The text of a list of cores\<close>

definition cpu_part :: "int \<Rightarrow> int \<Rightarrow> string" where
  "cpu_part start prev = (if start = prev then itoa start else itoa start @ ''-'' @ itoa prev)"

fun cpulist_parts :: "int \<Rightarrow> int \<Rightarrow> int list \<Rightarrow> string list" where
  "cpulist_parts start prev [] = [cpu_part start prev]"
| "cpulist_parts start prev (i # ids) =
     (if i = wrap64 (prev + 1) then cpulist_parts start i ids else cpu_part start prev # cpulist_parts i i ids)"

fun Cpulist :: "int list \<Rightarrow> string" where
  "Cpulist [] = []"
| "Cpulist (i # ids) = str_join '','' (cpulist_parts i i ids)"

text \<open>The format as the Linux kernel documents it: a comma-separated list of numbers and ranges.\<close>

definition parse_part :: "string \<Rightarrow> int list option" where
  "parse_part s =
     (case split_on CHR ''-'' s of
        [a] \<Rightarrow> map_option (\<lambda>i. [i]) (atoi a)
      | [a, b] \<Rightarrow> (case (atoi a, atoi b) of (Some i, Some j) \<Rightarrow> Some [i..j] | _ \<Rightarrow> None)
      | _ \<Rightarrow> None)"

fun parse_parts :: "string list \<Rightarrow> int list option" where
  "parse_parts [] = Some []"
| "parse_parts (p # ps) =
     (case (parse_part p, parse_parts ps) of (Some is, Some js) \<Rightarrow> Some (is @ js) | _ \<Rightarrow> None)"

definition parse_cpulist :: "string \<Rightarrow> int list option" where
  "parse_cpulist s = (if s = [] then Some [] else parse_parts (split_on CHR '','' s))"

section \<open>Lemmas\<close>

lemma wrap_sum_eq:
  assumes "\<forall>n \<in> set ns. 0 \<le> n" and "sum_list ns < 2 ^ 63"
  shows "wrap_sum ns = sum_list ns"
proof -
  have "foldl (\<lambda>s n. wrap64 (s + n)) a ns = a + sum_list ns"
    if "0 \<le> a" "a + sum_list ns < 2 ^ 63" "\<forall>n \<in> set ns. 0 \<le> n" for a
    using that
  proof (induction ns arbitrary: a)
    case (Cons n ns)
    have "0 \<le> sum_list ns" using Cons.prems(3) by (intro sum_list_nonneg) auto
    with Cons.prems have "in64 (a + n)" by (simp add: in64_def)
    with Cons show ?case by (simp add: add.assoc)
  qed simp
  from this [of 0] assms show ?thesis by (simp add: wrap_sum_def)
qed

lemma put_zone_ok:
  assumes "length out = idx + k + m" and "idx + k \<le> length out"
  shows "put_zone k zone out idx = Ok (take idx out @ replicate k zone @ drop (idx + k) out, idx + k)"
  using assms
proof (induction k arbitrary: out idx m)
  case 0
  then show ?case by simp
next
  case (Suc k)
  have "take (Suc idx) (out[idx := zone]) = take idx out @ [zone]"
    using Suc.prems by (simp add: take_Suc_conv_app_nth)
  with Suc.IH [of "out[idx := zone]" "Suc idx" m] Suc.prems show ?case by simp
qed

text \<open>The zones in order, each as often as it has GPUs.\<close>

fun zones_from :: "int \<Rightarrow> int list \<Rightarrow> int list" where
  "zones_from zone [] = []"
| "zones_from zone (n # ns) = replicate (nat n) zone @ zones_from (zone + 1) ns"

lemma zones_from_length: "length (zones_from z ns) = sum_list (map nat ns)"
  by (induction z ns rule: zones_from.induct) simp_all

lemma zones_from_ge: "x \<in> set (zones_from z ns) \<Longrightarrow> z \<le> x"
proof (induction z ns rule: zones_from.induct)
  case (2 z n ns)
  then show ?case by (cases "x \<in> set (zones_from (z + 1) ns)") auto
qed simp

lemma put_zones_ok:
  assumes "length out = idx + sum_list (map nat ns)"
  shows "put_zones zone ns out idx = Ok (take idx out @ zones_from zone ns)"
  using assms
proof (induction ns arbitrary: zone out idx)
  case Nil
  then show ?case by simp
next
  case (Cons n ns)
  have "put_zone (nat n) zone out idx = Ok (take idx out @ replicate (nat n) zone @ drop (idx + nat n) out, idx + nat n)"
    using Cons.prems by (intro put_zone_ok [of _ _ _ "sum_list (map nat ns)"]) simp_all
  moreover have "length (take idx out @ replicate (nat n) zone @ drop (idx + nat n) out) = idx + nat n + sum_list (map nat ns)"
    using Cons.prems by simp
  ultimately show ?case using Cons.IH Cons.prems by simp
qed

lemma sum_nat: "\<forall>n \<in> set ns. 0 \<le> n \<Longrightarrow> nat (sum_list ns) = sum_list (map nat ns)"
  by (induction ns) (simp_all add: nat_add_distrib sum_list_nonneg)

lemma GPUIndexToZone_ok:
  assumes "\<forall>n \<in> set ns. 0 \<le> n" and "sum_list ns < 2 ^ 63"
  shows "GPUIndexToZone ns = Ok (zones_from 0 ns)"
proof -
  have "0 \<le> sum_list ns" using assms(1) by (intro sum_list_nonneg) auto
  then show ?thesis
    using wrap_sum_eq [OF assms] put_zones_ok [of "replicate (nat (sum_list ns)) 0" 0 ns 0] sum_nat [OF assms(1)]
    by (simp add: GPUIndexToZone_def)
qed

lemma zone_cpu_ids_concat: "concat (zone_cpu_ids c off n) = map (\<lambda>i. off + int i) [0..<n * c]"
proof (induction n arbitrary: off)
  case 0
  show ?case by simp
next
  case (Suc n)
  have "[0..<Suc n * c] = [0..<c] @ map (\<lambda>i. i + c) [0..<n * c]"
    using upt_add_eq_append [of 0 c "n * c"] by (simp add: map_add_upt add.commute)
  with Suc show ?case by (simp add: comp_def add.assoc add.commute)
qed

lemma zone_cpu_ids_length [simp]: "length (zone_cpu_ids c off n) = n"
  by (induction c off n rule: zone_cpu_ids.induct) simp_all

lemma digits_no_sep:
  assumes "is_digit c"
  shows "c \<noteq> CHR ''-''" and "c \<noteq> CHR '',''"
  using assms by (auto simp: is_digit_def)

lemma itoa_chars: "0 \<le> i \<Longrightarrow> c \<in> set (itoa i) \<Longrightarrow> is_digit c"
  using itoa_nat_digits [of "nat i"] by (auto simp: itoa_def list_all_iff)

lemma itoa_no_sep: "0 \<le> i \<Longrightarrow> CHR ''-'' \<notin> set (itoa i)" "0 \<le> i \<Longrightarrow> CHR '','' \<notin> set (itoa i)"
  using itoa_chars digits_no_sep by blast+

lemma parse_cpu_part:
  assumes "0 \<le> a" and "a \<le> b" and "in64 a" and "in64 b"
  shows "parse_part (cpu_part a b) = Some [a..b]"
proof (cases "a = b")
  case True
  with assms show ?thesis by (simp add: parse_part_def cpu_part_def split_on_none itoa_no_sep atoi_itoa)
next
  case False
  have "split_on CHR ''-'' (itoa a @ CHR ''-'' # itoa b) = [itoa a, itoa b]"
    using assms by (simp add: split_on_append split_on_none itoa_no_sep)
  with False assms show ?thesis by (simp add: parse_part_def cpu_part_def atoi_itoa)
qed

lemma cpu_part_chars:
  assumes "0 \<le> a" and "0 \<le> b"
  shows "CHR '','' \<notin> set (cpu_part a b)" and "cpu_part a b \<noteq> []"
  using itoa_no_sep(2) [OF assms(1)] itoa_no_sep(2) [OF assms(2)] by (auto simp: cpu_part_def itoa_def)

lemma cpulist_parts_props:
  assumes "0 \<le> start" and "start \<le> prev" and "sorted_wrt (<) (prev # ids)" and "\<forall>i \<in> set (prev # ids). i < 2 ^ 63 - 1"
  shows "parse_parts (cpulist_parts start prev ids) = Some ([start..prev] @ ids)"
    and "\<forall>p \<in> set (cpulist_parts start prev ids). CHR '','' \<notin> set p \<and> p \<noteq> []"
    and "cpulist_parts start prev ids \<noteq> []"
  using assms
proof (induction start prev ids rule: cpulist_parts.induct)
  case (1 start prev)
  {
    case 1
    then show ?case by (simp add: parse_cpu_part in64_def)
  next
    case 2
    then show ?case using cpu_part_chars [of start prev] by simp
  next
    case 3
    show ?case by simp
  }
next
  case (2 start prev i ids)
  have w: "wrap64 (prev + 1) = prev + 1" if "0 \<le> prev" "prev < 2 ^ 63 - 1" using that by (simp add: in64_def)
  {
    case 1
    show ?case
    proof (cases "i = wrap64 (prev + 1)")
      case True
      then have i: "i = prev + 1" using 1 w by simp
      have "[start..i] = [start..prev] @ [i]" using 1 i by (simp add: upto_rec2)
      moreover have "parse_parts (cpulist_parts start i ids) = Some ([start..i] @ ids)" using 1 True i by (intro "2.IH"(1)) auto
      ultimately show ?thesis using True by simp
    next
      case False
      have "parse_parts (cpulist_parts i i ids) = Some ([i..i] @ ids)" using 1 False by (intro "2.IH"(4)) auto
      with False 1 show ?thesis by (simp add: parse_cpu_part in64_def)
    qed
  next
    case 2
    then show ?case
    proof (cases "i = wrap64 (prev + 1)")
      case True
      with 2 w show ?thesis using "2.IH"(2) by auto
    next
      case False
      with 2 show ?thesis using "2.IH"(5) cpu_part_chars [of start prev] by auto
    qed
  next
    case 3
    then show ?case using "2.IH"(3,6) by auto
  }
qed

section \<open>Properties\<close>

text \<open>
  Without explicit counts the GPUs are split over the zones so that none is lost and the zones differ
  by at most one, the larger ones first.
\<close>

theorem distribute_even:
  assumes "1 \<le> zones" and "0 \<le> gpuCount"
  shows "\<exists>out. distributeGPUs gpuCount zones [] = Ok out \<and> int (length out) = zones \<and> sum_list out = gpuCount \<and>
    (\<forall>i j. i \<le> j \<and> j < length out \<longrightarrow> out ! j \<le> out ! i \<and> out ! i \<le> out ! j + 1)"
proof -
  define base r where "base = gpuCount div zones" and "r = gpuCount mod zones"
  define out where "out = map (\<lambda>z. if int z < r then base + 1 else base) [0..<nat zones]"
  have "distributeGPUs gpuCount zones [] = Ok out"
    using assms by (simp add: distributeGPUs_def out_def base_def r_def go_div_nonneg go_mod_nonneg Let_def)
  moreover have "sum_list (map (\<lambda>z. if int z < r then base + 1 else base) [0..<n]) = int n * base + min (int n) r" for n
    using assms by (induction n) (auto simp: r_def algebra_simps)
  then have "sum_list out = gpuCount"
    using assms by (simp add: out_def r_def base_def less_imp_le)
  ultimately show ?thesis using assms by (intro exI [of _ out]) (auto simp: out_def)
qed

text \<open>
  Every GPU has a zone, the zones come in order, and each zone has as many GPUs as was decided.
\<close>

theorem gpu_index_to_zone:
  assumes "\<forall>n \<in> set gpusPerZone. 0 \<le> n" and "sum_list gpusPerZone < 2 ^ 63"
  shows "\<exists>out. GPUIndexToZone gpusPerZone = Ok out \<and> int (length out) = sum_list gpusPerZone \<and> sorted out \<and>
    (\<forall>z < length gpusPerZone. int (count_list out (int z)) = gpusPerZone ! z)"
proof -
  have so: "sorted (zones_from z ns)" for z ns
    by (induction z ns rule: zones_from.induct) (auto simp: sorted_append dest!: zones_from_ge)
  have no: "w < z \<Longrightarrow> count_list (zones_from z ns) w = 0" for w z ns
    using zones_from_ge [of w z ns] by (auto simp: count_list_0_iff)
  have rep: "count_list (replicate k y) x = (if x = y then k else 0)" for k and x y :: int
    by (cases "x = y") (induction k, simp_all)+
  have co: "i < length ns \<Longrightarrow> count_list (zones_from z ns) (z + int i) = nat (ns ! i)" for i z ns
  proof (induction z ns arbitrary: i rule: zones_from.induct)
    case (2 z n ns)
    then show ?case
    proof (cases i)
      case (Suc j)
      with 2 show ?thesis by (simp add: rep) (metis add.assoc add.commute)
    qed (simp add: rep no)
  qed simp
  have "int (length (zones_from 0 gpusPerZone)) = sum_list gpusPerZone"
    using sum_nat [OF assms(1)] assms(1) by (simp add: zones_from_length) (metis int_nat_eq sum_list_nonneg)
  with GPUIndexToZone_ok [OF assms] so co [of _ gpusPerZone 0] assms(1) show ?thesis by (auto simp: nth_mem)
qed

text \<open>
  A resolved layout hands out every core identifier once: the zones' lists, one after the other, are
  \<open>0, 1, 2, ...\<close>, the same number for each zone.
\<close>

theorem cpu_ids_disjoint:
  assumes "ResolveZoneLayout K numa gpuCount alloc = Ok (Some layout)"
  shows "\<exists>cores. concat (zl_CPUIDsPerZone layout) = map int [0..<nat (Zones numa) * cores] \<and>
    int (length (zl_CPUIDsPerZone layout)) = zl_Zones layout \<and> distinct (concat (zl_CPUIDsPerZone layout))"
proof -
  from assms obtain cores where "1 \<le> Zones numa" "zl_Zones layout = Zones numa"
      and "zl_CPUIDsPerZone layout = zone_cpu_ids cores 0 (nat (Zones numa))"
    by (auto simp: ResolveZoneLayout_def rbind_eq_Ok Let_def split: if_splits)
  then show ?thesis by (intro exI [of _ cores]) (simp add: zone_cpu_ids_concat distinct_map)
qed

text \<open>
  The text written for an ascending list of cores reads back, in the format the Linux kernel documents,
  as that list.
\<close>

theorem cpulist_round_trip:
  assumes "sorted_wrt (<) ids" and "\<forall>i \<in> set ids. 0 \<le> i \<and> i < 2 ^ 63 - 1"
  shows "parse_cpulist (Cpulist ids) = Some ids"
proof (cases ids)
  case Nil
  then show ?thesis by (simp add: parse_cpulist_def)
next
  case (Cons i js)
  have p: "parse_parts (cpulist_parts i i js) = Some ([i..i] @ js)"
    "\<forall>p \<in> set (cpulist_parts i i js). CHR '','' \<notin> set p \<and> p \<noteq> []" "cpulist_parts i i js \<noteq> []"
    using assms Cons cpulist_parts_props [of i i js] by auto
  then have "str_join '','' (cpulist_parts i i js) \<noteq> []"
    by (cases "cpulist_parts i i js" rule: remdups_adj.cases) auto
  with p Cons split_join [of "cpulist_parts i i js" "CHR '',''"] show ?thesis by (simp add: parse_cpulist_def)
qed

text \<open>
  Explicit counts are not checked for their sign: counts that add up to the number of GPUs with a
  negative one among them are accepted, and the walk over them then runs past the end of its slice.
\<close>

theorem negative_zone_count_panics:
  "distributeGPUs 4 2 [5, -1] = Ok [5, -1] \<and> GPUIndexToZone [5, -1] = Panic IndexOutOfRange"
  by code_simp

end
