(* ===== verification/Nrt.thy ===== *)
theory Nrt
  imports NumaZones Normalize
begin

text \<open>
  \<^verbatim>\<open>internal/status-exporter/export/nrt\<close>: the \<^verbatim>\<open>NodeResourceTopology\<close> object of a node,
  built from the NUMA layout of its pool (build.go), given the node as its owner and applied (publish.go,
  reconciler.go), for one node (exporter.go) or for many (multi_node_exporter.go).  The conversion of a typed
  object to its unstructured form and the dynamic client are parameters.
\<close>

section \<open>build.go\<close>

record 'q ResourceInfo =
  ri_Name :: string
  ri_Capacity :: 'q
  ri_Allocatable :: 'q
  ri_Available :: 'q

record 'q Zone =
  z_Name :: string
  z_Type :: string
  z_Costs :: "(string \<times> int) list"
  z_Resources :: "'q ResourceInfo list"

record OwnerReference =
  or_APIVersion :: string
  or_Kind :: string
  or_Name :: string
  or_UID :: string

record 'q NRT =
  nrt_APIVersion :: string
  nrt_Kind :: string
  nrt_Name :: string
  nrt_OwnerReferences :: "OwnerReference list"
  nrt_Attributes :: "(string \<times> string) list"
  nrt_TopologyPolicies :: "string list"
  nrt_Zones :: "'q Zone list"

definition nrt_apiVersion :: string where "nrt_apiVersion = ''topology.node.k8s.io/v1alpha2''"
definition nrt_kind :: string where "nrt_kind = ''NodeResourceTopology''"

definition zoneName :: "int \<Rightarrow> string" where
  "zoneName i = ''node-'' @ itoa i"

definition resourceInfo :: "string \<Rightarrow> 'q \<Rightarrow> 'q ResourceInfo" where
  "resourceInfo name q = \<lparr>ri_Name = name, ri_Capacity = q, ri_Allocatable = q, ri_Available = q\<rparr>"

definition legacyTopologyPolicy :: "string \<Rightarrow> string \<Rightarrow> string" where
  "legacyTopologyPolicy policy scope =
     (let level = (if scope = ''pod'' then ''PodLevel'' else ''ContainerLevel'')
      in if policy = ''single-numa-node'' then ''SingleNUMANode'' @ level
         else if policy = ''restricted'' then ''Restricted'' @ level
         else if policy = ''best-effort'' then ''BestEffort'' @ level
         else ''None'')"

definition build_zone ::
    "('s, 'q, 'y) kube_env \<Rightarrow> 'q ZoneLayout \<Rightarrow> int \<Rightarrow> int \<Rightarrow> int \<Rightarrow> 'q Zone res" where
  "build_zone K layout self remote z =
     rbind (index_res (zl_GpusPerZone layout) z) (\<lambda>gpus.
       Ok \<lparr>z_Name = zoneName z, z_Type = ''Node'',
           z_Costs = map (\<lambda>j. (zoneName (int j), if int j = z then self else remote)) [0..<nat (zl_Zones layout)],
           z_Resources = resourceInfo ''nvidia.com/gpu'' (q_new K gpus) #
             (case zl_CPUPerZone layout of None \<Rightarrow> [] | Some q \<Rightarrow> [resourceInfo ''cpu'' q]) @
             (case zl_MemPerZone layout of None \<Rightarrow> [] | Some q \<Rightarrow> [resourceInfo ''memory'' q])\<rparr>)"

definition BuildNRT ::
    "('s, 'q, 'y) kube_env \<Rightarrow> string \<Rightarrow> NumaConfig \<Rightarrow> int \<Rightarrow> (string \<rightharpoonup> 'q) \<Rightarrow> 'q NRT option res" where
  "BuildNRT K nodeName numa gpuCount nodeAllocatable =
     rbind (ResolveZoneLayout K numa gpuCount nodeAllocatable) (\<lambda>layout.
       case layout of
         None \<Rightarrow> Ok None
       | Some layout \<Rightarrow>
           let policy = (if TopologyManagerPolicy numa = [] then ''single-numa-node'' else TopologyManagerPolicy numa);
               scope = (if TopologyManagerScope numa = [] then ''container'' else TopologyManagerScope numa);
               (self, remote) = (case Distances numa of None \<Rightarrow> (10, 21) | Some d \<Rightarrow> (nd_Self d, nd_Remote d))
           in rbind (mapM_res (\<lambda>z. build_zone K layout self remote (int z)) [0..<nat (zl_Zones layout)]) (\<lambda>zones.
                Ok (Some \<lparr>nrt_APIVersion = nrt_apiVersion, nrt_Kind = nrt_kind, nrt_Name = nodeName,
                          nrt_OwnerReferences = [],
                          nrt_Attributes = [(''topologyManagerPolicy'', policy), (''topologyManagerScope'', scope)],
                          nrt_TopologyPolicies = [legacyTopologyPolicy policy scope], nrt_Zones = zones\<rparr>)))"

section \<open>publish.go\<close>

text \<open>A publisher applies an object; the interface of \<^verbatim>\<open>Reconciler\<close>.\<close>

type_synonym ('s, 'q) publisher = "'q NRT \<Rightarrow> 's \<Rightarrow> unit res \<times> 's"

definition publishNodeNRT ::
    "('s, 'q, 'y) kube_env \<Rightarrow> ('s, 'q) publisher \<Rightarrow> string \<Rightarrow> NodeTopology \<Rightarrow> 's \<Rightarrow> unit res \<times> 's" where
  "publishNodeNRT K publisher_Apply nodeName nodeTopology s =
     sbind (wrap_err ''failed to get cluster config'' (GetClusterConfigFromCM K s), s) (\<lambda>clusterConfig s.
     sbind (wrap_err ''failed to get node'' (of_sum (node_get K nodeName s)), s) (\<lambda>node s.
       case n_Labels node (NodePoolLabelKey clusterConfig) of
         None \<Rightarrow> (Ok (), s)
       | Some poolName \<Rightarrow>
           (case map_of (NodePools clusterConfig) poolName of
              None \<Rightarrow> (Ok (), s)
            | Some poolConfig \<Rightarrow>
                (case Numa poolConfig of
                   None \<Rightarrow> (Ok (), s)
                 | Some numa \<Rightarrow>
                     sbind (wrap_err ''failed to build NodeResourceTopology''
                              (BuildNRT K nodeName numa (int (length (Gpus nodeTopology))) (n_Allocatable node)), s) (\<lambda>nrtObj s.
                       case nrtObj of
                         None \<Rightarrow> (Ok (), s)
                       | Some nrt \<Rightarrow>
                           publisher_Apply (nrt\<lparr>nrt_OwnerReferences :=
                             [\<lparr>or_APIVersion = ''v1'', or_Kind = ''Node'', or_Name = n_Name node, or_UID = n_UID node\<rparr>]\<rparr>) s)))))"

text \<open>\<^verbatim>\<open>MultiNodeExporter.SetNRTForNode\<close>, and one topology handled by \<^verbatim>\<open>Exporter.Run\<close>, which logs the error.\<close>

definition SetNRTForNode ::
    "('s, 'q, 'y) kube_env \<Rightarrow> ('s, 'q) publisher \<Rightarrow> string \<Rightarrow> NodeTopology \<Rightarrow> 's \<Rightarrow> unit res \<times> 's" where
  "SetNRTForNode K p nodeName nt s = publishNodeNRT K p nodeName nt s"

definition nrt_export :: "('s, 'q, 'y) kube_env \<Rightarrow> ('s, 'q) publisher \<Rightarrow> NodeTopology \<Rightarrow> 's \<Rightarrow> unit res \<times> 's" where
  "nrt_export K p nt s =
     (case publishNodeNRT K p (EnvNodeName K) nt s of (Err e, s') \<Rightarrow> (Ok (), s') | r \<Rightarrow> r)"

section \<open>reconciler.go\<close>

text \<open>
  \<^verbatim>\<open>toUnstructured\<close>: the converter gives a tree; the status and the null creation timestamp are
  removed, version and kind are set.
\<close>

definition toUnstructured :: "('q NRT \<Rightarrow> gerror + gmap) \<Rightarrow> 'q NRT \<Rightarrow> gmap res" where
  "toUnstructured converter nrt =
     rbind (of_sum (converter nrt)) (\<lambda>obj.
       let obj = AList.delete ''status'' obj;
           obj = (case map_of obj ''metadata'' of
                    Some (GMap m) \<Rightarrow> AList.update ''metadata'' (GMap (AList.delete ''creationTimestamp'' m)) obj
                  | _ \<Rightarrow> obj)
       in Ok (AList.update ''kind'' (GStr nrt_kind) (AList.update ''apiVersion'' (GStr nrt_apiVersion) obj)))"

definition Reconciler_Apply ::
    "('q NRT \<Rightarrow> gerror + gmap) \<Rightarrow> (string \<Rightarrow> gmap \<Rightarrow> 's \<Rightarrow> (gerror + unit) \<times> 's) \<Rightarrow> ('s, 'q) publisher" where
  "Reconciler_Apply converter client_Apply nrt s =
     sbind (toUnstructured converter nrt, s) (\<lambda>u s. api_call (client_Apply (nrt_Name nrt) u s))"

section \<open>Properties\<close>

lemma distributeGPUs_length: "distributeGPUs n z ex = Ok out \<Longrightarrow> int (length out) = z"
  by (auto simp: distributeGPUs_def Let_def split: if_splits)

lemma mapM_res_eq: "(\<And>x. x \<in> set xs \<Longrightarrow> f x = Ok (g x)) \<Longrightarrow> mapM_res f xs = Ok (map g xs)"
  by (induction xs) simp_all

text \<open>
  The object built for a node has one zone per NUMA zone; a zone lists its GPUs first, with capacity,
  allocatable and available all equal to the number the layout gives it, and its distance to itself is the
  pool's own cost and to every other zone the pool's remote cost.
\<close>

theorem build_nrt_zones:
  assumes "ResolveZoneLayout K numa gpuCount alloc = Ok (Some layout)"
  shows "\<exists>nrt. BuildNRT K name numa gpuCount alloc = Ok (Some nrt) \<and> nrt_Name nrt = name \<and>
    int (length (nrt_Zones nrt)) = Zones numa \<and>
    (\<forall>z < length (nrt_Zones nrt).
       z_Name (nrt_Zones nrt ! z) = zoneName (int z) \<and>
       hd (z_Resources (nrt_Zones nrt ! z)) = resourceInfo ''nvidia.com/gpu'' (q_new K (zl_GpusPerZone layout ! z)) \<and>
       (\<forall>j < length (nrt_Zones nrt). z_Costs (nrt_Zones nrt ! z) ! j =
          (zoneName (int j),
           case Distances numa of None \<Rightarrow> if j = z then 10 else 21 | Some d \<Rightarrow> if j = z then nd_Self d else nd_Remote d)))"
proof -
  from assms have z: "zl_Zones layout = Zones numa" "0 < Zones numa" "int (length (zl_GpusPerZone layout)) = Zones numa"
    by (auto simp: ResolveZoneLayout_def rbind_eq_Ok Let_def distributeGPUs_length split: if_splits)
  obtain self remote where sr: "(case Distances numa of None \<Rightarrow> (10, 21) | Some d \<Rightarrow> (nd_Self d, nd_Remote d)) = (self, remote)"
    by force
  define zone where "zone = (\<lambda>z. \<lparr>z_Name = zoneName z, z_Type = ''Node'',
    z_Costs = map (\<lambda>j. (zoneName (int j), if int j = z then self else remote)) [0..<nat (Zones numa)],
    z_Resources = resourceInfo ''nvidia.com/gpu'' (q_new K (zl_GpusPerZone layout ! nat z)) #
      (case zl_CPUPerZone layout of None \<Rightarrow> [] | Some q \<Rightarrow> [resourceInfo ''cpu'' q]) @
      (case zl_MemPerZone layout of None \<Rightarrow> [] | Some q \<Rightarrow> [resourceInfo ''memory'' q])\<rparr>)"
  have "mapM_res (\<lambda>z. build_zone K layout self remote (int z)) [0..<nat (Zones numa)] =
      Ok (map (\<lambda>z. zone (int z)) [0..<nat (Zones numa)])"
    using z by (intro mapM_res_eq) (auto simp: build_zone_def zone_def)
  then obtain nrt where n: "BuildNRT K name numa gpuCount alloc = Ok (Some nrt)" "nrt_Name nrt = name"
      and zs: "nrt_Zones nrt = map (\<lambda>z. zone (int z)) [0..<nat (Zones numa)]"
    using assms z(1) sr by (auto simp: BuildNRT_def Let_def)
  have cost: "(if j = i then self else remote) =
      (case Distances numa of None \<Rightarrow> if j = i then 10 else 21 | Some d \<Rightarrow> if j = i then nd_Self d else nd_Remote d)"
    for i j :: nat
    using sr by (auto split: option.splits)
  show ?thesis unfolding cost [symmetric] using n zs z(2) by (intro exI [of _ nrt]) (simp add: zone_def)
qed

lemma BuildNRT_some:
  assumes "BuildNRT K name numa n alloc = Ok (Some nrt)"
  shows "nrt_Name nrt = name \<and> 1 \<le> Zones numa"
proof (cases "Zones numa < 1")
  case True
  with assms show ?thesis by (simp add: BuildNRT_def ResolveZoneLayout_def)
next
  case False
  from assms obtain l where "ResolveZoneLayout K numa n alloc = Ok (Some l)"
    by (auto simp: BuildNRT_def rbind_eq_Ok split: option.splits)
  with assms have "nrt_Name nrt = name" by (auto simp: BuildNRT_def rbind_eq_Ok Let_def split_def)
  with False show ?thesis by simp
qed

text \<open>A publisher that records what it is given.\<close>

definition recording :: "('q NRT list, 'q) publisher" where
  "recording nrt seen = (Ok (), seen @ [nrt])"

text \<open>
  What is published for a node is owned by that node, by name and UID, so that it is collected with it;
  and nothing is published for a node outside every pool or in a pool without a NUMA layout.
\<close>

theorem publish_owned_by_node:
  assumes "node_get K name seen = Inr node"
  shows "case publishNodeNRT K recording name nt seen of (r, seen') \<Rightarrow>
    seen' = seen \<or> (\<exists>nrt. seen' = seen @ [nrt] \<and> nrt_Name nrt = name \<and>
      nrt_OwnerReferences nrt = [\<lparr>or_APIVersion = ''v1'', or_Kind = ''Node'', or_Name = n_Name node, or_UID = n_UID node\<rparr>] \<and>
      (\<exists>cfg p pc numa. GetClusterConfigFromCM K seen = Ok cfg \<and> n_Labels node (NodePoolLabelKey cfg) = Some p \<and>
         map_of (NodePools cfg) p = Some pc \<and> Numa pc = Some numa \<and> 1 \<le> Zones numa))"
proof (cases "GetClusterConfigFromCM K seen")
  case (Ok cfg)
  note build = BuildNRT_some
  show ?thesis
  proof (cases "\<exists>p pc numa. n_Labels node (NodePoolLabelKey cfg) = Some p \<and> map_of (NodePools cfg) p = Some pc \<and> Numa pc = Some numa")
    case True
    then obtain p pc numa where p: "n_Labels node (NodePoolLabelKey cfg) = Some p" "map_of (NodePools cfg) p = Some pc" "Numa pc = Some numa"
      by blast
    show ?thesis
    proof (cases "BuildNRT K name numa (int (length (Gpus nt))) (n_Allocatable node)")
      case b: (Ok r)
      show ?thesis
      proof (cases r)
        case (Some nrt)
        with b build have "nrt_Name nrt = name \<and> 1 \<le> Zones numa" by blast
        with Ok assms p b Some show ?thesis by (auto simp: publishNodeNRT_def recording_def)
      qed (use Ok assms p b in \<open>simp add: publishNodeNRT_def\<close>)
    qed (use Ok assms p in \<open>simp_all add: publishNodeNRT_def\<close>)
  next
    case False
    with Ok assms show ?thesis by (auto simp: publishNodeNRT_def split: option.splits)
  qed
qed (simp_all add: publishNodeNRT_def)

text \<open>
  The object that is applied says what it is and carries no status and no creation timestamp, so that
  applying it owns none of the two.
\<close>

theorem unstructured_is_clean:
  assumes "toUnstructured converter nrt = Ok u"
  shows "map_of u ''apiVersion'' = Some (GStr nrt_apiVersion) \<and> map_of u ''kind'' = Some (GStr nrt_kind) \<and>
    map_of u ''status'' = None \<and> (\<forall>m. map_of u ''metadata'' = Some (GMap m) \<longrightarrow> map_of m ''creationTimestamp'' = None)"
proof -
  obtain obj where "converter nrt = Inr obj" using assms by (cases "converter nrt") (simp_all add: toUnstructured_def)
  define obj1 where "obj1 = AList.delete ''status'' obj"
  define obj2 where "obj2 = (case map_of obj1 ''metadata'' of
    Some (GMap m) \<Rightarrow> AList.update ''metadata'' (GMap (AList.delete ''creationTimestamp'' m)) obj1 | _ \<Rightarrow> obj1)"
  have u: "u = AList.update ''kind'' (GStr nrt_kind) (AList.update ''apiVersion'' (GStr nrt_apiVersion) obj2)"
    unfolding obj2_def obj1_def using assms \<open>converter nrt = Inr obj\<close> by (simp add: toUnstructured_def Let_def)
  have "map_of obj1 ''status'' = None" by (simp add: obj1_def map_of_delete)
  then have "map_of obj2 ''status'' = None"
    by (simp add: obj2_def map_of_update split: option.splits gval.splits)
  moreover have "map_of m ''creationTimestamp'' = None" if "map_of obj2 ''metadata'' = Some (GMap m)" for m
    using that by (auto simp: obj2_def map_of_update map_of_delete split: option.splits gval.splits)
  ultimately show ?thesis by (simp add: u map_of_update)
qed

end
