(* ===== verification/PodResources.thy ===== *)
theory PodResources
  imports NumaZones Normalize GpuFrame
begin

text \<open>
  \<^verbatim>\<open>internal/status-exporter/export/podresources\<close>: the simulated kubelet answer that lists, for
  every pod that holds GPUs, its devices, cores and memory by NUMA zone (build.go), the files with the zones'
  core lists (sysfs.go), and the snapshot the server answers from (exporter.go, server.go).
\<close>

section \<open>Apportioning\<close>

text \<open>
  \<^verbatim>\<open>largestRemainder\<close>.  A product of two 64-bit integers is far below the largest float, so that
  every float of the routine is finite and is written as the rational it stands for.
\<close>

definition exact_share :: "int \<Rightarrow> int \<Rightarrow> int \<Rightarrow> rat" where
  "exact_share amount w s = rnd64 (rnd64 (rnd64 (of_int amount) * rnd64 (of_int w)) / rnd64 (of_int s))"

definition floor_share :: "(gofloat \<Rightarrow> int) \<Rightarrow> int \<Rightarrow> int \<Rightarrow> int \<Rightarrow> int" where
  "floor_share conv amount w s = int_of_f64 conv (Fin (of_int \<lfloor>exact_share amount w s\<rfloor>))"

text \<open>One unit more for each of the indices.\<close>

definition bump :: "int list \<Rightarrow> nat list \<Rightarrow> int list" where
  "bump out is = foldl (\<lambda>out i. out[i := wrap64 (out ! i + 1)]) out is"

definition largestRemainder :: "(gofloat \<Rightarrow> int) \<Rightarrow> int \<Rightarrow> int list \<Rightarrow> int list" where
  "largestRemainder conv amount weights =
     (let s = wrap_sum weights
      in if s = 0 \<or> amount \<le> 0 then map (\<lambda>_. 0) weights
         else let shares = map (\<lambda>w. floor_share conv amount w s) weights;
                  allocated = wrap_sum shares;
                  frac = (\<lambda>i. rnd64 (exact_share amount (weights ! i) s - rnd64 (of_int (shares ! i))));
                  rems = sort_key (\<lambda>i. - frac i) [0..<length weights]
              in bump shares (take (nat (wrap64 (amount - allocated))) rems))"

section \<open>build.go\<close>

record 'q PodRequest =
  pr_CPU :: 'q
  pr_Memory :: 'q

record podAgg =
  pa_namespace :: string
  pa_name :: string
  pa_gpusByZone :: "(int \<times> string list) list"

record ContainerDevices =
  dv_ResourceName :: string
  dv_DeviceIds :: "string list"
  dv_Zone :: int

record PodResourcesEntry =
  pe_Name :: string
  pe_Namespace :: string
  pe_Devices :: "ContainerDevices list"
  pe_CpuIds :: "int list"
  pe_Memory :: "(int \<times> int) list"

definition pod_key :: "string \<Rightarrow> string \<Rightarrow> string" where
  "pod_key namespace name = namespace @ ''/'' @ name"

definition add_gpu :: "(string \<times> podAgg) list \<Rightarrow> ContainerDetails \<Rightarrow> int \<Rightarrow> string \<Rightarrow> (string \<times> podAgg) list" where
  "add_gpu byPod owner zone gpuID =
     (let key = pod_key (cd_Namespace owner) (cd_Pod owner);
          a = (case map_of byPod key of
                 Some a \<Rightarrow> a
               | None \<Rightarrow> \<lparr>pa_namespace = cd_Namespace owner, pa_name = cd_Pod owner, pa_gpusByZone = []\<rparr>);
          ids = (case map_of (pa_gpusByZone a) zone of None \<Rightarrow> [] | Some ids \<Rightarrow> ids)
      in AList.update key (a\<lparr>pa_gpusByZone := AList.update zone (ids @ [gpuID]) (pa_gpusByZone a)\<rparr>) byPod)"

text \<open>The GPUs in order, with their zones; GPUs beyond the layout and GPUs that nobody holds are skipped.\<close>

fun group_gpus :: "int list \<Rightarrow> nat \<Rightarrow> GpuDetails list \<Rightarrow> (string \<times> podAgg) list \<Rightarrow> (string \<times> podAgg) list" where
  "group_gpus idxToZone i [] byPod = byPod"
| "group_gpus idxToZone i (g # gs) byPod =
     (if cd_Pod (AllocatedBy (Status g)) = [] \<or> cd_Namespace (AllocatedBy (Status g)) = [] then group_gpus idxToZone (Suc i) gs byPod
      else if length idxToZone \<le> i then group_gpus idxToZone (Suc i) gs byPod
      else group_gpus idxToZone (Suc i) gs (add_gpu byPod (AllocatedBy (Status g)) (idxToZone ! i) (ID g)))"

text \<open>\<^verbatim>\<open>math.Round\<close> of a finite float\<close>

definition rat_round :: "rat \<Rightarrow> int" where
  "rat_round q = (if 0 \<le> q then \<lfloor>q + 1 / 2\<rfloor> else \<lceil>q - 1 / 2\<rceil>)"

definition round_cores :: "(gofloat \<Rightarrow> int) \<Rightarrow> int \<Rightarrow> int" where
  "round_cores conv milli = int_of_f64 conv (Fin (of_int (rat_round (rnd64 (rnd64 (of_int milli) / 1000)))))"

fun zone_entries ::
    "int list list \<Rightarrow> (int \<times> string list) list \<Rightarrow> int list \<Rightarrow> int list
     \<Rightarrow> (ContainerDevices list \<times> int list \<times> (int \<times> int) list) res" where
  "zone_entries cpuIDs [] cs ms = Ok ([], [], [])"
| "zone_entries cpuIDs ((z, ids) # zs) (c # cs) (m # ms) =
     rbind (if 0 < c then index_res cpuIDs z else Ok []) (\<lambda>cores.
     rbind (zone_entries cpuIDs zs cs ms) (\<lambda>(ds, is, mem).
       Ok (\<lparr>dv_ResourceName = ''nvidia.com/gpu'', dv_DeviceIds = ids, dv_Zone = z\<rparr> # ds,
           take (nat c) cores @ is,
           (if 0 < m then [(z, m)] else []) @ mem)))"
| "zone_entries cpuIDs (z # zs) cs ms = Panic IndexOutOfRange"

definition pod_entry ::
    "('s, 'q, 'y) kube_env \<Rightarrow> 'q ZoneLayout \<Rightarrow> (string \<rightharpoonup> 'q PodRequest) \<Rightarrow> string \<times> podAgg \<Rightarrow> PodResourcesEntry res" where
  "pod_entry K layout reqs ka =
     (case ka of (key, a) \<Rightarrow>
        let zones = sort_key fst (pa_gpusByZone a);
            weights = map (\<lambda>(z, ids). int (length ids)) zones;
            req = (case reqs key of None \<Rightarrow> \<lparr>pr_CPU = q_zero K, pr_Memory = q_zero K\<rparr> | Some r \<Rightarrow> r);
            cores = round_cores (conv_oor K) (q_milli K (pr_CPU req));
            coresPerZone = largestRemainder (conv_oor K) cores weights;
            memPerZone = largestRemainder (conv_oor K) (q_value K (pr_Memory req)) weights
        in rbind (zone_entries (zl_CPUIDsPerZone layout) zones coresPerZone memPerZone) (\<lambda>(ds, is, mem).
             Ok \<lparr>pe_Name = pa_name a, pe_Namespace = pa_namespace a, pe_Devices = ds, pe_CpuIds = is, pe_Memory = mem\<rparr>))"

definition BuildPodResources ::
    "('s, 'q, 'y) kube_env \<Rightarrow> NodeTopology \<Rightarrow> 'q ZoneLayout option \<Rightarrow> (string \<rightharpoonup> 'q PodRequest) \<Rightarrow> PodResourcesEntry list res" where
  "BuildPodResources K nt layout reqs =
     (case layout of
        None \<Rightarrow> Ok []
      | Some layout \<Rightarrow>
          rbind (GPUIndexToZone (zl_GpusPerZone layout)) (\<lambda>idxToZone.
            mapM_res (pod_entry K layout reqs) (sort_key fst (group_gpus idxToZone 0 (Gpus nt) []))))"

section \<open>sysfs.go\<close>

text \<open>
  A file tree as the contents of its files by path; \<open>io_err\<close> says which paths the operating system
  refuses to touch.
\<close>

definition under :: "string \<Rightarrow> string \<Rightarrow> bool" where
  "under base path \<longleftrightarrow> path = base \<or> prefix (base @ ''/'') path"

definition cpulist_dir :: "string \<Rightarrow> int \<Rightarrow> string" where
  "cpulist_dir sysroot z = sysroot @ ''/devices/system/node/node'' @ itoa z"

fun write_cpulists ::
    "(string \<Rightarrow> bool) \<Rightarrow> string \<Rightarrow> int list list \<Rightarrow> nat list \<Rightarrow> (string \<rightharpoonup> string) \<Rightarrow> unit res \<times> (string \<rightharpoonup> string)" where
  "write_cpulists io_err sysroot cpuIDs [] fs = (Ok (), fs)"
| "write_cpulists io_err sysroot cpuIDs (z # zs) fs =
     (let dir = cpulist_dir sysroot (int z) in
      if io_err dir then (Err (Msg ''mkdir''), fs)
      else sbind (index_res cpuIDs (int z), fs) (\<lambda>ids fs.
             if io_err (dir @ ''/cpulist'') then (Err (Msg ''write cpulist for zone''), fs)
             else write_cpulists io_err sysroot cpuIDs zs (fs(dir @ ''/cpulist'' \<mapsto> Cpulist ids @ [CHR 0x0A]))))"

definition RenderCpulist ::
    "(string \<Rightarrow> bool) \<Rightarrow> string \<Rightarrow> 'q ZoneLayout option \<Rightarrow> (string \<rightharpoonup> string) \<Rightarrow> unit res \<times> (string \<rightharpoonup> string)" where
  "RenderCpulist io_err sysroot layout fs =
     (case layout of
        None \<Rightarrow> (Ok (), fs)
      | Some layout \<Rightarrow>
          let base = sysroot @ ''/devices/system/node''
          in if io_err base then (Err (Msg ''purge sysfs tree''), fs)
             else write_cpulists io_err sysroot (zl_CPUIDsPerZone layout) [0..<nat (zl_Zones layout)]
                    (\<lambda>p. if under base p then None else fs p))"

section \<open>exporter.go, server.go\<close>

record exporter_state =
  ex_snapshot :: "PodResourcesEntry list option"
  ex_files :: "string \<rightharpoonup> string"

text \<open>\<^verbatim>\<open>Server.SetSnapshot\<close> and \<^verbatim>\<open>Server.List\<close>; no snapshot yet is an empty answer.\<close>

definition SetSnapshot :: "PodResourcesEntry list \<Rightarrow> exporter_state \<Rightarrow> exporter_state" where
  "SetSnapshot pods e = e\<lparr>ex_snapshot := Some pods\<rparr>"

definition List_PodResources :: "exporter_state \<Rightarrow> PodResourcesEntry list" where
  "List_PodResources e = (case ex_snapshot e of None \<Rightarrow> [] | Some ps \<Rightarrow> ps)"

definition container_sum :: "('s, 'q, 'y) kube_env \<Rightarrow> string \<Rightarrow> 'q Container list \<Rightarrow> 'q" where
  "container_sum K name cs = foldl (\<lambda>acc c. q_add K acc (quantity_of K (c_Requests c) name)) (q_zero K) cs"

definition podRequests :: "('s, 'q, 'y) kube_env \<Rightarrow> 's \<Rightarrow> (string \<rightharpoonup> 'q PodRequest) res" where
  "podRequests K s =
     rbind (of_sum (pod_list K [] (EnvNodeName K) s)) (\<lambda>pods.
       Ok (foldl (\<lambda>out p. out(pod_key (p_Namespace p) (p_Name p) \<mapsto>
              \<lparr>pr_CPU = container_sum K ''cpu'' (p_Containers p), pr_Memory = container_sum K ''memory'' (p_Containers p)\<rparr>))
             Map.empty pods))"

definition reconcile ::
    "('s, 'q, 'y) kube_env \<Rightarrow> (string \<Rightarrow> bool) \<Rightarrow> string \<Rightarrow> NodeTopology \<Rightarrow> 's \<Rightarrow> exporter_state \<Rightarrow> unit res \<times> exporter_state" where
  "reconcile K io_err sysfsRoot nt s e =
     sbind (wrap_err ''get cluster config'' (GetClusterConfigFromCM K s), e) (\<lambda>clusterConfig e.
     sbind (wrap_err ''get node'' (of_sum (node_get K (EnvNodeName K) s)), e) (\<lambda>node e.
       case Option.bind (n_Labels node (NodePoolLabelKey clusterConfig))
              (\<lambda>poolName. Option.bind (map_of (NodePools clusterConfig) poolName) Numa) of
         None \<Rightarrow> (Ok (), SetSnapshot [] e)
       | Some numa \<Rightarrow>
           sbind (wrap_err ''resolve zone layout''
                    (ResolveZoneLayout K numa (int (length (Gpus nt))) (n_Allocatable node)), e) (\<lambda>layout e.
             case layout of
               None \<Rightarrow> (Ok (), SetSnapshot [] e)
             | Some layout \<Rightarrow>
                 sbind (wrap_err ''list pod requests'' (podRequests K s), e) (\<lambda>reqs e.
                   let (r, files) = RenderCpulist io_err sysfsRoot (Some layout) (ex_files e)
                   in sbind (wrap_err ''render cpulist'' r, e\<lparr>ex_files := files\<rparr>) (\<lambda>_ e.
                      sbind (BuildPodResources K nt (Some layout) reqs, e) (\<lambda>pods e. (Ok (), SetSnapshot pods e)))))))"

section \<open>Lemmas\<close>

lemma bump_nth:
  assumes "distinct is" and "\<forall>i \<in> set is. i < length out" and "\<forall>x \<in> set out. 0 \<le> x \<and> x < 2 ^ 62"
  shows "length (bump out is) = length out"
    and "i < length out \<Longrightarrow> bump out is ! i = out ! i + (if i \<in> set is then 1 else 0)"
proof -
  have "length (bump out is) = length out \<and>
      (\<forall>i < length out. bump out is ! i = out ! i + (if i \<in> set is then 1 else 0))"
    if "distinct is" "\<forall>i \<in> set is. i < length out \<and> 0 \<le> out ! i \<and> out ! i < 2 ^ 62" for out
    using that
  proof (induction "is" arbitrary: out)
    case Nil
    then show ?case by (simp add: bump_def)
  next
    case (Cons j js)
    have w: "wrap64 (out ! j + 1) = out ! j + 1" using Cons.prems(2) by (simp add: in64_def)
    have "bump out (j # js) = bump (out[j := out ! j + 1]) js" by (simp add: bump_def w)
    moreover have "length (bump (out[j := out ! j + 1]) js) = length (out[j := out ! j + 1]) \<and>
      (\<forall>i < length (out[j := out ! j + 1]). bump (out[j := out ! j + 1]) js ! i =
         out[j := out ! j + 1] ! i + (if i \<in> set js then 1 else 0))"
      using Cons.prems by (intro Cons.IH) (auto simp: nth_list_update)
    ultimately show ?case using Cons.prems by (auto simp: nth_list_update)
  qed
  from this [of out] assms show "length (bump out is) = length out"
    and "i < length out \<Longrightarrow> bump out is ! i = out ! i + (if i \<in> set is then 1 else 0)" by auto
qed

lemma sum_bump:
  assumes "distinct is" and "\<forall>i \<in> set is. i < length out" and "\<forall>x \<in> set out. 0 \<le> x \<and> x < 2 ^ 62"
  shows "sum_list (bump out is) = sum_list out + int (length is)"
proof -
  note b = bump_nth [OF assms]
  have "sum_list (bump out is) = (\<Sum>i < length out. out ! i + (if i \<in> set is then 1 else 0))"
    using b by (simp add: sum_list_sum_nth atLeast0LessThan)
  also have "\<dots> = sum_list out + int (card ({..<length out} \<inter> set is))"
    by (simp add: sum.distrib sum_list_sum_nth atLeast0LessThan sum.If_cases)
  also have "{..<length out} \<inter> set is = set is" using assms(2) by auto
  finally show ?thesis using assms(1) by (simp add: distinct_card)
qed

lemma int_div_le_self: "0 \<le> a \<Longrightarrow> 0 < b \<Longrightarrow> a div b \<le> (a :: int)"
  using zdiv_mono2 [of a 1 b] by simp

lemma floor_share_eq:
  assumes "0 < amount" and "0 \<le> w" and "0 < s" and "amount < 2 ^ 53" and "amount * w < 2 ^ 53" and "w < 2 ^ 53" and "s < 2 ^ 53"
  shows "floor_share conv amount w s = amount * w div s"
proof -
  have a: "rnd64 (of_int amount) = of_int amount" "rnd64 (of_int w) = of_int w" "rnd64 (of_int s) = of_int s"
    using assms by (auto intro!: rnd64_of_int)
  have "rnd64 (of_int (amount * w)) = of_int (amount * w)" using assms by (intro rnd64_of_int) (simp add: abs_of_nonneg)
  then have "exact_share amount w s = rnd64 (of_int (amount * w) / of_int s)"
    by (simp only: exact_share_def a of_int_mult [symmetric])
  then have e: "\<lfloor>exact_share amount w s\<rfloor> = amount * w div s"
    using floor_rnd64_div [of "amount * w" s] assms by simp
  have "0 \<le> amount * w div s" and "amount * w div s \<le> amount * w"
    using assms int_div_le_self [of "amount * w" s] by (simp_all add: pos_imp_zdiv_nonneg_iff)
  then have "in64 (amount * w div s)" using assms(5) by (simp add: in64_def)
  then show ?thesis by (simp add: floor_share_def e)
qed

lemma floor_shares_bounds:
  fixes amount s :: int
  assumes "0 < s" and "s = sum_list ws" and "ws \<noteq> []"
  shows "sum_list (map (\<lambda>w. amount * w div s) ws) \<le> amount"
    and "amount < sum_list (map (\<lambda>w. amount * w div s) ws) + int (length ws)"
proof -
  have "s * sum_list (map (\<lambda>w. amount * w div s) us) + sum_list (map (\<lambda>w. amount * w mod s) us) = amount * sum_list us" for us
    by (induction us) (simp_all add: algebra_simps mult_div_mod_eq [of "amount * _" s, symmetric])
  then have e: "s * sum_list (map (\<lambda>w. amount * w div s) ws) + sum_list (map (\<lambda>w. amount * w mod s) ws) = amount * s"
    using assms(2) by simp
  have lo: "0 \<le> sum_list (map (\<lambda>w. amount * w mod s) ws)" using assms(1) by (intro sum_list_nonneg) auto
  have hi: "us \<noteq> [] \<Longrightarrow> sum_list (map (\<lambda>w. amount * w mod s) us) < s * int (length us)" for us
  proof (induction us)
    case (Cons u us)
    then show ?case using pos_mod_bound [OF assms(1), of "amount * u"] by (cases us) (auto simp: algebra_simps)
  qed simp
  have "s * sum_list (map (\<lambda>w. amount * w div s) ws) \<le> s * amount" using e lo by (simp add: mult.commute)
  then show "sum_list (map (\<lambda>w. amount * w div s) ws) \<le> amount" using assms(1) by simp
  have "s * amount < s * (sum_list (map (\<lambda>w. amount * w div s) ws) + int (length ws))"
    using e hi [OF assms(3)] by (simp add: algebra_simps)
  then show "amount < sum_list (map (\<lambda>w. amount * w div s) ws) + int (length ws)" using assms(1) by simp
qed

text \<open>The device identifiers listed for a pod and a zone.\<close>

definition ids_of :: "(string \<times> podAgg) list \<Rightarrow> string \<Rightarrow> int \<Rightarrow> string list" where
  "ids_of byPod key z =
     (case map_of byPod key of
        None \<Rightarrow> []
      | Some a \<Rightarrow> (case map_of (pa_gpusByZone a) z of None \<Rightarrow> [] | Some ids \<Rightarrow> ids))"

lemma ids_of_add_gpu:
  "ids_of (add_gpu byPod owner zone g) key z =
    ids_of byPod key z @ (if key = pod_key (cd_Namespace owner) (cd_Pod owner) \<and> z = zone then [g] else [])"
  by (auto simp: ids_of_def add_gpu_def Let_def map_of_update split: option.splits)

definition held :: "GpuDetails \<Rightarrow> bool" where
  "held g \<longleftrightarrow> cd_Pod (AllocatedBy (Status g)) \<noteq> [] \<and> cd_Namespace (AllocatedBy (Status g)) \<noteq> []"

definition listed_for :: "int list \<Rightarrow> string \<Rightarrow> int \<Rightarrow> nat \<times> GpuDetails \<Rightarrow> bool" where
  "listed_for idxToZone key z ig =
     (case ig of (i, g) \<Rightarrow> held g \<and> i < length idxToZone \<and> idxToZone ! i = z \<and>
        key = pod_key (cd_Namespace (AllocatedBy (Status g))) (cd_Pod (AllocatedBy (Status g))))"

lemma ids_of_group:
  "ids_of (group_gpus idx i gs byPod) key z =
    ids_of byPod key z @ map (\<lambda>(i, g). ID g) (filter (listed_for idx key z) (zip [i..<i + length gs] gs))"
proof (induction idx i gs byPod rule: group_gpus.induct)
  case (2 idx i g gs byPod)
  have u: "[i..<i + length (g # gs)] = i # [Suc i..<Suc i + length gs]" by (subst upt_conv_Cons) simp_all
  show ?case unfolding u using 2 by (auto simp: ids_of_add_gpu listed_for_def held_def)
qed simp

section \<open>Properties\<close>

text \<open>
  C17. The shares of an amount add up to the amount, and each is the weight's exact share rounded down or
  one unit more, whatever the rounding of the floats the routine computes with (amounts and weights
  for which the products are exact).
\<close>

theorem largest_remainder_shares:
  assumes "0 < amount" and "amount < 2 ^ 53" and "\<forall>w \<in> set weights. 0 \<le> w \<and> w < 2 ^ 53 \<and> amount * w < 2 ^ 53"
    and "0 < sum_list weights" and "sum_list weights < 2 ^ 53"
  shows "sum_list (largestRemainder conv amount weights) = amount \<and>
    length (largestRemainder conv amount weights) = length weights \<and>
    (\<forall>i < length weights. let share = amount * weights ! i div sum_list weights in
       largestRemainder conv amount weights ! i \<in> {share, share + 1})"
proof -
  define s where "s = sum_list weights"
  define shares where "shares = map (\<lambda>w. amount * w div s) weights"
  have s: "0 < s" "wrap_sum weights = s"
    using assms(3-5) by (auto simp: s_def intro!: wrap_sum_eq)
  have ne: "weights \<noteq> []" using assms(4) by auto
  note b = floor_shares_bounds [OF s(1) s_def ne, of amount, folded shares_def]
  have sh: "map (\<lambda>w. floor_share conv amount w s) weights = shares"
    using assms(1-3,5) s(1) by (auto simp: shares_def s_def intro!: floor_share_eq)
  have small: "\<forall>x \<in> set shares. 0 \<le> x \<and> x < 2 ^ 62"
  proof
    fix x
    assume "x \<in> set shares"
    then obtain w where w: "w \<in> set weights" "x = amount * w div s" by (auto simp: shares_def)
    then have "0 \<le> amount * w" and "amount * w < 2 ^ 53" using assms(1,3) by auto
    with w(2) s(1) int_div_le_self [of "amount * w" s] show "0 \<le> x \<and> x < 2 ^ 62" by (simp add: pos_imp_zdiv_nonneg_iff)
  qed
  then have "wrap_sum shares = sum_list shares" using b(1) assms(2) by (intro wrap_sum_eq) auto
  moreover have "0 \<le> sum_list shares" using small by (intro sum_list_nonneg) auto
  ultimately have r: "nat (wrap64 (amount - wrap_sum shares)) = nat (amount - sum_list shares)"
    using b assms(1,2) by (simp add: in64_def)
  define frac where "frac = (\<lambda>i. rnd64 (exact_share amount (weights ! i) s - rnd64 (of_int (shares ! i))))"
  define top where "top = take (nat (amount - sum_list shares)) (sort_key (\<lambda>i. - frac i) [0..<length weights])"
  have lr: "largestRemainder conv amount weights = bump shares top"
    using assms(1) s by (simp add: largestRemainder_def Let_def sh r top_def frac_def)
  have top: "distinct top" "\<forall>i \<in> set top. i < length shares"
    by (auto simp: top_def shares_def dest: in_set_takeD)
  have "length top = nat (amount - sum_list shares)" using b by (simp add: top_def shares_def)
  then have "sum_list (bump shares top) = amount" using sum_bump [OF top small] b(1) by simp
  moreover have "\<forall>i < length weights. bump shares top ! i \<in> {amount * weights ! i div s, amount * weights ! i div s + 1}"
    using bump_nth(2) [OF top small] by (simp add: shares_def)
  moreover have "length (bump shares top) = length weights" using bump_nth(1) [OF top small] by (simp add: shares_def)
  ultimately show ?thesis by (simp add: lr s_def [symmetric] Let_def)
qed

text \<open>
  The devices listed for a pod in a zone are exactly the GPUs of the topology that the pod holds and the
  layout puts in that zone, in the order of the topology: no GPU is left out, listed twice or listed for
  another pod.
\<close>

theorem devices_of_pod:
  "ids_of (group_gpus idxToZone 0 gpus []) key z =
    map (\<lambda>(i, g). ID g) (filter (listed_for idxToZone key z) (zip [0..<length gpus] gpus))"
  using ids_of_group [of idxToZone 0 gpus "[]" key z] by (simp add: ids_of_def)

text \<open>An outcome that is a success or keeps the snapshot.\<close>

definition keeps_snapshot :: "exporter_state \<Rightarrow> unit res \<times> exporter_state \<Rightarrow> bool" where
  "keeps_snapshot e r \<longleftrightarrow> fst r = Ok () \<or> ex_snapshot (snd r) = ex_snapshot e"

lemma keeps_snapshot_bind:
  assumes "ex_snapshot e1 = ex_snapshot e" and "\<And>x. m = Ok x \<Longrightarrow> keeps_snapshot e (f x e1)"
  shows "keeps_snapshot e (sbind (m, e1) f)"
  using assms by (cases m) (simp_all add: keeps_snapshot_def)

lemma keeps_snapshot_Ok [simp]: "keeps_snapshot e (Ok (), e')"
  by (simp add: keeps_snapshot_def)

text \<open>
  A reconciliation that fails keeps the snapshot that the server answers from.
\<close>

theorem failed_reconcile_keeps_snapshot:
  assumes "fst (reconcile K io_err sysroot nt s e) \<noteq> Ok ()"
  shows "List_PodResources (snd (reconcile K io_err sysroot nt s e)) = List_PodResources e"
proof -
  have "keeps_snapshot e (reconcile K io_err sysroot nt s e)"
    unfolding reconcile_def
    by (intro keeps_snapshot_bind)
      (auto simp: Let_def split: option.splits prod.splits intro!: keeps_snapshot_bind)
  with assms show ?thesis by (simp add: keeps_snapshot_def List_PodResources_def)
qed

lemma cpulist_path_inj [simp]:
  "cpulist_dir sysroot (int z) = cpulist_dir sysroot (int z') \<longleftrightarrow> z = z'"
  by (auto simp: cpulist_dir_def itoa_def dest: itoa_nat_inj)

lemma write_cpulists_Ok:
  assumes "write_cpulists io_err sysroot cpuIDs zs fs = (Ok (), fs')"
  shows "fs' p = (if \<exists>z \<in> set zs. p = cpulist_dir sysroot (int z) @ ''/cpulist''
    then Some (Cpulist (cpuIDs ! (THE z. p = cpulist_dir sysroot (int z) @ ''/cpulist'')) @ [CHR 0x0A]) else fs p)"
  using assms
proof (induction zs arbitrary: fs)
  case Nil
  then show ?case by simp
next
  case (Cons z zs)
  let ?path = "\<lambda>z. cpulist_dir sysroot (int z) @ ''/cpulist''"
  obtain ids where ids: "index_res cpuIDs (int z) = Ok ids"
      and rest: "write_cpulists io_err sysroot cpuIDs zs (fs(?path z \<mapsto> Cpulist ids @ [CHR 0x0A])) = (Ok (), fs')"
    using Cons.prems by (cases "index_res cpuIDs (int z)") (auto simp: Let_def split: if_splits)
  have "ids = cpuIDs ! z" using ids by (auto simp: index_res_def split: if_splits)
  moreover have "(THE y. ?path z = ?path y) = z" by simp
  ultimately show ?case using Cons.IH [OF rest] by auto
qed

text \<open>
  After the core lists are written the zones' directories hold exactly one file for each zone of the
  layout, with its cores, and no file of an earlier layout with more zones; the rest of the tree is as it was.
\<close>

theorem cpulist_files:
  assumes "RenderCpulist io_err sysroot (Some layout) fs = (Ok (), fs')" and "z < nat (zl_Zones layout)"
  shows "fs' (cpulist_dir sysroot (int z) @ ''/cpulist'') = Some (Cpulist (zl_CPUIDsPerZone layout ! z) @ [CHR 0x0A]) \<and>
    (\<forall>p. under (sysroot @ ''/devices/system/node'') p \<and> fs' p \<noteq> None \<longrightarrow>
       (\<exists>y < nat (zl_Zones layout). p = cpulist_dir sysroot (int y) @ ''/cpulist'')) \<and>
    (\<forall>p. \<not> under (sysroot @ ''/devices/system/node'') p \<longrightarrow> fs' p = fs p)"
proof -
  have w: "write_cpulists io_err sysroot (zl_CPUIDsPerZone layout) [0..<nat (zl_Zones layout)]
      (\<lambda>p. if under (sysroot @ ''/devices/system/node'') p then None else fs p) = (Ok (), fs')"
    using assms(1) by (simp add: RenderCpulist_def Let_def split: if_splits)
  note f = write_cpulists_Ok [OF w]
  have the: "(THE y. cpulist_dir sysroot (int z) @ ''/cpulist'' = cpulist_dir sysroot (int y) @ ''/cpulist'') = z" by simp
  have "under (sysroot @ ''/devices/system/node'') (cpulist_dir sysroot (int y) @ ''/cpulist'')" for y
    by (simp add: under_def cpulist_dir_def prefix_def)
  with f the assms(2) show ?thesis by auto
qed

end
