(* ===== verification/Metrics.thy ===== *)
theory Metrics
  imports Sha1 GpuFrame
begin

text \<open>
  \<^verbatim>\<open>internal/status-exporter/export/metrics\<close>: the gauges that show a GPU's utilization and
  memory, exported by the exporter of one node (exporter.go) and by the one for all simulated nodes
  (multi_node_exporter.go).  The gauge vectors are Prometheus's; \<open>gauges_ok\<close> states what is read from
  one after a write.
\<close>

section \<open>Gauges\<close>

type_synonym labels = "string \<rightharpoonup> string"

record 'g gauge_env =
  gv_set :: "labels \<Rightarrow> gofloat \<Rightarrow> 'g \<Rightarrow> 'g"
  gv_delete :: "labels \<Rightarrow> 'g \<Rightarrow> 'g"
  gv_reset :: "'g \<Rightarrow> 'g"
  gv_read :: "'g \<Rightarrow> labels \<rightharpoonup> gofloat"

definition gauges_ok :: "'g gauge_env \<Rightarrow> bool" where
  "gauges_ok G \<longleftrightarrow>
     (\<forall>l v g. gv_read G (gv_set G l v g) = (gv_read G g)(l \<mapsto> v)) \<and>
     (\<forall>l g. gv_read G (gv_delete G l g) = (gv_read G g)(l := None)) \<and>
     (\<forall>g. gv_read G (gv_reset G g) = Map.empty)"

record 'g gauges =
  gpuUtilization :: 'g
  gpuFbUsed :: 'g
  gpuFbFree :: 'g

section \<open>The exporter of one node\<close>

definition generateFakeHostname :: "string \<Rightarrow> string" where
  "generateFakeHostname nodeName = ''nvidia-dcgm-exporter-'' @ hex_bytes (take 3 (sha1 nodeName))"

definition buildGpuMetricLabels :: "string \<Rightarrow> nat \<Rightarrow> GpuDetails \<Rightarrow> NodeTopology \<Rightarrow> labels" where
  "buildGpuMetricLabels nodeName gpuIdx gpu nt =
     [''gpu'' \<mapsto> itoa (int gpuIdx),
      ''UUID'' \<mapsto> ID gpu,
      ''device'' \<mapsto> ''nvidia'' @ itoa (int gpuIdx),
      ''modelName'' \<mapsto> GpuProduct nt,
      ''Hostname'' \<mapsto> generateFakeHostname nodeName,
      ''namespace'' \<mapsto> cd_Namespace (AllocatedBy (Status gpu)),
      ''pod'' \<mapsto> cd_Pod (AllocatedBy (Status gpu)),
      ''container'' \<mapsto> cd_Container (AllocatedBy (Status gpu))]"

text \<open>The three gauges of one GPU\<close>

definition set_gpu_metrics ::
    "'g gauge_env \<Rightarrow> metrics_env \<Rightarrow> labels \<Rightarrow> GpuDetails \<Rightarrow> NodeTopology \<Rightarrow> 'g gauges \<Rightarrow> unit res \<times> 'g gauges" where
  "set_gpu_metrics G env labels gpu nt gs =
     sbind (Utilization env (PodGpuUsageStatus (Status gpu)), gs) (\<lambda>utilization gs.
       let fbUsed = FbUsed env (PodGpuUsageStatus (Status gpu)) (GpuMemory nt)
       in (Ok (), gs\<lparr>gpuUtilization := gv_set G labels (f64_of_int utilization) (gpuUtilization gs),
                     gpuFbUsed := gv_set G labels (f64_of_int fbUsed) (gpuFbUsed gs),
                     gpuFbFree := gv_set G labels (f64_of_int (wrap64 (GpuMemory nt - fbUsed))) (gpuFbFree gs)\<rparr>))"

fun export_gpus ::
    "'g gauge_env \<Rightarrow> metrics_env \<Rightarrow> (nat \<Rightarrow> GpuDetails \<Rightarrow> labels) \<Rightarrow> NodeTopology \<Rightarrow> nat \<Rightarrow> GpuDetails list
     \<Rightarrow> 'g gauges \<Rightarrow> unit res \<times> 'g gauges" where
  "export_gpus G env lab nt i [] gs = (Ok (), gs)"
| "export_gpus G env lab nt i (gpu # gpus) gs =
     sbind (set_gpu_metrics G env (lab i gpu) gpu nt gs) (\<lambda>_ gs. export_gpus G env lab nt (Suc i) gpus gs)"

definition reset_gauges :: "'g gauge_env \<Rightarrow> 'g gauges \<Rightarrow> 'g gauges" where
  "reset_gauges G gs =
     gs\<lparr>gpuUtilization := gv_reset G (gpuUtilization gs), gpuFbUsed := gv_reset G (gpuFbUsed gs),
        gpuFbFree := gv_reset G (gpuFbFree gs)\<rparr>"

definition export_metrics ::
    "'g gauge_env \<Rightarrow> metrics_env \<Rightarrow> string \<Rightarrow> NodeTopology \<Rightarrow> 'g gauges \<Rightarrow> unit res \<times> 'g gauges" where
  "export_metrics G env nodeName nt gs =
     export_gpus G env (\<lambda>i gpu. buildGpuMetricLabels nodeName i gpu nt) nt 0 (Gpus nt) (reset_gauges G gs)"

text \<open>
  \<^verbatim>\<open>MetricsExporter.Run\<close>: a new topology is exported and becomes the cached one, also when its
  export fails; at a tick the cached one is exported again.
\<close>

datatype metrics_event = NewTopology NodeTopology | Tick

definition run_metrics ::
    "'g gauge_env \<Rightarrow> metrics_env \<Rightarrow> string \<Rightarrow> metrics_event \<Rightarrow> NodeTopology option \<times> 'g gauges
     \<Rightarrow> unit res \<times> NodeTopology option \<times> 'g gauges" where
  "run_metrics G env nodeName ev st =
     (case ev of
        NewTopology nt \<Rightarrow>
          (case export_metrics G env nodeName nt (snd st) of
             (Panic p, gs) \<Rightarrow> (Panic p, fst st, gs)
           | (_, gs) \<Rightarrow> (Ok (), Some nt, gs))
      | Tick \<Rightarrow>
          (case fst st of
             None \<Rightarrow> (Ok (), st)
           | Some nt \<Rightarrow>
               (case export_metrics G env nodeName nt (snd st) of
                  (Panic p, gs) \<Rightarrow> (Panic p, fst st, gs)
                | (_, gs) \<Rightarrow> (Ok (), fst st, gs))))"

section \<open>The exporter of all simulated nodes\<close>

record 'g multi_metrics =
  nodeTopologies :: "string \<rightharpoonup> NodeTopology"
  mm_gauges :: "'g gauges"

text \<open>The labels, with the host name replaced by the node's name\<close>

definition node_metric_labels :: "string \<Rightarrow> NodeTopology \<Rightarrow> nat \<Rightarrow> GpuDetails \<Rightarrow> labels" where
  "node_metric_labels nodeName nt i gpu = (buildGpuMetricLabels nodeName i gpu nt)(''Hostname'' \<mapsto> nodeName)"

definition exportNode ::
    "'g gauge_env \<Rightarrow> metrics_env \<Rightarrow> string \<Rightarrow> NodeTopology \<Rightarrow> 'g gauges \<Rightarrow> unit res \<times> 'g gauges" where
  "exportNode G env nodeName nt gs = export_gpus G env (node_metric_labels nodeName nt) nt 0 (Gpus nt) gs"

definition with_gauges :: "'g multi_metrics \<Rightarrow> 'a \<times> 'g gauges \<Rightarrow> 'a \<times> 'g multi_metrics" where
  "with_gauges e r = (case r of (x, gs) \<Rightarrow> (x, e\<lparr>mm_gauges := gs\<rparr>))"

definition SetMetricsForNode ::
    "'g gauge_env \<Rightarrow> metrics_env \<Rightarrow> string \<Rightarrow> NodeTopology \<Rightarrow> 'g multi_metrics \<Rightarrow> unit res \<times> 'g multi_metrics" where
  "SetMetricsForNode G env nodeName nt e =
     (let e = e\<lparr>nodeTopologies := (nodeTopologies e)(nodeName \<mapsto> nt)\<rparr>
      in with_gauges e (exportNode G env nodeName nt (mm_gauges e)))"

definition delete_series :: "'g gauge_env \<Rightarrow> labels \<Rightarrow> 'g gauges \<Rightarrow> 'g gauges" where
  "delete_series G labels gs =
     gs\<lparr>gpuUtilization := gv_delete G labels (gpuUtilization gs), gpuFbUsed := gv_delete G labels (gpuFbUsed gs),
        gpuFbFree := gv_delete G labels (gpuFbFree gs)\<rparr>"

definition deleteNodeMetrics :: "'g gauge_env \<Rightarrow> string \<Rightarrow> NodeTopology \<Rightarrow> 'g gauges \<Rightarrow> 'g gauges" where
  "deleteNodeMetrics G nodeName nt gs =
     foldl (\<lambda>gs (i, gpu). delete_series G (node_metric_labels nodeName nt i gpu) gs) gs
       (zip [0..<length (Gpus nt)] (Gpus nt))"

definition DeleteNode :: "'g gauge_env \<Rightarrow> string \<Rightarrow> 'g multi_metrics \<Rightarrow> unit res \<times> 'g multi_metrics" where
  "DeleteNode G nodeName e =
     (let found = nodeTopologies e nodeName;
          e = e\<lparr>nodeTopologies := (nodeTopologies e)(nodeName := None)\<rparr>
      in case found of
           None \<Rightarrow> (Ok (), e)
         | Some nt \<Rightarrow> (Ok (), e\<lparr>mm_gauges := deleteNodeMetrics G nodeName nt (mm_gauges e)\<rparr>))"

text \<open>
  \<^verbatim>\<open>refreshAllMetrics\<close>: the entries of the copied map, in the order the runtime visits them.
\<close>

fun refresh_loop ::
    "'g gauge_env \<Rightarrow> metrics_env \<Rightarrow> (string \<times> NodeTopology) list \<Rightarrow> 'g gauges \<Rightarrow> unit res \<times> 'g gauges" where
  "refresh_loop G env [] gs = (Ok (), gs)"
| "refresh_loop G env ((nodeName, nt) # rest) gs =
     (case exportNode G env nodeName nt gs of
        (Panic p, gs) \<Rightarrow> (Panic p, gs)
      | (_, gs) \<Rightarrow> refresh_loop G env rest gs)"

definition refreshAllMetrics ::
    "'g gauge_env \<Rightarrow> metrics_env \<Rightarrow> ((string \<rightharpoonup> NodeTopology) \<Rightarrow> (string \<times> NodeTopology) list)
     \<Rightarrow> 'g multi_metrics \<Rightarrow> unit res \<times> 'g multi_metrics" where
  "refreshAllMetrics G env order e = with_gauges e (refresh_loop G env (order (nodeTopologies e)) (mm_gauges e))"

section \<open>Lemmas\<close>

lemma gauges_okD:
  assumes "gauges_ok G"
  shows "gv_read G (gv_set G l v g) = (gv_read G g)(l \<mapsto> v)"
    and "gv_read G (gv_delete G l g) = (gv_read G g)(l := None)"
    and "gv_read G (gv_reset G g) = Map.empty"
  using assms by (simp_all add: gauges_ok_def)

lemma metric_labels_inj:
  assumes "buildGpuMetricLabels n i g nt = buildGpuMetricLabels n j h nt"
  shows "i = j"
proof -
  have "buildGpuMetricLabels n i g nt ''gpu'' = buildGpuMetricLabels n j h nt ''gpu''" using assms by simp
  then show ?thesis by (simp add: buildGpuMetricLabels_def itoa_def itoa_nat_inj)
qed

lemma node_metric_labels_inj:
  assumes "node_metric_labels n nt i g = node_metric_labels n' nt' j h"
  shows "i = j \<and> n = n'"
proof -
  have "node_metric_labels n nt i g ''gpu'' = node_metric_labels n' nt' j h ''gpu''"
    and "node_metric_labels n nt i g ''Hostname'' = node_metric_labels n' nt' j h ''Hostname''" using assms by simp_all
  then show ?thesis by (simp add: node_metric_labels_def buildGpuMetricLabels_def itoa_def itoa_nat_inj)
qed

text \<open>What the three gauges read, before a number is chosen\<close>

definition reads :: "'g gauge_env \<Rightarrow> 'g gauges \<Rightarrow> labels \<Rightarrow> gofloat option \<times> gofloat option \<times> gofloat option" where
  "reads G gs l = (gv_read G (gpuUtilization gs) l, gv_read G (gpuFbUsed gs) l, gv_read G (gpuFbFree gs) l)"

definition shows_gpu :: "metrics_env \<Rightarrow> NodeTopology \<Rightarrow> GpuDetails \<Rightarrow> gofloat option \<times> gofloat option \<times> gofloat option \<Rightarrow> bool" where
  "shows_gpu env nt gpu r \<longleftrightarrow>
     (let used = FbUsed env (PodGpuUsageStatus (Status gpu)) (GpuMemory nt)
      in \<exists>u. Utilization env (PodGpuUsageStatus (Status gpu)) = Ok u \<and>
           r = (Some (f64_of_int u), Some (f64_of_int used), Some (f64_of_int (wrap64 (GpuMemory nt - used)))))"

definition gpu_series :: "(nat \<Rightarrow> GpuDetails \<Rightarrow> labels) \<Rightarrow> GpuDetails list \<Rightarrow> labels set" where
  "gpu_series lab gpus = {lab i (gpus ! i) | i. i < length gpus}"

lemma reads_set_gpu_metrics:
  assumes G: "gauges_ok G" and "set_gpu_metrics G env l gpu nt gs = (Ok (), gs')"
  shows "shows_gpu env nt gpu (reads G gs' l)" and "l' \<noteq> l \<Longrightarrow> reads G gs' l' = reads G gs l'"
proof -
  obtain u where "Utilization env (PodGpuUsageStatus (Status gpu)) = Ok u"
    using assms(2) by (cases "Utilization env (PodGpuUsageStatus (Status gpu))") (simp_all add: set_gpu_metrics_def)
  with assms(2) show "shows_gpu env nt gpu (reads G gs' l)" and "l' \<noteq> l \<Longrightarrow> reads G gs' l' = reads G gs l'"
    by (auto simp: set_gpu_metrics_def Let_def reads_def shows_gpu_def gauges_okD [OF G])
qed

lemma export_gpus_reads:
  assumes G: "gauges_ok G" and "export_gpus G env lab nt k gpus gs = (Ok (), gs')"
    and inj: "\<forall>i g j h. lab i g = lab j h \<longrightarrow> i = j"
  shows "(\<forall>i < length gpus. shows_gpu env nt (gpus ! i) (reads G gs' (lab (k + i) (gpus ! i)))) \<and>
    (\<forall>l. (\<forall>i < length gpus. l \<noteq> lab (k + i) (gpus ! i)) \<longrightarrow> reads G gs' l = reads G gs l)"
  using assms(2)
proof (induction gpus arbitrary: k gs)
  case Nil
  then show ?case by simp
next
  case (Cons gpu gpus)
  obtain gs1 where one: "set_gpu_metrics G env (lab k gpu) gpu nt gs = (Ok (), gs1)"
    and rest: "export_gpus G env lab nt (Suc k) gpus gs1 = (Ok (), gs')"
    using Cons.prems by (auto elim!: sbind_eq_OkD)
  note IH = Cons.IH [OF rest]
  note r = reads_set_gpu_metrics [OF G one]
  have "\<forall>i < length gpus. lab k gpu \<noteq> lab (Suc k + i) (gpus ! i)"
    by (metis inj add_Suc less_add_Suc1 less_irrefl)
  with IH r(1) have first: "shows_gpu env nt gpu (reads G gs' (lab k gpu))" by metis
  show ?case
  proof (intro conjI allI impI)
    fix i
    assume "i < length (gpu # gpus)"
    then show "shows_gpu env nt ((gpu # gpus) ! i) (reads G gs' (lab (k + i) ((gpu # gpus) ! i)))"
      using first IH by (cases i) auto
  next
    fix l
    assume l: "\<forall>i < length (gpu # gpus). l \<noteq> lab (k + i) ((gpu # gpus) ! i)"
    have "l \<noteq> lab k gpu" using l [rule_format, of 0] by simp
    moreover have "\<forall>i < length gpus. l \<noteq> lab (Suc k + i) (gpus ! i)"
    proof (intro allI impI)
      fix i
      assume "i < length gpus"
      then show "l \<noteq> lab (Suc k + i) (gpus ! i)" using l [rule_format, of "Suc i"] by simp
    qed
    ultimately show "reads G gs' l = reads G gs l" using IH r(2) by metis
  qed
qed

corollary export_gpus_series:
  assumes "gauges_ok G" and "export_gpus G env lab nt 0 gpus gs = (Ok (), gs')"
    and "\<forall>i g j h. lab i g = lab j h \<longrightarrow> i = j"
  shows "i < length gpus \<Longrightarrow> shows_gpu env nt (gpus ! i) (reads G gs' (lab i (gpus ! i)))"
    and "l \<notin> gpu_series lab gpus \<Longrightarrow> reads G gs' l = reads G gs l"
  using export_gpus_reads [OF assms] by (auto simp: gpu_series_def)

lemma reads_reset: "gauges_ok G \<Longrightarrow> reads G (reset_gauges G gs) l = (None, None, None)"
  by (simp add: reads_def reset_gauges_def gauges_okD)

lemma reads_delete: "gauges_ok G \<Longrightarrow> reads G (delete_series G l gs) l' = (if l' = l then (None, None, None) else reads G gs l')"
  by (simp add: reads_def delete_series_def gauges_okD)

lemma reads_deleteNodeMetrics:
  assumes "gauges_ok G"
  shows "reads G (deleteNodeMetrics G n nt gs) l =
    (if l \<in> gpu_series (node_metric_labels n nt) (Gpus nt) then (None, None, None) else reads G gs l)"
proof -
  have "reads G (foldl (\<lambda>gs (i, gpu). delete_series G (lab i gpu) gs) gs ps) l =
      (if l \<in> (\<lambda>(i, gpu). lab i gpu) ` set ps then (None, None, None) else reads G gs l)" for ps gs and lab :: "nat \<Rightarrow> GpuDetails \<Rightarrow> labels"
    by (induction ps arbitrary: gs) (auto simp: reads_delete [OF assms])
  moreover have "(\<lambda>(i, gpu). lab i gpu) ` set (zip [0..<length gpus] gpus) = gpu_series lab gpus" for gpus and lab :: "nat \<Rightarrow> GpuDetails \<Rightarrow> labels"
    by (force simp: gpu_series_def set_zip)
  ultimately show ?thesis by (simp add: deleteNodeMetrics_def)
qed

lemma shows_gpu_some: "shows_gpu env nt gpu r \<Longrightarrow> r \<noteq> (None, None, None)"
  by (auto simp: shows_gpu_def Let_def)

text \<open>The series of a node under simulation, after its topology is set\<close>

lemma SetMetricsForNode_reads:
  assumes "gauges_ok G" and "SetMetricsForNode G env n nt e = (Ok (), e')"
  shows "nodeTopologies e' = (nodeTopologies e)(n \<mapsto> nt)"
    and "i < length (Gpus nt) \<Longrightarrow> shows_gpu env nt (Gpus nt ! i) (reads G (mm_gauges e') (node_metric_labels n nt i (Gpus nt ! i)))"
    and "l \<notin> gpu_series (node_metric_labels n nt) (Gpus nt) \<Longrightarrow> reads G (mm_gauges e') l = reads G (mm_gauges e) l"
proof -
  obtain gs' where gs': "exportNode G env n nt (mm_gauges e) = (Ok (), gs')"
    and e': "e' = e\<lparr>nodeTopologies := (nodeTopologies e)(n \<mapsto> nt), mm_gauges := gs'\<rparr>"
    using assms(2) by (cases "exportNode G env n nt (mm_gauges e)") (auto simp: SetMetricsForNode_def with_gauges_def Let_def)
  have inj: "\<forall>i g j h. node_metric_labels n nt i g = node_metric_labels n nt j h \<longrightarrow> i = j"
    using node_metric_labels_inj by blast
  note s = export_gpus_series [OF assms(1) gs' [unfolded exportNode_def] inj]
  show "nodeTopologies e' = (nodeTopologies e)(n \<mapsto> nt)" by (simp add: e')
  show "i < length (Gpus nt) \<Longrightarrow> shows_gpu env nt (Gpus nt ! i) (reads G (mm_gauges e') (node_metric_labels n nt i (Gpus nt ! i)))"
    using s(1) by (simp add: e')
  show "l \<notin> gpu_series (node_metric_labels n nt) (Gpus nt) \<Longrightarrow> reads G (mm_gauges e') l = reads G (mm_gauges e) l"
    using s(2) by (simp add: e')
qed

lemma DeleteNode_reads:
  assumes "gauges_ok G" and "nodeTopologies e n = Some nt"
  shows "fst (DeleteNode G n e) = Ok ()" and "nodeTopologies (snd (DeleteNode G n e)) = (nodeTopologies e)(n := None)"
    and "reads G (mm_gauges (snd (DeleteNode G n e))) l =
      (if l \<in> gpu_series (node_metric_labels n nt) (Gpus nt) then (None, None, None) else reads G (mm_gauges e) l)"
  using assms by (simp_all add: DeleteNode_def Let_def reads_deleteNodeMetrics)

section \<open>Properties\<close>

text \<open>
  C18. After the exporter of a node has exported a topology the gauges hold the series of its GPUs and no
  other: each GPU's series shows the utilization and the memory computed from its usage map, and no series of
  an earlier topology is left.
\<close>

theorem metrics_show_topology:
  assumes "gauges_ok G" and "export_metrics G env nodeName nt gs = (Ok (), gs')"
  shows "(\<forall>i < length (Gpus nt).
      shows_gpu env nt (Gpus nt ! i) (reads G gs' (buildGpuMetricLabels nodeName i (Gpus nt ! i) nt))) \<and>
    {l. reads G gs' l \<noteq> (None, None, None)} = gpu_series (\<lambda>i gpu. buildGpuMetricLabels nodeName i gpu nt) (Gpus nt)"
proof -
  let ?lab = "\<lambda>i gpu. buildGpuMetricLabels nodeName i gpu nt"
  have inj: "\<forall>i g j h. ?lab i g = ?lab j h \<longrightarrow> i = j" using metric_labels_inj by blast
  note s = export_gpus_series [OF assms(1) assms(2) [unfolded export_metrics_def] inj]
  have "reads G gs' l \<noteq> (None, None, None)" if "l \<in> gpu_series ?lab (Gpus nt)" for l
    using that s(1) shows_gpu_some by (fastforce simp: gpu_series_def)
  moreover have "l \<in> gpu_series ?lab (Gpus nt)" if "reads G gs' l \<noteq> (None, None, None)" for l
    using that s(2) reads_reset [OF assms(1)] by metis
  ultimately show ?thesis using s(1) by blast
qed

text \<open>
  C19. Setting a simulated node's metrics and then deleting the node removes exactly the series of the topology just set:
  every other series has the values it had before the metrics were set, also one that an earlier topology of the same node left.
  The topology is forgotten, and the series of another node are never among those removed.
\<close>

theorem deletion_removes_set_series:
  assumes "gauges_ok G" and "SetMetricsForNode G env n nt e = (Ok (), e1)"
  shows "fst (DeleteNode G n e1) = Ok () \<and> nodeTopologies (snd (DeleteNode G n e1)) = (nodeTopologies e)(n := None) \<and>
    (\<forall>l. reads G (mm_gauges (snd (DeleteNode G n e1))) l =
      (if l \<in> gpu_series (node_metric_labels n nt) (Gpus nt) then (None, None, None) else reads G (mm_gauges e) l)) \<and>
    (\<forall>m. m \<noteq> n \<longrightarrow> gpu_series (node_metric_labels m nt') gpus \<inter> gpu_series (node_metric_labels n nt) (Gpus nt) = {})"
proof -
  note s = SetMetricsForNode_reads [OF assms]
  have "nodeTopologies e1 n = Some nt" by (simp add: s(1))
  note d = DeleteNode_reads [OF assms(1) this]
  have "m \<noteq> n \<Longrightarrow> gpu_series (node_metric_labels m nt') gpus \<inter> gpu_series (node_metric_labels n nt) (Gpus nt) = {}" for m
    by (auto simp: gpu_series_def dest: node_metric_labels_inj)
  with d s show ?thesis by (auto simp: fun_eq_iff)
qed

text \<open>
  A series of a node whose labels are no longer those of one of its GPUs (the GPU was given to another
  pod, or released) is never removed: it keeps its last values while the node lives and after it is deleted.
\<close>

theorem stale_series_survive:
  assumes "gauges_ok G" and "SetMetricsForNode G env n nt1 e = (Ok (), e1)"
    and "SetMetricsForNode G env n nt2 e1 = (Ok (), e2)" and "i < length (Gpus nt1)"
    and "node_metric_labels n nt1 i (Gpus nt1 ! i) \<notin> gpu_series (node_metric_labels n nt2) (Gpus nt2)"
  shows "shows_gpu env nt1 (Gpus nt1 ! i) (reads G (mm_gauges e2) (node_metric_labels n nt1 i (Gpus nt1 ! i))) \<and>
    shows_gpu env nt1 (Gpus nt1 ! i)
      (reads G (mm_gauges (snd (DeleteNode G n e2))) (node_metric_labels n nt1 i (Gpus nt1 ! i)))"
proof -
  note s = SetMetricsForNode_reads(2) [OF assms(1,2) assms(4)] SetMetricsForNode_reads(3) [OF assms(1,3) assms(5)]
  have "nodeTopologies e2 n = Some nt2" by (simp add: SetMetricsForNode_reads(1) [OF assms(1,3)])
  from DeleteNode_reads(3) [OF assms(1) this] assms(5) s show ?thesis by simp
qed

end
