(* ===== verification/LabelsExport.thy ===== *)
theory LabelsExport
  imports KubeApi RefServer
begin

text \<open>
  \<^verbatim>\<open>internal/common/kubeclient\<close> and \<^verbatim>\<open>internal/status-exporter/export/labels\<close>: the
  labels that show a node's GPUs, computed from the topology (labels_builder.go), and their writing on the
  node, once for the node of the exporter (exporter.go, kubeclient.go) and with retries after a conflict for
  simulated nodes (multi_node_exporter.go).
\<close>

section \<open>labels\_builder.go\<close>

definition is_alnum :: "char \<Rightarrow> bool" where
  "is_alnum c \<longleftrightarrow>
     (97 \<le> (of_char c :: nat) \<and> (of_char c :: nat) \<le> 122) \<or>
     (65 \<le> (of_char c :: nat) \<and> (of_char c :: nat) \<le> 90) \<or> is_digit c"

definition label_char :: "char \<Rightarrow> bool" where
  "label_char c \<longleftrightarrow> is_alnum c \<or> c = CHR ''.'' \<or> c = CHR ''_'' \<or> c = CHR ''-''"

text \<open>
  The number of bytes of the first UTF-8 rune of a string: 1 where the bytes do not begin a rune, as
  the decoder of the language's \<^verbatim>\<open>regexp\<close> steps over them.
\<close>

definition byte_in :: "nat \<Rightarrow> nat \<Rightarrow> char \<Rightarrow> bool" where
  "byte_in lo hi c \<longleftrightarrow> lo \<le> of_char c \<and> of_char c \<le> hi"

definition second_byte :: "char \<Rightarrow> char \<Rightarrow> bool" where
  "second_byte a b =
     (if of_char a = (0xE0 :: nat) then byte_in 0xA0 0xBF b
      else if of_char a = (0xED :: nat) then byte_in 0x80 0x9F b
      else if of_char a = (0xF0 :: nat) then byte_in 0x90 0xBF b
      else if of_char a = (0xF4 :: nat) then byte_in 0x80 0x8F b
      else byte_in 0x80 0xBF b)"

fun rune_width :: "string \<Rightarrow> nat" where
  "rune_width (a # b # rest) =
     (if byte_in 0xC2 0xDF a \<and> second_byte a b then 2
      else case rest of
        [] \<Rightarrow> 1
      | c # rest' \<Rightarrow>
          if byte_in 0xE0 0xEF a \<and> second_byte a b \<and> byte_in 0x80 0xBF c then 3
          else case rest' of
            [] \<Rightarrow> 1
          | d # _ \<Rightarrow>
              if byte_in 0xF0 0xF4 a \<and> second_byte a b \<and> byte_in 0x80 0xBF c \<and> byte_in 0x80 0xBF d then 4 else 1)"
| "rune_width s = 1"

text \<open>\<^verbatim>\<open>invalidLabelChars.ReplaceAllString(s, "-")\<close>: a dash for each rune\<close>

function dash_invalid :: "string \<Rightarrow> string" where
  "dash_invalid [] = []"
| "dash_invalid (c # cs) =
     (if label_char c then c # dash_invalid cs
      else CHR ''-'' # dash_invalid (drop (rune_width (c # cs) - 1) cs))"
  by pat_completeness auto
termination by (relation "measure length") auto

definition trim_alnum :: "string \<Rightarrow> string" where
  "trim_alnum s = rev (dropWhile (\<lambda>c. \<not> is_alnum c) (rev (dropWhile (\<lambda>c. \<not> is_alnum c) s)))"

definition sanitizeLabelValue :: "string \<Rightarrow> string" where
  "sanitizeLabelValue s =
     (let s = dash_invalid s;
          s = (if 63 < length s then take 63 s else s)
      in trim_alnum s)"

definition BuildNodeLabels :: "NodeTopology \<Rightarrow> (string \<times> string) list" where
  "BuildNodeLabels nt =
     [(''nvidia.com/gpu.memory'', itoa (GpuMemory nt)),
      (''nvidia.com/gpu.product'', sanitizeLabelValue (GpuProduct nt)),
      (''nvidia.com/mig.strategy'', MigStrategy nt),
      (''nvidia.com/gpu.count'', itoa (int (length (Gpus nt)))),
      (''nvidia.com/gpu.present'', ''true''),
      (''run.ai/fake.gpu'', ''true'')]"

section \<open>kubeclient.go\<close>

text \<open>\<^verbatim>\<open>for k, v := range labels { node.Labels[k] = v }\<close>\<close>

definition put_labels :: "(string \<times> string) list \<Rightarrow> 'q Node \<Rightarrow> 'q Node res" where
  "put_labels labels node =
     (if n_LabelsNil node \<and> labels \<noteq> [] then Panic NilMapWrite
      else Ok (node\<lparr>n_Labels := n_Labels node ++ map_of labels\<rparr>))"

definition put_annotations :: "(string \<times> string) list \<Rightarrow> 'q Node \<Rightarrow> 'q Node res" where
  "put_annotations annotations node =
     (if n_AnnotationsNil node \<and> annotations \<noteq> [] then Panic NilMapWrite
      else Ok (node\<lparr>n_Annotations := n_Annotations node ++ map_of annotations\<rparr>))"

definition SetNodeLabels :: "('s, 'q, 'y) kube_env \<Rightarrow> (string \<times> string) list \<Rightarrow> 's \<Rightarrow> unit res \<times> 's" where
  "SetNodeLabels K labels s =
     sbind (of_sum (node_get K (EnvNodeName K) s), s) (\<lambda>node s.
     sbind (put_labels labels node, s) (\<lambda>node s. api_call (node_update K node s)))"

definition SetNodeAnnotations :: "('s, 'q, 'y) kube_env \<Rightarrow> (string \<times> string) list \<Rightarrow> 's \<Rightarrow> unit res \<times> 's" where
  "SetNodeAnnotations K annotations s =
     sbind (of_sum (node_get K (EnvNodeName K) s), s) (\<lambda>node s.
     sbind (put_annotations annotations node, s) (\<lambda>node s. api_call (node_update K node s)))"

definition GetNodeLabels :: "('s, 'q, 'y) kube_env \<Rightarrow> 's \<Rightarrow> (string \<rightharpoonup> string) res" where
  "GetNodeLabels K s = rbind (of_sum (node_get K (EnvNodeName K) s)) (\<lambda>node. Ok (n_Labels node))"

text \<open>The ConfigMap and whether it was read\<close>

definition GetConfigMap :: "('s, 'q, 'y) kube_env \<Rightarrow> string \<Rightarrow> string \<Rightarrow> 's \<Rightarrow> 'y ConfigMap option" where
  "GetConfigMap K namespace name s = (case cm_get K namespace name s of Inl e \<Rightarrow> None | Inr cm \<Rightarrow> Some cm)"

text \<open>\<^verbatim>\<open>watchCmChange\<close>: the ConfigMap that a watch event sends on, of type and object\<close>

definition watchCmChange :: "string \<Rightarrow> 'y ConfigMap option \<Rightarrow> 'y ConfigMap option" where
  "watchCmChange type obj = (if type = ''ADDED'' \<or> type = ''MODIFIED'' then obj else None)"

section \<open>exporter.go, multi\_node\_exporter.go\<close>

definition export_labels :: "('s, 'q, 'y) kube_env \<Rightarrow> NodeTopology \<Rightarrow> 's \<Rightarrow> unit res \<times> 's" where
  "export_labels K nt s =
     (case SetNodeLabels K (BuildNodeLabels nt) s of (r, s) \<Rightarrow> (wrap_err ''failed to set node labels'' r, s))"

text \<open>
  The function that \<^verbatim>\<open>retry.RetryOnConflict\<close> runs. The retries are a library's, a parameter:
  \<open>retry_ok\<close> says that the outcome is that of the last run, in a state that others may have changed in
  the meantime.
\<close>

type_synonym 's retry = "('s \<Rightarrow> unit res \<times> 's) \<Rightarrow> 's \<Rightarrow> unit res \<times> 's"

definition retry_ok :: "'s retry \<Rightarrow> bool" where
  "retry_ok retry \<longleftrightarrow> (\<forall>f s. \<exists>s0. retry f s = f s0)"

definition set_labels_once :: "('s, 'q, 'y) kube_env \<Rightarrow> string \<Rightarrow> (string \<times> string) list \<Rightarrow> 's \<Rightarrow> unit res \<times> 's" where
  "set_labels_once K nodeName labels s =
     (case node_get K nodeName s of
        Inl e \<Rightarrow> if is_not_found e then (Ok (), s) else (Err e, s)
      | Inr node \<Rightarrow> sbind (put_labels labels node, s) (\<lambda>node s. api_call (node_update K node s)))"

definition setNodeLabels ::
    "('s, 'q, 'y) kube_env \<Rightarrow> 's retry \<Rightarrow> string \<Rightarrow> (string \<times> string) list \<Rightarrow> 's \<Rightarrow> unit res \<times> 's" where
  "setNodeLabels K retry nodeName labels s = retry (set_labels_once K nodeName labels) s"

definition SetLabelsForNode ::
    "('s, 'q, 'y) kube_env \<Rightarrow> 's retry \<Rightarrow> string \<Rightarrow> NodeTopology \<Rightarrow> 's \<Rightarrow> unit res \<times> 's" where
  "SetLabelsForNode K retry nodeName nt s =
     (case setNodeLabels K retry nodeName (BuildNodeLabels nt) s of
        (r, s) \<Rightarrow> (wrap_err ''failed to set node labels'' r, s))"

text \<open>The library's default: up to five runs, another after a conflict.\<close>

fun retry_loop :: "nat \<Rightarrow> ('s \<Rightarrow> unit res \<times> 's) \<Rightarrow> 's \<Rightarrow> unit res \<times> 's" where
  "retry_loop n f s =
     (case f s of
        (Err e, s') \<Rightarrow> if is_conflict e \<and> n \<noteq> 0 then retry_loop (n - 1) f s' else (Err e, s')
      | (r, s') \<Rightarrow> (r, s'))"

declare retry_loop.simps [simp del]

lemma retry_loop_Ok: "fst (f s) = Ok u \<Longrightarrow> retry_loop n f s = f s"
  by (cases "f s") (simp add: retry_loop.simps [of n f s])

lemma retry_loop_ok: "retry_ok (retry_loop n)"
proof -
  have "\<exists>s0. retry_loop n f s = f s0" for f :: "'a \<Rightarrow> unit res \<times> 'a" and s
  proof (induction n f s rule: retry_loop.induct)
    case (1 n f s)
    show ?case
    proof (cases "f s")
      case (Pair r s')
      then show ?thesis using 1 [of r s'] by (cases r) (auto simp: retry_loop.simps [of n f s] intro: exI [of _ s])
    qed
  qed
  then show ?thesis by (simp add: retry_ok_def)
qed

section \<open>Lemmas\<close>

text \<open>A value that the API accepts as a label's\<close>

definition valid_label_value :: "string \<Rightarrow> bool" where
  "valid_label_value s \<longleftrightarrow>
     length s \<le> 63 \<and> list_all label_char s \<and> (s \<noteq> [] \<longrightarrow> is_alnum (hd s) \<and> is_alnum (last s))"

lemma dash_label_char [simp]: "label_char (CHR ''-'')"
  by (simp add: label_char_def)

lemma dash_invalid_chars: "list_all label_char (dash_invalid s)"
  by (induction s rule: dash_invalid.induct) simp_all

lemma dash_invalid_id: "list_all label_char s \<Longrightarrow> dash_invalid s = s"
  by (induction s rule: dash_invalid.induct) simp_all

lemma dropWhile_subset: "set (dropWhile P xs) \<subseteq> set xs"
  by (auto dest: set_dropWhileD)

lemma BuildNodeLabels_ne [simp]: "BuildNodeLabels nt \<noteq> []"
  by (simp add: BuildNodeLabels_def)

lemma trim_alnum_props:
  "set (trim_alnum s) \<subseteq> set s" "length (trim_alnum s) \<le> length s"
  "trim_alnum s \<noteq> [] \<Longrightarrow> is_alnum (hd (trim_alnum s)) \<and> is_alnum (last (trim_alnum s))"
proof -
  let ?t = "dropWhile (\<lambda>c. \<not> is_alnum c) s"
  show "set (trim_alnum s) \<subseteq> set s"
    using dropWhile_subset [of "\<lambda>c. \<not> is_alnum c" "rev ?t"] dropWhile_subset [of "\<lambda>c. \<not> is_alnum c" s]
    by (simp add: trim_alnum_def)
  show "length (trim_alnum s) \<le> length s"
    using length_dropWhile_le [of "\<lambda>c. \<not> is_alnum c" "rev ?t"] length_dropWhile_le [of "\<lambda>c. \<not> is_alnum c" s]
    by (simp add: trim_alnum_def)
  assume ne: "trim_alnum s \<noteq> []"
  let ?u = "dropWhile (\<lambda>c. \<not> is_alnum c) (rev ?t)"
  have u: "?u \<noteq> []" using ne by (simp add: trim_alnum_def)
  then have "is_alnum (hd ?u)" using hd_dropWhile [of "\<lambda>c. \<not> is_alnum c" "rev ?t"] by blast
  then have l: "is_alnum (last (trim_alnum s))" by (simp add: trim_alnum_def last_rev)
  have t: "?t \<noteq> []" using u by (metis dropWhile.simps(1) rev.simps(1))
  then have ht: "is_alnum (hd ?t)" using hd_dropWhile [of "\<lambda>c. \<not> is_alnum c" s] by blast
  obtain zs where "rev ?t = zs @ ?u" by (metis takeWhile_dropWhile_id)
  then have "?t = rev ?u @ rev zs" by (metis rev_append rev_rev_ident)
  with u have "hd (rev ?u) = hd ?t" by (metis hd_append2 rev_is_Nil_conv)
  with ht l show "is_alnum (hd (trim_alnum s)) \<and> is_alnum (last (trim_alnum s))" by (simp add: trim_alnum_def)
qed

lemma trim_alnum_id:
  assumes "s \<noteq> [] \<longrightarrow> is_alnum (hd s) \<and> is_alnum (last s)"
  shows "trim_alnum s = s"
proof (cases s)
  case (Cons c cs)
  with assms have "dropWhile (\<lambda>c. \<not> is_alnum c) s = s" by simp
  moreover have "dropWhile (\<lambda>c. \<not> is_alnum c) (rev s) = rev s"
    using assms Cons by (cases "rev s") (auto simp: hd_rev [symmetric])
  ultimately show ?thesis by (simp add: trim_alnum_def)
qed (simp add: trim_alnum_def)

section \<open>Properties\<close>

text \<open>
  A sanitized value is a valid label value, and the values left alone are exactly the valid ones, so
  that sanitizing twice is sanitizing once.
\<close>

theorem sanitize_valid:
  "valid_label_value (sanitizeLabelValue s) \<and> (sanitizeLabelValue s = s \<longleftrightarrow> valid_label_value s) \<and>
    sanitizeLabelValue (sanitizeLabelValue s) = sanitizeLabelValue s"
proof -
  have v: "valid_label_value (sanitizeLabelValue s)" for s
  proof -
    let ?d = "take 63 (dash_invalid s)"
    have e: "sanitizeLabelValue s = trim_alnum ?d" by (simp add: sanitizeLabelValue_def Let_def)
    have "list_all label_char ?d" using dash_invalid_chars [of s] by (auto simp: list_all_iff dest: in_set_takeD)
    with trim_alnum_props(1) [of ?d] have "list_all label_char (trim_alnum ?d)" by (auto simp: list_all_iff)
    with trim_alnum_props(2,3) [of ?d] show ?thesis by (auto simp: valid_label_value_def e)
  qed
  have i: "sanitizeLabelValue s = s" if "valid_label_value s" for s
    using that by (simp add: sanitizeLabelValue_def valid_label_value_def dash_invalid_id trim_alnum_id Let_def)
  have "sanitizeLabelValue s = s \<longleftrightarrow> valid_label_value s" using v i by metis
  with v i show ?thesis by blast
qed

text \<open>
  A successful labelling of a simulated node ends with an attempt that either finds no such node and
  writes nothing, or updates the node as it then is, with the labels of the topology and every other label
  kept; the update of a node whose label map is nil never succeeds.
\<close>

theorem labels_written:
  assumes "retry_ok retry" and "SetLabelsForNode K retry n nt s = (Ok (), s')"
  shows "\<exists>s0. (\<exists>e. node_get K n s0 = Inl e \<and> is_not_found e \<and> s' = s0) \<or>
    (\<exists>node. node_get K n s0 = Inr node \<and> \<not> n_LabelsNil node \<and>
       node_update K (node\<lparr>n_Labels := n_Labels node ++ map_of (BuildNodeLabels nt)\<rparr>) s0 = (Inr (), s'))"
proof -
  obtain s0 where "retry (set_labels_once K n (BuildNodeLabels nt)) s = set_labels_once K n (BuildNodeLabels nt) s0"
    using assms(1) unfolding retry_ok_def by metis
  with assms(2) have "set_labels_once K n (BuildNodeLabels nt) s0 = (Ok (), s')"
    by (auto simp: SetLabelsForNode_def setNodeLabels_def split: prod.splits)
  then show ?thesis
    by (intro exI [of _ s0])
      (auto simp: set_labels_once_def put_labels_def split: sum.splits if_splits)
qed

end
