(* ===== verification/WitnessExport.thy ===== *)
theory WitnessExport
  imports Nrt PodResources Metrics LabelsExport
begin

text \<open>
  The properties of the exporters at concrete inputs: a pool of two zones, a topology of one GPU, gauges that
  are maps, a server with one node.
\<close>

section \<open>Zones\<close>

definition w_numa :: NumaConfig where
  "w_numa = \<lparr>Zones = 2, GpusPerZone = [], TopologyManagerPolicy = [], TopologyManagerScope = [], CPUPerZone = [],
             MemPerZone = [], Distances = None\<rparr>"

definition w_alloc :: "string \<rightharpoonup> int" where
  "w_alloc = [''cpu'' \<mapsto> 4000, ''memory'' \<mapsto> 8000]"

definition w_layout :: "int ZoneLayout" where
  "w_layout = \<lparr>zl_Zones = 2, zl_GpusPerZone = [2, 1], zl_CPUPerZone = Some 2000, zl_MemPerZone = Some 4000,
               zl_CPUIDsPerZone = [[0, 1], [2, 3]]\<rparr>"

lemma w_layout_resolved: "ResolveZoneLayout ref_env w_numa 3 w_alloc = Ok (Some w_layout)"
  by code_simp

theorem distribute_even_witness:
  "\<exists>out. distributeGPUs 7 3 [] = Ok out \<and> length out = 3 \<and> sum_list out = 7"
  using distribute_even [of 3 7] by auto

theorem gpu_index_witness: "\<exists>out. GPUIndexToZone [2, 1] = Ok out \<and> sorted out \<and> length out = 3"
  using gpu_index_to_zone [of "[2, 1]"] by auto

theorem cpu_ids_witness: "distinct (concat (zl_CPUIDsPerZone w_layout))"
  using cpu_ids_disjoint [OF w_layout_resolved] by blast

theorem cpulist_round_trip_witness: "parse_cpulist (Cpulist [0, 1, 2, 5]) = Some [0, 1, 2, 5]"
  by (rule cpulist_round_trip) simp_all

theorem build_nrt_witness:
  "\<exists>nrt. BuildNRT ref_env ''node1'' w_numa 3 w_alloc = Ok (Some nrt) \<and> int (length (nrt_Zones nrt)) = 2"
  using build_nrt_zones [OF w_layout_resolved, of "''node1''"] by (auto simp: w_numa_def)

section \<open>PodResources\<close>

theorem largest_remainder_witness: "sum_list (largestRemainder (\<lambda>_. 0) 10 [1, 2]) = 10"
  using largest_remainder_shares [of 10 "[1, 2]" "\<lambda>_. 0"] by simp

lemma w_render: "fst (RenderCpulist (\<lambda>_. False) ''/host'' (Some w_layout) Map.empty) = Ok ()"
  by code_simp

theorem cpulist_files_witness:
  "snd (RenderCpulist (\<lambda>_. False) ''/host'' (Some w_layout) Map.empty) (cpulist_dir ''/host'' 1 @ ''/cpulist'') =
    Some (Cpulist [2, 3] @ [CHR 0x0A])"
  using cpulist_files [of "\<lambda>_. False" "''/host''" w_layout Map.empty _ 1, OF prod_eqI [of _ "(Ok (), _)"]] w_render
  by (simp add: w_layout_def)

definition w_empty :: ref_state where
  "w_empty = \<lparr>rs_cms = [], rs_pods = [], rs_nodes = [], rs_claims = [], rs_classes = []\<rparr>"

theorem failed_reconcile_witness:
  "List_PodResources (snd (reconcile ref_env (\<lambda>_. False) ''/host'' zero_nt w_empty \<lparr>ex_snapshot = Some [], ex_files = Map.empty\<rparr>)) = []"
  by (subst failed_reconcile_keeps_snapshot)
    (simp_all add: reconcile_def GetClusterConfigFromCM_def ref_env_def ref_find_def w_empty_def List_PodResources_def)

section \<open>Metrics\<close>

definition map_gauges :: "(labels \<rightharpoonup> gofloat) gauge_env" where
  "map_gauges = \<lparr>gv_set = (\<lambda>l v g. g(l \<mapsto> v)), gv_delete = (\<lambda>l g. g(l := None)), gv_reset = (\<lambda>g. Map.empty), gv_read = (\<lambda>g. g)\<rparr>"

lemma map_gauges_ok: "gauges_ok map_gauges"
  by (simp add: gauges_ok_def map_gauges_def)

definition w_gauges :: "(labels \<rightharpoonup> gofloat) gauges" where
  "w_gauges = \<lparr>gpuUtilization = Map.empty, gpuFbUsed = Map.empty, gpuFbFree = Map.empty\<rparr>"

definition w_menv :: metrics_env where
  "w_menv = \<lparr>prom = (\<lambda>_. None), draw = (\<lambda>_ _. 0), oor = (\<lambda>_. 0), range_of = (\<lambda>_. [])\<rparr>"

definition m_gpu :: "string \<Rightarrow> GpuDetails" where
  "m_gpu pod = \<lparr>ID = ''gpu-0'', Status = \<lparr>AllocatedBy = \<lparr>cd_Namespace = [], cd_Pod = pod, cd_Container = []\<rparr>,
                                        PodGpuUsageStatus = None\<rparr>\<rparr>"

definition m_nt :: "string \<Rightarrow> NodeTopology" where
  "m_nt pod = zero_nt\<lparr>GpuMemory := 16384, Gpus := [m_gpu pod]\<rparr>"

lemma m_Gpus [simp]: "Gpus (m_nt pod) = [m_gpu pod]"
  by (simp add: m_nt_def)

lemma w_utilization: "Utilization w_menv (PodGpuUsageStatus (Status (m_gpu pod))) = Ok (int_of_f64 (\<lambda>_. 0) (f64_min (Fin 100) (f64_of_int 0)))"
  by (simp add: Utilization_def w_menv_def)

theorem metrics_witness:
  "{l. reads map_gauges (snd (export_metrics map_gauges w_menv ''node1'' (m_nt ''p'') w_gauges)) l \<noteq> (None, None, None)} =
    gpu_series (\<lambda>i gpu. buildGpuMetricLabels ''node1'' i gpu (m_nt ''p'')) [m_gpu ''p'']"
proof -
  have "fst (export_metrics map_gauges w_menv ''node1'' (m_nt ''p'') w_gauges) = Ok ()"
    by (simp add: export_metrics_def set_gpu_metrics_def w_utilization Let_def)
  then have "export_metrics map_gauges w_menv ''node1'' (m_nt ''p'') w_gauges =
      (Ok (), snd (export_metrics map_gauges w_menv ''node1'' (m_nt ''p'') w_gauges))"
    by (simp add: prod_eq_iff)
  from metrics_show_topology [OF map_gauges_ok this] show ?thesis by simp
qed

definition w_multi :: "(labels \<rightharpoonup> gofloat) multi_metrics" where
  "w_multi = \<lparr>nodeTopologies = Map.empty, mm_gauges = w_gauges\<rparr>"

lemma w_set:
  "SetMetricsForNode map_gauges w_menv n (m_nt pod) e =
    (Ok (), snd (SetMetricsForNode map_gauges w_menv n (m_nt pod) e))"
  by (simp add: prod_eq_iff SetMetricsForNode_def exportNode_def set_gpu_metrics_def w_utilization with_gauges_def Let_def)

theorem deleted_node_witness:
  "nodeTopologies (snd (DeleteNode map_gauges ''node1'' (snd (SetMetricsForNode map_gauges w_menv ''node1'' (m_nt ''p'') w_multi)))) = Map.empty"
  using deletion_removes_set_series [OF map_gauges_ok w_set [of "''node1''" "''p''" w_multi]] by (simp add: w_multi_def)

theorem stale_series_witness:
  "shows_gpu w_menv (m_nt ''p'') (m_gpu ''p'')
    (reads map_gauges
      (mm_gauges (snd (DeleteNode map_gauges ''node1''
        (snd (SetMetricsForNode map_gauges w_menv ''node1'' (m_nt [])
          (snd (SetMetricsForNode map_gauges w_menv ''node1'' (m_nt ''p'') w_multi)))))))
      (node_metric_labels ''node1'' (m_nt ''p'') 0 (m_gpu ''p'')))"
proof -
  have "node_metric_labels ''node1'' (m_nt ''p'') 0 (m_gpu ''p'') ''pod'' \<noteq> node_metric_labels ''node1'' (m_nt []) 0 (m_gpu []) ''pod''"
    by (simp add: node_metric_labels_def buildGpuMetricLabels_def m_gpu_def)
  then have "node_metric_labels ''node1'' (m_nt ''p'') 0 (m_gpu ''p'') \<notin>
      gpu_series (node_metric_labels ''node1'' (m_nt [])) [m_gpu []]"
    by (auto simp: gpu_series_def)
  then show ?thesis
    using stale_series_survive [OF map_gauges_ok w_set [of "''node1''" "''p''" w_multi] w_set [of "''node1''" "[]"], of 0] by simp
qed

section \<open>Labels\<close>

definition m_node :: "int Node" where
  "m_node = \<lparr>n_Name = ''node1'', n_UID = ''u1'', n_Labels = [''a'' \<mapsto> ''b''], n_Annotations = Map.empty, n_Allocatable = w_alloc,
             n_LabelsNil = False, n_AnnotationsNil = True\<rparr>"

lemma w_labelled:
  "SetLabelsForNode ref_env (retry_loop 4) ''node1'' (m_nt []) (w_empty\<lparr>rs_nodes := [(''node1'', m_node)]\<rparr>) =
    (Ok (), snd (SetLabelsForNode ref_env (retry_loop 4) ''node1'' (m_nt []) (w_empty\<lparr>rs_nodes := [(''node1'', m_node)]\<rparr>)))"
proof -
  have "fst (set_labels_once ref_env ''node1'' (BuildNodeLabels (m_nt [])) (w_empty\<lparr>rs_nodes := [(''node1'', m_node)]\<rparr>)) = Ok ()"
    by (simp add: set_labels_once_def ref_env_def ref_find_def put_labels_def m_node_def w_empty_def)
  then show ?thesis by (simp add: prod_eq_iff SetLabelsForNode_def setNodeLabels_def retry_loop_Ok split_def)
qed

theorem labels_written_witness:
  "\<exists>s0. (\<exists>e. node_get ref_env ''node1'' s0 = Inl e \<and> is_not_found e \<and>
        snd (SetLabelsForNode ref_env (retry_loop 4) ''node1'' (m_nt []) (w_empty\<lparr>rs_nodes := [(''node1'', m_node)]\<rparr>)) = s0) \<or>
    (\<exists>node. node_get ref_env ''node1'' s0 = Inr node \<and> \<not> n_LabelsNil node \<and>
       node_update ref_env (node\<lparr>n_Labels := n_Labels node ++ map_of (BuildNodeLabels (m_nt []))\<rparr>) s0 =
         (Inr (), snd (SetLabelsForNode ref_env (retry_loop 4) ''node1'' (m_nt []) (w_empty\<lparr>rs_nodes := [(''node1'', m_node)]\<rparr>))))"
  using labels_written [OF retry_loop_ok w_labelled] .

end
