(* ===== verification/Reconcile.thy ===== *)
theory Reconcile
  imports GoPrelude
begin

text \<open>
  The comparison of desired with actual objects by name and its application, the part that
  \<^verbatim>\<open>controllers/mock/diff.go\<close> and \<^verbatim>\<open>controllers/mock/reconciler.go\<close> have twice, for
  DaemonSets and for ConfigMaps.  The interface to a kind of objects of the API server is the locale
  \<open>object_kind\<close>: what is read after each operation, and when an object needs no update.
\<close>

section \<open>The difference\<close>

record 'o object_diff =
  ToCreate :: "'o list"
  ToUpdate :: "'o list"
  ToDelete :: "'o list"

text \<open>\<^verbatim>\<open>m[x.Name] = x\<close> for each object: the last of a name stays.\<close>

definition by_name :: "('o \<Rightarrow> string) \<Rightarrow> 'o list \<Rightarrow> (string \<times> 'o) list" where
  "by_name name xs = foldl (\<lambda>m x. AList.update (name x) x m) [] xs"

text \<open>\<open>visit\<close> is the order in which the runtime visits the map of the desired objects.\<close>

definition diff_named ::
    "('o \<Rightarrow> string) \<Rightarrow> ('o \<Rightarrow> 'o \<Rightarrow> bool) \<Rightarrow> ('o \<Rightarrow> 'o \<Rightarrow> 'o) \<Rightarrow> ((string \<times> 'o) list \<Rightarrow> (string \<times> 'o) list)
     \<Rightarrow> 'o list \<Rightarrow> 'o list \<Rightarrow> 'o object_diff" where
  "diff_named name needs stamp visit desired actual =
     (let desiredByName = by_name name desired;
          actualByName = by_name name actual
      in \<lparr>ToCreate = List.map_filter (\<lambda>(n, want). if map_of actualByName n = None then Some want else None)
                       (visit desiredByName),
          ToUpdate = List.map_filter (\<lambda>(n, want). case map_of actualByName n of
                         None \<Rightarrow> None
                       | Some have \<Rightarrow> if needs want have then Some (stamp want have) else None)
                       (visit desiredByName),
          ToDelete = filter (\<lambda>have. map_of desiredByName (name have) = None) actual\<rparr>)"

section \<open>Its application\<close>

fun apply_each :: "string \<Rightarrow> ('o \<Rightarrow> 's \<Rightarrow> (gerror + unit) \<times> 's) \<Rightarrow> 'o list \<Rightarrow> 's \<Rightarrow> unit res \<times> 's" where
  "apply_each m f [] s = (Ok (), s)"
| "apply_each m f (x # xs) s = (case f x s of (Inl e, s') \<Rightarrow> (Err (Wrap m e), s') | (Inr u, s') \<Rightarrow> apply_each m f xs s')"

definition apply_diff ::
    "('o \<Rightarrow> 's \<Rightarrow> (gerror + unit) \<times> 's) \<Rightarrow> ('o \<Rightarrow> 's \<Rightarrow> (gerror + unit) \<times> 's) \<Rightarrow> (string \<Rightarrow> 's \<Rightarrow> (gerror + unit) \<times> 's)
     \<Rightarrow> ('o \<Rightarrow> string) \<Rightarrow> 'o object_diff \<Rightarrow> 's \<Rightarrow> unit res \<times> 's" where
  "apply_diff create update delete name d s =
     sbind (apply_each ''creating'' create (ToCreate d) s) (\<lambda>_ s.
     sbind (apply_each ''updating'' update (ToUpdate d) s) (\<lambda>_ s.
     apply_each ''deleting'' (\<lambda>x. delete (name x)) (ToDelete d) s))"

section \<open>Maps by name\<close>

lemma by_name_Nil [simp]: "by_name name [] = []"
  by (simp add: by_name_def)

lemma by_name_snoc [simp]: "by_name name (xs @ [x]) = AList.update (name x) x (by_name name xs)"
  by (simp add: by_name_def)

lemma set_update_subset_insert: "set (AList.update k v m) \<subseteq> insert (k, v) (set m)"
  by (induction m) auto

lemma by_name_distinct [simp]: "distinct (map fst (by_name name xs))"
  by (induction xs rule: rev_induct) (simp_all add: distinct_update)

lemma by_name_entry: "(n, x) \<in> set (by_name name xs) \<Longrightarrow> name x = n \<and> x \<in> set xs"
proof (induction xs rule: rev_induct)
  case (snoc y ys)
  then have "(n, x) = (name y, y) \<or> (n, x) \<in> set (by_name name ys)"
    using set_update_subset_insert [of "name y" y "by_name name ys"] by auto
  with snoc.IH show ?case by auto
qed simp

lemma by_name_dom: "map_of (by_name name xs) n = None \<longleftrightarrow> n \<notin> name ` set xs"
  by (induction xs rule: rev_induct) (auto simp: map_of_update)

lemma by_name_lookup: "map_of (by_name name xs) n = Some x \<longleftrightarrow> (n, x) \<in> set (by_name name xs)"
  by (simp add: map_of_eq_Some_iff)

text \<open>When the names are different every object is found under its own.\<close>

lemma by_name_unique:
  assumes "distinct (map name xs)" and "x \<in> set xs"
  shows "map_of (by_name name xs) (name x) = Some x"
proof -
  have "map_of (by_name name xs) (name x) \<noteq> None" using assms(2) by (simp add: by_name_dom)
  then obtain y where y: "map_of (by_name name xs) (name x) = Some y" by blast
  then have "name y = name x" and "y \<in> set xs" using by_name_entry [of "name x" y name xs] by (simp_all add: by_name_lookup)
  with assms have "y = x" by (auto simp: distinct_map dest: inj_onD)
  with y show ?thesis by simp
qed

text \<open>A selection from a list of named objects\<close>

lemma select_names:
  assumes "distinct (map fst vs)" and "\<And>n w y. (n, w) \<in> set vs \<Longrightarrow> f (n, w) = Some y \<Longrightarrow> name y = n"
  shows "distinct (map name (List.map_filter f vs))"
    and "n \<in> name ` set (List.map_filter f vs) \<longleftrightarrow> (\<exists>w y. (n, w) \<in> set vs \<and> f (n, w) = Some y)"
proof -
  have "distinct (map name (List.map_filter f vs)) \<and>
      name ` set (List.map_filter f vs) = {n. \<exists>w y. (n, w) \<in> set vs \<and> f (n, w) = Some y}"
    using assms
  proof (induction vs)
    case (Cons v vs)
    obtain m u where v: "v = (m, u)" by force
    have IH: "distinct (map name (List.map_filter f vs))"
        "name ` set (List.map_filter f vs) = {n. \<exists>w y. (n, w) \<in> set vs \<and> f (n, w) = Some y}"
    proof -
      have "distinct (map fst vs)" using Cons.prems(1) by simp
      moreover have "name y = n" if "(n, w) \<in> set vs" "f (n, w) = Some y" for n w y
        using Cons.prems(2) [of n w y] that by simp
      ultimately show "distinct (map name (List.map_filter f vs))"
        "name ` set (List.map_filter f vs) = {n. \<exists>w y. (n, w) \<in> set vs \<and> f (n, w) = Some y}"
        using Cons.IH by blast+
    qed
    have "m \<notin> name ` set (List.map_filter f vs)" using Cons.prems(1) v unfolding IH(2) by force
    moreover have "name y = m" if "f (m, u) = Some y" for y using Cons.prems(2) [of m u y] that v by simp
    ultimately show ?case using IH v by (auto simp: List.map_filter_simps split: option.split)
  qed (simp add: List.map_filter_simps)
  then show "distinct (map name (List.map_filter f vs))"
    and "n \<in> name ` set (List.map_filter f vs) \<longleftrightarrow> (\<exists>w y. (n, w) \<in> set vs \<and> f (n, w) = Some y)"
    by blast+
qed

lemma set_map_filter: "set (List.map_filter f xs) = {y. \<exists>x \<in> set xs. f x = Some y}"
  by (induction xs) (auto simp: List.map_filter_simps split: option.splits)

section \<open>The interface to a kind of objects\<close>

text \<open>
  \<open>stored x y\<close>: the server holds \<open>y\<close> after it was sent \<open>x\<close>.  \<open>fit\<close> are the objects that can
  be compared with what is stored for them.
\<close>

locale object_kind =
  fixes get :: "'s \<Rightarrow> string \<Rightarrow> 'o option"
    and list_managed :: "'s \<Rightarrow> gerror + 'o list"
    and create :: "'o \<Rightarrow> 's \<Rightarrow> (gerror + unit) \<times> 's"
    and update :: "'o \<Rightarrow> 's \<Rightarrow> (gerror + unit) \<times> 's"
    and delete :: "string \<Rightarrow> 's \<Rightarrow> (gerror + unit) \<times> 's"
    and name :: "'o \<Rightarrow> string"
    and managed :: "'o \<Rightarrow> bool"
    and stored :: "'o \<Rightarrow> 'o \<Rightarrow> bool"
    and fit :: "'o \<Rightarrow> bool"
    and needs :: "'o \<Rightarrow> 'o \<Rightarrow> bool"
    and stamp :: "'o \<Rightarrow> 'o \<Rightarrow> 'o"
  assumes get_name: "get s n = Some x \<Longrightarrow> name x = n"
    and list_ok: "list_managed s = Inr xs \<Longrightarrow>
      distinct (map name xs) \<and> (\<forall>x. x \<in> set xs \<longleftrightarrow> get s (name x) = Some x \<and> managed x)"
    and create_ok: "create x s = (Inr (), s') \<Longrightarrow>
      get s (name x) = None \<and> (\<exists>y. get s' (name x) = Some y \<and> stored x y) \<and> (\<forall>m. m \<noteq> name x \<longrightarrow> get s' m = get s m)"
    and update_ok: "update x s = (Inr (), s') \<Longrightarrow>
      (\<exists>y. get s' (name x) = Some y \<and> stored x y) \<and> (\<forall>m. m \<noteq> name x \<longrightarrow> get s' m = get s m)"
    and delete_ok: "delete n s = (Inr (), s') \<Longrightarrow> get s' n = None \<and> (\<forall>m. m \<noteq> n \<longrightarrow> get s' m = get s m)"
    and stored_managed: "stored x y \<Longrightarrow> managed y = managed x"
    and stored_stamp: "stored (stamp x h) y \<Longrightarrow> stored x y"
    and stamp_name: "name (stamp x h) = name x"
    and settled: "fit x \<Longrightarrow> stored x y \<Longrightarrow> \<not> needs x y"
begin

lemma created:
  assumes "apply_each m create xs s = (Ok (), s')" and "distinct (map name xs)"
  shows "n \<notin> name ` set xs \<Longrightarrow> get s' n = get s n"
    and "x \<in> set xs \<Longrightarrow> get s (name x) = None \<and> (\<exists>y. get s' (name x) = Some y \<and> stored x y)"
proof -
  have "(\<forall>n. n \<notin> name ` set xs \<longrightarrow> get s' n = get s n) \<and>
      (\<forall>x \<in> set xs. get s (name x) = None \<and> (\<exists>y. get s' (name x) = Some y \<and> stored x y))"
    using assms
  proof (induction xs arbitrary: s)
    case (Cons z zs)
    obtain s1 where c: "create z s = (Inr (), s1)" and rest: "apply_each m create zs s1 = (Ok (), s')"
      using Cons.prems(1) by (auto split: prod.splits sum.splits)
    note k = create_ok [OF c] and IH = Cons.IH [OF rest]
    have z: "name z \<notin> name ` set zs" and d: "distinct (map name zs)" using Cons.prems(2) by auto
    with IH have "get s' (name z) = get s1 (name z)" by blast
    with k have 1: "get s (name z) = None \<and> (\<exists>y. get s' (name z) = Some y \<and> stored z y)" by simp
    have "get s (name x) = None \<and> (\<exists>y. get s' (name x) = Some y \<and> stored x y)" if "x \<in> set zs" for x
    proof -
      have "name x \<noteq> name z" using that z by (metis imageI)
      with IH d that k show ?thesis by metis
    qed
    with 1 IH d k show ?case by auto
  qed simp
  then show "n \<notin> name ` set xs \<Longrightarrow> get s' n = get s n"
    and "x \<in> set xs \<Longrightarrow> get s (name x) = None \<and> (\<exists>y. get s' (name x) = Some y \<and> stored x y)" by blast+
qed

lemma updated:
  assumes "apply_each m update xs s = (Ok (), s')" and "distinct (map name xs)"
  shows "n \<notin> name ` set xs \<Longrightarrow> get s' n = get s n"
    and "x \<in> set xs \<Longrightarrow> \<exists>y. get s' (name x) = Some y \<and> stored x y"
proof -
  have "(\<forall>n. n \<notin> name ` set xs \<longrightarrow> get s' n = get s n) \<and>
      (\<forall>x \<in> set xs. \<exists>y. get s' (name x) = Some y \<and> stored x y)"
    using assms
  proof (induction xs arbitrary: s)
    case (Cons z zs)
    obtain s1 where c: "update z s = (Inr (), s1)" and rest: "apply_each m update zs s1 = (Ok (), s')"
      using Cons.prems(1) by (auto split: prod.splits sum.splits)
    have z: "name z \<notin> name ` set zs" and d: "distinct (map name zs)" using Cons.prems(2) by auto
    with Cons.IH [OF rest] update_ok [OF c] show ?case by auto
  qed simp
  then show "n \<notin> name ` set xs \<Longrightarrow> get s' n = get s n"
    and "x \<in> set xs \<Longrightarrow> \<exists>y. get s' (name x) = Some y \<and> stored x y" by blast+
qed

lemma deleted:
  assumes "apply_each m (\<lambda>x. delete (name x)) xs s = (Ok (), s')"
  shows "get s' n = (if n \<in> name ` set xs then None else get s n)"
  using assms
proof (induction xs arbitrary: s)
  case (Cons z zs)
  obtain s1 where c: "delete (name z) s = (Inr (), s1)" and rest: "apply_each m (\<lambda>x. delete (name x)) zs s1 = (Ok (), s')"
    using Cons.prems by (auto split: prod.splits sum.splits)
  from Cons.IH [OF rest] delete_ok [OF c] show ?case by auto
qed simp

text \<open>
  A pass that succeeds leaves for each desired name an object that needs no update, and of the other names
  exactly the objects that are not managed.
\<close>

lemma reconciled:
  assumes lst: "list_managed s = Inr actual"
    and run: "apply_diff create update delete name (diff_named name needs stamp visit desired actual) s = (Ok (), s')"
    and visit: "\<forall>m. mset (visit m) = mset m" and fit: "\<forall>x \<in> set desired. fit x \<and> managed x"
  shows "map_of (by_name name desired) n = Some w \<Longrightarrow> \<exists>y. get s' n = Some y \<and> managed y \<and> \<not> needs w y"
    and "map_of (by_name name desired) n = None \<Longrightarrow>
      get s' n = (case get s n of None \<Rightarrow> None | Some x \<Rightarrow> if managed x then None else Some x)"
proof -
  define vs where "vs = visit (by_name name desired)"
  define A where "A = map_of (by_name name actual)"
  define fc where "fc = (\<lambda>(n, want :: 'o). if A n = None then Some want else None)"
  define fu where "fu = (\<lambda>(n, want). case A n of None \<Rightarrow> None | Some have \<Rightarrow> if needs want have then Some (stamp want have) else None)"
  define C where "C = List.map_filter fc vs"
  define U where "U = List.map_filter fu vs"
  define D where "D = filter (\<lambda>have. map_of (by_name name desired) (name have) = None) actual"
  have diff: "diff_named name needs stamp visit desired actual = \<lparr>ToCreate = C, ToUpdate = U, ToDelete = D\<rparr>"
    by (simp add: diff_named_def C_def U_def D_def fc_def fu_def A_def vs_def Let_def)
  obtain s1 s2 where c: "apply_each ''creating'' create C s = (Ok (), s1)"
    and u: "apply_each ''updating'' update U s1 = (Ok (), s2)"
    and d: "apply_each ''deleting'' (\<lambda>x. delete (name x)) D s2 = (Ok (), s')"
    using run unfolding diff apply_diff_def by (auto elim!: sbind_eq_OkD)
  have mvs: "mset vs = mset (by_name name desired)" using visit by (simp add: vs_def)
  have svs: "(m, x) \<in> set vs \<longleftrightarrow> map_of (by_name name desired) m = Some x" for m x
    using mset_eq_setD [OF mvs] by (simp add: by_name_lookup)
  have dvs: "distinct (map fst vs)" using mset_eq_imp_distinct_iff [of "map fst vs" "map fst (by_name name desired)"] mvs by simp
  have nvs: "name x = m \<and> x \<in> set desired" if "(m, x) \<in> set vs" for m x
    using by_name_entry that svs by (metis by_name_lookup)
  have nc: "distinct (map name C)" "m \<in> name ` set C \<longleftrightarrow> (\<exists>w y. (m, w) \<in> set vs \<and> fc (m, w) = Some y)" for m
    unfolding C_def using nvs by (intro select_names [OF dvs]; auto simp: fc_def split: if_splits)+
  have nu: "distinct (map name U)" "m \<in> name ` set U \<longleftrightarrow> (\<exists>w y. (m, w) \<in> set vs \<and> fu (m, w) = Some y)" for m
    unfolding U_def using nvs by (intro select_names [OF dvs]; auto simp: fu_def stamp_name split: option.splits if_splits)+
  have act: "distinct (map name actual)" "x \<in> set actual \<longleftrightarrow> get s (name x) = Some x \<and> managed x" for x
    using list_ok [OF lst] by blast+
  have A: "A m = Some x \<longleftrightarrow> get s m = Some x \<and> managed x" for m x
  proof
    assume a: "A m = Some x"
    then have "name x = m \<and> x \<in> set actual" using by_name_entry [of m x name actual] by (simp add: A_def by_name_lookup)
    with act(2) [of x] show "get s m = Some x \<and> managed x" by auto
  next
    assume g: "get s m = Some x \<and> managed x"
    then have "x \<in> set actual" and "name x = m" using act(2) [of x] get_name [of s m x] by auto
    with by_name_unique [OF act(1)] show "A m = Some x" by (auto simp: A_def)
  qed
  note cr = created [OF c nc(1)] and up = updated [OF u nu(1)] and de = deleted [OF d]
  show "\<exists>y. get s' n = Some y \<and> managed y \<and> \<not> needs w y" if w: "map_of (by_name name desired) n = Some w"
  proof -
    have wv: "(n, w) \<in> set vs" using svs w by simp
    then have wn: "name w = n" "w \<in> set desired" using nvs by blast+
    have uniq: "w' = w" if "(n, w') \<in> set vs" for w' using svs [of n w'] w that by (metis option.inject)
    have nd: "n \<notin> name ` set D" using w by (auto simp: D_def)
    show ?thesis
    proof (cases "A n")
      case None
      then have "w \<in> set C" using wv by (auto simp: C_def fc_def set_map_filter intro: bexI [of _ "(n, w)"])
      from cr(2) [OF this] obtain y where "get s1 n = Some y" and "stored w y" using wn by auto
      moreover have "n \<notin> name ` set U" using nu(2) None by (auto simp: fu_def)
      ultimately show ?thesis using up(1) de nd settled stored_managed fit wn(2) by auto
    next
      case (Some h)
      then have nc': "n \<notin> name ` set C" using nc(2) by (auto simp: fc_def)
      have gh: "get s n = Some h" "managed h" using A Some by blast+
      show ?thesis
      proof (cases "needs w h")
        case True
        then have "stamp w h \<in> set U" using wv Some by (auto simp: U_def fu_def set_map_filter intro!: bexI [of _ "(n, w)"])
        from up(2) [OF this] obtain y where "get s2 n = Some y" and "stored w y"
          using wn stamp_name [of w h] stored_stamp by auto
        then show ?thesis using de nd settled stored_managed fit wn(2) by auto
      next
        case False
        then have "n \<notin> name ` set U" using nu(2) Some uniq by (auto simp: fu_def)
        with False gh nc' cr(1) up(1) de nd show ?thesis by auto
      qed
    qed
  qed
  show "get s' n = (case get s n of None \<Rightarrow> None | Some x \<Rightarrow> if managed x then None else Some x)"
    if w: "map_of (by_name name desired) n = None"
  proof -
    have "n \<notin> name ` set C" "n \<notin> name ` set U" using nc(2) nu(2) svs w by auto
    then have g: "get s2 n = get s n" using cr(1) up(1) by simp
    have "n \<in> name ` set D \<longleftrightarrow> (\<exists>x. get s n = Some x \<and> managed x)"
      using act(2) w get_name by (auto simp: D_def image_iff) metis
    with de g show ?thesis by (auto split: option.split)
  qed
qed

text \<open>A second pass has nothing to do.\<close>

lemma settled_diff:
  assumes lst: "list_managed s = Inr actual"
    and run: "apply_diff create update delete name (diff_named name needs stamp visit desired actual) s = (Ok (), s')"
    and visit: "\<forall>m. mset (visit m) = mset m" and fit: "\<forall>x \<in> set desired. fit x \<and> managed x"
    and again: "list_managed s' = Inr actual'"
  shows "diff_named name needs stamp visit desired actual' = \<lparr>ToCreate = [], ToUpdate = [], ToDelete = []\<rparr>"
proof -
  note r = reconciled [OF lst run visit fit]
  have act: "distinct (map name actual')" "x \<in> set actual' \<longleftrightarrow> get s' (name x) = Some x \<and> managed x" for x
    using list_ok [OF again] by blast+
  have found: "\<exists>y. map_of (by_name name actual') n = Some y \<and> \<not> needs w y" if w: "(n, w) \<in> set (visit (by_name name desired))" for n w
  proof -
    have "map_of (by_name name desired) n = Some w"
      using w visit mset_eq_setD [of "visit (by_name name desired)" "by_name name desired"] by (simp add: by_name_lookup)
    from r(1) [OF this] obtain y where y: "get s' n = Some y" "managed y" "\<not> needs w y" by blast
    then have "y \<in> set actual'" and "name y = n" using act(2) [of y] get_name [of s' n y] by auto
    with by_name_unique [OF act(1)] y(3) show ?thesis by auto
  qed
  have none: "List.map_filter f vs = []" if "\<forall>v \<in> set vs. f v = None" for f :: "string \<times> 'o \<Rightarrow> 'o option" and vs
    using that by (induction vs) (simp_all add: List.map_filter_simps)
  have "map_of (by_name name desired) (name x) \<noteq> None" if "x \<in> set actual'" for x
  proof
    assume "map_of (by_name name desired) (name x) = None"
    from r(2) [OF this] that act(2) [of x] show False by (auto split: option.splits if_splits)
  qed
  then have del: "filter (\<lambda>have. map_of (by_name name desired) (name have) = None) actual' = []" by (simp add: filter_empty_conv)
  let ?A = "map_of (by_name name actual')" and ?vs = "visit (by_name name desired)"
  have c: "\<forall>v \<in> set ?vs. (case v of (n, want) \<Rightarrow> if ?A n = None then Some want else None) = None"
  proof
    fix v
    assume "v \<in> set ?vs"
    then obtain y where "?A (fst v) = Some y" using found [of "fst v" "snd v"] by auto
    then show "(case v of (n, want) \<Rightarrow> if ?A n = None then Some want else None) = None" by (simp only: split_def) simp
  qed
  have u: "\<forall>v \<in> set ?vs. (case v of (n, want) \<Rightarrow> case ?A n of None \<Rightarrow> None
      | Some have \<Rightarrow> if needs want have then Some (stamp want have) else None) = None"
  proof
    fix v
    assume "v \<in> set ?vs"
    then obtain y where "?A (fst v) = Some y" and "\<not> needs (snd v) y" using found [of "fst v" "snd v"] by auto
    then show "(case v of (n, want) \<Rightarrow> case ?A n of None \<Rightarrow> None
      | Some have \<Rightarrow> if needs want have then Some (stamp want have) else None) = None" by (simp only: split_def) simp
  qed
  show ?thesis unfolding diff_named_def Let_def del none [OF c] none [OF u] by simp
qed

end

end
