(* ===== verification/Sha256.thy ===== *)
theory Sha256
  imports Sha1
begin

text \<open>
  \<^verbatim>\<open>crypto/sha256\<close> of the standard library, the digest of a rendered configuration that makes a
  change of it visible.  The padding and the words are those of the theory \<open>Sha1\<close>.
\<close>

type_synonym sha256_state = "32 word list"

text \<open>
  The constants are the first 32 bits of the fractional parts of roots of primes: \<open>root_bits\<close> is the largest
  \<open>r\<close> with \<open>r ^ k \<le> n\<close>, found bit by bit, and 36 bits are enough as no such root reaches 16.
\<close>

fun root_bits :: "nat \<Rightarrow> int \<Rightarrow> nat \<Rightarrow> int \<Rightarrow> int" where
  "root_bits k n 0 r = r"
| "root_bits k n (Suc b) r = root_bits k n b (if (r + 2 ^ b) ^ k \<le> n then r + 2 ^ b else r)"

lemma root_bits_bounds:
  assumes "r ^ k \<le> n" and "n < (r + 2 ^ b) ^ k"
  shows "root_bits k n b r ^ k \<le> n \<and> n < (root_bits k n b r + 1) ^ k"
  using assms
proof (induction b arbitrary: r)
  case (Suc b)
  have e: "r + 2 ^ Suc b = (r + 2 ^ b) + 2 ^ b" by simp
  show ?case
  proof (cases "(r + 2 ^ b) ^ k \<le> n")
    case True
    then have "root_bits k n (Suc b) r = root_bits k n b (r + 2 ^ b)" by (simp only: root_bits.simps if_True)
    with Suc.IH [OF True] Suc.prems(2) e show ?thesis by (simp only:)
  next
    case False
    then have "root_bits k n (Suc b) r = root_bits k n b r" by (simp only: root_bits.simps if_False)
    with Suc.IH [OF Suc.prems(1)] False show ?thesis by (simp only: not_le)
  qed
qed simp

definition fraction_of_root :: "nat \<Rightarrow> int \<Rightarrow> 32 word" where
  "fraction_of_root k p = word_of_int (root_bits k (p * 2 ^ (32 * k)) 36 0)"

definition small_primes :: "int list" where
  "small_primes = filter (\<lambda>p. list_all (\<lambda>d. p mod d \<noteq> 0) [2..p - 1]) [2..311]"

definition sha256_init :: sha256_state where
  "sha256_init = map (fraction_of_root 2) (take 8 small_primes)"

definition sha256_k :: "32 word list" where
  "sha256_k = map (fraction_of_root 3) small_primes"

definition small_sigma0 :: "32 word \<Rightarrow> 32 word" where
  "small_sigma0 x = word_rotr 7 x XOR word_rotr 18 x XOR drop_bit 3 x"

definition small_sigma1 :: "32 word \<Rightarrow> 32 word" where
  "small_sigma1 x = word_rotr 17 x XOR word_rotr 19 x XOR drop_bit 10 x"

definition big_sigma0 :: "32 word \<Rightarrow> 32 word" where
  "big_sigma0 x = word_rotr 2 x XOR word_rotr 13 x XOR word_rotr 22 x"

definition big_sigma1 :: "32 word \<Rightarrow> 32 word" where
  "big_sigma1 x = word_rotr 6 x XOR word_rotr 11 x XOR word_rotr 25 x"

text \<open>The schedule, newest word first.\<close>

fun sha256_extend :: "nat \<Rightarrow> 32 word list \<Rightarrow> 32 word list" where
  "sha256_extend 0 ws = ws"
| "sha256_extend (Suc n) ws =
     sha256_extend n ((small_sigma1 (ws ! 1) + ws ! 6 + small_sigma0 (ws ! 14) + ws ! 15) # ws)"

fun sha256_round :: "sha256_state \<Rightarrow> 32 word \<times> 32 word \<Rightarrow> sha256_state" where
  "sha256_round [a, b, c, d, e, f, g, h] (k, w) =
     (let t1 = h + big_sigma1 e + ((e AND f) XOR (NOT e AND g)) + k + w;
          t2 = big_sigma0 a + ((a AND b) XOR (a AND c) XOR (b AND c))
      in [t1 + t2, a, b, c, d + t1, e, f, g])"
| "sha256_round st kw = st"

definition sha256_block :: "sha256_state \<Rightarrow> 32 word list \<Rightarrow> sha256_state" where
  "sha256_block st ws = map2 (+) st (foldl sha256_round st (zip sha256_k (rev (sha256_extend 48 (rev ws)))))"

fun sha256_blocks :: "nat \<Rightarrow> sha256_state \<Rightarrow> 32 word list \<Rightarrow> sha256_state" where
  "sha256_blocks 0 st ws = st"
| "sha256_blocks (Suc n) st ws = sha256_blocks n (sha256_block st (take 16 ws)) (drop 16 ws)"

definition sha256 :: "string \<Rightarrow> string" where
  "sha256 m =
     concat (map word_bytes (sha256_blocks (length (sha1_pad m) div 64) sha256_init (sha1_words (sha1_pad m))))"

end
