(* ===== verification/MockPools.thy ===== *)
theory MockPools
  imports Reconcile Sha256 Normalize
begin

text \<open>
  \<^verbatim>\<open>internal/status-updater/controllers/mock\<close>: for each node pool with the mock backend a
  ConfigMap with its rendered profile and a DaemonSet that serves it (mock_pool_resources.go, profile.go,
  resources.go), compared with what the cluster has (diff.go) and written (reconciler.go, controller.go).
  The API for the two kinds of objects, the YAML encoder and the bytes of a text are parameters.
\<close>

section \<open>Objects\<close>

record 'y VConfigMap = "'y ConfigMap" +
  cm_ResourceVersion :: string

record EnvVar =
  ev_Name :: string
  ev_Value :: string
  ev_FieldPath :: "string option"

text \<open>A handler other than a command is only told apart from others.\<close>

datatype LifecycleHandler = Exec "string list" | OtherHandler string

record Lifecycle =
  lc_PostStart :: "LifecycleHandler option"
  lc_PreStop :: "LifecycleHandler option"

datatype VolumeSource = HostPath string string | ConfigMapVolume string

record DsContainer =
  dc_Name :: string
  dc_Image :: string
  dc_ImagePullPolicy :: string
  dc_Privileged :: bool
  dc_Command :: "string list"
  dc_Args :: "string list"
  dc_Lifecycle :: "Lifecycle option"
  dc_Env :: "EnvVar list"
  dc_VolumeMounts :: "(string \<times> string) list"

record DaemonSet =
  ds_Name :: string
  ds_Namespace :: string
  ds_Labels :: "string \<rightharpoonup> string"
  ds_ResourceVersion :: string
  ds_Selector :: "string \<rightharpoonup> string"
  ds_PodLabels :: "string \<rightharpoonup> string"
  ds_PodAnnotations :: "string \<rightharpoonup> string"
  ds_ServiceAccountName :: string
  ds_NodeSelector :: "string \<rightharpoonup> string"
  ds_Containers :: "DsContainer list"
  ds_Volumes :: "(string \<times> VolumeSource) list"

text \<open>The operations on a kind of objects: namespace first; a list has a label selector.\<close>

record ('s, 'o) kind_api =
  k_list :: "string \<Rightarrow> (string \<times> string) list \<Rightarrow> 's \<Rightarrow> gerror + 'o list"
  k_create :: "string \<Rightarrow> 'o \<Rightarrow> 's \<Rightarrow> (gerror + unit) \<times> 's"
  k_update :: "string \<Rightarrow> 'o \<Rightarrow> 's \<Rightarrow> (gerror + unit) \<times> 's"
  k_delete :: "string \<Rightarrow> string \<Rightarrow> 's \<Rightarrow> (gerror + unit) \<times> 's"

record ('s, 'y) mock_env =
  daemon_sets :: "('s, DaemonSet) kind_api"
  config_maps :: "('s, 'y VConfigMap) kind_api"
  marshal_gmap :: "gmap \<Rightarrow> gerror + 'y"
  text_bytes :: "'y \<Rightarrow> string"
  \<comment> \<open>the order in which the runtime visits a map of objects\<close>
  visit_ds :: "(string \<times> DaemonSet) list \<Rightarrow> (string \<times> DaemonSet) list"
  visit_cm :: "(string \<times> 'y VConfigMap) list \<Rightarrow> (string \<times> 'y VConfigMap) list"

section \<open>resources.go\<close>

definition LabelManagedBy :: string where "LabelManagedBy = ''app.kubernetes.io/managed-by''"
definition LabelManagedByValue :: string where "LabelManagedByValue = ''fake-gpu-operator''"
definition LabelComponent :: string where "LabelComponent = ''fake-gpu-operator/component''"
definition LabelPool :: string where "LabelPool = ''fake-gpu-operator/pool''"
definition ComponentNvmlMock :: string where "ComponentNvmlMock = ''nvml-mock''"
definition BackendMock :: string where "BackendMock = ''mock''"
definition ConfigHashAnnotation :: string where "ConfigHashAnnotation = ''fake-gpu-operator/config-hash''"
definition configKey :: string where "configKey = ''config.yaml''"

definition resourceName :: "string \<Rightarrow> string" where
  "resourceName pool = ''nvml-mock-'' @ pool"

definition managedLabels :: "string \<Rightarrow> string \<rightharpoonup> string" where
  "managedLabels pool = [LabelManagedBy \<mapsto> LabelManagedByValue, LabelComponent \<mapsto> ComponentNvmlMock, LabelPool \<mapsto> pool]"

definition BuildConfigMap :: "string \<Rightarrow> string \<Rightarrow> 'y \<Rightarrow> 'y VConfigMap" where
  "BuildConfigMap namespace pool configYAML =
     \<lparr>cm_Name = resourceName pool, cm_Namespace = namespace, cm_Labels = managedLabels pool, cm_Annotations = Map.empty,
      cm_Data = [configKey \<mapsto> configYAML], cm_ResourceVersion = []\<rparr>"

record BuildDaemonSetParams =
  bp_Namespace :: string
  bp_Pool :: string
  bp_NodePoolLabelKey :: string
  bp_Image :: string
  bp_ImagePullPolicy :: string
  bp_GpuCount :: int
  bp_DriverVersion :: string
  bp_ConfigHash :: string

definition wrapper_script :: string where
  "wrapper_script =
     ''/scripts/entrypoint.sh & ENTRY=$!; '' @
     ''while ! [ -L /host/run/nvidia/driver ] && kill -0 $ENTRY 2>/dev/null; do sleep 1; done; '' @
     ''[ -L /host/run/nvidia/driver ] && mkdir -p /host/run/nvidia/validations && touch /host/run/nvidia/validations/toolkit-ready; '' @
     ''wait $ENTRY''"

definition mock_container :: "BuildDaemonSetParams \<Rightarrow> DsContainer" where
  "mock_container p =
     \<lparr>dc_Name = ''nvml-mock'', dc_Image = bp_Image p, dc_ImagePullPolicy = bp_ImagePullPolicy p, dc_Privileged = True,
      dc_Command = [''/bin/sh'', ''-c''], dc_Args = [wrapper_script], 
      dc_Lifecycle = Some \<lparr>lc_PostStart = None, lc_PreStop = Some (Exec [''/scripts/cleanup.sh''])\<rparr>,
      dc_Env = [\<lparr>ev_Name = ''GPU_COUNT'', ev_Value = itoa (bp_GpuCount p), ev_FieldPath = None\<rparr>,
                \<lparr>ev_Name = ''DRIVER_VERSION'', ev_Value = bp_DriverVersion p, ev_FieldPath = None\<rparr>,
                \<lparr>ev_Name = ''NODE_NAME'', ev_Value = [], ev_FieldPath = Some ''spec.nodeName''\<rparr>],
      dc_VolumeMounts = [(''host-nvml-mock'', ''/host/var/lib/nvml-mock''), (''gpu-config'', ''/etc/nvml-mock''),
                         (''host-cdi'', ''/host/var/run/cdi''), (''host-run-nvidia'', ''/host/run/nvidia'')]\<rparr>"

definition BuildDaemonSet :: "BuildDaemonSetParams \<Rightarrow> DaemonSet" where
  "BuildDaemonSet p =
     (let labels = managedLabels (bp_Pool p);
          name = resourceName (bp_Pool p)
      in \<lparr>ds_Name = name, ds_Namespace = bp_Namespace p, ds_Labels = labels, ds_ResourceVersion = [],
          ds_Selector = labels, ds_PodLabels = labels, ds_PodAnnotations = [ConfigHashAnnotation \<mapsto> bp_ConfigHash p],
          ds_ServiceAccountName = ''nvml-mock'', ds_NodeSelector = [bp_NodePoolLabelKey p \<mapsto> bp_Pool p],
          ds_Containers = [mock_container p],
          ds_Volumes = [(''host-nvml-mock'', HostPath ''/var/lib/nvml-mock'' ''DirectoryOrCreate''),
                        (''gpu-config'', ConfigMapVolume name),
                        (''host-cdi'', HostPath ''/var/run/cdi'' ''DirectoryOrCreate''),
                        (''host-run-nvidia'', HostPath ''/run/nvidia'' ''DirectoryOrCreate'')]\<rparr>)"

section \<open>profile.go, mock\_pool\_resources.go\<close>

record ReconcileParams =
  rc_Namespace :: string
  rc_Image :: string
  rc_ImagePullPolicy :: string

definition RenderConfig ::
    "('s, 'q, 'y) kube_env \<Rightarrow> ('s, 'y) mock_env \<Rightarrow> string \<Rightarrow> GpuConfig \<Rightarrow> 's \<Rightarrow> ('y \<times> GpuSpec) res" where
  "RenderConfig K M namespace gpu s =
     (if gc_Profile gpu = [] then Err (Msg ''mock pool requires a non-empty profile'')
      else rbind (wrap_err ''loading profile'' (Load K namespace (gc_Profile gpu) s)) (\<lambda>base.
             let merged = Merge (case base of None \<Rightarrow> [] | Some b \<Rightarrow> b) (case Overrides gpu of None \<Rightarrow> [] | Some ov \<Rightarrow> ov)
             in rbind (wrap_err ''serializing merged profile'' (of_sum (marshal_gmap M merged))) (\<lambda>out.
                  Ok (out, Extract (conv_oor K) (Some merged)))))"

definition configHash :: "('s, 'y) mock_env \<Rightarrow> 'y \<Rightarrow> string" where
  "configHash M body = hex_bytes (sha256 (text_bytes M body))"

definition pool_resources ::
    "('s, 'q, 'y) kube_env \<Rightarrow> ('s, 'y) mock_env \<Rightarrow> ClusterConfig \<Rightarrow> ReconcileParams \<Rightarrow> 's \<Rightarrow> string \<Rightarrow> NodePoolConfig
     \<Rightarrow> ('y VConfigMap \<times> DaemonSet) res" where
  "pool_resources K M cfg params s name pool =
     rbind (wrap_err ''rendering config for pool'' (RenderConfig K M (rc_Namespace params) (Gpu pool) s)) (\<lambda>(configYAML, spec).
       Ok (BuildConfigMap (rc_Namespace params) name configYAML,
           BuildDaemonSet \<lparr>bp_Namespace = rc_Namespace params, bp_Pool = name, bp_NodePoolLabelKey = NodePoolLabelKey cfg,
             bp_Image = rc_Image params,
             bp_ImagePullPolicy = (if rc_ImagePullPolicy params = [] then ''Always'' else rc_ImagePullPolicy params),
             bp_GpuCount = gs_GpuCount spec, bp_DriverVersion = gs_DriverVersion spec, bp_ConfigHash = configHash M configYAML\<rparr>))"

fun pools_resources ::
    "('s, 'q, 'y) kube_env \<Rightarrow> ('s, 'y) mock_env \<Rightarrow> ClusterConfig \<Rightarrow> ReconcileParams \<Rightarrow> 's \<Rightarrow> string list
     \<Rightarrow> ('y VConfigMap list \<times> DaemonSet list) res" where
  "pools_resources K M cfg params s [] = Ok ([], [])"
| "pools_resources K M cfg params s (name # names) =
     (case map_of (NodePools cfg) name of
        None \<Rightarrow> pools_resources K M cfg params s names
      | Some pool \<Rightarrow>
          if Backend (Gpu pool) \<noteq> BackendMock then pools_resources K M cfg params s names
          else rbind (pool_resources K M cfg params s name pool) (\<lambda>(cm, ds).
               rbind (pools_resources K M cfg params s names) (\<lambda>(cms, dss). Ok (cm # cms, ds # dss))))"

text \<open>The keys of the map of pools, sorted.\<close>

definition ComputeMockPoolResources ::
    "('s, 'q, 'y) kube_env \<Rightarrow> ('s, 'y) mock_env \<Rightarrow> ClusterConfig \<Rightarrow> ReconcileParams \<Rightarrow> 's
     \<Rightarrow> ('y VConfigMap list \<times> DaemonSet list) res" where
  "ComputeMockPoolResources K M cfg params s =
     pools_resources K M cfg params s (sort (remdups (map fst (NodePools cfg))))"

section \<open>diff.go\<close>

text \<open>A command that is nil and one that is empty, which the comparison tells apart, are both the empty list.\<close>

definition daemonsetNeedsUpdate :: "DaemonSet \<Rightarrow> DaemonSet \<Rightarrow> bool" where
  "daemonsetNeedsUpdate want have =
     (case (ds_Containers want, ds_Containers have) of
        (wantC # _, haveC # _) \<Rightarrow>
          dc_Image wantC \<noteq> dc_Image haveC \<or> dc_Command wantC \<noteq> dc_Command haveC \<or> dc_Args wantC \<noteq> dc_Args haveC \<or>
          dc_Lifecycle wantC \<noteq> dc_Lifecycle haveC \<or>
          (case ds_PodAnnotations want ConfigHashAnnotation of None \<Rightarrow> [] | Some v \<Rightarrow> v) \<noteq>
          (case ds_PodAnnotations have ConfigHashAnnotation of None \<Rightarrow> [] | Some v \<Rightarrow> v)
      | _ \<Rightarrow> True)"

definition DiffDaemonSets ::
    "((string \<times> DaemonSet) list \<Rightarrow> (string \<times> DaemonSet) list) \<Rightarrow> DaemonSet list \<Rightarrow> DaemonSet list \<Rightarrow> DaemonSet object_diff" where
  "DiffDaemonSets =
     diff_named ds_Name daemonsetNeedsUpdate (\<lambda>want have. want\<lparr>ds_ResourceVersion := ds_ResourceVersion have\<rparr>)"

text \<open>A missing key reads as the empty text.\<close>

definition configmapNeedsUpdate :: "'y \<Rightarrow> 'y VConfigMap \<Rightarrow> 'y VConfigMap \<Rightarrow> bool" where
  "configmapNeedsUpdate noText want have \<longleftrightarrow>
     (case cm_Data want configKey of None \<Rightarrow> noText | Some y \<Rightarrow> y) \<noteq> (case cm_Data have configKey of None \<Rightarrow> noText | Some y \<Rightarrow> y)"

definition DiffConfigMaps ::
    "'y \<Rightarrow> ((string \<times> 'y VConfigMap) list \<Rightarrow> (string \<times> 'y VConfigMap) list) \<Rightarrow> 'y VConfigMap list \<Rightarrow> 'y VConfigMap list
     \<Rightarrow> 'y VConfigMap object_diff" where
  "DiffConfigMaps noText =
     diff_named cm_Name (configmapNeedsUpdate noText) (\<lambda>want have. want\<lparr>cm_ResourceVersion := cm_ResourceVersion have\<rparr>)"

section \<open>reconciler.go, controller.go\<close>

definition readTopologyConfig :: "('s, 'q, 'y) kube_env \<Rightarrow> ReconcileParams \<Rightarrow> 's \<Rightarrow> ClusterConfig res" where
  "readTopologyConfig K params s = rbind (of_sum (cm_get K (rc_Namespace params) ''topology'' s)) (FromClusterConfigCM K)"

definition managedSelector :: "(string \<times> string) list" where
  "managedSelector = [(LabelManagedBy, LabelManagedByValue), (LabelComponent, ComponentNvmlMock)]"

definition reconcileDaemonSets :: "('s, 'y) mock_env \<Rightarrow> ReconcileParams \<Rightarrow> DaemonSet list \<Rightarrow> 's \<Rightarrow> unit res \<times> 's" where
  "reconcileDaemonSets M params desired s =
     (let api = daemon_sets M; ns = rc_Namespace params in
      case k_list api ns managedSelector s of
        Inl e \<Rightarrow> (Err (Wrap ''listing managed DaemonSets'' e), s)
      | Inr actual \<Rightarrow>
          apply_diff (k_create api ns) (k_update api ns) (k_delete api ns) ds_Name (DiffDaemonSets (visit_ds M) desired actual) s)"

definition reconcileConfigMaps ::
    "('s, 'q, 'y) kube_env \<Rightarrow> ('s, 'y) mock_env \<Rightarrow> ReconcileParams \<Rightarrow> 'y VConfigMap list \<Rightarrow> 's \<Rightarrow> unit res \<times> 's" where
  "reconcileConfigMaps K M params desired s =
     (let api = config_maps M; ns = rc_Namespace params in
      case k_list api ns managedSelector s of
        Inl e \<Rightarrow> (Err (Wrap ''listing managed ConfigMaps'' e), s)
      | Inr actual \<Rightarrow>
          apply_diff (k_create api ns) (k_update api ns) (k_delete api ns) cm_Name
            (DiffConfigMaps (empty_text K) (visit_cm M) desired actual) s)"

definition ReconcileMock :: "('s, 'q, 'y) kube_env \<Rightarrow> ('s, 'y) mock_env \<Rightarrow> ReconcileParams \<Rightarrow> 's \<Rightarrow> unit res \<times> 's" where
  "ReconcileMock K M params s =
     sbind (wrap_err ''reading topology config'' (readTopologyConfig K params s), s) (\<lambda>cfg s.
     sbind (wrap_err ''computing mock pool resources'' (ComputeMockPoolResources K M cfg params s), s) (\<lambda>(configMaps, daemonSets) s.
     sbind (case reconcileConfigMaps K M params configMaps s of (r, s) \<Rightarrow> (wrap_err ''reconciling ConfigMaps'' r, s)) (\<lambda>_ s.
     case reconcileDaemonSets M params daemonSets s of (r, s) \<Rightarrow> (wrap_err ''reconciling DaemonSets'' r, s))))"

text \<open>\<^verbatim>\<open>handleEvent\<close>: an event of the ConfigMap with the topology; \<open>None\<close> is an object of another type.\<close>

definition handleEvent ::
    "('s, 'q, 'y) kube_env \<Rightarrow> ('s, 'y) mock_env \<Rightarrow> ReconcileParams \<Rightarrow> 'y ConfigMap option \<Rightarrow> 's \<Rightarrow> unit res \<times> 's" where
  "handleEvent K M params obj s =
     (case obj of
        None \<Rightarrow> (Ok (), s)
      | Some cm \<Rightarrow>
          if cm_Name cm \<noteq> ''topology'' then (Ok (), s)
          else case ReconcileMock K M params s of (Err e, s') \<Rightarrow> (Ok (), s') | r \<Rightarrow> r)"

end
