(* ===== verification/MockProps.thy ===== *)
theory MockProps
  imports MockPools
begin

text \<open>
  What the reconciliation of the mock pools promises: one ConfigMap and one DaemonSet for each mock pool, each
  DaemonSet carrying the hash of its ConfigMap, and a cluster that has exactly those after a pass.  The
  contract with the API is \<open>kind_ok\<close>; under it a kind of objects is an \<open>object_kind\<close>.
\<close>

section \<open>The contract of the API\<close>

definition selected :: "(string \<times> string) list \<Rightarrow> (string \<rightharpoonup> string) \<Rightarrow> bool" where
  "selected sel labels \<longleftrightarrow> list_all (\<lambda>(k, v). labels k = Some v) sel"

text \<open>\<open>get\<close>: the objects of a namespace by name. The server may default what an object leaves open.\<close>

definition kind_ok ::
    "(string \<Rightarrow> 's \<Rightarrow> string \<Rightarrow> 'o option) \<Rightarrow> ('o \<Rightarrow> string) \<Rightarrow> ('o \<Rightarrow> string \<rightharpoonup> string) \<Rightarrow> ('o \<Rightarrow> 'o \<Rightarrow> bool)
     \<Rightarrow> ('s, 'o) kind_api \<Rightarrow> bool" where
  "kind_ok get name labels stored api \<longleftrightarrow>
     (\<forall>ns s n x. get ns s n = Some x \<longrightarrow> name x = n) \<and>
     (\<forall>ns sel s xs. k_list api ns sel s = Inr xs \<longrightarrow>
        distinct (map name xs) \<and> (\<forall>x. x \<in> set xs \<longleftrightarrow> get ns s (name x) = Some x \<and> selected sel (labels x))) \<and>
     (\<forall>ns x s s'. k_create api ns x s = (Inr (), s') \<longrightarrow>
        get ns s (name x) = None \<and> (\<exists>y. get ns s' (name x) = Some y \<and> stored x y) \<and>
        (\<forall>m. m \<noteq> name x \<longrightarrow> get ns s' m = get ns s m)) \<and>
     (\<forall>ns x s s'. k_update api ns x s = (Inr (), s') \<longrightarrow>
        (\<exists>y. get ns s' (name x) = Some y \<and> stored x y) \<and> (\<forall>m. m \<noteq> name x \<longrightarrow> get ns s' m = get ns s m)) \<and>
     (\<forall>ns n s s'. k_delete api ns n s = (Inr (), s') \<longrightarrow>
        get ns s' n = None \<and> (\<forall>m. m \<noteq> n \<longrightarrow> get ns s' m = get ns s m))"

text \<open>What the server keeps of a DaemonSet, of a ConfigMap, that it is sent.\<close>

definition same_program :: "DsContainer \<Rightarrow> DsContainer \<Rightarrow> bool" where
  "same_program c d \<longleftrightarrow>
     dc_Image d = dc_Image c \<and> dc_Command d = dc_Command c \<and> dc_Args d = dc_Args c \<and> dc_Lifecycle d = dc_Lifecycle c"

definition ds_stored :: "DaemonSet \<Rightarrow> DaemonSet \<Rightarrow> bool" where
  "ds_stored x y \<longleftrightarrow>
     ds_Name y = ds_Name x \<and> ds_Labels y = ds_Labels x \<and> ds_PodAnnotations y = ds_PodAnnotations x \<and>
     list_all2 same_program (ds_Containers x) (ds_Containers y)"

definition cm_stored :: "'y VConfigMap \<Rightarrow> 'y VConfigMap \<Rightarrow> bool" where
  "cm_stored x y \<longleftrightarrow> cm_Name y = cm_Name x \<and> cm_Labels y = cm_Labels x \<and> cm_Data y = cm_Data x"

lemma object_kind_of:
  assumes "kind_ok get name labels stored api"
    and "\<And>x y. stored x y \<Longrightarrow> labels y = labels x" and "\<And>x h y. stored (stamp x h) y \<Longrightarrow> stored x y"
    and "\<And>x h. name (stamp x h) = name x" and "\<And>x y. fit x \<Longrightarrow> stored x y \<Longrightarrow> \<not> needs x y"
  shows "object_kind (get ns) (k_list api ns sel) (k_create api ns) (k_update api ns) (k_delete api ns) name
    (\<lambda>x. selected sel (labels x)) stored fit needs stamp"
proof -
  note k = assms(1) [unfolded kind_ok_def]
  note get_name = k [THEN conjunct1, rule_format] and k1 = k [THEN conjunct2]
  note list_ok = k1 [THEN conjunct1, rule_format] and k2 = k1 [THEN conjunct2]
  note create_ok = k2 [THEN conjunct1, rule_format] and k3 = k2 [THEN conjunct2]
  note update_ok = k3 [THEN conjunct1, rule_format] and delete_ok = k3 [THEN conjunct2, rule_format]
  show ?thesis
  proof (rule object_kind.intro)
    show "distinct (map name xs) \<and> (\<forall>x. x \<in> set xs \<longleftrightarrow> get ns s (name x) = Some x \<and> selected sel (labels x))"
      if "k_list api ns sel s = Inr xs" for s xs using list_ok [OF that] by simp
    show "get ns s (name x) = None \<and> (\<exists>y. get ns s' (name x) = Some y \<and> stored x y) \<and> (\<forall>m. m \<noteq> name x \<longrightarrow> get ns s' m = get ns s m)"
      if "k_create api ns x s = (Inr (), s')" for x s s' using create_ok [OF that] by simp
    show "(\<exists>y. get ns s' (name x) = Some y \<and> stored x y) \<and> (\<forall>m. m \<noteq> name x \<longrightarrow> get ns s' m = get ns s m)"
      if "k_update api ns x s = (Inr (), s')" for x s s' using update_ok [OF that] by simp
    show "get ns s' n = None \<and> (\<forall>m. m \<noteq> n \<longrightarrow> get ns s' m = get ns s m)"
      if "k_delete api ns n s = (Inr (), s')" for n s s' using delete_ok [OF that] by simp
  qed (use get_name assms(2-5) in simp_all)
qed

lemma ds_kind:
  assumes "kind_ok get ds_Name ds_Labels ds_stored api"
  shows "object_kind (get ns) (k_list api ns sel) (k_create api ns) (k_update api ns) (k_delete api ns) ds_Name
    (\<lambda>x. selected sel (ds_Labels x)) ds_stored (\<lambda>x. ds_Containers x \<noteq> []) daemonsetNeedsUpdate
    (\<lambda>want have. want\<lparr>ds_ResourceVersion := ds_ResourceVersion have\<rparr>)"
  by (rule object_kind_of [OF assms])
    (auto simp: ds_stored_def daemonsetNeedsUpdate_def same_program_def list_all2_conv_all_nth neq_Nil_conv length_Suc_conv
      split: list.split)

lemma cm_kind:
  assumes "kind_ok get cm_Name cm_Labels cm_stored api"
  shows "object_kind (get ns) (k_list api ns sel) (k_create api ns) (k_update api ns) (k_delete api ns) cm_Name
    (\<lambda>x. selected sel (cm_Labels x)) cm_stored (\<lambda>x. True) (configmapNeedsUpdate noText)
    (\<lambda>want have. want\<lparr>cm_ResourceVersion := cm_ResourceVersion have\<rparr>)"
  by (rule object_kind_of [OF assms]) (simp_all add: cm_stored_def configmapNeedsUpdate_def)

section \<open>The desired resources\<close>

lemma BuildDaemonSet_simps [simp]:
  "ds_Name (BuildDaemonSet p) = resourceName (bp_Pool p)" "ds_Containers (BuildDaemonSet p) = [mock_container p]"
  "ds_Labels (BuildDaemonSet p) = managedLabels (bp_Pool p)"
  "ds_PodAnnotations (BuildDaemonSet p) = [ConfigHashAnnotation \<mapsto> bp_ConfigHash p]"
  by (simp_all add: BuildDaemonSet_def Let_def)

lemma managed_selected [simp]: "selected managedSelector (managedLabels pool)"
  by (simp add: selected_def managedSelector_def managedLabels_def LabelManagedBy_def LabelComponent_def LabelPool_def)

text \<open>The pair of one pool\<close>

definition pool_pair :: "('s, 'y) mock_env \<Rightarrow> string \<Rightarrow> 'y VConfigMap \<times> DaemonSet \<Rightarrow> bool" where
  "pool_pair M pool r \<longleftrightarrow>
     (case r of (cm, ds) \<Rightarrow>
        cm_Name cm = resourceName pool \<and> ds_Name ds = resourceName pool \<and>
        selected managedSelector (cm_Labels cm) \<and> selected managedSelector (ds_Labels ds) \<and> ds_Containers ds \<noteq> [] \<and>
        (\<exists>y. cm_Data cm configKey = Some y \<and> ds_PodAnnotations ds ConfigHashAnnotation = Some (configHash M y)))"

lemma pool_resources_pair: "pool_resources K M cfg params s name pool = Ok r \<Longrightarrow> pool_pair M name r"
  by (auto simp: pool_resources_def rbind_eq_Ok pool_pair_def BuildConfigMap_def split: prod.splits)

definition is_mock :: "ClusterConfig \<Rightarrow> string \<Rightarrow> bool" where
  "is_mock cfg name \<longleftrightarrow> (case map_of (NodePools cfg) name of None \<Rightarrow> False | Some pool \<Rightarrow> Backend (Gpu pool) = BackendMock)"

lemma pools_resources_pairs:
  "pools_resources K M cfg params s names = Ok (cms, dss) \<Longrightarrow>
    list_all2 (pool_pair M) (filter (is_mock cfg) names) (zip cms dss) \<and> length dss = length cms"
proof (induction names arbitrary: cms dss)
  case (Cons name names)
  show ?case
  proof (cases "is_mock cfg name")
    case False
    have "pools_resources K M cfg params s names = Ok (cms, dss)"
      using Cons.prems False by (auto simp: is_mock_def split: option.splits if_splits)
    with Cons.IH False show ?thesis by simp
  next
    case True
    then obtain pool where pool: "map_of (NodePools cfg) name = Some pool" "Backend (Gpu pool) = BackendMock"
      by (auto simp: is_mock_def split: option.splits)
    with Cons.prems obtain cm ds cms1 dss1 where "pool_resources K M cfg params s name pool = Ok (cm, ds)"
        and rest: "pools_resources K M cfg params s names = Ok (cms1, dss1)" and e: "cms = cm # cms1" "dss = ds # dss1"
      by (auto simp: rbind_eq_Ok split: prod.splits)
    with Cons.IH [OF rest] True pool_resources_pair show ?thesis by simp
  qed
qed simp

section \<open>A whole pass\<close>

text \<open>The operations on one kind of objects leave another alone.\<close>

definition keeps :: "('s \<Rightarrow> 'v) \<Rightarrow> ('s, 'o) kind_api \<Rightarrow> bool" where
  "keeps view api \<longleftrightarrow>
     (\<forall>ns x s. view (snd (k_create api ns x s)) = view s) \<and> (\<forall>ns x s. view (snd (k_update api ns x s)) = view s) \<and>
     (\<forall>ns n s. view (snd (k_delete api ns n s)) = view s)"

lemma apply_each_keeps:
  assumes "\<And>x s. view (snd (f x s)) = view s"
  shows "view (snd (apply_each m f xs s)) = view s"
proof (induction xs arbitrary: s)
  case (Cons x xs)
  obtain r s1 where f: "f x s = (r, s1)" by force
  with assms [of x s] have "view s1 = view s" by simp
  with Cons.IH f show ?case by (cases r) simp_all
qed simp

lemma apply_diff_keeps:
  assumes "keeps view api" and "apply_diff (k_create api ns) (k_update api ns) (k_delete api ns) name d s = (Ok (), s')"
  shows "view s' = view s"
proof -
  have k: "\<And>x s. view (snd (k_create api ns x s)) = view s" "\<And>x s. view (snd (k_update api ns x s)) = view s"
      "\<And>x s. view (snd (k_delete api ns (name x) s)) = view s"
    using assms(1) by (simp_all add: keeps_def)
  obtain s1 s2 where c: "apply_each ''creating'' (k_create api ns) (ToCreate d) s = (Ok (), s1)"
    and u: "apply_each ''updating'' (k_update api ns) (ToUpdate d) s1 = (Ok (), s2)"
    and d: "apply_each ''deleting'' (\<lambda>x. k_delete api ns (name x)) (ToDelete d) s2 = (Ok (), s')"
    using assms(2) unfolding apply_diff_def by (auto elim!: sbind_eq_OkD)
  show ?thesis
    using apply_each_keeps [of view "k_create api ns" "''creating''" "ToCreate d" s, OF k(1)]
      apply_each_keeps [of view "k_update api ns" "''updating''" "ToUpdate d" s1, OF k(2)]
      apply_each_keeps [of view "\<lambda>x. k_delete api ns (name x)" "''deleting''" "ToDelete d" s2, OF k(3)] c u d
    by simp
qed

text \<open>What a pass establishes of the objects: of DaemonSets, of ConfigMaps.\<close>

definition or_empty :: "string option \<Rightarrow> string" where
  "or_empty v = (case v of None \<Rightarrow> [] | Some x \<Rightarrow> x)"

lemma ReconcileMock_steps:
  assumes "ReconcileMock K M params s = (Ok (), s')"
  obtains cfg cms dss s1 where "readTopologyConfig K params s = Ok cfg"
    and "ComputeMockPoolResources K M cfg params s = Ok (cms, dss)"
    and "reconcileConfigMaps K M params cms s = (Ok (), s1)" and "reconcileDaemonSets M params dss s1 = (Ok (), s')"
  using assms unfolding ReconcileMock_def by (auto elim!: sbind_eq_OkD split: prod.splits)

lemma ds_pass:
  assumes "kind_ok get ds_Name ds_Labels ds_stored (daemon_sets M)" and "\<forall>m. mset (visit_ds M m) = mset m"
    and "\<forall>ds \<in> set desired. ds_Containers ds \<noteq> [] \<and> selected managedSelector (ds_Labels ds)"
    and "reconcileDaemonSets M params desired s = (Ok (), s')"
  shows "map_of (by_name ds_Name desired) n = Some want \<Longrightarrow>
      \<exists>have. get (rc_Namespace params) s' n = Some have \<and> \<not> daemonsetNeedsUpdate want have"
    and "map_of (by_name ds_Name desired) n = None \<Longrightarrow> get (rc_Namespace params) s' n =
      (case get (rc_Namespace params) s n of None \<Rightarrow> None | Some ds \<Rightarrow> if selected managedSelector (ds_Labels ds) then None else Some ds)"
proof -
  let ?api = "daemon_sets M" and ?ns = "rc_Namespace params"
  obtain actual where l: "k_list ?api ?ns managedSelector s = Inr actual"
    and run: "apply_diff (k_create ?api ?ns) (k_update ?api ?ns) (k_delete ?api ?ns) ds_Name
      (diff_named ds_Name daemonsetNeedsUpdate (\<lambda>want have. want\<lparr>ds_ResourceVersion := ds_ResourceVersion have\<rparr>)
        (visit_ds M) desired actual) s = (Ok (), s')"
    using assms(4) by (auto simp: reconcileDaemonSets_def DiffDaemonSets_def Let_def split: sum.splits)
  note r = object_kind.reconciled [OF ds_kind [OF assms(1)] l run assms(2,3)]
  show "\<exists>have. get ?ns s' n = Some have \<and> \<not> daemonsetNeedsUpdate want have" if "map_of (by_name ds_Name desired) n = Some want"
    using r(1) [OF that] by blast
  show "get ?ns s' n = (case get ?ns s n of None \<Rightarrow> None | Some ds \<Rightarrow> if selected managedSelector (ds_Labels ds) then None else Some ds)"
    if "map_of (by_name ds_Name desired) n = None" by (rule r(2) [OF that])
qed

lemma reconcileConfigMaps_runs:
  assumes "reconcileConfigMaps K M params desired s = (Ok (), s')"
  obtains before where "k_list (config_maps M) (rc_Namespace params) managedSelector s = Inr before"
    and "apply_diff (k_create (config_maps M) (rc_Namespace params)) (k_update (config_maps M) (rc_Namespace params))
      (k_delete (config_maps M) (rc_Namespace params)) cm_Name
      (diff_named cm_Name (configmapNeedsUpdate (empty_text K)) (\<lambda>want have. want\<lparr>cm_ResourceVersion := cm_ResourceVersion have\<rparr>)
        (visit_cm M) desired before) s = (Ok (), s')"
  using assms by (auto simp: reconcileConfigMaps_def DiffConfigMaps_def Let_def split: sum.splits)

lemma cm_pass:
  assumes "kind_ok get cm_Name cm_Labels cm_stored (config_maps M)" and "\<forall>m. mset (visit_cm M m) = mset m"
    and "\<forall>cm \<in> set desired. selected managedSelector (cm_Labels cm)"
    and "reconcileConfigMaps K M params desired s = (Ok (), s')" and "map_of (by_name cm_Name desired) n = Some want"
  shows "\<exists>have. get (rc_Namespace params) s' n = Some have \<and> \<not> configmapNeedsUpdate (empty_text K) want have"
proof (rule reconcileConfigMaps_runs [OF assms(4)])
  fix before
  assume l: "k_list (config_maps M) (rc_Namespace params) managedSelector s = Inr before"
    and run: "apply_diff (k_create (config_maps M) (rc_Namespace params)) (k_update (config_maps M) (rc_Namespace params))
      (k_delete (config_maps M) (rc_Namespace params)) cm_Name
      (diff_named cm_Name (configmapNeedsUpdate (empty_text K)) (\<lambda>want have. want\<lparr>cm_ResourceVersion := cm_ResourceVersion have\<rparr>)
        (visit_cm M) desired before) s = (Ok (), s')"
  have fit: "\<forall>cm \<in> set desired. True \<and> selected managedSelector (cm_Labels cm)" using assms(3) by simp
  show ?thesis using object_kind.reconciled(1) [OF cm_kind [OF assms(1)] l run assms(2) fit assms(5)] by blast
qed

text \<open>The pairs of a computation, by pool\<close>

lemma computed_pairs:
  assumes "ComputeMockPoolResources K M cfg params s = Ok (cms, dss)"
  defines "ps \<equiv> filter (is_mock cfg) (sort (remdups (map fst (NodePools cfg))))"
  shows "list_all2 (pool_pair M) ps (zip cms dss)" and "length dss = length cms"
    and "map ds_Name dss = map resourceName ps" and "map cm_Name cms = map resourceName ps"
    and "distinct (map resourceName ps)"
proof -
  show p: "list_all2 (pool_pair M) ps (zip cms dss)" and l: "length dss = length cms"
    using pools_resources_pairs [OF assms(1) [unfolded ComputeMockPoolResources_def]] by (simp_all add: ps_def)
  show "map ds_Name dss = map resourceName ps" "map cm_Name cms = map resourceName ps"
    using p l by (auto intro!: nth_equalityI simp: list_all2_conv_all_nth pool_pair_def)
  show "distinct (map resourceName ps)" by (simp add: ps_def distinct_map inj_on_def resourceName_def)
qed

section \<open>Properties\<close>

text \<open>
  The desired resources are one ConfigMap and one DaemonSet for each mock pool, in the order of the
  pools' names, with different names, and each DaemonSet is stamped with the hash of its ConfigMap.
\<close>

theorem mock_resources:
  assumes "ComputeMockPoolResources K M cfg params s = Ok (cms, dss)"
  shows "list_all2 (pool_pair M) (filter (is_mock cfg) (sort (remdups (map fst (NodePools cfg))))) (zip cms dss) \<and>
    length dss = length cms \<and> distinct (map ds_Name dss)"
  using computed_pairs [OF assms] by simp

text \<open>
  C20. A successful pass over the DaemonSets leaves the cluster with exactly the desired ones: each is there and
  needs no update, every other managed one is gone, and what is not managed is untouched.
\<close>

theorem daemon_sets_reconciled:
  assumes "kind_ok get ds_Name ds_Labels ds_stored (daemon_sets M)" and "\<forall>m. mset (visit_ds M m) = mset m"
    and "\<forall>ds \<in> set desired. ds_Containers ds \<noteq> [] \<and> selected managedSelector (ds_Labels ds)"
    and "reconcileDaemonSets M params desired s = (Ok (), s')"
  shows "\<forall>n. case map_of (by_name ds_Name desired) n of
      Some want \<Rightarrow> \<exists>have. get (rc_Namespace params) s' n = Some have \<and> \<not> daemonsetNeedsUpdate want have
    | None \<Rightarrow> get (rc_Namespace params) s' n =
        (case get (rc_Namespace params) s n of
           None \<Rightarrow> None | Some ds \<Rightarrow> if selected managedSelector (ds_Labels ds) then None else Some ds)"
proof
  fix n
  note r = ds_pass [OF assms]
  show "case map_of (by_name ds_Name desired) n of
      Some want \<Rightarrow> \<exists>have. get (rc_Namespace params) s' n = Some have \<and> \<not> daemonsetNeedsUpdate want have
    | None \<Rightarrow> get (rc_Namespace params) s' n =
        (case get (rc_Namespace params) s n of
           None \<Rightarrow> None | Some ds \<Rightarrow> if selected managedSelector (ds_Labels ds) then None else Some ds)"
  proof (cases "map_of (by_name ds_Name desired) n")
    case None
    with r(2) [OF None] show ?thesis by simp
  next
    case (Some want)
    show ?thesis unfolding Some option.case by (rule r(1) [OF Some])
  qed
qed

text \<open>After a successful pass over the ConfigMaps the next comparison finds nothing to do.\<close>

theorem config_maps_settled:
  assumes "kind_ok get cm_Name cm_Labels cm_stored (config_maps M)" and "\<forall>m. mset (visit_cm M m) = mset m"
    and "\<forall>cm \<in> set desired. selected managedSelector (cm_Labels cm)"
    and "reconcileConfigMaps K M params desired s = (Ok (), s')"
    and "k_list (config_maps M) (rc_Namespace params) managedSelector s' = Inr actual"
  shows "DiffConfigMaps (empty_text K) (visit_cm M) desired actual = \<lparr>ToCreate = [], ToUpdate = [], ToDelete = []\<rparr>"
proof (rule reconcileConfigMaps_runs [OF assms(4)])
  fix before
  assume l: "k_list (config_maps M) (rc_Namespace params) managedSelector s = Inr before"
    and run: "apply_diff (k_create (config_maps M) (rc_Namespace params)) (k_update (config_maps M) (rc_Namespace params))
      (k_delete (config_maps M) (rc_Namespace params)) cm_Name
      (diff_named cm_Name (configmapNeedsUpdate (empty_text K)) (\<lambda>want have. want\<lparr>cm_ResourceVersion := cm_ResourceVersion have\<rparr>)
        (visit_cm M) desired before) s = (Ok (), s')"
  show ?thesis unfolding DiffConfigMaps_def
    by (rule object_kind.settled_diff [OF cm_kind [OF assms(1)] l run assms(2) _ assms(5)]) (use assms(3) in simp)
qed

text \<open>
  C14. After a successful pass each mock pool has its ConfigMap and a DaemonSet that carries the hash of what that
  ConfigMap holds, and every managed DaemonSet is one of a mock pool.
\<close>

theorem mock_pass:
  assumes ds: "kind_ok get_ds ds_Name ds_Labels ds_stored (daemon_sets M)" "\<forall>m. mset (visit_ds M m) = mset m"
    and cm: "kind_ok get_cm cm_Name cm_Labels cm_stored (config_maps M)" "\<forall>m. mset (visit_cm M m) = mset m"
    and apart: "keeps (get_cm (rc_Namespace params)) (daemon_sets M)"
    and run: "ReconcileMock K M params s = (Ok (), s')"
  shows "\<exists>cfg. readTopologyConfig K params s = Ok cfg \<and>
    (\<forall>pool. is_mock cfg pool \<longrightarrow> (\<exists>cm ds.
       get_cm (rc_Namespace params) s' (resourceName pool) = Some cm \<and> get_ds (rc_Namespace params) s' (resourceName pool) = Some ds \<and>
       or_empty (ds_PodAnnotations ds ConfigHashAnnotation) =
       configHash M (case cm_Data cm configKey of None \<Rightarrow> empty_text K | Some y \<Rightarrow> y))) \<and>
    (\<forall>n ds. get_ds (rc_Namespace params) s' n = Some ds \<and> selected managedSelector (ds_Labels ds) \<longrightarrow>
       (\<exists>pool. is_mock cfg pool \<and> n = resourceName pool))"
  using run
proof (rule ReconcileMock_steps)
  let ?ns = "rc_Namespace params"
  fix cfg cms dss s1
  assume cfg: "readTopologyConfig K params s = Ok cfg" and comp: "ComputeMockPoolResources K M cfg params s = Ok (cms, dss)"
    and c: "reconcileConfigMaps K M params cms s = (Ok (), s1)" and d: "reconcileDaemonSets M params dss s1 = (Ok (), s')"
  define ps where "ps = filter (is_mock cfg) (sort (remdups (map fst (NodePools cfg))))"
  note pairs = computed_pairs [OF comp, folded ps_def]
  have pair: "pool_pair M (ps ! i) (cms ! i, dss ! i)" if "i < length ps" for i
    using pairs(1) that by (auto simp: list_all2_conv_all_nth)
  have len: "length cms = length ps" "length dss = length ps"
    using pairs(3,4) by (metis length_map)+
  have fit_ds: "\<forall>ds \<in> set dss. ds_Containers ds \<noteq> [] \<and> selected managedSelector (ds_Labels ds)"
    and fit_cm: "\<forall>cm \<in> set cms. selected managedSelector (cm_Labels cm)"
    using pair len by (auto simp: in_set_conv_nth pool_pair_def)
  have same: "get_cm ?ns s' = get_cm ?ns s1"
    using d apply_diff_keeps [OF apart] by (auto simp: reconcileDaemonSets_def Let_def split: sum.splits)
  have one: "\<exists>cm ds. get_cm ?ns s' (resourceName pool) = Some cm \<and> get_ds ?ns s' (resourceName pool) = Some ds \<and>
      or_empty (ds_PodAnnotations ds ConfigHashAnnotation) =
      configHash M (case cm_Data cm configKey of None \<Rightarrow> empty_text K | Some y \<Rightarrow> y)" if "is_mock cfg pool" for pool
  proof -
    have "pool \<in> set ps" using that by (auto simp: ps_def is_mock_def intro: weak_map_of_SomeI split: option.splits dest!: map_of_SomeD) force
    then obtain i where i: "i < length ps" "ps ! i = pool" by (auto simp: in_set_conv_nth)
    from pair [OF i(1)] i(2) obtain y where n: "cm_Name (cms ! i) = resourceName pool" "ds_Name (dss ! i) = resourceName pool"
      and y: "cm_Data (cms ! i) configKey = Some y" "ds_PodAnnotations (dss ! i) ConfigHashAnnotation = Some (configHash M y)"
      by (auto simp: pool_pair_def)
    have "map_of (by_name cm_Name cms) (resourceName pool) = Some (cms ! i)"
      using by_name_unique [of cm_Name cms "cms ! i"] pairs(4,5) i(1) len n by simp
    from cm_pass [OF cm fit_cm c this] obtain have_cm where hc: "get_cm ?ns s1 (resourceName pool) = Some have_cm"
      "\<not> configmapNeedsUpdate (empty_text K) (cms ! i) have_cm" by blast
    have "map_of (by_name ds_Name dss) (resourceName pool) = Some (dss ! i)"
      using by_name_unique [of ds_Name dss "dss ! i"] pairs(3,5) i(1) len n by simp
    from ds_pass(1) [OF ds fit_ds d this] obtain have_ds where hd: "get_ds ?ns s' (resourceName pool) = Some have_ds"
      "\<not> daemonsetNeedsUpdate (dss ! i) have_ds" by blast
    from hd(2) y(2) have "or_empty (ds_PodAnnotations have_ds ConfigHashAnnotation) = configHash M y"
      by (auto simp: daemonsetNeedsUpdate_def or_empty_def split: list.splits)
    with hc hd(1) y(1) same show ?thesis by (simp add: configmapNeedsUpdate_def)
  qed
  have only: "\<exists>pool. is_mock cfg pool \<and> n = resourceName pool"
    if g: "get_ds ?ns s' n = Some ds'" "selected managedSelector (ds_Labels ds')" for n ds'
  proof (cases "map_of (by_name ds_Name dss) n")
    case None
    from ds_pass(2) [OF ds fit_ds d None] g show ?thesis by (auto split: option.splits if_splits)
  next
    case (Some want)
    then have "n \<in> set (map ds_Name dss)" using by_name_entry [of n want ds_Name dss] by (auto simp: by_name_lookup)
    then show ?thesis unfolding pairs(3) by (auto simp: ps_def)
  qed
  show ?thesis using cfg one only by blast
qed

text \<open>
  A DaemonSet is not updated when only its node selector differs: renaming the label key of the node pools
  leaves the DaemonSets on the nodes of the old key.
\<close>

theorem selector_change_ignored:
  "\<not> daemonsetNeedsUpdate (BuildDaemonSet (p\<lparr>bp_NodePoolLabelKey := newKey\<rparr>)) (BuildDaemonSet p)"
  by (simp add: daemonsetNeedsUpdate_def mock_container_def)

end
