(* ===== verification/MockStore.thy ===== *)
theory MockStore
  imports MockProps RefServer
begin

text \<open>
  A store of objects by namespace and name, inside any state, that meets the contract \<open>kind_ok\<close>: the
  instance at which the properties of the mock pools are applied, and at which \<open>object_kind\<close> is
  interpreted for DaemonSets and for ConfigMaps.
\<close>

type_synonym 'o store = "((string \<times> string) \<times> 'o) list"

definition store_get :: "('o \<Rightarrow> string) \<Rightarrow> string \<Rightarrow> 'o store \<Rightarrow> string \<Rightarrow> 'o option" where
  "store_get name ns xs n = (case map_of xs (ns, n) of None \<Rightarrow> None | Some x \<Rightarrow> if name x = n then Some x else None)"

definition store_list ::
    "('o \<Rightarrow> string) \<Rightarrow> ('o \<Rightarrow> string \<rightharpoonup> string) \<Rightarrow> string \<Rightarrow> (string \<times> string) list \<Rightarrow> 'o store \<Rightarrow> 'o list" where
  "store_list name labels ns sel xs =
     [x. ((ns', n), x) \<leftarrow> AList.clearjunk xs, ns' = ns \<and> name x = n \<and> selected sel (labels x)]"

definition ref_kind ::
    "('s \<Rightarrow> 'o store) \<Rightarrow> ('o store \<Rightarrow> 's \<Rightarrow> 's) \<Rightarrow> ('o \<Rightarrow> string) \<Rightarrow> ('o \<Rightarrow> string \<rightharpoonup> string) \<Rightarrow> ('s, 'o) kind_api" where
  "ref_kind g p name labels = \<lparr>
     k_list = (\<lambda>ns sel s. Inr (store_list name labels ns sel (g s))),
     k_create = (\<lambda>ns x s. if map_of (g s) (ns, name x) \<noteq> None then (Inl AlreadyExistsErr, s)
                          else (Inr (), p (AList.update (ns, name x) x (g s)) s)),
     k_update = (\<lambda>ns x s. if map_of (g s) (ns, name x) = None then (Inl NotFoundErr, s)
                          else (Inr (), p (AList.update (ns, name x) x (g s)) s)),
     k_delete = (\<lambda>ns n s. if map_of (g s) (ns, n) = None then (Inl NotFoundErr, s)
                          else (Inr (), p (AList.delete (ns, n) (g s)) s))\<rparr>"

lemma store_list_spec:
  "distinct (map name (store_list name labels ns sel xs))"
  "x \<in> set (store_list name labels ns sel xs) \<longleftrightarrow> store_get name ns xs (name x) = Some x \<and> selected sel (labels x)"
proof -
  have mem: "((ns', n), x) \<in> set (AList.clearjunk xs) \<longleftrightarrow> map_of xs (ns', n) = Some x" for ns' n x
    by (metis distinct_clearjunk map_of_clearjunk map_of_eq_Some_iff)
  show "x \<in> set (store_list name labels ns sel xs) \<longleftrightarrow> store_get name ns xs (name x) = Some x \<and> selected sel (labels x)"
    by (force simp: store_list_def store_get_def mem split: option.splits if_splits)
  have "distinct (map name [x. ((ns', n), x) \<leftarrow> ys, ns' = ns \<and> name x = n \<and> selected sel (labels x)]) \<and>
      name ` set [x. ((ns', n), x) \<leftarrow> ys, ns' = ns \<and> name x = n \<and> selected sel (labels x)] \<subseteq> {n. (ns, n) \<in> fst ` set ys}"
    if "distinct (map fst ys)" for ys :: "'a store"
    using that
  proof (induction ys)
    case (Cons y ys)
    obtain ns' n z where y: "y = ((ns', n), z)" by (metis prod.collapse)
    from Cons show ?case unfolding y by (auto simp: image_iff subset_iff)
  qed simp
  from this [OF distinct_clearjunk] show "distinct (map name (store_list name labels ns sel xs))"
    by (simp add: store_list_def)
qed

lemma ref_kind_ok:
  assumes "\<And>v s. g (p v s) = v" and "\<And>x. stored x x"
  shows "kind_ok (\<lambda>ns s. store_get name ns (g s)) name labels stored (ref_kind g p name labels)"
  unfolding kind_ok_def
proof (intro conjI)
  show "\<forall>ns s n x. store_get name ns (g s) n = Some x \<longrightarrow> name x = n"
    by (auto simp: store_get_def split: option.splits if_splits)
  show "\<forall>ns sel s xs. k_list (ref_kind g p name labels) ns sel s = Inr xs \<longrightarrow>
      distinct (map name xs) \<and> (\<forall>x. x \<in> set xs \<longleftrightarrow> store_get name ns (g s) (name x) = Some x \<and> selected sel (labels x))"
    by (auto simp: ref_kind_def store_list_spec)
qed (auto simp: ref_kind_def store_get_def map_of_update map_of_delete assms split: if_splits)

section \<open>The interface on the two kinds of objects\<close>

interpretation ref_ds: object_kind "store_get ds_Name ns" "k_list (ref_kind id (\<lambda>v _. v) ds_Name ds_Labels) ns sel"
    "k_create (ref_kind id (\<lambda>v _. v) ds_Name ds_Labels) ns" "k_update (ref_kind id (\<lambda>v _. v) ds_Name ds_Labels) ns"
    "k_delete (ref_kind id (\<lambda>v _. v) ds_Name ds_Labels) ns" ds_Name "\<lambda>x. selected sel (ds_Labels x)" ds_stored
    "\<lambda>x. ds_Containers x \<noteq> []" daemonsetNeedsUpdate "\<lambda>want have. want\<lparr>ds_ResourceVersion := ds_ResourceVersion have\<rparr>"
proof -
  have "kind_ok (\<lambda>ns s. store_get ds_Name ns (id s)) ds_Name ds_Labels ds_stored (ref_kind id (\<lambda>v _. v) ds_Name ds_Labels)"
    by (rule ref_kind_ok) (simp_all add: ds_stored_def same_program_def list_all2_refl)
  from ds_kind [OF this] show "object_kind (store_get ds_Name ns) (k_list (ref_kind id (\<lambda>v _. v) ds_Name ds_Labels) ns sel)
      (k_create (ref_kind id (\<lambda>v _. v) ds_Name ds_Labels) ns) (k_update (ref_kind id (\<lambda>v _. v) ds_Name ds_Labels) ns)
      (k_delete (ref_kind id (\<lambda>v _. v) ds_Name ds_Labels) ns) ds_Name (\<lambda>x. selected sel (ds_Labels x)) ds_stored
      (\<lambda>x. ds_Containers x \<noteq> []) daemonsetNeedsUpdate (\<lambda>want have. want\<lparr>ds_ResourceVersion := ds_ResourceVersion have\<rparr>)"
    by simp
qed

interpretation ref_cm: object_kind "store_get cm_Name ns" "k_list (ref_kind id (\<lambda>v _. v) cm_Name cm_Labels) ns sel"
    "k_create (ref_kind id (\<lambda>v _. v) cm_Name cm_Labels) ns" "k_update (ref_kind id (\<lambda>v _. v) cm_Name cm_Labels) ns"
    "k_delete (ref_kind id (\<lambda>v _. v) cm_Name cm_Labels) ns" cm_Name "\<lambda>x. selected sel (cm_Labels x)" cm_stored
    "\<lambda>x. True" "configmapNeedsUpdate noText" "\<lambda>want have. want\<lparr>cm_ResourceVersion := cm_ResourceVersion have\<rparr>"
proof -
  have "kind_ok (\<lambda>ns s. store_get cm_Name ns (id s)) cm_Name cm_Labels cm_stored (ref_kind id (\<lambda>v _. v) cm_Name cm_Labels)"
    by (rule ref_kind_ok) (simp_all add: cm_stored_def)
  from cm_kind [OF this] show "object_kind (store_get cm_Name ns) (k_list (ref_kind id (\<lambda>v _. v) cm_Name cm_Labels) ns sel)
      (k_create (ref_kind id (\<lambda>v _. v) cm_Name cm_Labels) ns) (k_update (ref_kind id (\<lambda>v _. v) cm_Name cm_Labels) ns)
      (k_delete (ref_kind id (\<lambda>v _. v) cm_Name cm_Labels) ns) cm_Name (\<lambda>x. selected sel (cm_Labels x)) cm_stored
      (\<lambda>x. True) (configmapNeedsUpdate noText) (\<lambda>want have. want\<lparr>cm_ResourceVersion := cm_ResourceVersion have\<rparr>)"
    by simp
qed

end
