(* ===== verification/Watch.thy ===== *)
theory Watch
  imports Metrics LabelsExport Nrt
begin

text \<open>
  \<^verbatim>\<open>internal/status-exporter/watch\<close>: the watcher of one node's topology, which publishes every
  version of it to its subscribers (kubewatcher.go), and the reconciler of all simulated nodes, which hands a
  node's topology to the exporters and takes a deleted node from the metrics (multi_node_watcher.go).
\<close>

section \<open>kubewatcher.go\<close>

text \<open>
  The channels that subscribed, in order, and what was sent on them.  A topology that cannot be parsed is
  raised as a panic.
\<close>

record watcher_state =
  subscribers :: "string list"
  sent :: "(string \<times> NodeTopology) list"

definition Subscribe :: "string \<Rightarrow> watcher_state \<Rightarrow> watcher_state" where
  "Subscribe subscriber w = w\<lparr>subscribers := subscribers w @ [subscriber]\<rparr>"

definition publishTopology :: "NodeTopology \<Rightarrow> watcher_state \<Rightarrow> watcher_state" where
  "publishTopology nt w = w\<lparr>sent := sent w @ map (\<lambda>c. (c, nt)) (subscribers w)\<rparr>"

text \<open>A turn of the loop: a ConfigMap from the watch, or the interval without one, when it is read.\<close>

datatype 'y watch_turn = FromWatch "'y ConfigMap" | Interval

definition publish_cm :: "('s, 'q, 'y) kube_env \<Rightarrow> 'y ConfigMap \<Rightarrow> watcher_state \<Rightarrow> unit res \<times> watcher_state" where
  "publish_cm K cm w =
     (case FromNodeTopologyCM K cm of
        Err e \<Rightarrow> (Panic (Raised e), w)
      | Panic p \<Rightarrow> (Panic p, w)
      | Ok nt \<Rightarrow> (Ok (), publishTopology nt w))"

definition Watch_turn :: "('s, 'q, 'y) kube_env \<Rightarrow> 'y watch_turn \<Rightarrow> 's \<Rightarrow> watcher_state \<Rightarrow> unit res \<times> watcher_state" where
  "Watch_turn K turn s w =
     (case turn of
        FromWatch cm \<Rightarrow> publish_cm K cm w
      | Interval \<Rightarrow>
          (case GetConfigMap K (TopologyCmNamespace K) (GetNodeTopologyCMName K (EnvNodeName K)) s of
             None \<Rightarrow> (Ok (), w)
           | Some cm \<Rightarrow> publish_cm K cm w))"

section \<open>multi\_node\_watcher.go\<close>

text \<open>
  The exporters, over the state \<open>'m\<close> of the metrics and the state \<open>'s\<close> of the cluster.  There may be no
  exporter of NodeResourceTopology objects.
\<close>

record ('s, 'm) exporters =
  x_SetMetrics :: "string \<Rightarrow> NodeTopology \<Rightarrow> 'm \<Rightarrow> unit res \<times> 'm"
  x_DeleteMetrics :: "string \<Rightarrow> 'm \<Rightarrow> unit res \<times> 'm"
  x_SetLabels :: "string \<Rightarrow> NodeTopology \<Rightarrow> 's \<Rightarrow> unit res \<times> 's"
  x_SetNRT :: "(string \<Rightarrow> NodeTopology \<Rightarrow> 's \<Rightarrow> unit res \<times> 's) option"

text \<open>An error that is logged, on a part of the state\<close>

definition log_fst :: "unit res \<times> 's \<Rightarrow> 'm \<Rightarrow> unit res \<times> 's \<times> 'm" where
  "log_fst r m = (case r of (Panic p, s) \<Rightarrow> (Panic p, s, m) | (_, s) \<Rightarrow> (Ok (), s, m))"

definition log_snd :: "unit res \<times> 'm \<Rightarrow> 's \<Rightarrow> unit res \<times> 's \<times> 'm" where
  "log_snd r s = (case r of (Panic p, m) \<Rightarrow> (Panic p, s, m) | (_, m) \<Rightarrow> (Ok (), s, m))"

definition handleNodeUpdate ::
    "('s, 'm) exporters \<Rightarrow> string \<Rightarrow> NodeTopology \<Rightarrow> 's \<times> 'm \<Rightarrow> unit res \<times> 's \<times> 'm" where
  "handleNodeUpdate X nodeName nt sm =
     sbind (log_snd (x_SetMetrics X nodeName nt (snd sm)) (fst sm)) (\<lambda>_ (s, m).
     sbind (log_fst (x_SetLabels X nodeName nt s) m) (\<lambda>_ (s, m).
       case x_SetNRT X of
         None \<Rightarrow> (Ok (), s, m)
       | Some setNRT \<Rightarrow> log_fst (setNRT nodeName nt s) m))"

definition handleNodeDeletion :: "('s, 'm) exporters \<Rightarrow> string \<Rightarrow> 's \<times> 'm \<Rightarrow> unit res \<times> 's \<times> 'm" where
  "handleNodeDeletion X nodeName sm = log_snd (x_DeleteMetrics X nodeName (snd sm)) (fst sm)"

definition extractNodeNameFromCMName :: "string \<Rightarrow> string \<Rightarrow> string" where
  "extractNodeNameFromCMName cmName topologyCMPrefix =
     (let pre = topologyCMPrefix @ ''-'' in if prefix pre cmName then drop (length pre) cmName else cmName)"

text \<open>\<^verbatim>\<open>Reconcile\<close> of the request for a namespace and a name\<close>

definition ReconcileNode ::
    "('s, 'q, 'y) kube_env \<Rightarrow> ('s, 'm) exporters \<Rightarrow> string \<Rightarrow> string \<Rightarrow> string \<Rightarrow> 's \<times> 'm \<Rightarrow> unit res \<times> 's \<times> 'm" where
  "ReconcileNode K X topologyCMPrefix namespace name sm =
     (case cm_get K namespace name (fst sm) of
        Inl e \<Rightarrow>
          if \<not> is_not_found e then (Err e, sm)
          else let nodeName = extractNodeNameFromCMName name topologyCMPrefix
               in if nodeName \<noteq> [] then handleNodeDeletion X nodeName sm else (Ok (), sm)
      | Inr cm \<Rightarrow>
          (case FromNodeTopologyCM K cm of
             Err e \<Rightarrow> (Ok (), sm)
           | Panic p \<Rightarrow> (Panic p, sm)
           | Ok nt \<Rightarrow>
               let nodeName = extractNodeNameFromCMName name topologyCMPrefix
               in if nodeName = [] then (Ok (), sm) else handleNodeUpdate X nodeName nt sm))"

definition isKWOKNodeConfigMap :: "'y ConfigMap option \<Rightarrow> bool" where
  "isKWOKNodeConfigMap cm =
     (case cm of
        None \<Rightarrow> False
      | Some cm \<Rightarrow> cm_Labels cm LabelTopologyCMNodeName \<noteq> None \<and> cm_Annotations cm AnnotationKwokNode = Some ''fake'')"

text \<open>The predicate on events: objects of the namespace that are topologies of simulated nodes\<close>

definition watched :: "string \<Rightarrow> 'y ConfigMap \<Rightarrow> bool" where
  "watched namespace cm \<longleftrightarrow> cm_Namespace cm = namespace \<and> isKWOKNodeConfigMap (Some cm)"

text \<open>The exporters that the application gives to the watcher\<close>

definition kwok_exporters ::
    "('s, 'q, 'y) kube_env \<Rightarrow> 'g gauge_env \<Rightarrow> metrics_env \<Rightarrow> 's retry \<Rightarrow> ('s, 'q) publisher option
     \<Rightarrow> ('s, 'g multi_metrics) exporters" where
  "kwok_exporters K G env retry publisher =
     \<lparr>x_SetMetrics = SetMetricsForNode G env, x_DeleteMetrics = DeleteNode G,
      x_SetLabels = SetLabelsForNode K retry, x_SetNRT = map_option (SetNRTForNode K) publisher\<rparr>"

section \<open>The interface to the metrics\<close>

text \<open>
  \<^verbatim>\<open>MetricsExporter\<close> of the watcher: \<open>known\<close> are the nodes that it exports, with their topologies.
\<close>

locale metrics_exporter =
  fixes set_metrics :: "string \<Rightarrow> NodeTopology \<Rightarrow> 'm \<Rightarrow> unit res \<times> 'm"
    and delete_metrics :: "string \<Rightarrow> 'm \<Rightarrow> unit res \<times> 'm"
    and known :: "'m \<Rightarrow> string \<rightharpoonup> NodeTopology"
  assumes set_known: "known (snd (set_metrics n nt m)) = (known m)(n \<mapsto> nt)"
    and delete_known: "known (snd (delete_metrics n m)) = (known m)(n := None)"
    and delete_ok: "fst (delete_metrics n m) = Ok ()"
begin

text \<open>A reconciliation that does not panic exports the node as the ConfigMap has it, or no longer exports it.\<close>

lemma reconciled:
  assumes X: "x_SetMetrics X = set_metrics" "x_DeleteMetrics X = delete_metrics"
    and run: "ReconcileNode K X p namespace (p @ ''-'' @ n) (s, m) = (Ok (), s', m')" and n: "n \<noteq> []"
  shows "known m' =
    (case cm_get K namespace (p @ ''-'' @ n) s of
       Inl e \<Rightarrow> (known m)(n := None)
     | Inr cm \<Rightarrow> (case FromNodeTopologyCM K cm of Ok nt \<Rightarrow> (known m)(n \<mapsto> nt) | _ \<Rightarrow> known m))"
proof -
  have name [simp]: "extractNodeNameFromCMName (p @ CHR ''-'' # n) p = n"
    by (simp add: extractNodeNameFromCMName_def Let_def)
  show ?thesis
  proof (cases "cm_get K namespace (p @ ''-'' @ n) s")
    case (Inl e)
    have "is_not_found e" using run Inl by (auto simp: ReconcileNode_def split: if_splits)
    with run Inl n have "log_snd (delete_metrics n m) s = (Ok (), s', m')"
      by (simp add: ReconcileNode_def handleNodeDeletion_def X Let_def)
    with Inl delete_known [of n m] delete_ok [of n m] show ?thesis
      by (cases "delete_metrics n m") (simp add: log_snd_def)
  next
    case (Inr cm)
    show ?thesis
    proof (cases "FromNodeTopologyCM K cm")
      case (Ok nt)
      with run Inr n have u: "handleNodeUpdate X n nt (s, m) = (Ok (), s', m')"
        by (simp add: ReconcileNode_def Let_def)
      obtain r m1 where m1: "set_metrics n nt m = (r, m1)" by force
      have "m' = m1" using u
        by (cases r; cases "x_SetLabels X n nt s"; cases "fst (x_SetLabels X n nt s)"; cases "x_SetNRT X")
          (auto simp: handleNodeUpdate_def X m1 log_snd_def log_fst_def split: prod.splits res.splits)
      with set_known [of n nt m] m1 Inr Ok show ?thesis by simp
    qed (use run Inr in \<open>simp_all add: ReconcileNode_def\<close>)
  qed
qed

end

lemma SetMetricsForNode_known:
  "nodeTopologies (snd (SetMetricsForNode G env n nt e)) = (nodeTopologies e)(n \<mapsto> nt)"
  by (cases "exportNode G env n nt (mm_gauges e)") (simp add: SetMetricsForNode_def with_gauges_def Let_def)

interpretation mn: metrics_exporter "SetMetricsForNode G env" "DeleteNode G" nodeTopologies
  by unfold_locales (auto simp: SetMetricsForNode_known DeleteNode_def Let_def split: option.splits)

section \<open>Properties\<close>

text \<open>
  C21. The nodes whose metrics are exported follow the ConfigMaps: after a node was reconciled its metrics are those
  of the topology that is stored, and a node whose ConfigMap is gone has none; no other node's change.
\<close>

theorem watcher_follows_store:
  assumes "ReconcileNode K (kwok_exporters K G env retry publisher) p namespace (p @ ''-'' @ n) (s, e) = (Ok (), s', e')"
    and "n \<noteq> []"
  shows "nodeTopologies e' =
    (case cm_get K namespace (p @ ''-'' @ n) s of
       Inl err \<Rightarrow> (nodeTopologies e)(n := None)
     | Inr cm \<Rightarrow> (case FromNodeTopologyCM K cm of Ok nt \<Rightarrow> (nodeTopologies e)(n \<mapsto> nt) | _ \<Rightarrow> nodeTopologies e))"
  using mn.reconciled [OF _ _ assms] by (simp add: kwok_exporters_def)

end
