(* ===== verification/WitnessMock.thy ===== *)
theory WitnessMock
  imports MockStore Watch Fixtures WitnessExport
begin

text \<open>
  The properties of the mock pools at a concrete cluster, which holds DaemonSets and pool ConfigMaps beside
  the objects of the in-memory server, and those of the watcher of simulated nodes.
\<close>

section \<open>The cluster\<close>

record mock_state = ref_state +
  ms_ds :: "DaemonSet store"
  ms_cms :: "ref_text VConfigMap store"

text \<open>The in-memory server as seen through a part of the state\<close>

definition through :: "('t \<Rightarrow> 's) \<Rightarrow> ('s \<Rightarrow> 't \<Rightarrow> 't) \<Rightarrow> ('s \<Rightarrow> 'a \<times> 's) \<Rightarrow> 't \<Rightarrow> 'a \<times> 't" where
  "through g p f t = (case f (g t) of (r, s) \<Rightarrow> (r, p s t))"

definition lift_env :: "('t \<Rightarrow> 's) \<Rightarrow> ('s \<Rightarrow> 't \<Rightarrow> 't) \<Rightarrow> ('s, 'q, 'y) kube_env \<Rightarrow> ('t, 'q, 'y) kube_env" where
  "lift_env g p K = \<lparr>
     cm_get = (\<lambda>ns n t. cm_get K ns n (g t)), cm_create = (\<lambda>ns cm. through g p (cm_create K ns cm)),
     cm_apply = (\<lambda>ns ap. through g p (cm_apply K ns ap)), cm_delete = (\<lambda>ns n. through g p (cm_delete K ns n)),
     cm_list = (\<lambda>ns k v t. cm_list K ns k v (g t)), pod_get = (\<lambda>ns n t. pod_get K ns n (g t)),
     pod_list = (\<lambda>ns n t. pod_list K ns n (g t)), pod_annotate = (\<lambda>ns n k v. through g p (pod_annotate K ns n k v)),
     node_get = (\<lambda>n t. node_get K n (g t)), node_list = (\<lambda>k t. node_list K k (g t)),
     node_patch_labels = (\<lambda>n ls. through g p (node_patch_labels K n ls)),
     node_update = (\<lambda>nd. through g p (node_update K nd)), claim_get = (\<lambda>ns n t. claim_get K ns n (g t)),
     podgroup_class = (\<lambda>ns n t. podgroup_class K ns n (g t)), empty_text = empty_text K, unmarshal_nt = unmarshal_nt K,
     marshal_nt = marshal_nt K, unmarshal_gmap = unmarshal_gmap K, unmarshal_ClusterTopology = unmarshal_ClusterTopology K,
     unmarshal_ClusterConfig = unmarshal_ClusterConfig K, blank_text = blank_text K, q_zero = q_zero K,
     q_equal = q_equal K, q_value = q_value K, q_milli = q_milli K, q_add = q_add K, q_new = q_new K,
     q_new_milli = q_new_milli K, q_parse = q_parse K, TopologyCmName = TopologyCmName K,
     TopologyCmNamespace = TopologyCmNamespace K, ResourceReservationNamespace = ResourceReservationNamespace K,
     EnvNodeName = EnvNodeName K, conv_oor = conv_oor K\<rparr>"

definition k_env :: "(mock_state, int, ref_text) kube_env" where
  "k_env = (lift_env ref_state.truncate (\<lambda>s t. ref_state.extend s (mock_state.fields (ms_ds t) (ms_cms t))) ref_env)\<lparr>
     unmarshal_gmap := (\<lambda>y. case y of
         TConfig c \<Rightarrow> Inr (Some [(''nodePools'', GMap (map (\<lambda>(n, _). (n, GMap [(''gpu'', GMap [])])) (NodePools c)))])
       | _ \<Rightarrow> unmarshal_gmap ref_env y)\<rparr>"

definition k_mock :: "(mock_state, ref_text) mock_env" where
  "k_mock = \<lparr>daemon_sets = ref_kind ms_ds (\<lambda>v s. s\<lparr>ms_ds := v\<rparr>) ds_Name ds_Labels,
             config_maps = ref_kind ms_cms (\<lambda>v s. s\<lparr>ms_cms := v\<rparr>) cm_Name cm_Labels,
             marshal_gmap = (\<lambda>m. Inr (TMap (Some m))), text_bytes = (\<lambda>y. case y of TMap (Some m) \<Rightarrow> concat (map fst m) | _ \<Rightarrow> []),
             visit_ds = id, visit_cm = rev\<rparr>"

abbreviation get_ds where "get_ds ns s \<equiv> store_get ds_Name ns (ms_ds s)"
abbreviation get_cm where "get_cm ns s \<equiv> store_get cm_Name ns (ms_cms s)"

lemma k_ds_ok: "kind_ok get_ds ds_Name ds_Labels ds_stored (daemon_sets k_mock)"
  unfolding k_mock_def mock_env.simps by (rule ref_kind_ok) (simp_all add: ds_stored_def same_program_def list_all2_refl)

lemma k_cm_ok: "kind_ok get_cm cm_Name cm_Labels cm_stored (config_maps k_mock)"
  unfolding k_mock_def mock_env.simps by (rule ref_kind_ok) (simp_all add: cm_stored_def)

lemma k_visits: "\<forall>m. mset (visit_ds k_mock m) = mset m" "\<forall>m. mset (visit_cm k_mock m) = mset m"
  by (simp_all add: k_mock_def)

lemma k_apart: "keeps (get_cm ns) (daemon_sets k_mock)"
  by (simp add: keeps_def k_mock_def ref_kind_def)

section \<open>A pass\<close>

definition k_params :: ReconcileParams where
  "k_params = \<lparr>rc_Namespace = ''gpu-operator'', rc_Image = ''nvml-mock:v1'', rc_ImagePullPolicy = []\<rparr>"

text \<open>A pool with the mock backend, one without, and a managed DaemonSet of a pool that is gone.\<close>

definition k_pool :: "string \<Rightarrow> NodePoolConfig" where
  "k_pool backend = \<lparr>Gpu = \<lparr>Backend = backend, gc_Profile = ''t4'', Overrides = None\<rparr>, Numa = None, Resources = []\<rparr>"

definition k_cfg :: ClusterConfig where
  "k_cfg = \<lparr>NodePoolLabelKey = ''pool'', cc_MigStrategy = ''none'', NodePools = [(''b'', k_pool ''fake''), (''a'', k_pool ''mock'')],
            GpuOperator = None\<rparr>"

definition k_cm :: "string \<Rightarrow> string \<Rightarrow> ref_text \<Rightarrow> ref_text ConfigMap" where
  "k_cm name k v = \<lparr>cm_Name = name, cm_Namespace = ''gpu-operator'', cm_Labels = Map.empty, cm_Annotations = Map.empty,
                    cm_Data = [k \<mapsto> v]\<rparr>"

definition k_old :: DaemonSet where
  "k_old = BuildDaemonSet \<lparr>bp_Namespace = ''gpu-operator'', bp_Pool = ''c'', bp_NodePoolLabelKey = ''pool'', bp_Image = ''nvml-mock:v0'',
     bp_ImagePullPolicy = ''Always'', bp_GpuCount = 2, bp_DriverVersion = ''550'', bp_ConfigHash = ''00''\<rparr>"

definition k_state :: mock_state where
  "k_state = ref_state.extend
     (w_state [] [] []\<lparr>rs_cms := [((''gpu-operator'', ''topology''), k_cm ''topology'' CmTopologyKey (TConfig k_cfg)),
                                  ((''gpu-operator'', ''gpu-profile-t4''), k_cm ''gpu-profile-t4'' CmProfileKey (TMap (Some [])))]\<rparr>)
     (mock_state.fields [((''gpu-operator'', ''nvml-mock-c''), k_old)] [])"

lemma k_config: "readTopologyConfig k_env k_params k_state = Ok k_cfg"
  by (simp add: readTopologyConfig_def k_env_def lift_env_def ref_env_def k_params_def k_state_def ref_find_def k_cm_def
      FromClusterConfigCM_def ParseAndNormalizeTopology_def isNewFormat_def new_format_def k_cfg_def k_pool_def
      ref_state.defs mock_state.defs w_state_def)

definition k_cm_a :: "ref_text VConfigMap" where
  "k_cm_a = BuildConfigMap ''gpu-operator'' ''a'' (TMap (Some (Merge [] [])))"

definition k_ds_a :: DaemonSet where
  "k_ds_a = BuildDaemonSet \<lparr>bp_Namespace = ''gpu-operator'', bp_Pool = ''a'', bp_NodePoolLabelKey = ''pool'', bp_Image = ''nvml-mock:v1'',
     bp_ImagePullPolicy = ''Always'', bp_GpuCount = gs_GpuCount (Extract (\<lambda>_. 0) (Some (Merge [] []))),
     bp_DriverVersion = gs_DriverVersion (Extract (\<lambda>_. 0) (Some (Merge [] []))),
     bp_ConfigHash = configHash k_mock (TMap (Some (Merge [] [])))\<rparr>"

lemma k_rendered:
  "RenderConfig k_env k_mock ''gpu-operator'' (Gpu (k_pool ''mock'')) k_state =
    Ok (TMap (Some (Merge [] [])), Extract (\<lambda>_. 0) (Some (Merge [] [])))"
  by (simp add: RenderConfig_def Load_def k_env_def lift_env_def ref_env_def k_state_def ref_find_def k_cm_def k_pool_def
      ref_state.defs mock_state.defs w_state_def k_mock_def CmNamePrefix_def)

lemma k_sorted: "sort (remdups (map fst (NodePools k_cfg))) = [''a'', ''b'']"
  by (simp add: k_cfg_def)

lemma k_computed: "ComputeMockPoolResources k_env k_mock k_cfg k_params k_state = Ok ([k_cm_a], [k_ds_a])"
proof -
  have p: "map_of (NodePools k_cfg) ''a'' = Some (k_pool ''mock'')" "map_of (NodePools k_cfg) ''b'' = Some (k_pool ''fake'')"
    by (simp_all add: k_cfg_def)
  have b: "Backend (Gpu (k_pool ''mock'')) = BackendMock" "Backend (Gpu (k_pool ''fake'')) \<noteq> BackendMock"
    by (simp_all add: k_pool_def BackendMock_def)
  have "pool_resources k_env k_mock k_cfg k_params k_state ''a'' (k_pool ''mock'') = Ok (k_cm_a, k_ds_a)"
    by (simp add: pool_resources_def k_params_def k_rendered k_cm_a_def k_ds_a_def) (simp add: k_cfg_def)
  then show ?thesis by (simp add: ComputeMockPoolResources_def k_sorted p b)
qed

theorem mock_resources_witness:
  "list_all2 (pool_pair k_mock) (filter (is_mock k_cfg) (sort (remdups (map fst (NodePools k_cfg))))) (zip [k_cm_a] [k_ds_a]) \<and>
    distinct (map ds_Name [k_ds_a])"
  using mock_resources [OF k_computed] by blast

abbreviation k_state1 where "k_state1 \<equiv> k_state\<lparr>ms_cms := [((''gpu-operator'', ''nvml-mock-a''), k_cm_a)]\<rparr>"
abbreviation k_state2 where "k_state2 \<equiv> k_state1\<lparr>ms_ds := [((''gpu-operator'', ''nvml-mock-a''), k_ds_a)]\<rparr>"

lemma k_cms_written: "reconcileConfigMaps k_env k_mock k_params [k_cm_a] k_state = (Ok (), k_state1)"
  by (simp add: reconcileConfigMaps_def DiffConfigMaps_def diff_named_def apply_diff_def k_mock_def ref_kind_def store_list_def
      by_name_def k_params_def k_cm_a_def BuildConfigMap_def resourceName_def k_state_def mock_state.defs ref_state.defs
      List.map_filter_simps Let_def)

lemma k_names: "ds_Name k_old = ''nvml-mock-c''" "ds_Name k_ds_a = ''nvml-mock-a''" "selected managedSelector (ds_Labels k_old)"
  by (simp_all add: k_old_def k_ds_a_def resourceName_def)

lemma k_dss_written: "reconcileDaemonSets k_mock k_params [k_ds_a] k_state1 = (Ok (), k_state2)"
  by (simp add: reconcileDaemonSets_def DiffDaemonSets_def diff_named_def apply_diff_def k_mock_def ref_kind_def store_list_def
      by_name_def k_params_def k_names k_state_def mock_state.defs ref_state.defs List.map_filter_simps Let_def)

theorem daemon_sets_reconciled_witness:
  "(\<exists>have. get_ds ''gpu-operator'' k_state2 ''nvml-mock-a'' = Some have \<and> \<not> daemonsetNeedsUpdate k_ds_a have) \<and>
   get_ds ''gpu-operator'' k_state2 ''nvml-mock-c'' = None"
proof -
  have fit: "\<forall>ds \<in> set [k_ds_a]. ds_Containers ds \<noteq> [] \<and> selected managedSelector (ds_Labels ds)"
    by (simp add: k_ds_a_def)
  note r = daemon_sets_reconciled [OF k_ds_ok k_visits(1) fit k_dss_written, rule_format]
  have ns: "rc_Namespace k_params = ''gpu-operator''" by (simp add: k_params_def)
  have m: "map_of (by_name ds_Name [k_ds_a]) ''nvml-mock-a'' = Some k_ds_a" "map_of (by_name ds_Name [k_ds_a]) ''nvml-mock-c'' = None"
    by (simp_all add: by_name_def k_names)
  have old: "get_ds ''gpu-operator'' k_state1 ''nvml-mock-c'' = Some k_old"
    by (simp add: store_get_def k_state_def ref_state.defs mock_state.defs k_names)
  show ?thesis
    using r [of "''nvml-mock-a''"] r [of "''nvml-mock-c''"] unfolding m ns old option.case by (simp only: k_names if_True)
qed

theorem config_maps_settled_witness:
  "DiffConfigMaps (empty_text k_env) (visit_cm k_mock) [k_cm_a] [k_cm_a] = \<lparr>ToCreate = [], ToUpdate = [], ToDelete = []\<rparr>"
proof (rule config_maps_settled [OF k_cm_ok k_visits(2) _ k_cms_written])
  show "\<forall>cm \<in> set [k_cm_a]. selected managedSelector (cm_Labels cm)" by (simp add: k_cm_a_def BuildConfigMap_def)
  then show "k_list (config_maps k_mock) (rc_Namespace k_params) managedSelector k_state1 = Inr [k_cm_a]"
    by (simp add: k_mock_def ref_kind_def store_list_def k_params_def k_state_def) (simp add: k_cm_a_def BuildConfigMap_def resourceName_def)
qed

lemma k_pass: "ReconcileMock k_env k_mock k_params k_state = (Ok (), k_state2)"
  by (simp add: ReconcileMock_def k_config k_computed k_cms_written k_dss_written)

theorem mock_pass_witness:
  "\<exists>cfg. readTopologyConfig k_env k_params k_state = Ok cfg \<and> is_mock cfg ''a'' \<and>
    (\<exists>cm ds. get_cm ''gpu-operator'' k_state2 (resourceName ''a'') = Some cm \<and> get_ds ''gpu-operator'' k_state2 (resourceName ''a'') = Some ds \<and>
       or_empty (ds_PodAnnotations ds ConfigHashAnnotation) =
       configHash k_mock (case cm_Data cm configKey of None \<Rightarrow> empty_text k_env | Some y \<Rightarrow> y))"
proof -
  have ns: "rc_Namespace k_params = ''gpu-operator''" by (simp add: k_params_def)
  have m: "is_mock k_cfg ''a''" by (simp add: is_mock_def k_cfg_def k_pool_def BackendMock_def)
  from mock_pass [OF k_ds_ok k_visits(1) k_cm_ok k_visits(2) k_apart k_pass, unfolded ns] k_config m
  show ?thesis by (metis res.inject(1))
qed

section \<open>The watcher\<close>

abbreviation w_exporters where "w_exporters \<equiv> kwok_exporters ref_env map_gauges w_menv (retry_loop 4) None"

abbreviation w_there where "w_there \<equiv> w_state [(''node1'', m_nt ''p'')] [] []"
abbreviation w_known where "w_known \<equiv> snd (SetMetricsForNode map_gauges w_menv ''node1'' (m_nt ''p'') w_multi)"

lemma w_deleted:
  "ReconcileNode ref_env w_exporters ''topology'' ''gpu-operator'' (''topology'' @ ''-'' @ ''node1'') (w_state [] [] [], w_known) =
    (Ok (), w_state [] [] [], snd (DeleteNode map_gauges ''node1'' w_known))"
  by (simp add: ReconcileNode_def ref_env_simps w_state_def ref_find_def extractNodeNameFromCMName_def handleNodeDeletion_def kwok_exporters_def
      DeleteNode_def log_snd_def Let_def split: option.split)

lemma w_updated:
  "ReconcileNode ref_env w_exporters ''topology'' ''gpu-operator'' (''topology'' @ ''-'' @ ''node1'') (w_there, w_multi) =
    (Ok (), w_there, w_known)"
proof -
  have l: "SetLabelsForNode ref_env (retry_loop 4) ''node1'' (m_nt ''p'') w_there = (Ok (), w_there)"
  proof -
    have "set_labels_once ref_env ''node1'' (BuildNodeLabels (m_nt ''p'')) w_there = (Ok (), w_there)"
      by (simp add: set_labels_once_def ref_env_simps ref_find_def w_state_def)
    then show ?thesis by (simp add: SetLabelsForNode_def setNodeLabels_def retry_loop_Ok)
  qed
  have "cm_get ref_env ''gpu-operator'' (''topology-node1'') w_there = Inr (w_cm ''node1'' (m_nt ''p''))"
    by (simp add: ref_env_simps w_state_def)
  moreover have "FromNodeTopologyCM ref_env (w_cm ''node1'' (m_nt ''p'')) = Ok (m_nt ''p'')"
    by (simp add: FromNodeTopologyCM_def w_cm_def ref_env_simps)
  moreover define k where "k = w_known"
  have "SetMetricsForNode map_gauges w_menv ''node1'' (m_nt ''p'') w_multi = (Ok (), k)"
    unfolding k_def by (rule w_set)
  ultimately show ?thesis unfolding k_def [symmetric]
    by (simp add: ReconcileNode_def extractNodeNameFromCMName_def handleNodeUpdate_def kwok_exporters_def log_snd_def log_fst_def l Let_def)
qed

theorem watcher_witness: "nodeTopologies w_known ''node1'' = Some (m_nt ''p'') \<and>
    nodeTopologies (snd (DeleteNode map_gauges ''node1'' w_known)) ''node1'' = None"
proof
  show "nodeTopologies w_known ''node1'' = Some (m_nt ''p'')"
    by (subst watcher_follows_store [OF w_updated]) (simp_all add: ref_env_simps w_state_def FromNodeTopologyCM_def w_cm_def ref_find_def)
  show "nodeTopologies (snd (DeleteNode map_gauges ''node1'' w_known)) ''node1'' = None"
    by (subst watcher_follows_store [OF w_deleted]) (simp_all add: ref_env_simps w_state_def ref_find_def)
qed

end
