(* ===== verification/ComputeDomain.thy ===== *)
theory ComputeDomain
  imports KubeApi "HOL-Library.List_Lexorder" "HOL-Library.Char_ord"
begin

text \<open>
  \<^verbatim>\<open>internal/compute-domain-controller/computedomain_controller.go\<close>: the reconciler that keeps
  one ResourceClaimTemplate for each ComputeDomain and reports in its status the nodes its claims were
  allocated on.  The API operations, the owner reference and the finalizers of
  \<^verbatim>\<open>controllerutil\<close> are parameters, the fields of \<open>domain_env\<close>.
\<close>

section \<open>Objects\<close>

definition ComputeDomainDriverName :: string where "ComputeDomainDriverName = ''compute-domain.nvidia.com''"
definition ComputeDomainWorkloadDeviceClass :: string where
  "ComputeDomainWorkloadDeviceClass = ''compute-domain-default-channel.nvidia.com''"
definition ComputeDomainFinalizer :: string where "ComputeDomainFinalizer = ''computedomain.resource.nvidia.com/finalizer''"
definition ComputeDomainClaimLabel :: string where "ComputeDomainClaimLabel = ''nvidia.com/computeDomain''"
definition ComputeDomainTemplateLabel :: string where "ComputeDomainTemplateLabel = ''resource.nvidia.com/computeDomain''"
definition ComputeDomainTemplateTargetLabel :: string where
  "ComputeDomainTemplateTargetLabel = ''resource.nvidia.com/computeDomainTarget''"
definition DefaultComputeDomainAllocationMode :: string where "DefaultComputeDomainAllocationMode = ''Single''"

record ComputeDomainChannel =
  ch_TemplateName :: string
  ch_AllocationMode :: string

record ComputeDomainNode =
  dn_Name :: string
  dn_Status :: string

record ComputeDomainStatus =
  sn_Status :: string
  sn_Nodes :: "ComputeDomainNode list"

record ComputeDomain =
  dm_Name :: string
  dm_Namespace :: string
  dm_UID :: string
  dm_Finalizers :: "string list"
  dm_Deleting :: bool
  dm_NumNodes :: int
  dm_Channel :: "ComputeDomainChannel option"
  dm_Status :: ComputeDomainStatus

record DomainOwner =
  ow_Kind :: string
  ow_Name :: string
  ow_UID :: string

record DeviceRequest =
  rq_Name :: string
  rq_Count :: int
  rq_DeviceClassName :: string

record ResourceClaimTemplate =
  rt_Name :: string
  rt_Namespace :: string
  rt_Labels :: "string \<rightharpoonup> string"
  rt_Finalizers :: "string list"
  rt_OwnerReferences :: "DomainOwner list"
  rt_ClaimLabels :: "string \<rightharpoonup> string"
  rt_Driver :: string
  rt_Parameters :: string
  rt_Requests :: "DeviceRequest list"

text \<open>Of a claim: its labels and the pools of its allocation, \<open>None\<close> while there is none.\<close>

record DomainClaim =
  cl_Namespace :: string
  cl_Labels :: "string \<rightharpoonup> string"
  cl_Pools :: "string list option"

record 's domain_env =
  dom_get :: "string \<Rightarrow> string \<Rightarrow> 's \<Rightarrow> gerror + ComputeDomain"
  dom_update :: "ComputeDomain \<Rightarrow> 's \<Rightarrow> (gerror + ComputeDomain) \<times> 's"
  dom_status_update :: "ComputeDomain \<Rightarrow> 's \<Rightarrow> (gerror + unit) \<times> 's"
  tmpl_get :: "string \<Rightarrow> string \<Rightarrow> 's \<Rightarrow> gerror + ResourceClaimTemplate"
  tmpl_create :: "ResourceClaimTemplate \<Rightarrow> 's \<Rightarrow> (gerror + unit) \<times> 's"
  tmpl_update :: "ResourceClaimTemplate \<Rightarrow> 's \<Rightarrow> (gerror + ResourceClaimTemplate) \<times> 's"
  tmpl_delete :: "string \<Rightarrow> string \<Rightarrow> 's \<Rightarrow> (gerror + unit) \<times> 's"
  \<comment> \<open>the claims of a namespace with a label at a value\<close>
  claim_list :: "string \<Rightarrow> string \<Rightarrow> string \<Rightarrow> 's \<Rightarrow> gerror + DomainClaim list"
  \<comment> \<open>\<^verbatim>\<open>controllerutil\<close>\<close>
  set_controller_reference :: "ComputeDomain \<Rightarrow> ResourceClaimTemplate \<Rightarrow> gerror + ResourceClaimTemplate"
  contains_finalizer :: "string list \<Rightarrow> string \<Rightarrow> bool"
  add_finalizer :: "string list \<Rightarrow> string \<Rightarrow> string list"
  remove_finalizer :: "string list \<Rightarrow> string \<Rightarrow> string list"
  \<comment> \<open>the values of a status that the API package names\<close>
  StatusReady :: string
  StatusNotReady :: string

section \<open>The template\<close>

definition isOwnedBy :: "ResourceClaimTemplate \<Rightarrow> ComputeDomain \<Rightarrow> bool" where
  "isOwnedBy template domain \<longleftrightarrow>
     list_ex (\<lambda>owner. ow_Name owner = dm_Name domain \<and> ow_Kind owner = ''ComputeDomain'') (rt_OwnerReferences template)"

definition templateName :: "ComputeDomain \<Rightarrow> string" where
  "templateName domain = (case dm_Channel domain of None \<Rightarrow> dm_Name domain | Some ch \<Rightarrow> ch_TemplateName ch)"

definition getAllocationMode :: "ComputeDomain \<Rightarrow> string" where
  "getAllocationMode domain =
     (case dm_Channel domain of
        None \<Rightarrow> DefaultComputeDomainAllocationMode
      | Some ch \<Rightarrow> if ch_AllocationMode ch \<noteq> [] then ch_AllocationMode ch else DefaultComputeDomainAllocationMode)"

text \<open>The parameters, formatted without any escape.\<close>

definition quoted :: "string \<Rightarrow> string" where
  "quoted s = [CHR 0x22] @ s @ [CHR 0x22]"

definition parameter_line :: "nat \<Rightarrow> string \<Rightarrow> string" where
  "parameter_line tabs s = [CHR 0x0A] @ replicate tabs (CHR 0x09) @ s"

definition template_parameters :: "ComputeDomain \<Rightarrow> string" where
  "template_parameters domain =
     ''{'' @ parameter_line 11 (quoted ''allocationMode'' @ '': '' @ quoted (getAllocationMode domain) @ '','') @
     parameter_line 11 (quoted ''apiVersion'' @ '': '' @ quoted ''resource.nvidia.com/v1beta1'' @ '','') @
     parameter_line 11 (quoted ''domainID'' @ '': '' @ quoted (dm_UID domain) @ '','') @
     parameter_line 11 (quoted ''kind'' @ '': '' @ quoted ''ComputeDomainChannelConfig'') @ parameter_line 10 ''}''"

definition new_template :: "ComputeDomain \<Rightarrow> string \<Rightarrow> string \<Rightarrow> string \<Rightarrow> ResourceClaimTemplate" where
  "new_template domain name deviceClass templateType =
     \<lparr>rt_Name = name, rt_Namespace = dm_Namespace domain,
      rt_Labels = [ComputeDomainTemplateLabel \<mapsto> dm_Name domain, ComputeDomainTemplateTargetLabel \<mapsto> templateType],
      rt_Finalizers = [ComputeDomainFinalizer], rt_OwnerReferences = [],
      rt_ClaimLabels = [ComputeDomainClaimLabel \<mapsto> dm_Name domain],
      rt_Driver = ComputeDomainDriverName, rt_Parameters = template_parameters domain,
      rt_Requests = [\<lparr>rq_Name = ''channel'', rq_Count = 1, rq_DeviceClassName = deviceClass\<rparr>]\<rparr>"

definition ensureTemplate ::
    "'s domain_env \<Rightarrow> ComputeDomain \<Rightarrow> string \<Rightarrow> string \<Rightarrow> string \<Rightarrow> 's \<Rightarrow> unit res \<times> 's" where
  "ensureTemplate E domain name deviceClass templateType s =
     (case tmpl_get E (dm_Namespace domain) name s of
        Inr existing \<Rightarrow> (Ok (), s)
      | Inl e \<Rightarrow>
          if \<not> is_not_found e then (Err e, s)
          else (case set_controller_reference E domain (new_template domain name deviceClass templateType) of
                  Inl e \<Rightarrow> (Err e, s)
                | Inr template \<Rightarrow>
                    (case tmpl_create E template s of
                       (Inl e, s') \<Rightarrow> (if is_already_exists e then Ok () else Err e, s')
                     | (Inr u, s') \<Rightarrow> (Ok (), s'))))"

definition ensureResourceClaimTemplates :: "'s domain_env \<Rightarrow> ComputeDomain \<Rightarrow> 's \<Rightarrow> unit res \<times> 's" where
  "ensureResourceClaimTemplates E domain s =
     ensureTemplate E domain (templateName domain) ComputeDomainWorkloadDeviceClass ''workload'' s"

definition deleteResourceClaimTemplates :: "'s domain_env \<Rightarrow> ComputeDomain \<Rightarrow> 's \<Rightarrow> unit res \<times> 's" where
  "deleteResourceClaimTemplates E domain s =
     (case tmpl_get E (dm_Namespace domain) (templateName domain) s of
        Inl e \<Rightarrow> (if is_not_found e then Ok () else Err e, s)
      | Inr template \<Rightarrow>
          if \<not> isOwnedBy template domain then (Ok (), s)
          else sbind (if contains_finalizer E (rt_Finalizers template) ComputeDomainFinalizer
                      then api_call (tmpl_update E
                             (template\<lparr>rt_Finalizers := remove_finalizer E (rt_Finalizers template) ComputeDomainFinalizer\<rparr>) s)
                      else (Ok template, s)) (\<lambda>template s.
               case tmpl_delete E (rt_Namespace template) (rt_Name template) s of
                 (Inl e, s') \<Rightarrow> (if is_not_found e then Ok () else Err e, s')
               | (Inr u, s') \<Rightarrow> (Ok (), s')))"

section \<open>The status\<close>

text \<open>The names of the nodes: the pools of the allocated claims, each once, in order.\<close>

definition claimed_nodes :: "DomainClaim list \<Rightarrow> string list" where
  "claimed_nodes claims =
     sort (remdups (filter (\<lambda>p. p \<noteq> []) (concat (map (\<lambda>c. case cl_Pools c of None \<Rightarrow> [] | Some ps \<Rightarrow> ps) claims))))"

definition statusEqual :: "ComputeDomainStatus \<Rightarrow> ComputeDomainNode list \<Rightarrow> string \<Rightarrow> bool" where
  "statusEqual current newNodes newStatus \<longleftrightarrow>
     sn_Status current = newStatus \<and> length (sn_Nodes current) = length newNodes \<and>
     list_all2 (\<lambda>node new. dn_Name node = dn_Name new) (sn_Nodes current) newNodes"

definition updateStatus :: "'s domain_env \<Rightarrow> ComputeDomain \<Rightarrow> 's \<Rightarrow> unit res \<times> 's" where
  "updateStatus E domain s =
     (case claim_list E (dm_Namespace domain) ComputeDomainClaimLabel (dm_Name domain) s of
        Inl e \<Rightarrow> (Err e, s)
      | Inr claims \<Rightarrow>
          let nodes = map (\<lambda>n. \<lparr>dn_Name = n, dn_Status = StatusReady E\<rparr>) (claimed_nodes claims);
              status = (if dm_NumNodes domain = 0 \<or> dm_NumNodes domain \<le> int (length nodes) then StatusReady E else StatusNotReady E)
          in if \<not> statusEqual (dm_Status domain) nodes status
             then api_call (dom_status_update E (domain\<lparr>dm_Status := \<lparr>sn_Status = status, sn_Nodes = nodes\<rparr>\<rparr>) s)
             else (Ok (), s))"

section \<open>The reconciler\<close>

definition ensureFinalizer :: "'s domain_env \<Rightarrow> ComputeDomain \<Rightarrow> 's \<Rightarrow> ComputeDomain res \<times> 's" where
  "ensureFinalizer E domain s =
     (if contains_finalizer E (dm_Finalizers domain) ComputeDomainFinalizer then (Ok domain, s)
      else api_call (dom_update E (domain\<lparr>dm_Finalizers := add_finalizer E (dm_Finalizers domain) ComputeDomainFinalizer\<rparr>) s))"

definition handleDeletion :: "'s domain_env \<Rightarrow> ComputeDomain \<Rightarrow> 's \<Rightarrow> unit res \<times> 's" where
  "handleDeletion E domain s =
     (if \<not> contains_finalizer E (dm_Finalizers domain) ComputeDomainFinalizer then (Ok (), s)
      else sbind (deleteResourceClaimTemplates E domain s) (\<lambda>_ s.
           sbind (api_call (dom_update E
                    (domain\<lparr>dm_Finalizers := remove_finalizer E (dm_Finalizers domain) ComputeDomainFinalizer\<rparr>) s)) (\<lambda>_ s. (Ok (), s))))"

definition ReconcileDomain :: "'s domain_env \<Rightarrow> string \<Rightarrow> string \<Rightarrow> 's \<Rightarrow> unit res \<times> 's" where
  "ReconcileDomain E namespace name s =
     (case dom_get E namespace name s of
        Inl e \<Rightarrow> (if is_not_found e then Ok () else Err e, s)
      | Inr domain \<Rightarrow>
          if dm_Deleting domain then handleDeletion E domain s
          else sbind (ensureFinalizer E domain s) (\<lambda>domain s.
               sbind (ensureResourceClaimTemplates E domain s) (\<lambda>_ s.
               updateStatus E domain s)))"

text \<open>The domain that an event of a claim is for\<close>

definition mapResourceClaimToComputeDomain :: "DomainClaim option \<Rightarrow> (string \<times> string) list" where
  "mapResourceClaimToComputeDomain obj =
     (case obj of
        None \<Rightarrow> []
      | Some claim \<Rightarrow>
          (case cl_Labels claim ComputeDomainClaimLabel of
             None \<Rightarrow> []
           | Some domainName \<Rightarrow> [(cl_Namespace claim, domainName)]))"

end
