(* ===== verification/DomainProps.thy ===== *)
theory DomainProps
  imports ComputeDomain
begin

text \<open>
  What the reconciler of compute domains promises: after a successful pass a domain has its finalizer, its
  template and a status that shows the nodes of its claims, the next pass has nothing to do, and a deleted
  domain takes with it the template it owns and no other.  The contract with the API is \<open>domain_ok\<close>.
\<close>

section \<open>The contract of the API\<close>

definition same_domains :: "'s domain_env \<Rightarrow> 's \<Rightarrow> 's \<Rightarrow> bool" where
  "same_domains E s s' \<longleftrightarrow> (\<forall>ns n. dom_get E ns n s' = dom_get E ns n s)"

definition same_claims :: "'s domain_env \<Rightarrow> 's \<Rightarrow> 's \<Rightarrow> bool" where
  "same_claims E s s' \<longleftrightarrow> (\<forall>ns k v. claim_list E ns k v s' = claim_list E ns k v s)"

definition same_templates :: "'s domain_env \<Rightarrow> (string \<times> string) set \<Rightarrow> 's \<Rightarrow> 's \<Rightarrow> bool" where
  "same_templates E but s s' \<longleftrightarrow> (\<forall>ns n. (ns, n) \<notin> but \<longrightarrow> tmpl_get E ns n s' = tmpl_get E ns n s)"

text \<open>\<^verbatim>\<open>controllerutil\<close>: finalizers are a set, an owner reference names its owner.\<close>

definition util_ok :: "'s domain_env \<Rightarrow> bool" where
  "util_ok E \<longleftrightarrow>
     (\<forall>fs f. contains_finalizer E fs f \<longleftrightarrow> f \<in> set fs) \<and>
     (\<forall>fs f. set (add_finalizer E fs f) = insert f (set fs)) \<and>
     (\<forall>fs f. set (remove_finalizer E fs f) = set fs - {f}) \<and>
     (\<forall>d t t'. set_controller_reference E d t = Inr t' \<longrightarrow>
        (\<exists>ow. ow_Kind ow = ''ComputeDomain'' \<and> ow_Name ow = dm_Name d \<and>
              t' = t\<lparr>rt_OwnerReferences := rt_OwnerReferences t @ [ow]\<rparr>))"

text \<open>
  Objects are found under their keys.  An update of a domain keeps the stored status, one of its status
  changes nothing else.  What is deleted stays while it has finalizers.
\<close>

definition domain_writes_ok :: "'s domain_env \<Rightarrow> bool" where
  "domain_writes_ok E \<longleftrightarrow>
     (\<forall>ns n s d. dom_get E ns n s = Inr d \<longrightarrow> dm_Namespace d = ns \<and> dm_Name d = n) \<and>
     (\<forall>d s d' s'. dom_update E d s = (Inr d', s') \<longrightarrow>
        (\<exists>st. d' = d\<lparr>dm_Status := st\<rparr>) \<and>
        (if dm_Deleting d \<and> dm_Finalizers d = [] then missing (dom_get E (dm_Namespace d) (dm_Name d) s')
         else dom_get E (dm_Namespace d) (dm_Name d) s' = Inr d') \<and>
        same_claims E s s' \<and> same_templates E {} s s') \<and>
     (\<forall>d s s'. dom_status_update E d s = (Inr (), s') \<longrightarrow>
        (\<forall>d0. dom_get E (dm_Namespace d) (dm_Name d) s = Inr d0 \<longrightarrow>
           dom_get E (dm_Namespace d) (dm_Name d) s' = Inr (d0\<lparr>dm_Status := dm_Status d\<rparr>)) \<and>
        same_claims E s s' \<and> same_templates E {} s s')"

definition template_writes_ok :: "'s domain_env \<Rightarrow> bool" where
  "template_writes_ok E \<longleftrightarrow>
     (\<forall>ns n s t. tmpl_get E ns n s = Inr t \<longrightarrow> rt_Namespace t = ns \<and> rt_Name t = n) \<and>
     (\<forall>t s r s'. tmpl_create E t s = (r, s') \<longrightarrow>
        same_domains E s s' \<and> same_claims E s s' \<and> same_templates E {(rt_Namespace t, rt_Name t)} s s' \<and>
        (case r of Inl e \<Rightarrow> is_already_exists e \<longrightarrow> s' = s \<and> (\<exists>t'. tmpl_get E (rt_Namespace t) (rt_Name t) s = Inr t')
                 | Inr u \<Rightarrow> tmpl_get E (rt_Namespace t) (rt_Name t) s' = Inr t)) \<and>
     (\<forall>t s t' s'. tmpl_update E t s = (Inr t', s') \<longrightarrow>
        t' = t \<and> same_domains E s s' \<and> same_claims E s s' \<and> same_templates E {(rt_Namespace t, rt_Name t)} s s' \<and>
        (tmpl_get E (rt_Namespace t) (rt_Name t) s' = Inr t \<or>
         rt_Finalizers t = [] \<and> missing (tmpl_get E (rt_Namespace t) (rt_Name t) s'))) \<and>
     (\<forall>ns n s r s'. tmpl_delete E ns n s = (r, s') \<longrightarrow>
        same_domains E s s' \<and> same_claims E s s' \<and> same_templates E {(ns, n)} s s' \<and>
        (case r of Inl e \<Rightarrow> is_not_found e \<longrightarrow> missing (tmpl_get E ns n s')
                 | Inr u \<Rightarrow> (\<exists>t. tmpl_get E ns n s = Inr t \<and> rt_Finalizers t \<noteq> []) \<or> missing (tmpl_get E ns n s')))"

definition domain_ok :: "'s domain_env \<Rightarrow> bool" where
  "domain_ok E \<longleftrightarrow> util_ok E \<and> domain_writes_ok E \<and> template_writes_ok E"

text \<open>The status that a domain has when it shows these claims\<close>

definition shows_claims :: "'s domain_env \<Rightarrow> ComputeDomain \<Rightarrow> DomainClaim list \<Rightarrow> bool" where
  "shows_claims E d claims \<longleftrightarrow>
     map dn_Name (sn_Nodes (dm_Status d)) = claimed_nodes claims \<and>
     sn_Status (dm_Status d) = (if dm_NumNodes d = 0 \<or> dm_NumNodes d \<le> int (length (claimed_nodes claims))
                                then StatusReady E else StatusNotReady E)"

lemma statusEqual_iff:
  "statusEqual st nodes status \<longleftrightarrow> sn_Status st = status \<and> map dn_Name (sn_Nodes st) = map dn_Name nodes"
proof -
  have "list_all2 (\<lambda>node new. dn_Name node = dn_Name new) xs ys \<longleftrightarrow> map dn_Name xs = map dn_Name ys" for xs ys :: "ComputeDomainNode list"
    by (induction xs arbitrary: ys) (auto simp: list_all2_Cons1 Cons_eq_map_conv map_eq_Cons_conv)
  then show ?thesis by (auto simp: statusEqual_def dest: map_eq_imp_length_eq)
qed

text \<open>The interface, and the laws one by one.\<close>

locale domain_server =
  fixes E :: "'s domain_env"
  assumes ok: "domain_ok E"
begin

lemma contains [simp]: "contains_finalizer E fs f \<longleftrightarrow> f \<in> set fs"
  and added [simp]: "set (add_finalizer E fs f) = insert f (set fs)"
  and removed [simp]: "set (remove_finalizer E fs f) = set fs - {f}"
  using ok by (auto simp: domain_ok_def util_ok_def)

lemma referenced:
  "set_controller_reference E d t = Inr t' \<Longrightarrow>
    \<exists>ow. ow_Kind ow = ''ComputeDomain'' \<and> ow_Name ow = dm_Name d \<and> t' = t\<lparr>rt_OwnerReferences := rt_OwnerReferences t @ [ow]\<rparr>"
  using ok unfolding domain_ok_def util_ok_def by blast

lemma dom_key: "dom_get E ns n s = Inr d \<Longrightarrow> dm_Namespace d = ns \<and> dm_Name d = n"
  using ok unfolding domain_ok_def domain_writes_ok_def by blast

lemma updated:
  assumes "dom_update E d s = (Inr d', s')"
  shows "\<exists>st. d' = d\<lparr>dm_Status := st\<rparr>"
    and "if dm_Deleting d \<and> dm_Finalizers d = [] then missing (dom_get E (dm_Namespace d) (dm_Name d) s')
      else dom_get E (dm_Namespace d) (dm_Name d) s' = Inr d'"
    and "same_claims E s s'" and "same_templates E {} s s'"
  using ok assms unfolding domain_ok_def domain_writes_ok_def by blast+

lemma status_updated:
  assumes "dom_status_update E d s = (Inr (), s')"
  shows "dom_get E (dm_Namespace d) (dm_Name d) s = Inr d0 \<Longrightarrow>
      dom_get E (dm_Namespace d) (dm_Name d) s' = Inr (d0\<lparr>dm_Status := dm_Status d\<rparr>)"
    and "same_claims E s s'" and "same_templates E {} s s'"
  using ok assms unfolding domain_ok_def domain_writes_ok_def by blast+

lemma tmpl_key: "tmpl_get E ns n s = Inr t \<Longrightarrow> rt_Namespace t = ns \<and> rt_Name t = n"
  using ok unfolding domain_ok_def template_writes_ok_def by blast

lemma created:
  assumes "tmpl_create E t s = (r, s')"
  shows "same_domains E s s'" and "same_claims E s s'" and "same_templates E {(rt_Namespace t, rt_Name t)} s s'"
    and "case r of Inl e \<Rightarrow> is_already_exists e \<longrightarrow> s' = s \<and> (\<exists>t'. tmpl_get E (rt_Namespace t) (rt_Name t) s = Inr t')
      | Inr u \<Rightarrow> tmpl_get E (rt_Namespace t) (rt_Name t) s' = Inr t"
  using ok assms unfolding domain_ok_def template_writes_ok_def by blast+

lemma tmpl_updated:
  assumes "tmpl_update E t s = (Inr t', s')"
  shows "t' = t" and "same_domains E s s'" and "same_claims E s s'" and "same_templates E {(rt_Namespace t, rt_Name t)} s s'"
    and "tmpl_get E (rt_Namespace t) (rt_Name t) s' = Inr t \<or>
      rt_Finalizers t = [] \<and> missing (tmpl_get E (rt_Namespace t) (rt_Name t) s')"
  using ok assms unfolding domain_ok_def template_writes_ok_def by blast+

lemma tmpl_deleted:
  assumes "tmpl_delete E ns n s = (r, s')"
  shows "same_domains E s s'" and "same_claims E s s'" and "same_templates E {(ns, n)} s s'"
    and "case r of Inl e \<Rightarrow> is_not_found e \<longrightarrow> missing (tmpl_get E ns n s')
      | Inr u \<Rightarrow> (\<exists>t. tmpl_get E ns n s = Inr t \<and> rt_Finalizers t \<noteq> []) \<or> missing (tmpl_get E ns n s')"
  using ok assms unfolding domain_ok_def template_writes_ok_def by blast+

text \<open>The finalizer\<close>

lemma finalizer_ensured:
  assumes "ensureFinalizer E d s = (Ok d', s')" and "dom_get E ns n s = Inr d" and "\<not> dm_Deleting d"
  shows "dom_get E ns n s' = Inr d'" and "\<exists>st fs. d' = d\<lparr>dm_Finalizers := fs, dm_Status := st\<rparr> \<and> ComputeDomainFinalizer \<in> set fs"
    and "same_claims E s s'" and "same_templates E {} s s'"
proof -
  have "dom_get E ns n s' = Inr d' \<and> (\<exists>st fs. d' = d\<lparr>dm_Finalizers := fs, dm_Status := st\<rparr> \<and> ComputeDomainFinalizer \<in> set fs) \<and>
      same_claims E s s' \<and> same_templates E {} s s'"
  proof (cases "ComputeDomainFinalizer \<in> set (dm_Finalizers d)")
    case True
    have "d = d\<lparr>dm_Finalizers := dm_Finalizers d, dm_Status := dm_Status d\<rparr>" by simp
    with True have "\<exists>st fs. d = d\<lparr>dm_Finalizers := fs, dm_Status := st\<rparr> \<and> ComputeDomainFinalizer \<in> set fs" by blast
    with True assms show ?thesis by (simp add: ensureFinalizer_def same_claims_def same_templates_def)
  next
    case False
    let ?d = "d\<lparr>dm_Finalizers := add_finalizer E (dm_Finalizers d) ComputeDomainFinalizer\<rparr>"
    have u: "dom_update E ?d s = (Inr d', s')" using assms(1) False by (simp add: ensureFinalizer_def)
    from updated(1) [OF u] obtain st where "d' = ?d\<lparr>dm_Status := st\<rparr>" by blast
    then have "\<exists>st fs. d' = d\<lparr>dm_Finalizers := fs, dm_Status := st\<rparr> \<and> ComputeDomainFinalizer \<in> set fs"
      using added [of "dm_Finalizers d" ComputeDomainFinalizer] by (metis insertI1)
    with updated(2-4) [OF u] dom_key [OF assms(2)] assms(3) show ?thesis by simp
  qed
  then show "dom_get E ns n s' = Inr d'" and "\<exists>st fs. d' = d\<lparr>dm_Finalizers := fs, dm_Status := st\<rparr> \<and> ComputeDomainFinalizer \<in> set fs"
    and "same_claims E s s'" and "same_templates E {} s s'" by blast+
qed

text \<open>The template\<close>

lemma template_ensured:
  assumes "ensureResourceClaimTemplates E d s = (Ok (), s')"
  shows "same_domains E s s'" and "same_claims E s s'"
    and "\<And>ns n t. tmpl_get E ns n s = Inr t \<Longrightarrow> tmpl_get E ns n s' = Inr t"
    and "\<exists>t. tmpl_get E (dm_Namespace d) (templateName d) s' = Inr t \<and>
      (missing (tmpl_get E (dm_Namespace d) (templateName d) s) \<longrightarrow>
         isOwnedBy t d \<and> rt_Finalizers t = [ComputeDomainFinalizer] \<and> rt_Parameters t = template_parameters d)"
proof -
  let ?ns = "dm_Namespace d" and ?n = "templateName d"
  have "same_domains E s s' \<and> same_claims E s s' \<and>
      (\<forall>ns n t. tmpl_get E ns n s = Inr t \<longrightarrow> tmpl_get E ns n s' = Inr t) \<and>
      (\<exists>t. tmpl_get E ?ns ?n s' = Inr t \<and>
        (missing (tmpl_get E ?ns ?n s) \<longrightarrow>
           isOwnedBy t d \<and> rt_Finalizers t = [ComputeDomainFinalizer] \<and> rt_Parameters t = template_parameters d))"
  proof (cases "tmpl_get E ?ns ?n s")
    case (Inr t)
    with assms have "s' = s" by (simp add: ensureResourceClaimTemplates_def ensureTemplate_def)
    with Inr show ?thesis by (simp add: same_domains_def same_claims_def)
  next
    case (Inl e)
    let ?new = "new_template d ?n ComputeDomainWorkloadDeviceClass ''workload''"
    from assms Inl obtain t r where e: "is_not_found e" and t: "set_controller_reference E d ?new = Inr t"
      and c: "tmpl_create E t s = (r, s')" and r: "\<forall>e. r = Inl e \<longrightarrow> is_already_exists e"
      by (auto simp: ensureResourceClaimTemplates_def ensureTemplate_def split: if_splits sum.splits prod.splits)
    from referenced [OF t] obtain ow where ow: "ow_Kind ow = ''ComputeDomain''" "ow_Name ow = dm_Name d"
      and tt: "t = ?new\<lparr>rt_OwnerReferences := rt_OwnerReferences ?new @ [ow]\<rparr>" by blast
    have k: "rt_Namespace t = ?ns" "rt_Name t = ?n" by (simp_all add: tt new_template_def)
    have "r = Inr ()" using created(4) [OF c] r Inl k by (cases r) auto
    with created(4) [OF c] k have g: "tmpl_get E ?ns ?n s' = Inr t" by simp
    have "isOwnedBy t d" using ow by (simp add: tt isOwnedBy_def new_template_def)
    moreover have "rt_Finalizers t = [ComputeDomainFinalizer]" "rt_Parameters t = template_parameters d"
      by (simp_all add: tt new_template_def)
    moreover have "tmpl_get E ns n s' = Inr u" if "tmpl_get E ns n s = Inr u" for ns n u
      using created(3) [OF c] that Inl k by (cases "(ns, n) = (?ns, ?n)") (auto simp: same_templates_def)
    ultimately show ?thesis using g created(1,2) [OF c] by blast
  qed
  then show "same_domains E s s'" and "same_claims E s s'"
    and "\<And>ns n t. tmpl_get E ns n s = Inr t \<Longrightarrow> tmpl_get E ns n s' = Inr t"
    and "\<exists>t. tmpl_get E ?ns ?n s' = Inr t \<and>
      (missing (tmpl_get E ?ns ?n s) \<longrightarrow>
         isOwnedBy t d \<and> rt_Finalizers t = [ComputeDomainFinalizer] \<and> rt_Parameters t = template_parameters d)"
    by blast+
qed

text \<open>The status\<close>

lemma status_written:
  assumes "updateStatus E d s = (Ok (), s')" and "dom_get E ns n s = Inr d"
    and "claim_list E ns ComputeDomainClaimLabel n s = Inr claims"
  shows "\<exists>st. dom_get E ns n s' = Inr (d\<lparr>dm_Status := st\<rparr>) \<and> shows_claims E (d\<lparr>dm_Status := st\<rparr>) claims"
    and "same_claims E s s'" and "same_templates E {} s s'"
proof -
  note k = dom_key [OF assms(2)]
  let ?nodes = "map (\<lambda>n. \<lparr>dn_Name = n, dn_Status = StatusReady E\<rparr>) (claimed_nodes claims)"
  let ?status = "if dm_NumNodes d = 0 \<or> dm_NumNodes d \<le> int (length (claimed_nodes claims)) then StatusReady E else StatusNotReady E"
  let ?st = "\<lparr>sn_Status = ?status, sn_Nodes = ?nodes\<rparr>"
  have "(\<exists>st. dom_get E ns n s' = Inr (d\<lparr>dm_Status := st\<rparr>) \<and> shows_claims E (d\<lparr>dm_Status := st\<rparr>) claims) \<and>
      same_claims E s s' \<and> same_templates E {} s s'"
  proof (cases "statusEqual (dm_Status d) ?nodes ?status")
    case True
    with assms k have "s' = s" by (simp add: updateStatus_def Let_def)
    moreover have "shows_claims E (d\<lparr>dm_Status := dm_Status d\<rparr>) claims" using True by (simp add: statusEqual_iff shows_claims_def comp_def)
    moreover have "dom_get E ns n s = Inr (d\<lparr>dm_Status := dm_Status d\<rparr>)" using assms(2) by simp
    ultimately show ?thesis unfolding same_claims_def same_templates_def by blast
  next
    case False
    with assms k have u: "dom_status_update E (d\<lparr>dm_Status := ?st\<rparr>) s = (Inr (), s')" by (simp add: updateStatus_def Let_def)
    have "dom_get E ns n s' = Inr (d\<lparr>dm_Status := ?st\<rparr>)" using status_updated(1) [OF u] assms(2) k by simp
    moreover have "shows_claims E (d\<lparr>dm_Status := ?st\<rparr>) claims" by (simp add: shows_claims_def comp_def)
    ultimately show ?thesis using status_updated(2,3) [OF u] by blast
  qed
  then show "\<exists>st. dom_get E ns n s' = Inr (d\<lparr>dm_Status := st\<rparr>) \<and> shows_claims E (d\<lparr>dm_Status := st\<rparr>) claims"
    and "same_claims E s s'" and "same_templates E {} s s'" by blast+
qed

text \<open>A pass over a domain that is not being deleted, step by step\<close>

lemma pass_steps:
  assumes "dom_get E ns n s = Inr d" and "\<not> dm_Deleting d" and "ReconcileDomain E ns n s = (Ok (), s')"
    and "claim_list E ns ComputeDomainClaimLabel n s = Inr claims"
  obtains d1 s1 s2 st where "ComputeDomainFinalizer \<in> set (dm_Finalizers d1)" and "dm_Channel d1 = dm_Channel d"
    and "dm_Name d1 = n" and "dm_Namespace d1 = ns" and "\<not> dm_Deleting d1" and "dm_UID d1 = dm_UID d"
    and "same_templates E {} s s1" and "ensureResourceClaimTemplates E d1 s1 = (Ok (), s2)"
    and "dom_get E ns n s' = Inr (d1\<lparr>dm_Status := st\<rparr>)" and "shows_claims E (d1\<lparr>dm_Status := st\<rparr>) claims"
    and "same_claims E s s'" and "same_templates E {} s2 s'"
proof -
  obtain d1 s1 s2 where f: "ensureFinalizer E d s = (Ok d1, s1)" and t: "ensureResourceClaimTemplates E d1 s1 = (Ok (), s2)"
    and u: "updateStatus E d1 s2 = (Ok (), s')"
    using assms(1-3) by (auto simp: ReconcileDomain_def elim!: sbind_eq_OkD)
  note F = finalizer_ensured [OF f assms(1,2)]
  obtain st fs where d1: "d1 = d\<lparr>dm_Finalizers := fs, dm_Status := st\<rparr>" "ComputeDomainFinalizer \<in> set fs" using F(2) by blast
  have g: "dom_get E ns n s2 = Inr d1" using F(1) template_ensured(1) [OF t] by (simp add: same_domains_def)
  have c: "claim_list E ns ComputeDomainClaimLabel n s2 = Inr claims"
    using assms(4) F(3) template_ensured(2) [OF t] by (simp add: same_claims_def)
  note S = status_written [OF u g c]
  obtain st' where st': "dom_get E ns n s' = Inr (d1\<lparr>dm_Status := st'\<rparr>)" "shows_claims E (d1\<lparr>dm_Status := st'\<rparr>) claims"
    using S(1) by blast
  have "same_claims E s s'" using F(3) template_ensured(2) [OF t] S(2) by (simp add: same_claims_def)
  with that [OF _ _ _ _ _ _ F(4) t st' _ S(3)] d1 dom_key [OF assms(1)] assms(2) show ?thesis by simp
qed

lemma pass_reconciled:
  assumes "dom_get E ns n s = Inr d" and "\<not> dm_Deleting d" and "ReconcileDomain E ns n s = (Ok (), s')"
    and "claim_list E ns ComputeDomainClaimLabel n s = Inr claims"
  shows "\<exists>d' t. dom_get E ns n s' = Inr d' \<and> ComputeDomainFinalizer \<in> set (dm_Finalizers d') \<and> shows_claims E d' claims \<and>
    tmpl_get E ns (templateName d) s' = Inr t \<and>
    (missing (tmpl_get E ns (templateName d) s) \<longrightarrow> isOwnedBy t d \<and> rt_Parameters t = template_parameters d)"
    and "tmpl_get E ns' n' s = Inr u \<Longrightarrow> tmpl_get E ns' n' s' = Inr u"
proof -
  obtain d1 s1 s2 st where d1: "ComputeDomainFinalizer \<in> set (dm_Finalizers d1)" "dm_Channel d1 = dm_Channel d"
    "dm_Name d1 = n" "dm_Namespace d1 = ns" "dm_UID d1 = dm_UID d"
    and before: "same_templates E {} s s1" and t: "ensureResourceClaimTemplates E d1 s1 = (Ok (), s2)"
    and g: "dom_get E ns n s' = Inr (d1\<lparr>dm_Status := st\<rparr>)" "shows_claims E (d1\<lparr>dm_Status := st\<rparr>) claims"
    and after: "same_templates E {} s2 s'"
    by (rule pass_steps [OF assms]) blast
  note key = dom_key [OF assms(1)]
  have name: "templateName d1 = templateName d" using d1 key by (simp add: templateName_def split: option.split)
  have own: "isOwnedBy u d1 = isOwnedBy u d" "template_parameters d1 = template_parameters d" for u
    using d1 key by (simp_all add: isOwnedBy_def template_parameters_def getAllocationMode_def)
  obtain t' where "tmpl_get E ns (templateName d) s2 = Inr t'"
    "missing (tmpl_get E ns (templateName d) s1) \<longrightarrow> isOwnedBy t' d \<and> rt_Parameters t' = template_parameters d"
    using template_ensured(4) [OF t] unfolding name own d1(4) by blast
  with before after g d1(1)
  show "\<exists>d' t. dom_get E ns n s' = Inr d' \<and> ComputeDomainFinalizer \<in> set (dm_Finalizers d') \<and> shows_claims E d' claims \<and>
    tmpl_get E ns (templateName d) s' = Inr t \<and>
    (missing (tmpl_get E ns (templateName d) s) \<longrightarrow> isOwnedBy t d \<and> rt_Parameters t = template_parameters d)"
    by (simp add: same_templates_def)
  show "tmpl_get E ns' n' s = Inr u \<Longrightarrow> tmpl_get E ns' n' s' = Inr u"
    using before after template_ensured(3) [OF t] by (simp add: same_templates_def)
qed

lemma pass_settled:
  assumes "dom_get E ns n s = Inr d" and "\<not> dm_Deleting d" and "ReconcileDomain E ns n s = (Ok (), s')"
    and "claim_list E ns ComputeDomainClaimLabel n s = Inr claims"
  shows "ReconcileDomain E ns n s' = (Ok (), s')"
proof -
  obtain d1 s1 s2 st where d1: "ComputeDomainFinalizer \<in> set (dm_Finalizers d1)"
    "dm_Name d1 = n" "dm_Namespace d1 = ns" "\<not> dm_Deleting d1"
    and t: "ensureResourceClaimTemplates E d1 s1 = (Ok (), s2)"
    and g: "dom_get E ns n s' = Inr (d1\<lparr>dm_Status := st\<rparr>)" "shows_claims E (d1\<lparr>dm_Status := st\<rparr>) claims"
    and c: "same_claims E s s'" and after: "same_templates E {} s2 s'"
    by (rule pass_steps [OF assms]) blast
  let ?d = "d1\<lparr>dm_Status := st\<rparr>"
  obtain t' where "tmpl_get E ns (templateName d1) s2 = Inr t'" using template_ensured(4) [OF t] d1 by blast
  moreover have "templateName ?d = templateName d1" by (simp add: templateName_def split: option.split)
  ultimately have "tmpl_get E ns (templateName ?d) s' = Inr t'" using after by (simp add: same_templates_def)
  then have "ensureResourceClaimTemplates E ?d s' = (Ok (), s')"
    using d1 by (simp add: ensureResourceClaimTemplates_def ensureTemplate_def)
  moreover have "ensureFinalizer E ?d s' = (Ok ?d, s')" using d1 by (simp add: ensureFinalizer_def)
  moreover have "updateStatus E ?d s' = (Ok (), s')"
    using c assms(4) g(2) d1 by (simp add: updateStatus_def same_claims_def shows_claims_def statusEqual_iff comp_def Let_def)
  ultimately show ?thesis using g(1) d1 by (simp add: ReconcileDomain_def)
qed

text \<open>The deletion of the template, then of the domain\<close>

lemma template_deleted:
  assumes "deleteResourceClaimTemplates E d s = (Ok (), s')"
  shows "same_domains E s s'" and "same_templates E {(dm_Namespace d, templateName d)} s s'"
    and "case tmpl_get E (dm_Namespace d) (templateName d) s of
        Inl e \<Rightarrow> s' = s
      | Inr t \<Rightarrow> if isOwnedBy t d
          then set (rt_Finalizers t) \<subseteq> {ComputeDomainFinalizer} \<longrightarrow> missing (tmpl_get E (dm_Namespace d) (templateName d) s')
          else s' = s"
proof -
  let ?ns = "dm_Namespace d" and ?n = "templateName d"
  have "same_domains E s s' \<and> same_templates E {(?ns, ?n)} s s' \<and>
      (case tmpl_get E ?ns ?n s of Inl e \<Rightarrow> s' = s
       | Inr t \<Rightarrow> if isOwnedBy t d then set (rt_Finalizers t) \<subseteq> {ComputeDomainFinalizer} \<longrightarrow> missing (tmpl_get E ?ns ?n s') else s' = s)"
  proof (cases "\<exists>t. tmpl_get E ?ns ?n s = Inr t \<and> isOwnedBy t d")
    case False
    then have "s' = s" using assms by (auto simp: deleteResourceClaimTemplates_def split: sum.splits if_splits)
    with False show ?thesis by (auto simp: same_domains_def same_templates_def split: sum.split)
  next
    case True
    then obtain t where t: "tmpl_get E ?ns ?n s = Inr t" "isOwnedBy t d" by blast
    note key = tmpl_key [OF t(1)]
    let ?t = "t\<lparr>rt_Finalizers := remove_finalizer E (rt_Finalizers t) ComputeDomainFinalizer\<rparr>"
    obtain t1 s1 where u: "(if ComputeDomainFinalizer \<in> set (rt_Finalizers t) then api_call (tmpl_update E ?t s) else (Ok t, s)) = (Ok t1, s1)"
      and del: "(case tmpl_delete E (rt_Namespace t1) (rt_Name t1) s1 of
                 (Inl e, s') \<Rightarrow> (if is_not_found e then Ok () else Err e, s') | (Inr u, s') \<Rightarrow> (Ok (), s')) = (Ok (), s')"
      using assms t by (auto simp: deleteResourceClaimTemplates_def elim!: sbind_eq_OkD)
    have one: "rt_Namespace t1 = ?ns \<and> rt_Name t1 = ?n \<and> same_domains E s s1 \<and> same_templates E {(?ns, ?n)} s s1 \<and>
        (set (rt_Finalizers t) \<subseteq> {ComputeDomainFinalizer} \<longrightarrow>
           (\<exists>t'. tmpl_get E ?ns ?n s1 = Inr t' \<and> rt_Finalizers t' = []) \<or> missing (tmpl_get E ?ns ?n s1))"
    proof (cases "ComputeDomainFinalizer \<in> set (rt_Finalizers t)")
      case True
      then have "tmpl_update E ?t s = (Inr t1, s1)" using u by simp
      note up = tmpl_updated [OF this]
      have none: "remove_finalizer E (rt_Finalizers t) ComputeDomainFinalizer = []"
        if "set (rt_Finalizers t) \<subseteq> {ComputeDomainFinalizer}"
      proof -
        have "set (remove_finalizer E (rt_Finalizers t) ComputeDomainFinalizer) = {}" unfolding removed using that by blast
        then show ?thesis by (simp only: set_empty)
      qed
      have "rt_Namespace ?t = ?ns" "rt_Name ?t = ?n" using key by simp_all
      then show ?thesis using up none by auto
    next
      case False
      with u have e: "t1 = t" "s1 = s" by simp_all
      have "rt_Finalizers t = []" if "set (rt_Finalizers t) \<subseteq> {ComputeDomainFinalizer}"
        using that False by (cases "rt_Finalizers t") auto
      then show ?thesis unfolding e using t(1) key by (auto simp: same_domains_def same_templates_def)
    qed
    obtain r where r: "tmpl_delete E ?ns ?n s1 = (r, s')" and "\<forall>e. r = Inl e \<longrightarrow> is_not_found e"
      using del one by (auto split: prod.splits sum.splits if_splits)
    with tmpl_deleted [OF r] one t show ?thesis
      by (cases r) (auto simp: same_domains_def same_templates_def)
  qed
  then show "same_domains E s s'" and "same_templates E {(?ns, ?n)} s s'"
    and "case tmpl_get E ?ns ?n s of Inl e \<Rightarrow> s' = s
       | Inr t \<Rightarrow> if isOwnedBy t d then set (rt_Finalizers t) \<subseteq> {ComputeDomainFinalizer} \<longrightarrow> missing (tmpl_get E ?ns ?n s') else s' = s"
    by blast+
qed

lemma pass_deleted:
  assumes "dom_get E ns n s = Inr d" and "dm_Deleting d" and "ReconcileDomain E ns n s = (Ok (), s')"
    and "ComputeDomainFinalizer \<in> set (dm_Finalizers d)"
  shows "case dom_get E ns n s' of Inl e \<Rightarrow> is_not_found e | Inr d' \<Rightarrow> ComputeDomainFinalizer \<notin> set (dm_Finalizers d')"
    and "same_templates E {(ns, templateName d)} s s'"
    and "tmpl_get E ns (templateName d) s = Inr t \<Longrightarrow> \<not> isOwnedBy t d \<Longrightarrow> tmpl_get E ns (templateName d) s' = Inr t"
    and "tmpl_get E ns (templateName d) s = Inr t \<Longrightarrow> isOwnedBy t d \<Longrightarrow> set (rt_Finalizers t) \<subseteq> {ComputeDomainFinalizer} \<Longrightarrow>
      missing (tmpl_get E ns (templateName d) s')"
proof -
  let ?d = "d\<lparr>dm_Finalizers := remove_finalizer E (dm_Finalizers d) ComputeDomainFinalizer\<rparr>"
  note key = dom_key [OF assms(1)]
  obtain d' s1 where t: "deleteResourceClaimTemplates E d s = (Ok (), s1)" and u: "dom_update E ?d s1 = (Inr d', s')"
    using assms by (auto simp: ReconcileDomain_def handleDeletion_def elim!: sbind_eq_OkD)
  note T = template_deleted [OF t] and U = updated [OF u]
  obtain st where "d' = ?d\<lparr>dm_Status := st\<rparr>" using U(1) by blast
  then have "ComputeDomainFinalizer \<notin> set (dm_Finalizers d')" by simp
  with U(2) key show "case dom_get E ns n s' of Inl e \<Rightarrow> is_not_found e | Inr d' \<Rightarrow> ComputeDomainFinalizer \<notin> set (dm_Finalizers d')"
    by (auto simp: missing_def split: if_splits sum.splits)
  show "same_templates E {(ns, templateName d)} s s'" using T(2) U(4) key by (simp add: same_templates_def)
  show "tmpl_get E ns (templateName d) s = Inr t \<Longrightarrow> \<not> isOwnedBy t d \<Longrightarrow> tmpl_get E ns (templateName d) s' = Inr t"
    using T(3) U(4) key by (simp add: same_templates_def)
  show "tmpl_get E ns (templateName d) s = Inr t \<Longrightarrow> isOwnedBy t d \<Longrightarrow> set (rt_Finalizers t) \<subseteq> {ComputeDomainFinalizer} \<Longrightarrow>
      missing (tmpl_get E ns (templateName d) s')"
    using T(3) U(4) key by (simp add: same_templates_def)
qed

end

section \<open>Properties\<close>

lemma claimed_nodes_spec:
  "sorted (claimed_nodes claims)" "distinct (claimed_nodes claims)"
  "set (claimed_nodes claims) = {p. p \<noteq> [] \<and> (\<exists>c \<in> set claims. \<exists>ps. cl_Pools c = Some ps \<and> p \<in> set ps)}"
  by (force simp: claimed_nodes_def split: option.splits)+

text \<open>
  C15. After a successful pass over a domain that is not being deleted the domain has its finalizer and a template,
  which is its own when there was none, its status shows the nodes of its allocated claims, each once and in
  order, and no template that was there has changed.
\<close>

theorem domain_reconciled:
  assumes "domain_ok E" and "dom_get E ns n s = Inr d" and "\<not> dm_Deleting d"
    and "ReconcileDomain E ns n s = (Ok (), s')" and "claim_list E ns ComputeDomainClaimLabel n s = Inr claims"
  shows "(\<exists>d' t. dom_get E ns n s' = Inr d' \<and> ComputeDomainFinalizer \<in> set (dm_Finalizers d') \<and> shows_claims E d' claims \<and>
      tmpl_get E ns (templateName d) s' = Inr t \<and>
      (missing (tmpl_get E ns (templateName d) s) \<longrightarrow> isOwnedBy t d \<and> rt_Parameters t = template_parameters d)) \<and>
    (\<forall>ns' n' u. tmpl_get E ns' n' s = Inr u \<longrightarrow> tmpl_get E ns' n' s' = Inr u) \<and>
    sorted (claimed_nodes claims) \<and> distinct (claimed_nodes claims) \<and>
    set (claimed_nodes claims) = {p. p \<noteq> [] \<and> (\<exists>c \<in> set claims. \<exists>ps. cl_Pools c = Some ps \<and> p \<in> set ps)}"
  using domain_server.pass_reconciled [OF domain_server.intro [OF assms(1)] assms(2-5)]
  by (intro conjI claimed_nodes_spec allI impI) blast+

text \<open>C16. A second pass over the same domain finds everything as it should be and writes nothing.\<close>

theorem domain_settled:
  assumes "domain_ok E" and "dom_get E ns n s = Inr d" and "\<not> dm_Deleting d"
    and "ReconcileDomain E ns n s = (Ok (), s')" and "claim_list E ns ComputeDomainClaimLabel n s = Inr claims"
  shows "ReconcileDomain E ns n s' = (Ok (), s')"
  by (rule domain_server.pass_settled [OF domain_server.intro [OF assms(1)] assms(2-5)])

text \<open>
  A successful pass over a domain that is being deleted takes its finalizer off and removes the template it
  owns, when nobody else's finalizer is on it, and keeps a template of that name that is not its own and every
  other template.
\<close>

theorem domain_deleted:
  assumes "domain_ok E" and "dom_get E ns n s = Inr d" and "dm_Deleting d"
    and "ReconcileDomain E ns n s = (Ok (), s')" and "ComputeDomainFinalizer \<in> set (dm_Finalizers d)"
  shows "(case dom_get E ns n s' of Inl e \<Rightarrow> is_not_found e | Inr d' \<Rightarrow> ComputeDomainFinalizer \<notin> set (dm_Finalizers d')) \<and>
    (\<forall>t. tmpl_get E ns (templateName d) s = Inr t \<longrightarrow>
       (if \<not> isOwnedBy t d then tmpl_get E ns (templateName d) s' = Inr t
        else set (rt_Finalizers t) \<subseteq> {ComputeDomainFinalizer} \<longrightarrow> missing (tmpl_get E ns (templateName d) s'))) \<and>
    (\<forall>ns' n'. (ns', n') \<noteq> (ns, templateName d) \<longrightarrow> tmpl_get E ns' n' s' = tmpl_get E ns' n' s)"
  using domain_server.pass_deleted [OF domain_server.intro [OF assms(1)] assms(2-5)]
  by (auto simp: same_templates_def)

end
