(* ===== verification/WitnessDomain.thy ===== *)
theory WitnessDomain
  imports DomainProps
begin

text \<open>
  A concrete API for compute domains, on which the interface \<open>domain_server\<close> is interpreted, and the
  properties of the reconciler at concrete domains.
\<close>

section \<open>A server\<close>

record dom_state =
  st_domains :: "((string \<times> string) \<times> ComputeDomain) list"
  st_templates :: "((string \<times> string) \<times> ResourceClaimTemplate) list"
  st_claims :: "DomainClaim list"

definition found :: "('o \<Rightarrow> string \<times> string) \<Rightarrow> ((string \<times> string) \<times> 'o) list \<Rightarrow> string \<times> string \<Rightarrow> gerror + 'o" where
  "found key xs k = (case map_of xs k of None \<Rightarrow> Inl NotFoundErr | Some x \<Rightarrow> if key x = k then Inr x else Inl NotFoundErr)"

definition dom_key :: "ComputeDomain \<Rightarrow> string \<times> string" where
  "dom_key d = (dm_Namespace d, dm_Name d)"

definition tmpl_key :: "ResourceClaimTemplate \<Rightarrow> string \<times> string" where
  "tmpl_key t = (rt_Namespace t, rt_Name t)"

definition ref_domain_env :: "dom_state domain_env" where
  "ref_domain_env = \<lparr>
     dom_get = (\<lambda>ns n s. found dom_key (st_domains s) (ns, n)),
     dom_update = (\<lambda>d s. case found dom_key (st_domains s) (dom_key d) of
         Inl e \<Rightarrow> (Inl e, s)
       | Inr d0 \<Rightarrow>
           let d' = d\<lparr>dm_Status := dm_Status d0\<rparr>
           in (Inr d', s\<lparr>st_domains := if dm_Deleting d \<and> dm_Finalizers d = [] then AList.delete (dom_key d) (st_domains s)
                                      else AList.update (dom_key d) d' (st_domains s)\<rparr>)),
     dom_status_update = (\<lambda>d s. case found dom_key (st_domains s) (dom_key d) of
         Inl e \<Rightarrow> (Inl e, s)
       | Inr d0 \<Rightarrow> (Inr (), s\<lparr>st_domains := AList.update (dom_key d) (d0\<lparr>dm_Status := dm_Status d\<rparr>) (st_domains s)\<rparr>)),
     tmpl_get = (\<lambda>ns n s. found tmpl_key (st_templates s) (ns, n)),
     tmpl_create = (\<lambda>t s. case found tmpl_key (st_templates s) (tmpl_key t) of
         Inr t' \<Rightarrow> (Inl AlreadyExistsErr, s)
       | Inl e \<Rightarrow> (Inr (), s\<lparr>st_templates := AList.update (tmpl_key t) t (st_templates s)\<rparr>)),
     tmpl_update = (\<lambda>t s. case found tmpl_key (st_templates s) (tmpl_key t) of
         Inl e \<Rightarrow> (Inl e, s)
       | Inr t' \<Rightarrow> (Inr t, s\<lparr>st_templates := AList.update (tmpl_key t) t (st_templates s)\<rparr>)),
     tmpl_delete = (\<lambda>ns n s. case found tmpl_key (st_templates s) (ns, n) of
         Inl e \<Rightarrow> (Inl e, s)
       | Inr t \<Rightarrow> (Inr (), if rt_Finalizers t = [] then s\<lparr>st_templates := AList.delete (ns, n) (st_templates s)\<rparr> else s)),
     claim_list = (\<lambda>ns k v s. Inr (filter (\<lambda>c. cl_Namespace c = ns \<and> cl_Labels c k = Some v) (st_claims s))),
     set_controller_reference = (\<lambda>d t. Inr (t\<lparr>rt_OwnerReferences := rt_OwnerReferences t @
         [\<lparr>ow_Kind = ''ComputeDomain'', ow_Name = dm_Name d, ow_UID = dm_UID d\<rparr>]\<rparr>)),
     contains_finalizer = (\<lambda>fs f. f \<in> set fs),
     add_finalizer = (\<lambda>fs f. if f \<in> set fs then fs else fs @ [f]),
     remove_finalizer = (\<lambda>fs f. removeAll f fs),
     StatusReady = ''Ready'', StatusNotReady = ''NotReady''\<rparr>"

lemma found_simps [simp]:
  "found key (AList.update k x xs) k' = (if k' = k then (if key x = k then Inr x else Inl NotFoundErr) else found key xs k')"
  "found key (AList.delete k xs) k' = (if k' = k then Inl NotFoundErr else found key xs k')"
  by (auto simp: found_def map_of_update map_of_delete)

lemma found_key: "found key xs k = Inr x \<Longrightarrow> key x = k"
  by (auto simp: found_def split: option.splits if_splits)

lemma found_missing: "found key xs k = Inl e \<Longrightarrow> e = NotFoundErr"
  by (auto simp: found_def split: option.splits if_splits)

lemma key_fields [simp]:
  "dom_key (d\<lparr>dm_Status := st\<rparr>) = dom_key d" "dom_key (d\<lparr>dm_Finalizers := fs\<rparr>) = dom_key d"
  "tmpl_key (t\<lparr>rt_Finalizers := fs\<rparr>) = tmpl_key t" "tmpl_key (t\<lparr>rt_OwnerReferences := ow\<rparr>) = tmpl_key t"
  by (simp_all add: dom_key_def tmpl_key_def)

lemma ref_util_ok: "util_ok ref_domain_env"
  unfolding util_ok_def
proof (intro conjI)
  show "\<forall>d t t'. set_controller_reference ref_domain_env d t = Inr t' \<longrightarrow>
      (\<exists>ow. ow_Kind ow = ''ComputeDomain'' \<and> ow_Name ow = dm_Name d \<and> t' = t\<lparr>rt_OwnerReferences := rt_OwnerReferences t @ [ow]\<rparr>)"
  proof (intro allI impI)
    fix d :: ComputeDomain and t t' :: ResourceClaimTemplate
    let ?ow = "\<lparr>ow_Kind = ''ComputeDomain'', ow_Name = dm_Name d, ow_UID = dm_UID d\<rparr>"
    assume "set_controller_reference ref_domain_env d t = Inr t'"
    then have "ow_Kind ?ow = ''ComputeDomain'' \<and> ow_Name ?ow = dm_Name d \<and> t' = t\<lparr>rt_OwnerReferences := rt_OwnerReferences t @ [?ow]\<rparr>"
      by (simp add: ref_domain_env_def)
    then show "\<exists>ow. ow_Kind ow = ''ComputeDomain'' \<and> ow_Name ow = dm_Name d \<and> t' = t\<lparr>rt_OwnerReferences := rt_OwnerReferences t @ [ow]\<rparr>"
      by blast
  qed
qed (auto simp: ref_domain_env_def)

lemma ref_domain_writes_ok: "domain_writes_ok ref_domain_env"
  unfolding domain_writes_ok_def
proof (intro conjI)
  show "\<forall>ns n s d. dom_get ref_domain_env ns n s = Inr d \<longrightarrow> dm_Namespace d = ns \<and> dm_Name d = n"
    by (auto simp: ref_domain_env_def dom_key_def dest!: found_key)
qed (auto simp: ref_domain_env_def same_claims_def same_templates_def dom_key_def Let_def dest!: found_key split: sum.splits)

lemma ref_template_writes_ok: "template_writes_ok ref_domain_env"
  unfolding template_writes_ok_def
proof (intro conjI)
  show "\<forall>ns n s t. tmpl_get ref_domain_env ns n s = Inr t \<longrightarrow> rt_Namespace t = ns \<and> rt_Name t = n"
    by (auto simp: ref_domain_env_def tmpl_key_def dest!: found_key)
qed (auto simp: ref_domain_env_def same_claims_def same_domains_def same_templates_def tmpl_key_def dest!: found_key found_missing
  split: sum.splits if_splits)

lemma ref_domain_ok: "domain_ok ref_domain_env"
  by (simp add: domain_ok_def ref_util_ok ref_domain_writes_ok ref_template_writes_ok)

interpretation ref_domain: domain_server ref_domain_env
  by unfold_locales (rule ref_domain_ok)

section \<open>A domain of two nodes\<close>

definition d_domain :: "bool \<Rightarrow> string list \<Rightarrow> ComputeDomain" where
  "d_domain deleting fs =
     \<lparr>dm_Name = ''cd1'', dm_Namespace = ''ns1'', dm_UID = ''u1'', dm_Finalizers = fs, dm_Deleting = deleting, dm_NumNodes = 2,
      dm_Channel = Some \<lparr>ch_TemplateName = ''t1'', ch_AllocationMode = []\<rparr>, dm_Status = \<lparr>sn_Status = [], sn_Nodes = []\<rparr>\<rparr>"

definition d_claims :: "DomainClaim list" where
  "d_claims = [\<lparr>cl_Namespace = ''ns1'', cl_Labels = [ComputeDomainClaimLabel \<mapsto> ''cd1''], cl_Pools = Some [''n2'', ''n1'', ''n2'']\<rparr>,
               \<lparr>cl_Namespace = ''ns1'', cl_Labels = [ComputeDomainClaimLabel \<mapsto> ''cd1''], cl_Pools = None\<rparr>]"

definition d_state :: dom_state where
  "d_state = \<lparr>st_domains = [((''ns1'', ''cd1''), d_domain False [])], st_templates = [], st_claims = d_claims\<rparr>"

lemma d_run: "ReconcileDomain ref_domain_env ''ns1'' ''cd1'' d_state =
    (Ok (), snd (ReconcileDomain ref_domain_env ''ns1'' ''cd1'' d_state))"
proof -
  have "fst (ReconcileDomain ref_domain_env ''ns1'' ''cd1'' d_state) = Ok ()"
    by (simp add: ReconcileDomain_def ensureFinalizer_def ensureResourceClaimTemplates_def ensureTemplate_def updateStatus_def
        ref_domain_env_def d_state_def d_domain_def d_claims_def found_def dom_key_def tmpl_key_def new_template_def Let_def)
  then show ?thesis by (simp add: prod_eq_iff)
qed

lemma d_facts:
  "dom_get ref_domain_env ''ns1'' ''cd1'' d_state = Inr (d_domain False [])" "\<not> dm_Deleting (d_domain False [])"
  "claim_list ref_domain_env ''ns1'' ComputeDomainClaimLabel ''cd1'' d_state = Inr d_claims"
  by (simp_all add: ref_domain_env_def found_def d_state_def d_domain_def dom_key_def d_claims_def)

theorem domain_reconciled_witness:
  "\<exists>d'. dom_get ref_domain_env ''ns1'' ''cd1'' (snd (ReconcileDomain ref_domain_env ''ns1'' ''cd1'' d_state)) = Inr d' \<and>
    map dn_Name (sn_Nodes (dm_Status d')) = [''n1'', ''n2'']"
proof -
  have "claimed_nodes d_claims = [''n1'', ''n2'']" by (simp add: claimed_nodes_def d_claims_def)
  then show ?thesis
    using domain_reconciled [OF ref_domain_ok d_facts(1,2) d_run d_facts(3)] by (auto simp: shows_claims_def)
qed

theorem domain_settled_witness:
  "ReconcileDomain ref_domain_env ''ns1'' ''cd1'' (snd (ReconcileDomain ref_domain_env ''ns1'' ''cd1'' d_state)) =
    (Ok (), snd (ReconcileDomain ref_domain_env ''ns1'' ''cd1'' d_state))"
  by (rule domain_settled [OF ref_domain_ok d_facts(1,2) d_run d_facts(3)])

text \<open>Its deletion, with the template of another owner beside its own\<close>

definition d_template :: "string \<Rightarrow> string \<Rightarrow> ResourceClaimTemplate" where
  "d_template name owner = (new_template (d_domain False []) name ComputeDomainWorkloadDeviceClass ''workload'')
     \<lparr>rt_OwnerReferences := [\<lparr>ow_Kind = ''ComputeDomain'', ow_Name = owner, ow_UID = ''u''\<rparr>]\<rparr>"

definition d_gone :: dom_state where
  "d_gone = \<lparr>st_domains = [((''ns1'', ''cd1''), d_domain True [ComputeDomainFinalizer])],
     st_templates = [((''ns1'', ''t1''), d_template ''t1'' ''cd1''), ((''ns1'', ''t2''), d_template ''t2'' ''cd2'')], st_claims = []\<rparr>"

lemma d_gone_run: "ReconcileDomain ref_domain_env ''ns1'' ''cd1'' d_gone =
    (Ok (), snd (ReconcileDomain ref_domain_env ''ns1'' ''cd1'' d_gone))"
proof -
  have "fst (ReconcileDomain ref_domain_env ''ns1'' ''cd1'' d_gone) = Ok ()"
    by (simp add: ReconcileDomain_def handleDeletion_def deleteResourceClaimTemplates_def isOwnedBy_def templateName_def
        ref_domain_env_def d_gone_def d_domain_def d_template_def found_def dom_key_def tmpl_key_def new_template_def Let_def)
  then show ?thesis by (simp add: prod_eq_iff)
qed

theorem domain_deleted_witness:
  "missing (tmpl_get ref_domain_env ''ns1'' ''t1'' (snd (ReconcileDomain ref_domain_env ''ns1'' ''cd1'' d_gone))) \<and>
   tmpl_get ref_domain_env ''ns1'' ''t2'' (snd (ReconcileDomain ref_domain_env ''ns1'' ''cd1'' d_gone)) = Inr (d_template ''t2'' ''cd2'')"
proof -
  have g: "dom_get ref_domain_env ''ns1'' ''cd1'' d_gone = Inr (d_domain True [ComputeDomainFinalizer])"
    "dm_Deleting (d_domain True [ComputeDomainFinalizer])"
    "ComputeDomainFinalizer \<in> set (dm_Finalizers (d_domain True [ComputeDomainFinalizer]))"
    "templateName (d_domain True [ComputeDomainFinalizer]) = ''t1''"
    by (simp_all add: ref_domain_env_def found_def d_gone_def d_domain_def dom_key_def templateName_def)
  have t: "tmpl_get ref_domain_env ''ns1'' ''t1'' d_gone = Inr (d_template ''t1'' ''cd1'')"
    "tmpl_get ref_domain_env ''ns1'' ''t2'' d_gone = Inr (d_template ''t2'' ''cd2'')"
    "isOwnedBy (d_template ''t1'' ''cd1'') (d_domain True [ComputeDomainFinalizer])"
    "set (rt_Finalizers (d_template ''t1'' ''cd1'')) \<subseteq> {ComputeDomainFinalizer}"
    by (simp_all add: ref_domain_env_def found_def d_gone_def d_template_def new_template_def tmpl_key_def isOwnedBy_def d_domain_def)
  from domain_deleted [OF ref_domain_ok g(1,2) d_gone_run g(3), unfolded g(4)] t show ?thesis by simp
qed

end
