(* ===== verification/ResourceSlices.thy ===== *)
theory ResourceSlices
  imports Watch
begin

text \<open>
  How the GPUs and channels of nodes are published as ResourceSlices: by the plugins for simulated nodes
  (\<^verbatim>\<open>internal/kwok-dra-plugin\<close>, \<^verbatim>\<open>internal/kwok-compute-domain-dra-plugin\<close>), which write
  one slice for each node, and by the plugin on a node (\<^verbatim>\<open>internal/dra-plugin-gpu/discovery.go\<close>), which
  reads the node's topology from the topology server (\<^verbatim>\<open>cmd/topology-server\<close>).  The extraction of the
  node name in kwok-dra-plugin is a copy of that of the theory \<open>Watch\<close>.
\<close>

section \<open>Objects\<close>

datatype DeviceAttribute = StringValue string | IntValue int

record 'q Device =
  dv_Name :: string
  dv_Attributes :: "string \<rightharpoonup> DeviceAttribute"
  dv_Capacity :: "string \<rightharpoonup> 'q"

record 'q ResourceSlice =
  sl_Name :: string
  sl_ResourceVersion :: string
  sl_Driver :: string
  sl_NodeName :: string
  sl_PoolName :: string
  sl_SliceCount :: int
  sl_Devices :: "'q Device list"

text \<open>The API for slices, which have no namespace, and \<^verbatim>\<open>resource.NewQuantity(_, BinarySI)\<close>.\<close>

record ('s, 'q) slice_env =
  slice_get :: "string \<Rightarrow> 's \<Rightarrow> gerror + 'q ResourceSlice"
  slice_create :: "'q ResourceSlice \<Rightarrow> 's \<Rightarrow> (gerror + unit) \<times> 's"
  slice_update :: "'q ResourceSlice \<Rightarrow> 's \<Rightarrow> (gerror + unit) \<times> 's"
  slice_delete :: "string \<Rightarrow> 's \<Rightarrow> (gerror + unit) \<times> 's"
  q_binary :: "int \<Rightarrow> 'q"

definition upsert_slice :: "('s, 'q) slice_env \<Rightarrow> 'q ResourceSlice \<Rightarrow> 's \<Rightarrow> unit res \<times> 's" where
  "upsert_slice A x s =
     (case slice_get A (sl_Name x) s of
        Inl e \<Rightarrow>
          if is_not_found e
          then (case slice_create A x s of (r, s') \<Rightarrow> (wrap_err ''failed to create ResourceSlice'' (of_sum r), s'))
          else (Err (Wrap ''failed to get ResourceSlice'' e), s)
      | Inr existing \<Rightarrow>
          (case slice_update A (x\<lparr>sl_ResourceVersion := sl_ResourceVersion existing\<rparr>) s of
             (r, s') \<Rightarrow> (wrap_err ''failed to update ResourceSlice'' (of_sum r), s')))"

definition delete_slice :: "('s, 'q) slice_env \<Rightarrow> string \<Rightarrow> 's \<Rightarrow> unit res \<times> 's" where
  "delete_slice A name s =
     (case slice_delete A name s of
        (Inl e, s') \<Rightarrow> (if is_not_found e then Ok () else Err (Wrap ''failed to delete ResourceSlice'' e), s')
      | (Inr u, s') \<Rightarrow> (Ok (), s'))"

section \<open>The GPUs of a simulated node\<close>

definition DraDriverName :: string where "DraDriverName = ''gpu.nvidia.com''"

definition resourceSliceName :: "string \<Rightarrow> string" where
  "resourceSliceName nodeName = ''kwok-'' @ nodeName @ ''-gpu''"

definition gpu_device :: "(int \<Rightarrow> 'q) \<Rightarrow> NodeTopology \<Rightarrow> GpuDetails \<Rightarrow> 'q Device" where
  "gpu_device quantity nt gpu =
     \<lparr>dv_Name = to_lower (ID gpu),
      dv_Attributes = [''uuid'' \<mapsto> StringValue (ID gpu), ''model'' \<mapsto> StringValue (GpuProduct nt),
                       ''gpu.nvidia.com/type'' \<mapsto> StringValue ''gpu'', ''gpu.nvidia.com/uuid'' \<mapsto> StringValue (ID gpu),
                       ''gpu.nvidia.com/productName'' \<mapsto> StringValue (GpuProduct nt)],
      dv_Capacity = [''memory'' \<mapsto> quantity (wrap64 (wrap64 (GpuMemory nt * 1024) * 1024))]\<rparr>"

definition devicesFromTopology :: "('s, 'q) slice_env \<Rightarrow> NodeTopology \<Rightarrow> 'q Device list" where
  "devicesFromTopology A nt = map (gpu_device (q_binary A) nt) (filter (\<lambda>gpu. ID gpu \<noteq> []) (Gpus nt))"

definition createOrUpdateResourceSlice :: "('s, 'q) slice_env \<Rightarrow> string \<Rightarrow> NodeTopology \<Rightarrow> 's \<Rightarrow> unit res \<times> 's" where
  "createOrUpdateResourceSlice A nodeName nt s =
     upsert_slice A
       \<lparr>sl_Name = resourceSliceName nodeName, sl_ResourceVersion = [], sl_Driver = DraDriverName, sl_NodeName = nodeName,
        sl_PoolName = nodeName, sl_SliceCount = 1, sl_Devices = devicesFromTopology A nt\<rparr> s"

definition HandleAddOrUpdateSlice ::
    "('s, 'q, 'y) kube_env \<Rightarrow> ('s, 'q) slice_env \<Rightarrow> 'y ConfigMap \<Rightarrow> 's \<Rightarrow> unit res \<times> 's" where
  "HandleAddOrUpdateSlice K A cm s =
     (case cm_Labels cm LabelTopologyCMNodeName of
        None \<Rightarrow> (Err (Msg ''ConfigMap is missing node name label''), s)
      | Some nodeName \<Rightarrow>
          if nodeName = [] then (Err (Msg ''ConfigMap is missing node name label''), s)
          else sbind (wrap_err ''failed to read node topology from ConfigMap'' (FromNodeTopologyCM K cm), s) (\<lambda>nt s.
               createOrUpdateResourceSlice A nodeName nt s))"

definition HandleDeleteSlice :: "('s, 'q) slice_env \<Rightarrow> string \<Rightarrow> 's \<Rightarrow> unit res \<times> 's" where
  "HandleDeleteSlice A nodeName s = delete_slice A (resourceSliceName nodeName) s"

text \<open>\<^verbatim>\<open>Reconcile\<close> of the request for a namespace and a name\<close>

definition ReconcileSlice ::
    "('s, 'q, 'y) kube_env \<Rightarrow> ('s, 'q) slice_env \<Rightarrow> string \<Rightarrow> string \<Rightarrow> string \<Rightarrow> 's \<Rightarrow> unit res \<times> 's" where
  "ReconcileSlice K A topologyCMPrefix namespace name s =
     (case cm_get K namespace name s of
        Inl e \<Rightarrow>
          if \<not> is_not_found e then (Err e, s)
          else let nodeName = extractNodeNameFromCMName name topologyCMPrefix
               in if nodeName \<noteq> [] then HandleDeleteSlice A nodeName s else (Ok (), s)
      | Inr cm \<Rightarrow> HandleAddOrUpdateSlice K A cm s)"

text \<open>The events that reach the reconciler: those of the topologies of simulated nodes, in its namespace\<close>

definition slice_watched :: "string \<Rightarrow> 'y ConfigMap \<Rightarrow> bool" where
  "slice_watched namespace cm \<longleftrightarrow>
     cm_Namespace cm = namespace \<and> cm_Labels cm LabelTopologyCMNodeName \<noteq> None \<and> cm_Annotations cm AnnotationKwokNode = Some ''fake''"

section \<open>The channel of a simulated node\<close>

definition channel_device :: "int \<Rightarrow> 'q Device" where
  "channel_device channelID =
     \<lparr>dv_Name = ''channel-'' @ itoa channelID,
      dv_Attributes = [''compute-domain.nvidia.com/type'' \<mapsto> StringValue ''channel'',
                       ''compute-domain.nvidia.com/id'' \<mapsto> IntValue channelID],
      dv_Capacity = Map.empty\<rparr>"

definition domainSliceName :: "string \<Rightarrow> string" where
  "domainSliceName nodeName = ''kwok-'' @ nodeName @ ''-compute-domain-channel''"

definition DomainDriverName :: string where "DomainDriverName = ''compute-domain.nvidia.com''"

definition createOrUpdateDomainSlice :: "('s, 'q) slice_env \<Rightarrow> 'q Node \<Rightarrow> 's \<Rightarrow> unit res \<times> 's" where
  "createOrUpdateDomainSlice A node s =
     upsert_slice A
       \<lparr>sl_Name = domainSliceName (n_Name node), sl_ResourceVersion = [], sl_Driver = DomainDriverName,
        sl_NodeName = n_Name node, sl_PoolName = n_Name node, sl_SliceCount = 1, sl_Devices = [channel_device 0]\<rparr> s"

definition ReconcileNodeSlice :: "('s, 'q, 'y) kube_env \<Rightarrow> ('s, 'q) slice_env \<Rightarrow> string \<Rightarrow> 's \<Rightarrow> unit res \<times> 's" where
  "ReconcileNodeSlice K A name s =
     (case node_get K name s of
        Inl e \<Rightarrow> if \<not> is_not_found e then (Err e, s) else delete_slice A (domainSliceName name) s
      | Inr node \<Rightarrow> createOrUpdateDomainSlice A node s)"

definition isKWOKNode :: "'q Node option \<Rightarrow> bool" where
  "isKWOKNode node =
     (case node of
        None \<Rightarrow> False
      | Some node \<Rightarrow>
          \<not> n_LabelsNil node \<and> (n_Labels node ''type'' = Some ''kwok'' \<or> n_Annotations node AnnotationKwokNode = Some ''fake''))"

section \<open>The topology server and the plugin on a node\<close>

text \<open>The answer to \<^verbatim>\<open>/topology/nodes/\<close>: a status, and the topology when it is 200.\<close>

definition topology_server :: "('s, 'q, 'y) kube_env \<Rightarrow> string \<Rightarrow> 's \<Rightarrow> int \<times> NodeTopology option" where
  "topology_server K nodeName s =
     (if nodeName = [] then (400, None)
      else case GetNodeTopologyFromCM K nodeName s of
             Ok nt \<Rightarrow> (200, Some nt)
           | Err e \<Rightarrow> if is_not_found e then (404, None) else (500, None)
           | Panic p \<Rightarrow> (500, None))"

text \<open>
  \<^verbatim>\<open>getTopologyFromHTTP\<close>: \<open>None\<close> is a request that fails, a topology that is missing from an answer of
  status 200 one that cannot be decoded.
\<close>

definition getTopologyFromHTTP :: "(string \<Rightarrow> (int \<times> NodeTopology option) option) \<Rightarrow> string \<Rightarrow> NodeTopology res" where
  "getTopologyFromHTTP http nodeName =
     (case http nodeName of
        None \<Rightarrow> Err (Msg ''failed to get topology from HTTP server'')
      | Some (status, body) \<Rightarrow>
          if status \<noteq> 200 then Err (Msg ''topology server returned another status'')
          else (case body of None \<Rightarrow> Err (Msg ''failed to decode topology response'') | Some nt \<Rightarrow> Ok nt))"

fun all_devices :: "(int \<Rightarrow> 'q) \<Rightarrow> NodeTopology \<Rightarrow> GpuDetails list \<Rightarrow> (string \<times> 'q Device) list \<Rightarrow> (string \<times> 'q Device) list res" where
  "all_devices quantity nt [] acc = Ok acc"
| "all_devices quantity nt (gpu # gpus) acc =
     (if ID gpu = [] then Err (Msg ''GPU entry missing ID in topology'')
      else all_devices quantity nt gpus (AList.update (to_lower (ID gpu)) (gpu_device quantity nt gpu) acc))"

definition enumerateAllPossibleDevices ::
    "(int \<Rightarrow> 'q) \<Rightarrow> (string \<Rightarrow> (int \<times> NodeTopology option) option) \<Rightarrow> string \<Rightarrow> (string \<times> 'q Device) list res" where
  "enumerateAllPossibleDevices quantity http nodeName =
     rbind (wrap_err ''failed to get topology for node'' (getTopologyFromHTTP http nodeName)) (\<lambda>nt.
       if Gpus nt = [] then Err (Msg ''topology server returned no GPUs'')
       else all_devices quantity nt (Gpus nt) [])"

text \<open>\<^verbatim>\<open>waitForTopology\<close>: the server as it is at each tick, until the context is done.\<close>

fun waitForTopology ::
    "(int \<Rightarrow> 'q) \<Rightarrow> (string \<Rightarrow> (int \<times> NodeTopology option) option) list \<Rightarrow> string \<Rightarrow> (string \<times> 'q Device) list res" where
  "waitForTopology quantity [] nodeName = Err (Msg ''context canceled'')"
| "waitForTopology quantity (http # ticks) nodeName =
     (case enumerateAllPossibleDevices quantity http nodeName of
        Ok devices \<Rightarrow> Ok devices
      | Err e \<Rightarrow> waitForTopology quantity ticks nodeName
      | Panic p \<Rightarrow> Panic p)"

end
