(* ===== verification/SliceProps.thy ===== *)
theory SliceProps
  imports ResourceSlices PodDra
begin

text \<open>
  What the published slices promise: they follow the topologies, and the names in them are those by which
  the pod handler finds the GPUs again.  The contract with the API is the locale \<open>slice_server\<close>.
\<close>

section \<open>The interface\<close>

definition slice_same :: "'q ResourceSlice \<Rightarrow> 'q ResourceSlice \<Rightarrow> bool" where
  "slice_same x y \<longleftrightarrow> y\<lparr>sl_ResourceVersion := []\<rparr> = x\<lparr>sl_ResourceVersion := []\<rparr>"

definition slices_ok :: "('s, 'q) slice_env \<Rightarrow> bool" where
  "slices_ok A \<longleftrightarrow>
     (\<forall>x s s'. (slice_create A x s = (Inr (), s') \<or> slice_update A x s = (Inr (), s')) \<longrightarrow>
        (\<exists>y. slice_get A (sl_Name x) s' = Inr y \<and> slice_same x y) \<and>
        (\<forall>m. m \<noteq> sl_Name x \<longrightarrow> slice_get A m s' = slice_get A m s)) \<and>
     (\<forall>n r s s'. slice_delete A n s = (r, s') \<longrightarrow>
        (\<forall>m. m \<noteq> n \<longrightarrow> slice_get A m s' = slice_get A m s) \<and>
        (case r of Inl e \<Rightarrow> is_not_found e \<longrightarrow> missing (slice_get A n s') | Inr u \<Rightarrow> missing (slice_get A n s')))"

locale slice_server =
  fixes A :: "('s, 'q) slice_env"
  assumes ok: "slices_ok A"
begin

lemma written:
  assumes "slice_create A x s = (Inr (), s') \<or> slice_update A x s = (Inr (), s')"
  shows "\<exists>y. slice_get A (sl_Name x) s' = Inr y \<and> slice_same x y" and "m \<noteq> sl_Name x \<Longrightarrow> slice_get A m s' = slice_get A m s"
  using ok assms unfolding slices_ok_def by blast+

lemma gone:
  assumes "slice_delete A n s = (r, s')"
  shows "m \<noteq> n \<Longrightarrow> slice_get A m s' = slice_get A m s"
    and "case r of Inl e \<Rightarrow> is_not_found e \<longrightarrow> missing (slice_get A n s') | Inr u \<Rightarrow> missing (slice_get A n s')"
  using ok assms unfolding slices_ok_def by blast+

lemma upserted:
  assumes "upsert_slice A x s = (Ok (), s')"
  shows "\<exists>y. slice_get A (sl_Name x) s' = Inr y \<and> slice_same x y" and "m \<noteq> sl_Name x \<Longrightarrow> slice_get A m s' = slice_get A m s"
proof -
  obtain z where "slice_create A z s = (Inr (), s') \<or> slice_update A z s = (Inr (), s')"
    and z: "z = x\<lparr>sl_ResourceVersion := sl_ResourceVersion z\<rparr>" "sl_Name z = sl_Name x"
  proof (cases "slice_get A (sl_Name x) s")
    case (Inl e)
    with assms have "slice_create A x s = (Inr (), s')" by (auto simp: upsert_slice_def split: if_splits prod.splits)
    then show ?thesis by (intro that [of x]) simp_all
  next
    case (Inr y)
    with assms have "slice_update A (x\<lparr>sl_ResourceVersion := sl_ResourceVersion y\<rparr>) s = (Inr (), s')"
      by (auto simp: upsert_slice_def split: prod.splits)
    then show ?thesis by (intro that [of "x\<lparr>sl_ResourceVersion := sl_ResourceVersion y\<rparr>"]) simp_all
  qed
  note w = written [OF this(1)]
  have "z\<lparr>sl_ResourceVersion := []\<rparr> = x\<lparr>sl_ResourceVersion := []\<rparr>" by (subst z(1)) simp
  then have "slice_same z y = slice_same x y" for y by (simp add: slice_same_def)
  with w z(2) show "\<exists>y. slice_get A (sl_Name x) s' = Inr y \<and> slice_same x y"
    and "m \<noteq> sl_Name x \<Longrightarrow> slice_get A m s' = slice_get A m s" by auto
qed

lemma deleted:
  assumes "delete_slice A n s = (Ok (), s')"
  shows "missing (slice_get A n s')" and "m \<noteq> n \<Longrightarrow> slice_get A m s' = slice_get A m s"
proof -
  obtain r where r: "slice_delete A n s = (r, s')" and e: "\<forall>e. r = Inl e \<longrightarrow> is_not_found e"
    using assms by (auto simp: delete_slice_def split: prod.splits sum.splits if_splits)
  from gone(2) [OF r] e show "missing (slice_get A n s')" by (cases r) simp_all
  show "m \<noteq> n \<Longrightarrow> slice_get A m s' = slice_get A m s" by (rule gone(1) [OF r])
qed

lemma reconciled:
  assumes "ReconcileSlice K A p namespace (p @ ''-'' @ n) s = (Ok (), s')" and "n \<noteq> []"
    and "\<And>cm. cm_get K namespace (p @ ''-'' @ n) s = Inr cm \<Longrightarrow> cm_Labels cm LabelTopologyCMNodeName = Some n"
  shows "case cm_get K namespace (p @ ''-'' @ n) s of
      Inl e \<Rightarrow> missing (slice_get A (resourceSliceName n) s')
    | Inr cm \<Rightarrow> \<exists>nt x. FromNodeTopologyCM K cm = Ok nt \<and> slice_get A (resourceSliceName n) s' = Inr x \<and>
        sl_NodeName x = n \<and> sl_Devices x = devicesFromTopology A nt"
    and "m \<noteq> resourceSliceName n \<Longrightarrow> slice_get A m s' = slice_get A m s"
proof -
  have name [simp]: "extractNodeNameFromCMName (p @ CHR ''-'' # n) p = n"
    by (simp add: extractNodeNameFromCMName_def Let_def)
  have "(case cm_get K namespace (p @ ''-'' @ n) s of
      Inl e \<Rightarrow> missing (slice_get A (resourceSliceName n) s')
    | Inr cm \<Rightarrow> \<exists>nt x. FromNodeTopologyCM K cm = Ok nt \<and> slice_get A (resourceSliceName n) s' = Inr x \<and>
        sl_NodeName x = n \<and> sl_Devices x = devicesFromTopology A nt) \<and>
    (m \<noteq> resourceSliceName n \<longrightarrow> slice_get A m s' = slice_get A m s)"
  proof (cases "cm_get K namespace (p @ ''-'' @ n) s")
    case (Inl e)
    then have "delete_slice A (resourceSliceName n) s = (Ok (), s')"
      using assms by (auto simp: ReconcileSlice_def HandleDeleteSlice_def Let_def split: if_splits)
    with Inl deleted show ?thesis by auto
  next
    case (Inr cm)
    then obtain nt where nt: "FromNodeTopologyCM K cm = Ok nt" and u: "createOrUpdateResourceSlice A n nt s = (Ok (), s')"
      using assms by (auto simp: ReconcileSlice_def HandleAddOrUpdateSlice_def elim!: sbind_eq_OkD)
    note w = upserted [OF u [unfolded createOrUpdateResourceSlice_def]]
    from w(1) obtain y where y: "slice_get A (resourceSliceName n) s' = Inr y"
      and "y\<lparr>sl_ResourceVersion := []\<rparr> = \<lparr>sl_Name = resourceSliceName n, sl_ResourceVersion = [], sl_Driver = DraDriverName,
        sl_NodeName = n, sl_PoolName = n, sl_SliceCount = 1, sl_Devices = devicesFromTopology A nt\<rparr>"
      by (auto simp: slice_same_def)
    then have "sl_NodeName y = n" "sl_Devices y = devicesFromTopology A nt" by (cases y; simp)+
    with Inr nt y w(2) show ?thesis by auto
  qed
  then show "case cm_get K namespace (p @ ''-'' @ n) s of
      Inl e \<Rightarrow> missing (slice_get A (resourceSliceName n) s')
    | Inr cm \<Rightarrow> \<exists>nt x. FromNodeTopologyCM K cm = Ok nt \<and> slice_get A (resourceSliceName n) s' = Inr x \<and>
        sl_NodeName x = n \<and> sl_Devices x = devicesFromTopology A nt"
    and "m \<noteq> resourceSliceName n \<Longrightarrow> slice_get A m s' = slice_get A m s" by blast+
qed

end

section \<open>Properties\<close>

text \<open>
  C23. The slice of a simulated node follows its ConfigMap: after a successful reconciliation it lists exactly the
  devices of the stored topology, or is gone with the ConfigMap, and no other slice has changed.
\<close>

theorem slice_follows_topology:
  assumes "slices_ok A" and "ReconcileSlice K A p namespace (p @ ''-'' @ n) s = (Ok (), s')" and "n \<noteq> []"
    and "\<forall>cm. cm_get K namespace (p @ ''-'' @ n) s = Inr cm \<longrightarrow> cm_Labels cm LabelTopologyCMNodeName = Some n"
  shows "(case cm_get K namespace (p @ ''-'' @ n) s of
      Inl e \<Rightarrow> missing (slice_get A (resourceSliceName n) s')
    | Inr cm \<Rightarrow> \<exists>nt x. FromNodeTopologyCM K cm = Ok nt \<and> slice_get A (resourceSliceName n) s' = Inr x \<and>
        sl_NodeName x = n \<and> sl_Devices x = devicesFromTopology A nt) \<and>
    (\<forall>m. m \<noteq> resourceSliceName n \<longrightarrow> slice_get A m s' = slice_get A m s)"
  using slice_server.reconciled [OF slice_server.intro [OF assms(1)] assms(2,3)] assms(4) by blast

text \<open>The map of devices that the plugin on a node makes\<close>

lemma all_devices_map:
  "all_devices quantity nt gpus acc = Ok m \<Longrightarrow>
    map_of m n = (case map_of (rev (map (\<lambda>g. (to_lower (ID g), gpu_device quantity nt g)) gpus)) n of
                    None \<Rightarrow> map_of acc n | Some d \<Rightarrow> Some d) \<and> (\<forall>g \<in> set gpus. ID g \<noteq> [])"
proof (induction gpus arbitrary: acc)
  case (Cons g gpus)
  from Cons.prems have ne: "ID g \<noteq> []"
    and rest: "all_devices quantity nt gpus (AList.update (to_lower (ID g)) (gpu_device quantity nt g) acc) = Ok m"
    by (auto split: if_splits)
  from Cons.IH [OF rest] ne show ?case by (auto simp: map_of_update split: option.splits)
qed simp

text \<open>
  C24. The GPUs are published under names by which they are found: when no two identifiers differ in case only, the
  plugin on a node and the one for simulated nodes publish the same devices, and the pod handler finds each of
  them at the position of its GPU.
\<close>

theorem published_devices_found:
  assumes "distinct (map (\<lambda>g. to_lower (ID g)) (Gpus nt))" and "http node = Some (200, Some nt)"
    and "enumerateAllPossibleDevices (q_binary A) http node = Ok m"
  shows "(\<forall>d. map_of m (dv_Name d) = Some d \<longleftrightarrow> d \<in> set (devicesFromTopology A nt)) \<and>
    map (\<lambda>d. findGpuIndexByID nt (dv_Name d)) (devicesFromTopology A nt) = map int [0..<length (Gpus nt)]"
proof -
  let ?q = "q_binary A" and ?gs = "Gpus nt"
  let ?ps = "map (\<lambda>g. (to_lower (ID g), gpu_device ?q nt g)) ?gs"
  have run: "all_devices ?q nt ?gs [] = Ok m"
    using assms by (auto simp: enumerateAllPossibleDevices_def getTopologyFromHTTP_def split: if_splits)
  have ne: "\<forall>g \<in> set ?gs. ID g \<noteq> []" and m: "map_of m n = map_of (rev ?ps) n" for n
    using all_devices_map [OF run] by (auto split: option.splits)
  have dist: "distinct (map fst ?ps)" using assms(1) by (simp add: comp_def)
  then have "map_of (rev ?ps) = map_of ?ps" by (intro map_of_perm) (simp_all add: rev_map [symmetric])
  then have "map_of m n = Some d \<longleftrightarrow> (\<exists>g \<in> set ?gs. n = to_lower (ID g) \<and> d = gpu_device ?q nt g)" for n d
    using m dist by (auto simp: map_of_eq_Some_iff)
  moreover have devs: "devicesFromTopology A nt = map (gpu_device ?q nt) ?gs"
    using ne by (simp add: devicesFromTopology_def)
  ultimately have "\<forall>d. map_of m (dv_Name d) = Some d \<longleftrightarrow> d \<in> set (devicesFromTopology A nt)"
    by (auto simp: gpu_device_def)
  moreover have "findGpuIndexByID nt (to_lower (ID (?gs ! i))) = int i" if i: "i < length ?gs" for i
  proof -
    let ?P = "\<lambda>g. equal_fold (ID g) (to_lower (ID (?gs ! i)))"
    have "first_index ?P ?gs \<noteq> -1" using i by (auto simp: first_index_none equal_fold_def intro: bexI [of _ "?gs ! i"])
    from first_index_props [OF this] have "0 \<le> first_index ?P ?gs" and j: "nat (first_index ?P ?gs) < length ?gs"
      and "to_lower (ID (?gs ! nat (first_index ?P ?gs))) = to_lower (ID (?gs ! i))"
      by (simp_all add: equal_fold_def)
    moreover from this have "nat (first_index ?P ?gs) = i"
      using nth_eq_iff_index_eq [OF assms(1), of "nat (first_index ?P ?gs)" i] i by simp
    ultimately show ?thesis by (simp add: findGpuIndexByID_def)
  qed
  then have "map (\<lambda>d. findGpuIndexByID nt (dv_Name d)) (devicesFromTopology A nt) = map int [0..<length ?gs]"
    unfolding devs by (intro nth_equalityI) (simp_all add: gpu_device_def)
  ultimately show ?thesis by blast
qed

end
