(* ===== verification/NvidiaSmi.thy ===== *)
theory NvidiaSmi
  imports PodHandler ResourceSlices
begin

text \<open>
  \<^verbatim>\<open>cmd/nvidia-smi/main.go\<close>: the imitation of nvidia-smi that runs in a pod.  It asks the topology
  server for its node, picks the GPUs of its pod and prints them.  The environment, the HTTP client and the file
  system are parameters; the table writer is a library, so that a table is the list of its rows.
\<close>

section \<open>The GPUs of the pod\<close>

record nvidiaSmiArgs =
  sa_GpuProduct :: string
  sa_DriverVersion :: string
  sa_CudaVersion :: string
  sa_GpuUsedMem :: gofloat
  sa_GpuTotalMem :: int
  sa_GpuUtil :: int
  sa_GpuIdx :: int
  sa_ProcessName :: string

text \<open>
  \<open>http\<close> is the client of the theory \<open>ResourceSlices\<close>; the process name is what reading
  \<^verbatim>\<open>/proc/1/cmdline\<close> gives, at most 50 bytes.
\<close>

record smi_env =
  getenv :: "string \<Rightarrow> string"
  http :: "string \<Rightarrow> (int \<times> NodeTopology option) option"
  cmdline :: "gerror + string"

text \<open>\<^verbatim>\<open>float32\<close> of an integer, and the product in it.\<close>

definition f32_of_int :: "int \<Rightarrow> gofloat" where
  "f32_of_int i = Fin (rnd32 (of_int i))"

fun f32_mul :: "gofloat \<Rightarrow> gofloat \<Rightarrow> gofloat" where
  "f32_mul (Fin a) (Fin b) =
     (let r = rnd32 (a * b) in if r \<noteq> 0 \<and> 128 \<le> flog2 \<bar>r\<bar> then if 0 < r then PosInf else NegInf else Fin r)"
| "f32_mul x y = f64_mul x y"

definition gpu_matches :: "string \<Rightarrow> string \<Rightarrow> GpuDetails \<Rightarrow> bool" where
  "gpu_matches currentPodName currentPodUuid gpu \<longleftrightarrow>
     cd_Pod (AllocatedBy (Status gpu)) = currentPodName \<or> usage_lookup (PodGpuUsageStatus (Status gpu)) currentPodUuid \<noteq> None"

fun smi_gpus ::
    "metrics_env \<Rightarrow> NodeTopology \<Rightarrow> string \<Rightarrow> string \<Rightarrow> gofloat \<Rightarrow> int \<Rightarrow> string \<Rightarrow> nat \<Rightarrow> GpuDetails list
     \<Rightarrow> nvidiaSmiArgs list res" where
  "smi_gpus env nt podName podUuid gpuPortion gpuTotalMem processName idx [] = Ok []"
| "smi_gpus env nt podName podUuid gpuPortion gpuTotalMem processName idx (gpu # gpus) =
     (if \<not> gpu_matches podName podUuid gpu
      then smi_gpus env nt podName podUuid gpuPortion gpuTotalMem processName (Suc idx) gpus
      else rbind (Utilization env (PodGpuUsageStatus (Status gpu))) (\<lambda>util.
           rbind (smi_gpus env nt podName podUuid gpuPortion gpuTotalMem processName (Suc idx) gpus) (\<lambda>rest.
             Ok (\<lparr>sa_GpuProduct = GpuProduct nt, sa_DriverVersion = DriverVersion nt, sa_CudaVersion = CudaVersion nt,
                  sa_GpuUsedMem = f32_mul (f32_of_int (FbUsed env (PodGpuUsageStatus (Status gpu)) (GpuMemory nt))) gpuPortion,
                  sa_GpuTotalMem = gpuTotalMem, sa_GpuUtil = util, sa_GpuIdx = int idx, sa_ProcessName = processName\<rparr> # rest))))"

text \<open>The portion of a GPU, and whether the variable was malformed; an empty one is 1.\<close>

definition gpu_portion :: "string \<Rightarrow> gofloat \<times> gerror list" where
  "gpu_portion numOfGpus =
     (if numOfGpus = [] then (Fin 1, [])
      else case parse_float32 numOfGpus of
             None \<Rightarrow> (Fin 1, [Msg ''parsing RUNAI_NUM_OF_GPUS''])
           | Some f \<Rightarrow> (f, []))"

text \<open>\<^verbatim>\<open>bytes.Trim(cmdline, "\x00")\<close>\<close>

definition readProcessName :: "smi_env \<Rightarrow> gerror + string" where
  "readProcessName S =
     (case cmdline S of
        Inl e \<Rightarrow> Inl (Wrap ''reading /proc/1/cmdline'' e)
      | Inr b \<Rightarrow> Inr (rev (dropWhile (\<lambda>c. c = CHR 0x00) (rev (dropWhile (\<lambda>c. c = CHR 0x00) b)))))"

definition node_args :: "smi_env \<Rightarrow> metrics_env \<Rightarrow> NodeTopology \<Rightarrow> (nvidiaSmiArgs list \<times> string \<times> gerror list) res" where
  "node_args S env nt =
     (let (gpuPortion, errs) = gpu_portion (getenv S ''RUNAI_NUM_OF_GPUS'');
          gpuTotalMem = int_of_f64 (oor env) (f64_mul (f64_of_int (GpuMemory nt)) gpuPortion);
          (processName, errs') = (case readProcessName S of Inl e \<Rightarrow> ([], errs @ [e]) | Inr p \<Rightarrow> (p, errs))
      in rbind (smi_gpus env nt (getenv S ''HOSTNAME'') (getenv S ''POD_UUID'') gpuPortion gpuTotalMem processName 0 (Gpus nt)) (\<lambda>allArgs.
           Ok (if allArgs \<noteq> [] then allArgs
               else [\<lparr>sa_GpuProduct = GpuProduct nt, sa_DriverVersion = DriverVersion nt, sa_CudaVersion = CudaVersion nt,
                      sa_GpuUsedMem = Fin 0, sa_GpuTotalMem = gpuTotalMem, sa_GpuUtil = 0, sa_GpuIdx = 0,
                      sa_ProcessName = processName\<rparr>], [], errs')))"

definition getNvidiaSmiArgs :: "smi_env \<Rightarrow> metrics_env \<Rightarrow> (nvidiaSmiArgs list \<times> string \<times> gerror list) res" where
  "getNvidiaSmiArgs S env =
     (case http S (getenv S ''NODE_NAME'') of
        None \<Rightarrow> Ok ([], ''NVIDIA-SMI has failed because it couldn'' @ [CHR 0x27] @ ''t communicate with the topology server.'',
                    [Msg ''fetching topology''])
      | Some (status, body) \<Rightarrow>
          if status \<noteq> 200 then Ok ([], ''No devices were found'', [Msg ''topology server returned another status''])
          else (case body of
                  None \<Rightarrow> Ok ([], ''Failed to parse devices data'', [Msg ''decoding topology''])
                | Some nt \<Rightarrow> node_args S env nt))"

section \<open>The tables\<close>

text \<open>A string at a given size: padded, or cut with two dots.  A slice below zero panics.\<close>

definition sizeString :: "string \<Rightarrow> int \<Rightarrow> bool \<Rightarrow> string res" where
  "sizeString str width alignRight =
     (let padded = (if int (length str) < width
                    then if alignRight then replicate (nat (width - int (length str))) (CHR '' '') @ str
                         else str @ replicate (nat (width - int (length str))) (CHR '' '')
                    else str)
      in rbind (if width < int (length padded)
                then if width - 2 < 0 then Panic IndexOutOfRange else Ok (take (nat (width - 2)) padded @ ''..'')
                else Ok padded) (\<lambda>cut.
         if width < 0 \<or> int (length cut) < width then Panic IndexOutOfRange else Ok (take (nat width) cut)))"

datatype table_item = Row "string list" | Separator

definition gpu_rows :: "(gofloat \<Rightarrow> int) \<Rightarrow> nvidiaSmiArgs \<Rightarrow> table_item list res" where
  "gpu_rows conv args =
     rbind (sizeString (itoa (sa_GpuIdx args)) 3 True) (\<lambda>idx.
     rbind (sizeString (sa_GpuProduct args) 12 False) (\<lambda>product.
     rbind (sizeString ''Off'' 13 True) (\<lambda>off13.
     rbind (sizeString ''00000001:00:00.0'' 16 False) (\<lambda>bus.
     rbind (sizeString ''Off'' 3 True) (\<lambda>off3.
     rbind (sizeString ''Off'' 20 True) (\<lambda>off20.
     rbind (sizeString (itoa (int_of_f64 conv (sa_GpuUsedMem args)) @ ''MiB / '' @ itoa (sa_GpuTotalMem args) @ ''MiB'') 20 True) (\<lambda>mem.
     rbind (sizeString (itoa (sa_GpuUtil args) @ ''%'') 8 True) (\<lambda>util.
     rbind (sizeString ''Default'' 11 True) (\<lambda>default.
     rbind (sizeString ''N/A'' 20 True) (\<lambda>na.
       Ok [Row [idx @ ''  '' @ product @ off13, bus @ '' '' @ off3, off20],
           Row [''N/A   33C    P8    11W /  70W'', mem, util @ '' '' @ default],
           Row [[], [], na], Separator]))))))))))"

definition process_row :: "(gofloat \<Rightarrow> int) \<Rightarrow> int \<Rightarrow> nvidiaSmiArgs \<Rightarrow> table_item list res" where
  "process_row conv pid args =
     rbind (sizeString (itoa (sa_GpuIdx args)) 3 True) (\<lambda>idx.
     rbind (sizeString ''N/A'' 5 False) (\<lambda>gi.
     rbind (sizeString ''N/A'' 10 False) (\<lambda>ci.
     rbind (sizeString (itoa pid) 6 False) (\<lambda>p.
     rbind (sizeString ''G'' 4 True) (\<lambda>g.
     rbind (sizeString (sa_ProcessName args) 29 False) (\<lambda>name.
     rbind (sizeString (itoa (int_of_f64 conv (sa_GpuUsedMem args)) @ ''MiB'') 11 True) (\<lambda>mem.
       Ok [Row ['' '' @ idx @ ''   '' @ gi @ ci @ p @ g @ ''   '' @ name @ '' '' @ mem]])))))))"

definition smi_title :: "nvidiaSmiArgs \<Rightarrow> string" where
  "smi_title args =
     (let driverVersion = (if sa_DriverVersion args \<noteq> [] then sa_DriverVersion args else ''470.129.06'');
          cudaVersion = (if sa_CudaVersion args \<noteq> [] then sa_CudaVersion args else ''11.4'')
      in ''NVIDIA-SMI '' @ driverVersion @ ''   Driver Version: '' @ driverVersion @ ''   CUDA Version: '' @ cudaVersion)"

text \<open>The title and the rows of the two tables.  The code reads the versions off the first GPU.\<close>

definition printArgs ::
    "(gofloat \<Rightarrow> int) \<Rightarrow> int \<Rightarrow> nvidiaSmiArgs list \<Rightarrow> (string \<times> table_item list \<times> table_item list) res" where
  "printArgs conv pid allArgs =
     rbind (index_res allArgs 0) (\<lambda>first.
     rbind (mapM_res (gpu_rows conv) allArgs) (\<lambda>gpus.
     rbind (mapM_res (process_row conv pid) allArgs) (\<lambda>processes.
       Ok (smi_title first,
           Separator # Row [''GPU  Name        Persistence-M'', ''Bus-Id        Disp.A'', ''Volatile Uncorr. ECC''] #
           Row [''Fan  Temp  Perf  Pwr:Usage/Cap'', ''        Memory-Usage'', ''GPU-Util  Compute M.''] #
           Row [[], [], ''              MIG M.''] # Separator # concat gpus,
           Row [''Processes:''] #
           Row ['' GPU   GI   CI        PID   Type   Process name                  GPU Memory ''] #
           Row [''       ID   ID                                                   Usage      ''] # Separator # concat processes))))"

section \<open>Properties\<close>

text \<open>
  A string is brought to exactly the size asked for: a shorter one is padded at one side, a longer one keeps
  its beginning; no size of at least two panics.
\<close>

theorem sizeString_width:
  assumes "2 \<le> width"
  shows "\<exists>t. sizeString str width alignRight = Ok t \<and> int (length t) = width \<and>
    (if int (length str) \<le> width then (if alignRight then suffix str t else prefix str t)
     else t = take (nat (width - 2)) str @ ''..'')"
  using assms unfolding sizeString_def Let_def by (auto simp: suffix_def)

lemma smi_gpus_idx:
  assumes "smi_gpus env nt podName podUuid portion total_mem processName k gpus = Ok args"
  shows "map sa_GpuIdx args = map int (filter (\<lambda>i. gpu_matches podName podUuid (gpus ! (i - k))) [k..<k + length gpus])"
  using assms
proof (induction gpus arbitrary: k args)
  case (Cons gpu gpus)
  have shift: "filter (\<lambda>i. gpu_matches podName podUuid ((gpu # gpus) ! (i - k))) [Suc k..<Suc (k + length gpus)] =
      filter (\<lambda>i. gpu_matches podName podUuid (gpus ! (i - Suc k))) [Suc k..<Suc k + length gpus]"
    by (rule filter_cong) (auto simp: nth_Cons')
  have upt: "[k..<k + length (gpu # gpus)] = k # [Suc k..<Suc (k + length gpus)]"
    by (simp add: upt_conv_Cons del: upt_Suc)
  show ?case
  proof (cases "gpu_matches podName podUuid gpu")
    case False
    with Cons.prems have "smi_gpus env nt podName podUuid portion total_mem processName (Suc k) gpus = Ok args" by simp
    from Cons.IH [OF this] False show ?thesis unfolding upt by (simp add: shift del: upt_Suc)
  next
    case True
    with Cons.prems obtain a rest where "smi_gpus env nt podName podUuid portion total_mem processName (Suc k) gpus = Ok rest"
      and "args = a # rest" and "sa_GpuIdx a = int k" by (auto simp: rbind_eq_Ok)
    with Cons.IH [of "Suc k" rest] True show ?thesis unfolding upt by (simp add: shift del: upt_Suc)
  qed
qed simp

text \<open>The rows of a node: those of the GPUs that match, or one row with the index 0 when none does\<close>

lemma node_args_idx:
  assumes "node_args S menv nt = Ok (args, summary, errs)"
  shows "map sa_GpuIdx args =
    (let rows = filter (\<lambda>i. gpu_matches (getenv S ''HOSTNAME'') (getenv S ''POD_UUID'') (Gpus nt ! i)) [0..<length (Gpus nt)]
     in if rows = [] then [0] else map int rows)"
proof -
  obtain portion mem name all where
    rows: "smi_gpus menv nt (getenv S ''HOSTNAME'') (getenv S ''POD_UUID'') portion mem name 0 (Gpus nt) = Ok all"
    and args: "if all \<noteq> [] then args = all else map sa_GpuIdx args = [0]"
    using assms by (auto simp: node_args_def Let_def rbind_eq_Ok split: prod.splits)
  from smi_gpus_idx [OF rows] args show ?thesis by (auto simp: Let_def split: if_splits)
qed

text \<open>
  C22. What a pod sees in nvidia-smi.  After the addition of a pod that asks for some number of GPUs and holds none of its node yet,
  the rows are those of the first so many GPUs that were free, and of those GPUs that already had the pod's name as their holder's or
  a usage record of the pod, in the order of the GPUs.  Names are compared without the namespace, so that these may be those
  of a namesake.  When there is no such GPU, there is one row, with the index 0.
\<close>

theorem smi_shows_allocation:
  assumes K: "store_ok K" "codec_ok K" and pod: "dedicated_only K pod" "\<not> IsGpuReservationPod K pod" "p_NodeName pod \<noteq> []"
    and nt: "GetNodeTopologyFromCM K (p_NodeName pod) s = Ok nt" "maps_made nt" "\<not> isAlreadyAllocated pod nt"
    and add: "HandleAdd K pod s = (Ok (), s')"
    and env: "http S = (\<lambda>node. Some (topology_server K node s'))" "getenv S ''NODE_NAME'' = p_NodeName pod"
      "getenv S ''HOSTNAME'' = p_Name pod" "getenv S ''POD_UUID'' = p_UID pod"
    and smi: "getNvidiaSmiArgs S menv = Ok (args, summary, errs)"
  shows "map sa_GpuIdx args =
    (let rows = filter (\<lambda>i. takes_gpu (q_value K (gpu_limit K (hd (p_Containers pod)))) (Gpus nt) i \<or>
                            gpu_matches (p_Name pod) (p_UID pod) (Gpus nt ! i)) [0..<length (Gpus nt)]
     in if rows = [] then [0] else map int rows)"
proof -
  let ?r = "q_value K (gpu_limit K (hd (p_Containers pod)))"
  obtain gs where get: "GetNodeTopologyFromCM K (p_NodeName pod) s' = Ok (nt\<lparr>Gpus := gs\<rparr>)"
    and gs: "allocate_loop K pod (GpuMemory nt) s ?r (Gpus nt) = Ok gs"
    using add_allocates [OF K pod(1,2) nt add] by blast
  have len: "length gs = length (Gpus nt)" by (rule allocate_loop_length [OF gs])
  have match: "gpu_matches (p_Name pod) (p_UID pod) (gs ! i) \<longleftrightarrow> takes_gpu ?r (Gpus nt) i \<or> gpu_matches (p_Name pod) (p_UID pod) (Gpus nt ! i)"
    if i: "i < length (Gpus nt)" for i
    using allocate_loop_nth [OF gs i] allocate_gpu_owner(1) [of K pod "GpuMemory nt" s "Gpus nt ! i" "gs ! i"]
    by (auto simp: gpu_matches_def container_details_def split: if_splits)
  have rows: "filter (\<lambda>i. gpu_matches (p_Name pod) (p_UID pod) (gs ! i)) [0..<length gs] =
      filter (\<lambda>i. takes_gpu ?r (Gpus nt) i \<or> gpu_matches (p_Name pod) (p_UID pod) (Gpus nt ! i)) [0..<length (Gpus nt)]"
    unfolding len by (rule filter_cong) (simp_all add: match)
  have "node_args S menv (nt\<lparr>Gpus := gs\<rparr>) = Ok (args, summary, errs)"
    using smi env get pod(3) by (simp add: getNvidiaSmiArgs_def topology_server_def)
  from node_args_idx [OF this] env rows show ?thesis by simp
qed

end
