(* ===== verification/DevicePlugins.thy ===== *)
theory DevicePlugins
  imports KubeApi GoPath
begin

text \<open>
  \<^verbatim>\<open>internal/deviceplugin\<close>: the device plugins of a node, which register with the kubelet on a real node
  (real_node.go) and patch the status of a simulated one (fake_node.go), and
  \<^verbatim>\<open>internal/kwok-gpu-device-plugin\<close>, which patches the status of the nodes that another tool simulates.
  The operating system, gRPC and the encoding of a patch are parameters.
\<close>

section \<open>The plugins of a topology\<close>

record FakeNodeDevicePlugin =
  fn_gpuCount :: int
  fn_otherDevices :: "string \<rightharpoonup> int"

text \<open>
  The devices by their identifiers; whether the gRPC server is set and whether the channels \<^verbatim>\<open>stop\<close> and
  \<^verbatim>\<open>health\<close> were made, which nothing does.
\<close>

record RealNodeDevicePlugin =
  rn_devs :: "string list"
  rn_socket :: string
  rn_resourceName :: string
  rn_server :: bool
  rn_stop :: bool
  rn_health :: bool

datatype DevicePlugin = FakeNodePlugin FakeNodeDevicePlugin | RealNodePlugin RealNodeDevicePlugin

definition nvidiaGPUResourceName :: string where "nvidiaGPUResourceName = ''nvidia.com/gpu''"

definition getGpuCount :: "NodeTopology \<Rightarrow> int" where
  "getGpuCount nt = int (length (Gpus nt))"

text \<open>The random identifiers of the devices of a resource\<close>

definition createDevices :: "(nat \<Rightarrow> string) \<Rightarrow> int \<Rightarrow> string list" where
  "createDevices uuid devCount = map uuid [0..<nat devCount]"

definition normalizeDeviceName :: "string \<Rightarrow> string" where
  "normalizeDeviceName deviceName =
     replace_char (CHR ''-'') (CHR ''_'') (replace_char (CHR ''.'') (CHR ''_'') (replace_char (CHR ''/'') (CHR ''_'') deviceName))"

definition other_counts :: "GenericDevice list \<Rightarrow> string \<rightharpoonup> int" where
  "other_counts ds = foldl (\<lambda>m d. m(gd_Name d \<mapsto> gd_Count d)) Map.empty ds"

definition real_plugin :: "(nat \<Rightarrow> string) \<Rightarrow> string \<Rightarrow> GenericDevice \<Rightarrow> RealNodeDevicePlugin" where
  "real_plugin uuid devicePluginPath d =
     \<lparr>rn_devs = createDevices uuid (gd_Count d),
      rn_socket = path_join [devicePluginPath, normalizeDeviceName (gd_Name d) @ ''.sock''],
      rn_resourceName = gd_Name d, rn_server = False, rn_stop = False, rn_health = False\<rparr>"

definition NewDevicePlugins ::
    "bool \<Rightarrow> string \<Rightarrow> (string \<Rightarrow> nat \<Rightarrow> string) \<Rightarrow> NodeTopology option \<Rightarrow> DevicePlugin list res" where
  "NewDevicePlugins fakeNode devicePluginPath uuid topology =
     (case topology of
        None \<Rightarrow> Panic (Raised (Msg ''topology is nil''))
      | Some nt \<Rightarrow>
          if fakeNode
          then Ok [FakeNodePlugin \<lparr>fn_gpuCount = getGpuCount nt, fn_otherDevices = other_counts (OtherDevices nt)\<rparr>]
          else Ok (RealNodePlugin \<lparr>rn_devs = createDevices (uuid nvidiaGPUResourceName) (getGpuCount nt),
                     rn_socket = devicePluginPath @ ''fake-nvidia-gpu.sock'', rn_resourceName = nvidiaGPUResourceName,
                     rn_server = False, rn_stop = False, rn_health = False\<rparr> #
                   map (\<lambda>d. RealNodePlugin (real_plugin (uuid (gd_Name d)) devicePluginPath d)) (OtherDevices nt)))"

section \<open>The status of a simulated node\<close>

record 'q NodeStatus =
  ns_Capacity :: "string \<rightharpoonup> 'q"
  ns_Allocatable :: "string \<rightharpoonup> 'q"

record ('s, 'q, 'j) status_env =
  marshal_status :: "'q NodeStatus \<Rightarrow> gerror + 'j"
  patch_status :: "string \<Rightarrow> 'j \<Rightarrow> 's \<Rightarrow> (gerror + unit) \<times> 's"

definition put_device :: "(int \<Rightarrow> 'q) \<Rightarrow> 'q NodeStatus \<Rightarrow> string \<times> int \<Rightarrow> 'q NodeStatus" where
  "put_device quantity st d =
     st\<lparr>ns_Capacity := (ns_Capacity st)(fst d \<mapsto> quantity (snd d)), ns_Allocatable := (ns_Allocatable st)(fst d \<mapsto> quantity (snd d))\<rparr>"

definition gpu_status :: "(int \<Rightarrow> 'q) \<Rightarrow> int \<Rightarrow> 'q NodeStatus" where
  "gpu_status quantity n = \<lparr>ns_Capacity = [nvidiaGPUResourceName \<mapsto> quantity n], ns_Allocatable = [nvidiaGPUResourceName \<mapsto> quantity n]\<rparr>"

definition send_status :: "('s, 'q, 'j) status_env \<Rightarrow> string \<Rightarrow> 'q NodeStatus \<Rightarrow> 's \<Rightarrow> unit res \<times> 's" where
  "send_status D nodeName status s =
     (case marshal_status D status of
        Inl e \<Rightarrow> (Err (Msg ''failed to marshal patch''), s)
      | Inr patchBytes \<Rightarrow>
          (case patch_status D nodeName patchBytes s of
             (Inl e, s') \<Rightarrow> (Err (Msg ''failed to update node capacity and allocatable''), s')
           | (Inr u, s') \<Rightarrow> (Ok (), s')))"

text \<open>\<open>others\<close> are the entries of the map in the order of the runtime.\<close>

definition fake_node_status :: "(int \<Rightarrow> 'q) \<Rightarrow> FakeNodeDevicePlugin \<Rightarrow> (string \<times> int) list \<Rightarrow> 'q NodeStatus" where
  "fake_node_status quantity f others = foldl (put_device quantity) (gpu_status quantity (fn_gpuCount f)) others"

definition Serve_fake ::
    "('s, 'q, 'y) kube_env \<Rightarrow> ('s, 'q, 'j) status_env \<Rightarrow> ((string \<rightharpoonup> int) \<Rightarrow> (string \<times> int) list) \<Rightarrow> FakeNodeDevicePlugin
     \<Rightarrow> 's \<Rightarrow> unit res \<times> 's" where
  "Serve_fake K D visit f s = send_status D (EnvNodeName K) (fake_node_status (q_new K) f (visit (fn_otherDevices f))) s"

definition kwok_node_status :: "(int \<Rightarrow> 'q) \<Rightarrow> NodeTopology \<Rightarrow> 'q NodeStatus" where
  "kwok_node_status quantity nt =
     foldl (\<lambda>st d. put_device quantity st (gd_Name d, gd_Count d)) (gpu_status quantity (int (length (Gpus nt)))) (OtherDevices nt)"

definition HandleAddKwok ::
    "('s, 'q, 'y) kube_env \<Rightarrow> ('s, 'q, 'j) status_env \<Rightarrow> 'y ConfigMap \<Rightarrow> 's \<Rightarrow> unit res \<times> 's" where
  "HandleAddKwok K D cm s =
     sbind (wrap_err ''failed to read node topology ConfigMap'' (FromNodeTopologyCM K cm), s) (\<lambda>nt s.
       let nodeName = (case cm_Labels cm LabelTopologyCMNodeName of None \<Rightarrow> [] | Some n \<Rightarrow> n)
       in send_status D nodeName (kwok_node_status (q_new K) nt) s)"

section \<open>A plugin of a real node\<close>

text \<open>
  The operating system and the kubelet.  The error of a call says whether the file was not there.
\<close>

record 's node_os =
  os_remove :: "string \<Rightarrow> 's \<Rightarrow> (gerror + unit) \<times> 's"
  is_not_exist :: "gerror \<Rightarrow> bool"
  net_listen :: "string \<Rightarrow> 's \<Rightarrow> (gerror + unit) \<times> 's"
  \<comment> \<open>a connection that is opened, and closed again\<close>
  dial :: "string \<Rightarrow> 's \<Rightarrow> (gerror + unit) \<times> 's"
  close_conn :: "string \<Rightarrow> 's \<Rightarrow> (gerror + unit) \<times> 's"
  kubelet_register :: "string \<Rightarrow> string \<Rightarrow> string \<Rightarrow> 's \<Rightarrow> (gerror + unit) \<times> 's"
  kubelet_socket :: string

definition cleanup :: "'s node_os \<Rightarrow> RealNodeDevicePlugin \<Rightarrow> 's \<Rightarrow> unit res \<times> 's" where
  "cleanup os m s =
     (case os_remove os (rn_socket m) s of
        (Inl e, s') \<Rightarrow> (if is_not_exist os e then Ok () else Err e, s')
      | (Inr u, s') \<Rightarrow> (Ok (), s'))"

text \<open>\<^verbatim>\<open>Start\<close> and \<^verbatim>\<open>Stop\<close> change the plugin.\<close>

definition Start :: "'s node_os \<Rightarrow> RealNodeDevicePlugin \<Rightarrow> 's \<Rightarrow> unit res \<times> RealNodeDevicePlugin \<times> 's" where
  "Start os m s =
     (case cleanup os m s of
        (Ok u, s) \<Rightarrow>
          (case net_listen os (rn_socket m) s of
             (Inl e, s) \<Rightarrow> (Err e, m, s)
           | (Inr u, s) \<Rightarrow>
               let m = m\<lparr>rn_server := True\<rparr>
               in (case dial os (rn_socket m) s of
                     (Inl e, s) \<Rightarrow> (Err e, m, s)
                   | (Inr u, s) \<Rightarrow>
                       (case close_conn os (rn_socket m) s of
                          (Inl e, s) \<Rightarrow> (Err (Msg ''error closing connection''), m, s)
                        | (Inr u, s) \<Rightarrow> (Ok (), m, s))))
      | (r, s) \<Rightarrow> (r, m, s))"

definition Stop :: "'s node_os \<Rightarrow> RealNodeDevicePlugin \<Rightarrow> 's \<Rightarrow> unit res \<times> RealNodeDevicePlugin \<times> 's" where
  "Stop os m s =
     (if \<not> rn_server m then (Ok (), m, s)
      else let m = m\<lparr>rn_server := False\<rparr>
           in if \<not> rn_stop m then (Panic (BadArgument ''close of nil channel''), m, s)
              else case cleanup os m s of (r, s) \<Rightarrow> (r, m, s))"

definition Register :: "'s node_os \<Rightarrow> RealNodeDevicePlugin \<Rightarrow> string \<Rightarrow> 's \<Rightarrow> unit res \<times> 's" where
  "Register os m kubeletEndpoint s =
     (case dial os kubeletEndpoint s of
        (Inl e, s) \<Rightarrow> (Err e, s)
      | (Inr u, s) \<Rightarrow>
          (case kubelet_register os kubeletEndpoint (last (split_on (CHR ''/'') (rn_socket m))) (rn_resourceName m) s of
             (r, s) \<Rightarrow> (of_sum r, snd (close_conn os kubeletEndpoint s))))"

definition Serve_real :: "'s node_os \<Rightarrow> RealNodeDevicePlugin \<Rightarrow> 's \<Rightarrow> unit res \<times> RealNodeDevicePlugin \<times> 's" where
  "Serve_real os m s =
     (case Start os m s of
        (Ok u, m, s) \<Rightarrow>
          (case Register os m (kubelet_socket os) s of
             (Err e, s) \<Rightarrow> (case Stop os m s of (Panic p, m, s) \<Rightarrow> (Panic p, m, s) | (_, m, s) \<Rightarrow> (Err e, m, s))
           | (r, s) \<Rightarrow> (r, m, s))
      | (r, m, s) \<Rightarrow> (r, m, s))"

text \<open>\<^verbatim>\<open>Allocate\<close>: for each container its environment and mounts\<close>

record ContainerAllocation =
  ca_Envs :: "(string \<times> string) list"
  ca_Mounts :: "(string \<times> string) list"

definition Allocate :: "('s, 'q, 'y) kube_env \<Rightarrow> string list list \<Rightarrow> ContainerAllocation list" where
  "Allocate K requests =
     map (\<lambda>ids. \<lparr>ca_Envs = [(''MOCK_NVIDIA_VISIBLE_DEVICES'', str_join '','' ids), (''NODE_NAME'', EnvNodeName K)],
                 ca_Mounts = [(''/bin/nvidia-smi'', ''/var/lib/runai/bin/nvidia-smi'')]\<rparr>) requests"

text \<open>
  \<^verbatim>\<open>ListAndWatch\<close>: what it sends are the devices with whether they are healthy; an error of a send is only
  logged.  It waits for a close of \<^verbatim>\<open>stop\<close> or for a device at \<^verbatim>\<open>health\<close>: a receive from a channel
  that was not made waits forever, and so does the whole loop when neither was made.  The devices that the plugin has are
  those it is sent, so that a mark of one shows in the next send.  \<open>None\<close> is a call that has not returned.
\<close>

datatype signal = Stop_closed | Unhealthy string

definition mark_unhealthy :: "string \<Rightarrow> (string \<times> bool) list \<Rightarrow> (string \<times> bool) list" where
  "mark_unhealthy d devs = map (\<lambda>(i, healthy). (i, healthy \<and> i \<noteq> d)) devs"

fun watch_health ::
    "((string \<times> bool) list \<Rightarrow> 's \<Rightarrow> (gerror + unit) \<times> 's) \<Rightarrow> RealNodeDevicePlugin \<Rightarrow> (string \<times> bool) list \<Rightarrow> signal list \<Rightarrow> 's
     \<Rightarrow> unit res option \<times> 's" where
  "watch_health send m devs [] s = (None, s)"
| "watch_health send m devs (Stop_closed # signals) s = (if rn_stop m then (Some (Ok ()), s) else watch_health send m devs signals s)"
| "watch_health send m devs (Unhealthy d # signals) s =
     (if rn_health m
      then watch_health send m (mark_unhealthy d devs) signals (snd (send (mark_unhealthy d devs) s))
      else watch_health send m devs signals s)"

definition ListAndWatch ::
    "((string \<times> bool) list \<Rightarrow> 's \<Rightarrow> (gerror + unit) \<times> 's) \<Rightarrow> RealNodeDevicePlugin \<Rightarrow> signal list \<Rightarrow> 's \<Rightarrow> unit res option \<times> 's" where
  "ListAndWatch send m signals s =
     (let devs = map (\<lambda>i. (i, True)) (rn_devs m) in watch_health send m devs signals (snd (send devs s)))"

section \<open>Properties\<close>

lemma plugins_without_channels:
  assumes "NewDevicePlugins False devicePluginPath uuid (Some nt) = Ok plugins" and "RealNodePlugin m \<in> set plugins"
  shows "\<not> rn_stop m" and "\<not> rn_health m"
  using assms by (auto simp: NewDevicePlugins_def real_plugin_def)

text \<open>A plugin without channels sends its devices once, all of them healthy, and never returns.\<close>

lemma watch_health_waits: "\<not> rn_stop m \<Longrightarrow> \<not> rn_health m \<Longrightarrow> watch_health send m devs signals s = (None, s)"
  by (induction send m devs signals s rule: watch_health.induct) simp_all

lemma devices_sent_once:
  assumes "NewDevicePlugins False devicePluginPath uuid (Some nt) = Ok plugins" and "RealNodePlugin m \<in> set plugins"
  shows "ListAndWatch send m signals s = (None, snd (send (map (\<lambda>i. (i, True)) (rn_devs m)) s))"
  using watch_health_waits [OF plugins_without_channels [OF assms]] by (simp add: ListAndWatch_def Let_def)

text \<open>With channels, as the loop intends: a device that is reported is unhealthy in the next send, and stays so.\<close>

lemma unhealthy_stays:
  assumes "rn_health m" and "\<not> rn_stop m \<or> Stop_closed \<notin> set signals"
  shows "watch_health send m devs signals s =
    (None, snd (foldl (\<lambda>(devs, s) d. (mark_unhealthy d devs, snd (send (mark_unhealthy d devs) s))) (devs, s)
      (concat (map (\<lambda>x. case x of Unhealthy d \<Rightarrow> [d] | Stop_closed \<Rightarrow> []) signals))))"
  using assms by (induction send m devs signals s rule: watch_health.induct) auto

lemma foldl_put_device:
  "ns_Capacity (foldl (put_device quantity) st ds) n =
    (case map_of (rev ds) n of None \<Rightarrow> ns_Capacity st n | Some c \<Rightarrow> Some (quantity c))"
  "ns_Allocatable (foldl (put_device quantity) st ds) n =
    (case map_of (rev ds) n of None \<Rightarrow> ns_Allocatable st n | Some c \<Rightarrow> Some (quantity c))"
  by (induction ds rule: rev_induct) (simp_all add: put_device_def)

lemma other_counts_map: "other_counts ds = map_of (rev (map (\<lambda>d. (gd_Name d, gd_Count d)) ds))"
  unfolding other_counts_def by (induction ds rule: rev_induct) simp_all

text \<open>
  A simulated node reports the same resources whichever of the two plugins reports them, and in whatever order
  the runtime visits the map of the other devices.
\<close>

theorem plugins_agree:
  assumes "NewDevicePlugins True devicePluginPath uuid (Some nt) = Ok [FakeNodePlugin f]"
    and "distinct (map fst others)" and "map_of others = fn_otherDevices f"
  shows "fake_node_status quantity f others = kwok_node_status quantity nt"
proof -
  let ?ps = "map (\<lambda>d. (gd_Name d, gd_Count d)) (OtherDevices nt)"
  have f: "fn_gpuCount f = int (length (Gpus nt))" "fn_otherDevices f = map_of (rev ?ps)"
    using assms(1) by (auto simp: NewDevicePlugins_def getGpuCount_def other_counts_map)
  have "map_of (rev others) = map_of others" using assms(2) by (intro map_of_perm) (simp_all add: rev_map [symmetric])
  then have "map_of (rev others) = map_of (rev ?ps)" using assms(3) f(2) by simp
  moreover have "kwok_node_status quantity nt = foldl (put_device quantity) (gpu_status quantity (int (length (Gpus nt)))) ?ps"
    by (simp add: kwok_node_status_def foldl_map)
  ultimately show ?thesis 
    by (intro NodeStatus.equality ext) (simp_all add: fake_node_status_def foldl_put_device f(1))
qed

text \<open>
  C26. A plugin that the kubelet refuses does not fail but panics: \<^verbatim>\<open>Stop\<close> closes the channel \<^verbatim>\<open>stop\<close>,
  which no plugin has.
\<close>

theorem refused_registration_panics:
  assumes "NewDevicePlugins False devicePluginPath uuid (Some nt) = Ok plugins" and "RealNodePlugin m \<in> set plugins"
    and "Start os m s = (Ok (), m1, s1)" and "Register os m1 (kubelet_socket os) s1 = (Err e, s2)"
  shows "fst (Serve_real os m s) = Panic (BadArgument ''close of nil channel'')"
proof -
  have "\<not> rn_stop m" using plugins_without_channels [OF assms(1,2)] by simp
  moreover have "rn_server m1 \<and> rn_stop m1 = rn_stop m"
    using assms(3) by (auto simp: Start_def Let_def split: prod.splits sum.splits res.splits)
  ultimately show ?thesis using assms(3,4) by (simp add: Serve_real_def Stop_def Let_def)
qed

end
