(* ===== verification/WitnessPlugins.thy ===== *)
theory WitnessPlugins
  imports WitnessPods SliceProps NvidiaSmi DevicePlugins
begin

text \<open>
  A concrete store of slices beside the concrete server, on which the interface \<open>slice_server\<close> is
  interpreted, and the properties of the plugins and of nvidia-smi at concrete inputs.
\<close>

section \<open>A store of slices\<close>

text \<open>A server that keeps something else beside its own state\<close>

definition beside :: "('s, 'q, 'y) kube_env \<Rightarrow> ('s \<times> 't, 'q, 'y) kube_env" where
  "beside K = \<lparr>
     cm_get = (\<lambda>ns n s. cm_get K ns n (fst s)),
     cm_create = (\<lambda>ns cm s. apsnd (\<lambda>x. (x, snd s)) (cm_create K ns cm (fst s))),
     cm_apply = (\<lambda>ns ap s. apsnd (\<lambda>x. (x, snd s)) (cm_apply K ns ap (fst s))),
     cm_delete = (\<lambda>ns n s. apsnd (\<lambda>x. (x, snd s)) (cm_delete K ns n (fst s))),
     cm_list = (\<lambda>ns k v s. cm_list K ns k v (fst s)),
     pod_get = (\<lambda>ns n s. pod_get K ns n (fst s)),
     pod_list = (\<lambda>ns n s. pod_list K ns n (fst s)),
     pod_annotate = (\<lambda>ns n k v s. apsnd (\<lambda>x. (x, snd s)) (pod_annotate K ns n k v (fst s))),
     node_get = (\<lambda>n s. node_get K n (fst s)),
     node_list = (\<lambda>k s. node_list K k (fst s)),
     node_patch_labels = (\<lambda>n ls s. apsnd (\<lambda>x. (x, snd s)) (node_patch_labels K n ls (fst s))),
     node_update = (\<lambda>nd s. apsnd (\<lambda>x. (x, snd s)) (node_update K nd (fst s))),
     claim_get = (\<lambda>ns n s. claim_get K ns n (fst s)),
     podgroup_class = (\<lambda>ns n s. podgroup_class K ns n (fst s)),
     empty_text = empty_text K, unmarshal_nt = unmarshal_nt K, marshal_nt = marshal_nt K,
     unmarshal_gmap = unmarshal_gmap K, unmarshal_ClusterTopology = unmarshal_ClusterTopology K,
     unmarshal_ClusterConfig = unmarshal_ClusterConfig K, blank_text = blank_text K,
     q_zero = q_zero K, q_equal = q_equal K, q_value = q_value K, q_milli = q_milli K, q_add = q_add K,
     q_new = q_new K, q_new_milli = q_new_milli K, q_parse = q_parse K,
     TopologyCmName = TopologyCmName K, TopologyCmNamespace = TopologyCmNamespace K,
     ResourceReservationNamespace = ResourceReservationNamespace K, EnvNodeName = EnvNodeName K,
     conv_oor = conv_oor K\<rparr>"

type_synonym slice_state = "ref_state \<times> (string \<times> int ResourceSlice) list"

definition slice_kube_env :: "(slice_state, int, ref_text) kube_env" where
  "slice_kube_env = beside ref_env"

definition ref_slice_env :: "(slice_state, int) slice_env" where
  "ref_slice_env = \<lparr>
     slice_get = (\<lambda>n s. ref_find (snd s) n),
     slice_create = (\<lambda>x s. case map_of (snd s) (sl_Name x) of
         Some y \<Rightarrow> (Inl AlreadyExistsErr, s)
       | None \<Rightarrow> (Inr (), apsnd (AList.update (sl_Name x) (x\<lparr>sl_ResourceVersion := ''1''\<rparr>)) s)),
     slice_update = (\<lambda>x s. case map_of (snd s) (sl_Name x) of
         None \<Rightarrow> (Inl NotFoundErr, s)
       | Some y \<Rightarrow>
           if sl_ResourceVersion x = sl_ResourceVersion y
           then (Inr (), apsnd (AList.update (sl_Name x) (x\<lparr>sl_ResourceVersion := sl_ResourceVersion y @ ''1''\<rparr>)) s)
           else (Inl (ApiErr ''conflict''), s)),
     slice_delete = (\<lambda>n s. case map_of (snd s) n of
         None \<Rightarrow> (Inl NotFoundErr, s)
       | Some y \<Rightarrow> (Inr (), apsnd (AList.delete n) s)),
     q_binary = (\<lambda>i. i * 1000)\<rparr>"

lemma ref_slice_simps:
  "slice_get ref_slice_env n s = ref_find (snd s) n"
  "map_of (snd s) (sl_Name x) = None \<Longrightarrow>
    slice_create ref_slice_env x s = (Inr (), apsnd (AList.update (sl_Name x) (x\<lparr>sl_ResourceVersion := ''1''\<rparr>)) s)"
  by (simp_all add: ref_slice_env_def)

lemma ref_slices_ok: "slices_ok ref_slice_env"
  by (auto simp: slices_ok_def ref_slice_env_def slice_same_def missing_def map_of_update map_of_delete ref_find_def
      split: option.splits if_splits)

interpretation ref_slices: slice_server ref_slice_env
  by (rule slice_server.intro [OF ref_slices_ok])

section \<open>Slices\<close>

definition w_slices :: slice_state where
  "w_slices = (w_s, [])"

theorem slice_witness:
  "\<exists>x. slice_get ref_slice_env ''kwok-node1-gpu''
      (snd (ReconcileSlice slice_kube_env ref_slice_env ''topology'' ''gpu-operator'' ''topology-node1'' w_slices)) = Inr x \<and>
    sl_NodeName x = ''node1'' \<and> map dv_Name (sl_Devices x) = [''g0'', ''g1'']"
proof -
  let ?r = "ReconcileSlice slice_kube_env ref_slice_env ''topology'' ''gpu-operator'' (''topology'' @ ''-'' @ ''node1'') w_slices"
  have cm: "cm_get slice_kube_env ''gpu-operator'' (''topology'' @ ''-'' @ ''node1'') w_slices = Inr (w_cm ''node1'' w_two)"
    by (simp add: slice_kube_env_def beside_def w_slices_def w_s_def w_state_def ref_env_simps)
  have nt: "FromNodeTopologyCM slice_kube_env (w_cm ''node1'' w_two) = Ok w_two"
    by (simp add: FromNodeTopologyCM_def slice_kube_env_def beside_def w_cm_def ref_env_simps)
  have label: "cm_Labels (w_cm ''node1'' w_two) LabelTopologyCMNodeName = Some ''node1''"
    by (simp add: w_cm_def)
  have "fst (createOrUpdateResourceSlice ref_slice_env ''node1'' w_two w_slices) = Ok ()"
    by (simp add: createOrUpdateResourceSlice_def upsert_slice_def ref_slice_simps w_slices_def ref_find_def of_sum_def wrap_err_def)
  then have "fst ?r = Ok ()" unfolding ReconcileSlice_def cm
    by (simp add: HandleAddOrUpdateSlice_def label nt wrap_err_def)
  then have r: "?r = (Ok (), snd ?r)" by (rule ok_pair)
  have "map dv_Name (devicesFromTopology ref_slice_env w_two) = [''g0'', ''g1'']"
    by code_simp
  moreover have "\<exists>nt' x. FromNodeTopologyCM slice_kube_env (w_cm ''node1'' w_two) = Ok nt' \<and>
      slice_get ref_slice_env (resourceSliceName ''node1'') (snd ?r) = Inr x \<and> sl_NodeName x = ''node1'' \<and>
      sl_Devices x = devicesFromTopology ref_slice_env nt'"
    using slice_follows_topology [OF ref_slices_ok r] unfolding cm by (simp add: label)
  then obtain x where "slice_get ref_slice_env (resourceSliceName ''node1'') (snd ?r) = Inr x" "sl_NodeName x = ''node1''"
      "sl_Devices x = devicesFromTopology ref_slice_env w_two"
    unfolding nt by auto
  ultimately show ?thesis by (simp add: resourceSliceName_def)
qed

theorem published_devices_witness:
  "\<exists>m. enumerateAllPossibleDevices (q_binary ref_slice_env) (\<lambda>_. Some (200, Some w_two)) ''node1'' = Ok m \<and>
    map_of m ''g1'' = Some (gpu_device (q_binary ref_slice_env) w_two (w_gpu ''g1'' ''other'' (Some Map.empty)))"
proof -
  obtain m where m: "enumerateAllPossibleDevices (q_binary ref_slice_env) (\<lambda>_. Some (200, Some w_two)) ''node1'' = Ok m"
    by (simp add: enumerateAllPossibleDevices_def getTopologyFromHTTP_def wrap_err_def w_two_def w_free_def w_gpu_def)
  let ?d = "gpu_device (q_binary ref_slice_env) w_two (w_gpu ''g1'' ''other'' (Some Map.empty))"
  have "distinct (map (\<lambda>g. to_lower (ID g)) (Gpus w_two))" and "dv_Name ?d = ''g1''"
    by code_simp+
  moreover have "?d \<in> set (devicesFromTopology ref_slice_env w_two)"
    by (simp add: devicesFromTopology_def w_two_def w_free_def w_gpu_def)
  ultimately have "map_of m ''g1'' = Some ?d" using published_devices_found [of w_two, OF _ _ m] by metis
  with m show ?thesis by blast
qed

section \<open>Device plugins\<close>

definition w_other :: NodeTopology where
  "w_other = w_two\<lparr>OtherDevices := [\<lparr>gd_Name = ''a/b'', gd_Count = 2\<rparr>, \<lparr>gd_Name = ''c/d'', gd_Count = 3\<rparr>]\<rparr>"

theorem plugins_agree_witness:
  "fake_node_status (\<lambda>i. i) \<lparr>fn_gpuCount = 2, fn_otherDevices = [''a/b'' \<mapsto> 2, ''c/d'' \<mapsto> 3]\<rparr> [(''c/d'', 3), (''a/b'', 2)] =
    kwok_node_status (\<lambda>i. i) w_other"
proof (rule plugins_agree)
  show "NewDevicePlugins True [] (\<lambda>_ _. []) (Some w_other) =
      Ok [FakeNodePlugin \<lparr>fn_gpuCount = 2, fn_otherDevices = [''a/b'' \<mapsto> 2, ''c/d'' \<mapsto> 3]\<rparr>]"
    by (simp add: NewDevicePlugins_def getGpuCount_def other_counts_def w_other_def w_two_def)
qed (auto simp: fun_eq_iff)

text \<open>A kubelet that refuses every registration\<close>

definition w_os :: "unit node_os" where
  "w_os = \<lparr>os_remove = (\<lambda>_ s. (Inl NotFoundErr, s)), is_not_exist = is_not_found, net_listen = (\<lambda>_ s. (Inr (), s)),
           dial = (\<lambda>_ s. (Inr (), s)), close_conn = (\<lambda>_ s. (Inr (), s)),
           kubelet_register = (\<lambda>_ _ _ s. (Inl (ApiErr ''refused''), s)), kubelet_socket = ''kubelet.sock''\<rparr>"

definition w_plugin :: RealNodeDevicePlugin where
  "w_plugin = \<lparr>rn_devs = [''d0'', ''d1''], rn_socket = ''/plugins/fake-nvidia-gpu.sock'', rn_resourceName = nvidiaGPUResourceName,
               rn_server = False, rn_stop = False, rn_health = False\<rparr>"

theorem refused_registration_witness:
  "fst (Serve_real w_os w_plugin ()) = Panic (BadArgument ''close of nil channel'')"
proof (rule refused_registration_panics)
  show "NewDevicePlugins False ''/plugins/'' (\<lambda>_ i. ''d'' @ itoa (int i)) (Some w_two) = Ok [RealNodePlugin w_plugin]"
  proof -
    have "createDevices (\<lambda>i. ''d'' @ itoa (int i)) 2 = [''d0'', ''d1'']"
      by code_simp
    then show ?thesis by (simp add: NewDevicePlugins_def getGpuCount_def w_plugin_def w_two_def w_nt_def zero_nt_def)
  qed
  show "Start w_os w_plugin () = (Ok (), w_plugin\<lparr>rn_server := True\<rparr>, ())"
    by (simp add: Start_def cleanup_def w_os_def Let_def)
  show "Register w_os (w_plugin\<lparr>rn_server := True\<rparr>) (kubelet_socket w_os) () = (Err (ApiErr ''refused''), ())"
    by (simp add: Register_def w_os_def of_sum_def)
qed simp

section \<open>nvidia-smi\<close>

theorem sizeString_witness:
  "sizeString ''NVIDIA-A100-SXM4'' 12 False = Ok ''NVIDIA-A10..''"
  using sizeString_width [of 12 "''NVIDIA-A100-SXM4''" False] by (auto simp: eval_nat_numeral)

definition w_menv_smi :: metrics_env where
  "w_menv_smi = \<lparr>prom = (\<lambda>_. None), draw = (\<lambda>_ _. 0), oor = (\<lambda>_. 0), range_of = (\<lambda>m. case m ''p'' of None \<Rightarrow> [] | Some u \<Rightarrow> [(''p'', u)])\<rparr>"

definition w_smi :: smi_env where
  "w_smi = \<lparr>getenv = (\<lambda>v. if v = ''NODE_NAME'' then ''node1'' else if v = ''HOSTNAME'' \<or> v = ''POD_UUID'' then ''p'' else []),
     http = (\<lambda>node. Some (topology_server ref_env node (snd (HandleAdd ref_env (w_pod ''p'') w_s)))),
     cmdline = Inr (''sleep'' @ [CHR 0x00])\<rparr>"

theorem smi_witness:
  "\<exists>args summary errs. getNvidiaSmiArgs w_smi w_menv_smi = Ok (args, summary, errs) \<and> map sa_GpuIdx args = [0]"
proof -
  let ?r = "q_value ref_env (gpu_limit ref_env (hd (p_Containers (w_pod ''p''))))"
  have "(case getNvidiaSmiArgs w_smi w_menv_smi of Ok r \<Rightarrow> True | _ \<Rightarrow> False)"
    by code_simp
  then obtain args summary errs where smi: "getNvidiaSmiArgs w_smi w_menv_smi = Ok (args, summary, errs)"
    by (auto split: res.splits)
  have new: "\<not> isAlreadyAllocated (w_pod ''p'') w_two"
    by (simp add: w_two_def w_free_def w_gpu_def isAlreadyAllocated_def isGpuOccupiedByPod_def zero_container_def)
  have rows: "filter (\<lambda>i. takes_gpu ?r (Gpus w_two) i \<or> gpu_matches (p_Name (w_pod ''p'')) (p_UID (w_pod ''p'')) (Gpus w_two ! i)) [0..<length (Gpus w_two)] = [0]"
    by (simp add: w_two_def w_free_def w_gpu_def takes_gpu_def is_free_def zero_container_def gpu_limit_def ref_env_simps gpu_matches_def)
  have "map sa_GpuIdx args =
    (let rows = filter (\<lambda>i. takes_gpu ?r (Gpus w_two) i \<or> gpu_matches (p_Name (w_pod ''p'')) (p_UID (w_pod ''p'')) (Gpus w_two ! i)) [0..<length (Gpus w_two)]
     in if rows = [] then [0] else map int rows)"
    by (rule smi_shows_allocation [OF ref_store_ok ref_codec_ok w_dedicated _ _ _ w_made new w_added _ _ _ _ smi])
      (simp_all add: w_smi_def)
  with smi rows show ?thesis by simp
qed

end
