(* ===== verification/Cdi.thy ===== *)
theory Cdi
  imports ResourceSlices
begin

text \<open>
  What the two DRA plugins of a node share: claims as the kubelet passes them, prepared devices, and the CDI
  files in which a plugin describes to the container runtime what a device adds to a container.  The CDI library
  is a parameter, the record \<open>cdi_env\<close>; \<open>cdi_ok\<close> says what the plugins rely on.
\<close>

section \<open>Claims and prepared devices\<close>

text \<open>A configuration of a claim: the requests it is for, and the driver and text of an opaque one.\<close>

record DeviceConfig =
  dc_Requests :: "string list"
  dc_Opaque :: "(string \<times> string) option"

text \<open>
  A claim: the device class of each of its requests, \<open>None\<close> for one that is not \<^verbatim>\<open>Exactly\<close>, and the
  configurations and results of its allocation.
\<close>

record ResourceClaim =
  rc_UID :: string
  rc_Namespace :: string
  rc_Requests :: "string option list"
  rc_Config :: "DeviceConfig list"
  rc_Allocation :: "(DeviceConfig list \<times> AllocResult list) option"

record DeviceNode =
  nd_Path :: string
  nd_Type :: string
  nd_FileMode :: int
  nd_Major :: int
  nd_Minor :: int

record Mount =
  mt_HostPath :: string
  mt_ContainerPath :: string
  mt_Options :: "string list"

record ContainerEdits =
  ce_Env :: "string list"
  ce_Mounts :: "Mount list"
  ce_DeviceNodes :: "DeviceNode list"

definition no_edits :: ContainerEdits where
  "no_edits = \<lparr>ce_Env = [], ce_Mounts = [], ce_DeviceNodes = []\<rparr>"

record PreparedDevice =
  pd_RequestNames :: "string list"
  pd_PoolName :: string
  pd_DeviceName :: string
  pd_CDIDeviceIDs :: "string list"
  pd_ContainerEdits :: "ContainerEdits option"

section \<open>CDI files\<close>

record CdiSpec =
  cs_Version :: string
  cs_Kind :: string
  cs_Devices :: "(string \<times> ContainerEdits) list"

text \<open>
  The library: the version a file needs, the names of files and devices, the union of two edits, the text of an
  error, the writing and removal of files; and what the file of a name holds, which the plugins never read.
\<close>

record 's cdi_env =
  minimum_version :: "CdiSpec \<Rightarrow> gerror + string"
  generate_name :: "CdiSpec \<Rightarrow> string \<Rightarrow> gerror + string"
  transient_name :: "string \<Rightarrow> string \<Rightarrow> string \<Rightarrow> string"
  qualified_name :: "string \<Rightarrow> string \<Rightarrow> string \<Rightarrow> string"
  append_edits :: "ContainerEdits \<Rightarrow> ContainerEdits \<Rightarrow> ContainerEdits"
  error_text :: "gerror \<Rightarrow> string"
  write_spec :: "CdiSpec \<Rightarrow> string \<Rightarrow> 's \<Rightarrow> (gerror + unit) \<times> 's"
  remove_spec :: "string \<Rightarrow> 's \<Rightarrow> (gerror + unit) \<times> 's"
  spec_file :: "string \<Rightarrow> 's \<Rightarrow> CdiSpec option"

text \<open>A file is written with the version it needs.\<close>

definition write_versioned :: "'s cdi_env \<Rightarrow> CdiSpec \<Rightarrow> (CdiSpec \<Rightarrow> gerror + string) \<Rightarrow> 's \<Rightarrow> unit res \<times> 's" where
  "write_versioned A spec name s =
     (case minimum_version A spec of
        Inl e \<Rightarrow> (Err (Msg ''failed to get minimum required CDI spec version''), s)
      | Inr v \<Rightarrow>
          (case name (spec\<lparr>cs_Version := v\<rparr>) of
             Inl e \<Rightarrow> (Err (Wrap ''failed to generate Spec name'' e), s)
           | Inr n \<Rightarrow> (case write_spec A (spec\<lparr>cs_Version := v\<rparr>) n s of (r, s') \<Rightarrow> (of_sum r, s'))))"

section \<open>The contract of the files\<close>

definition cdi_ok :: "'s cdi_env \<Rightarrow> bool" where
  "cdi_ok A \<longleftrightarrow>
     (\<forall>spec n s r s'. write_spec A spec n s = (r, s') \<longrightarrow>
        (r = Inr () \<longrightarrow> spec_file A n s' = Some spec) \<and> (\<forall>m. m \<noteq> n \<longrightarrow> spec_file A m s' = spec_file A m s)) \<and>
     (\<forall>n s r s'. remove_spec A n s = (r, s') \<longrightarrow>
        (case r of Inr u \<Rightarrow> spec_file A n s' = None
                 | Inl e \<Rightarrow> str_contains (error_text A e) ''not found'' \<longrightarrow> spec_file A n s' = None) \<and>
        (\<forall>m. m \<noteq> n \<longrightarrow> spec_file A m s' = spec_file A m s))"

locale cdi_files =
  fixes A :: "'s cdi_env"
  assumes ok: "cdi_ok A"
begin

lemma written:
  assumes "write_spec A spec n s = (r, s')"
  shows "r = Inr () \<Longrightarrow> spec_file A n s' = Some spec" and "m \<noteq> n \<Longrightarrow> spec_file A m s' = spec_file A m s"
  using ok assms unfolding cdi_ok_def by blast+

lemma removed:
  assumes "remove_spec A n s = (r, s')"
  shows "case r of Inr u \<Rightarrow> spec_file A n s' = None
               | Inl e \<Rightarrow> str_contains (error_text A e) ''not found'' \<longrightarrow> spec_file A n s' = None"
    and "m \<noteq> n \<Longrightarrow> spec_file A m s' = spec_file A m s"
  using ok assms unfolding cdi_ok_def by blast+

lemma versioned:
  assumes "write_versioned A spec (\<lambda>_. Inr n) s = (r, s')"
  shows "r = Ok () \<Longrightarrow> \<exists>v. spec_file A n s' = Some (spec\<lparr>cs_Version := v\<rparr>)"
    and "m \<noteq> n \<Longrightarrow> spec_file A m s' = spec_file A m s"
  using assms written
  by (auto simp: write_versioned_def of_sum_def split: sum.splits prod.splits)

end

end
