(* ===== verification/GpuPlugin.thy ===== *)
theory GpuPlugin
  imports Cdi GoPath
begin

text \<open>
  \<^verbatim>\<open>internal/dra-plugin-gpu\<close> (state.go, cdi.go, driver.go, config.go): the plugin that prepares the GPUs of
  a claim on their node.  The configurations of GPUs are of another repository, so that their decoding, defaults
  and sharing are parameters, the record \<open>config_api\<close>.
\<close>

section \<open>CDI files\<close>

definition GpuDriverName :: string where "GpuDriverName = ''gpu.nvidia.com''"

definition cdiVendor :: string where "cdiVendor = ''k8s.'' @ GpuDriverName"
definition cdiClass :: string where "cdiClass = ''gpu''"
definition cdiKind :: string where "cdiKind = cdiVendor @ ''/'' @ cdiClass"
definition cdiCommonDeviceName :: string where "cdiCommonDeviceName = ''common''"

definition DriverPluginPath :: "string \<Rightarrow> string" where
  "DriverPluginPath pluginsDirectory = path_join [pluginsDirectory, GpuDriverName]"

definition common_spec :: "string \<Rightarrow> CdiSpec" where
  "common_spec nodeName =
     \<lparr>cs_Version = [], cs_Kind = cdiKind,
      cs_Devices = [(cdiCommonDeviceName,
        \<lparr>ce_Env = [''NODE_NAME='' @ nodeName],
         ce_Mounts = [\<lparr>mt_HostPath = ''/var/lib/runai/bin/nvidia-smi'', mt_ContainerPath = ''/bin/nvidia-smi'',
                       mt_Options = [''ro'', ''bind'']\<rparr>],
         ce_DeviceNodes = []\<rparr>)]\<rparr>"

definition CreateCommonSpecFile :: "'s cdi_env \<Rightarrow> string \<Rightarrow> 's \<Rightarrow> unit res \<times> 's" where
  "CreateCommonSpecFile A nodeName s =
     write_versioned A (common_spec nodeName) (\<lambda>spec. generate_name A spec cdiCommonDeviceName) s"

definition gpu_claim_spec :: "string \<Rightarrow> PreparedDevice list \<Rightarrow> CdiSpec" where
  "gpu_claim_spec claimUID devices =
     \<lparr>cs_Version = [], cs_Kind = cdiKind,
      cs_Devices = map (\<lambda>d. (claimUID @ ''-'' @ pd_DeviceName d,
                             case pd_ContainerEdits d of None \<Rightarrow> no_edits | Some e \<Rightarrow> e)) devices\<rparr>"

definition gpu_spec_name :: "'s cdi_env \<Rightarrow> string \<Rightarrow> string" where
  "gpu_spec_name A claimUID = transient_name A cdiVendor cdiClass claimUID"

definition CreateClaimSpecFile :: "'s cdi_env \<Rightarrow> string \<Rightarrow> PreparedDevice list \<Rightarrow> 's \<Rightarrow> unit res \<times> 's" where
  "CreateClaimSpecFile A claimUID devices s =
     write_versioned A (gpu_claim_spec claimUID devices) (\<lambda>_. Inr (gpu_spec_name A claimUID)) s"

definition DeleteClaimSpecFile :: "'s cdi_env \<Rightarrow> string \<Rightarrow> 's \<Rightarrow> unit res \<times> 's" where
  "DeleteClaimSpecFile A claimUID s =
     (case remove_spec A (gpu_spec_name A claimUID) s of
        (Inl e, s') \<Rightarrow> (if str_contains (error_text A e) ''not found'' then Ok () else Err e, s')
      | (Inr u, s') \<Rightarrow> (Ok (), s'))"

definition GetClaimDevices :: "'s cdi_env \<Rightarrow> string \<Rightarrow> string list \<Rightarrow> string list" where
  "GetClaimDevices A claimUID devices =
     qualified_name A cdiVendor cdiClass cdiCommonDeviceName #
     map (\<lambda>d. qualified_name A cdiVendor cdiClass (claimUID @ ''-'' @ d)) devices"

section \<open>Configurations\<close>

text \<open>
  The library of configurations: decoded objects \<open>'o\<close>, of which some are GPU configurations \<open>'c\<close>, which may
  have a sharing \<open>'h\<close>.  A configuration for a way of sharing may be nil.
\<close>

record ('o, 'c, 'h) config_api =
  decode_config :: "string \<Rightarrow> gerror + 'o"
  default_config :: 'o
  as_gpu_config :: "'o \<Rightarrow> 'c option"
  normalize_config :: "'c \<Rightarrow> gerror + 'c"
  validate_config :: "'c \<Rightarrow> gerror + unit"
  gpu_sharing :: "'c \<Rightarrow> 'h option"
  sharing_strategy :: "'h \<Rightarrow> string"
  is_time_slicing :: "'h option \<Rightarrow> bool"
  is_space_partitioning :: "'h option \<Rightarrow> bool"
  time_slice_interval :: "'h option \<Rightarrow> gerror + string option"
  partition_count :: "'h option \<Rightarrow> gerror + string option"

record 'o OpaqueDeviceConfig =
  oc_Requests :: "string list"
  oc_Config :: 'o

fun GetOpaqueDeviceConfigs :: "('o, 'c, 'h) config_api \<Rightarrow> string \<Rightarrow> DeviceConfig list \<Rightarrow> 'o OpaqueDeviceConfig list res" where
  "GetOpaqueDeviceConfigs C driverName [] = Ok []"
| "GetOpaqueDeviceConfigs C driverName (config # configs) =
     (case dc_Opaque config of
        None \<Rightarrow> GetOpaqueDeviceConfigs C driverName configs
      | Some (driver, raw) \<Rightarrow>
          if driver \<noteq> driverName then GetOpaqueDeviceConfigs C driverName configs
          else rbind (wrap_err ''error decoding config'' (of_sum (decode_config C raw))) (\<lambda>decoded.
               rbind (GetOpaqueDeviceConfigs C driverName configs) (\<lambda>rest.
                 Ok (\<lparr>oc_Requests = dc_Requests config, oc_Config = decoded\<rparr> # rest))))"

definition sanitizeDeviceNameForEnvVar :: "string \<Rightarrow> string" where
  "sanitizeDeviceNameForEnvVar deviceName = replace_char (CHR ''-'') (CHR ''_'') deviceName"

text \<open>A field of a configuration that a pointer, which may be nil, leads to\<close>

definition deref_text :: "string \<Rightarrow> gerror + string option \<Rightarrow> string res" where
  "deref_text m r = (case r of Inl e \<Rightarrow> Err (Wrap m e) | Inr None \<Rightarrow> Panic NilDeref | Inr (Some t) \<Rightarrow> Ok t)"

definition device_envs :: "('o, 'c, 'h) config_api \<Rightarrow> 'c \<Rightarrow> string \<Rightarrow> string list res" where
  "device_envs C config device =
     (let var = ''GPU_DEVICE_'' @ sanitizeDeviceNameForEnvVar device;
          sh = gpu_sharing C config;
          envs = (var @ ''='' @ device) #
                 (case sh of None \<Rightarrow> [] | Some h \<Rightarrow> [var @ ''_SHARING_STRATEGY='' @ sharing_strategy C h])
      in if is_time_slicing C sh
         then rbind (deref_text ''unable to get time slicing config'' (time_slice_interval C sh)) (\<lambda>t.
                Ok (envs @ [var @ ''_TIMESLICE_INTERVAL='' @ t]))
         else if is_space_partitioning C sh
         then rbind (deref_text ''unable to get space partitioning config'' (partition_count C sh)) (\<lambda>t.
                Ok (envs @ [var @ ''_PARTITION_COUNT='' @ t]))
         else Ok envs)"

fun applyConfig ::
    "('o, 'c, 'h) config_api \<Rightarrow> 'c \<Rightarrow> AllocResult list \<Rightarrow> (string \<rightharpoonup> ContainerEdits) \<Rightarrow> (string \<rightharpoonup> ContainerEdits) res" where
  "applyConfig C config [] acc = Ok acc"
| "applyConfig C config (result # results) acc =
     rbind (device_envs C config (ar_Device result)) (\<lambda>envs.
       applyConfig C config results
         (acc(ar_Device result \<mapsto> \<lparr>ce_Env = envs, ce_Mounts = [], ce_DeviceNodes = []\<rparr>)))"

section \<open>Preparing a claim\<close>

definition config_matches :: "'o OpaqueDeviceConfig \<Rightarrow> AllocResult \<Rightarrow> bool" where
  "config_matches c result \<longleftrightarrow> oc_Requests c = [] \<or> ar_Request result \<in> set (oc_Requests c)"

text \<open>
  The last configuration for a result.  The code keys its map by the configuration, an object of its own for
  each entry of the list; here it is the position in the list.
\<close>

definition config_index :: "'o OpaqueDeviceConfig list \<Rightarrow> AllocResult \<Rightarrow> nat option" where
  "config_index configs result =
     find (\<lambda>i. config_matches (configs ! i) result) (rev [0..<length configs])"

definition add_result :: "nat option \<Rightarrow> AllocResult \<Rightarrow> (nat \<times> AllocResult list) list \<Rightarrow> (nat \<times> AllocResult list) list" where
  "add_result i result m =
     (case i of
        None \<Rightarrow> m
      | Some i \<Rightarrow> AList.update i ((case map_of m i of None \<Rightarrow> [] | Some rs \<Rightarrow> rs) @ [result]) m)"

fun group_results ::
    "string list \<Rightarrow> 'o OpaqueDeviceConfig list \<Rightarrow> AllocResult list \<Rightarrow> (nat \<times> AllocResult list) list
     \<Rightarrow> (nat \<times> AllocResult list) list res" where
  "group_results allocatable configs [] m = Ok m"
| "group_results allocatable configs (result # results) m =
     (if ar_Device result \<notin> set allocatable then Err (Msg ''requested GPU is not allocatable'')
      else group_results allocatable configs results (add_result (config_index configs result) result m))"

fun apply_groups ::
    "('o, 'c, 'h) config_api \<Rightarrow> 'o OpaqueDeviceConfig list \<Rightarrow> (nat \<times> AllocResult list) list \<Rightarrow> (string \<rightharpoonup> ContainerEdits)
     \<Rightarrow> (string \<rightharpoonup> ContainerEdits) res" where
  "apply_groups C configs [] acc = Ok acc"
| "apply_groups C configs ((i, results) # groups) acc =
     (case as_gpu_config C (oc_Config (configs ! i)) of
        None \<Rightarrow> Err (Msg ''runtime object is not a regognized configuration'')
      | Some config \<Rightarrow>
          rbind (wrap_err ''error normalizing GPU config'' (of_sum (normalize_config C config))) (\<lambda>config.
          rbind (wrap_err ''error validating GPU config'' (of_sum (validate_config C config))) (\<lambda>_.
          rbind (wrap_err ''error applying GPU config'' (applyConfig C config results Map.empty)) (\<lambda>edits.
            apply_groups C configs groups (acc ++ edits)))))"

definition prepared_device :: "'s cdi_env \<Rightarrow> string \<Rightarrow> (string \<rightharpoonup> ContainerEdits) \<Rightarrow> AllocResult \<Rightarrow> PreparedDevice" where
  "prepared_device A claimUID edits result =
     \<lparr>pd_RequestNames = [ar_Request result], pd_PoolName = ar_Pool result, pd_DeviceName = ar_Device result,
      pd_CDIDeviceIDs = GetClaimDevices A claimUID [ar_Device result], pd_ContainerEdits = edits (ar_Device result)\<rparr>"

text \<open>The map of results is visited twice, each time in an order of the runtime's.\<close>

definition prepareDevices ::
    "'s cdi_env \<Rightarrow> ('o, 'c, 'h) config_api
     \<Rightarrow> ((nat \<times> AllocResult list) list \<Rightarrow> (nat \<times> AllocResult list) list)
     \<Rightarrow> ((nat \<times> AllocResult list) list \<Rightarrow> (nat \<times> AllocResult list) list)
     \<Rightarrow> string list \<Rightarrow> ResourceClaim \<Rightarrow> PreparedDevice list res" where
  "prepareDevices A C visit1 visit2 allocatable claim =
     (case rc_Allocation claim of
        None \<Rightarrow> Err (Msg ''claim not yet allocated'')
      | Some (possibleConfigs, results) \<Rightarrow>
          (case GetOpaqueDeviceConfigs C GpuDriverName possibleConfigs of
             Err e \<Rightarrow> Err (Msg ''error getting opaque device configs'')
           | Panic p \<Rightarrow> Panic p
           | Ok opaque \<Rightarrow>
               let configs = \<lparr>oc_Requests = [], oc_Config = default_config C\<rparr> # opaque
               in rbind (group_results allocatable configs results []) (\<lambda>groups.
                  rbind (apply_groups C configs (visit1 groups) Map.empty) (\<lambda>edits.
                    Ok (concat (map (\<lambda>(i, rs). map (prepared_device A (rc_UID claim) edits) rs) (visit2 groups)))))))"

definition PrepareGpus ::
    "'s cdi_env \<Rightarrow> ('o, 'c, 'h) config_api
     \<Rightarrow> ((nat \<times> AllocResult list) list \<Rightarrow> (nat \<times> AllocResult list) list)
     \<Rightarrow> ((nat \<times> AllocResult list) list \<Rightarrow> (nat \<times> AllocResult list) list)
     \<Rightarrow> string list \<Rightarrow> ResourceClaim \<Rightarrow> 's \<Rightarrow> PreparedDevice list res \<times> 's" where
  "PrepareGpus A C visit1 visit2 allocatable claim s =
     (case prepareDevices A C visit1 visit2 allocatable claim of
        Err e \<Rightarrow> (Err (Msg ''prepare failed''), s)
      | Panic p \<Rightarrow> (Panic p, s)
      | Ok devices \<Rightarrow>
          (case CreateClaimSpecFile A (rc_UID claim) devices s of
             (Err e, s') \<Rightarrow> (Err (Msg ''unable to create CDI spec file for claim''), s')
           | (Panic p, s') \<Rightarrow> (Panic p, s')
           | (Ok u, s') \<Rightarrow> (Ok devices, s')))"

definition UnprepareGpus :: "'s cdi_env \<Rightarrow> string \<Rightarrow> 's \<Rightarrow> unit res \<times> 's" where
  "UnprepareGpus A claimUID s = DeleteClaimSpecFile A claimUID s"

text \<open>
  \<^verbatim>\<open>NewDeviceState\<close>: the names of the allocatable devices, once the topology is there; the plugin then
  publishes the devices themselves.
\<close>

definition NewDeviceState ::
    "'s cdi_env \<Rightarrow> (int \<Rightarrow> 'q) \<Rightarrow> (string \<Rightarrow> (int \<times> NodeTopology option) option) list \<Rightarrow> string \<Rightarrow> 's
     \<Rightarrow> (string \<times> 'q Device) list res \<times> 's" where
  "NewDeviceState A quantity ticks nodeName s =
     (case waitForTopology quantity ticks nodeName of
        Err e \<Rightarrow> (Err (Msg ''error enumerating all possible devices''), s)
      | Panic p \<Rightarrow> (Panic p, s)
      | Ok allocatable \<Rightarrow>
          (case CreateCommonSpecFile A nodeName s of
             (Err e, s') \<Rightarrow> (Err (Msg ''unable to create CDI spec file for common edits''), s')
           | (Panic p, s') \<Rightarrow> (Panic p, s')
           | (Ok u, s') \<Rightarrow> (Ok allocatable, s')))"

text \<open>\<^verbatim>\<open>driver.go\<close>: the results by the UIDs of the claims\<close>

definition prepareResourceClaim :: "('p \<Rightarrow> 's \<Rightarrow> PreparedDevice list res \<times> 's) \<Rightarrow> 'p \<Rightarrow> 's \<Rightarrow> PreparedDevice list res \<times> 's" where
  "prepareResourceClaim prepare claim s =
     (case prepare claim s of (r, s') \<Rightarrow> (wrap_err ''error preparing devices for claim'' r, s'))"

fun PrepareResourceClaims ::
    "(ResourceClaim \<Rightarrow> 's \<Rightarrow> PreparedDevice list res \<times> 's) \<Rightarrow> ResourceClaim list
     \<Rightarrow> (string \<rightharpoonup> PreparedDevice list res) \<Rightarrow> 's \<Rightarrow> (string \<rightharpoonup> PreparedDevice list res) res \<times> 's" where
  "PrepareResourceClaims prepare [] m s = (Ok m, s)"
| "PrepareResourceClaims prepare (claim # claims) m s =
     (case prepareResourceClaim prepare claim s of
        (Panic p, s') \<Rightarrow> (Panic p, s')
      | (r, s') \<Rightarrow> PrepareResourceClaims prepare claims (m(rc_UID claim \<mapsto> r)) s')"

fun UnprepareResourceClaims ::
    "(string \<Rightarrow> 's \<Rightarrow> unit res \<times> 's) \<Rightarrow> string list \<Rightarrow> (string \<rightharpoonup> unit res) \<Rightarrow> 's \<Rightarrow> (string \<rightharpoonup> unit res) res \<times> 's" where
  "UnprepareResourceClaims unprepare [] m s = (Ok m, s)"
| "UnprepareResourceClaims unprepare (uid # uids) m s =
     (case unprepare uid s of
        (Panic p, s') \<Rightarrow> (Panic p, s')
      | (r, s') \<Rightarrow> UnprepareResourceClaims unprepare uids
                     (m(uid \<mapsto> wrap_err ''error unpreparing devices for claim'' r)) s')"

end
