(* ===== verification/GpuPluginProps.thy ===== *)
theory GpuPluginProps
  imports GpuPlugin
begin

text \<open>
  What the preparation of a claim promises: every result of the claim becomes one prepared device, under the
  configuration of the highest precedence, and the claim's CDI file describes exactly the devices whose
  identifiers are handed to the container runtime.
\<close>

section \<open>The results by configuration\<close>

lemma update_snd:
  assumes "distinct (map fst m)"
  shows "mset (concat (map snd (AList.update i ((case map_of m i of None \<Rightarrow> [] | Some rs \<Rightarrow> rs) @ [r]) m))) =
    mset (concat (map snd m)) + {#r#}"
  using assms
proof (induction m)
  case (Cons p m)
  show ?case
  proof (cases "fst p = i")
    case True
    then show ?thesis by (cases p) simp
  next
    case False
    with Cons show ?thesis by (cases p) simp
  qed
qed simp

lemma update_entries:
  "(j, v) \<in> set (AList.update k x m) \<Longrightarrow> (j, v) = (k, x) \<or> (j, v) \<in> set m"
  by (induction m) (auto split: if_splits)

lemma config_index_props:
  assumes "config_index configs r = Some i"
  shows "i < length configs" and "config_matches (configs ! i) r"
    and "\<And>j. i < j \<Longrightarrow> j < length configs \<Longrightarrow> \<not> config_matches (configs ! j) r"
proof -
  let ?xs = "rev [0..<length configs]"
  from assms obtain k where k: "k < length ?xs" "i = ?xs ! k" "config_matches (configs ! i) r"
    and before: "\<forall>l < k. \<not> config_matches (configs ! (?xs ! l)) r"
    unfolding config_index_def find_Some_iff by blast
  have i: "i = length configs - Suc k" using k(1,2) by (simp add: rev_nth)
  show "i < length configs" using i k(1) by simp
  show "config_matches (configs ! i) r" by (rule k(3))
  fix j assume j: "i < j" "j < length configs"
  then have "length configs - Suc j < k" and "?xs ! (length configs - Suc j) = j"
    using i by (simp_all add: rev_nth)
  with before show "\<not> config_matches (configs ! j) r" by metis
qed

lemma config_index_some:
  assumes "configs \<noteq> []" and "oc_Requests (hd configs) = []"
  shows "\<exists>i. config_index configs r = Some i"
proof (rule ccontr)
  assume "\<not> ?thesis"
  then have "config_index configs r = None" by simp
  then have "\<not> (\<exists>i. i \<in> set (rev [0..<length configs]) \<and> config_matches (configs ! i) r)"
    unfolding config_index_def find_None_iff .
  with assms have "\<not> config_matches (configs ! 0) r" by auto
  with assms show False by (simp add: config_matches_def hd_conv_nth)
qed

lemma group_results_props:
  assumes "group_results allocatable configs results m = Ok groups" and "distinct (map fst m)"
    and "configs \<noteq> []" and "oc_Requests (hd configs) = []"
    and "\<forall>(i, rs) \<in> set m. \<forall>r \<in> set rs. config_index configs r = Some i"
  shows "distinct (map fst groups) \<and> mset (concat (map snd groups)) = mset (concat (map snd m)) + mset results \<and>
    (\<forall>(i, rs) \<in> set groups. \<forall>r \<in> set rs. config_index configs r = Some i) \<and> ar_Device ` set results \<subseteq> set allocatable"
  using assms
proof (induction results arbitrary: m)
  case (Cons r results)
  obtain i where i: "config_index configs r = Some i" using config_index_some [OF Cons.prems(3,4)] by blast
  let ?rs = "case map_of m i of None \<Rightarrow> [] | Some rs \<Rightarrow> rs" and ?m = "add_result (Some i) r m"
  from Cons.prems(1) i have dev: "ar_Device r \<in> set allocatable"
    and rest: "group_results allocatable configs results ?m = Ok groups" by (auto split: if_splits)
  have old: "\<forall>r' \<in> set ?rs. config_index configs r' = Some i"
    using Cons.prems(5) by (cases "map_of m i") (force dest: map_of_SomeD)+
  have keys: "\<forall>(j, rs) \<in> set ?m. \<forall>r \<in> set rs. config_index configs r = Some j"
  proof (clarify, unfold add_result_def option.case)
    fix j rs r' assume "(j, rs) \<in> set (AList.update i (?rs @ [r]) m)" and r': "r' \<in> set rs"
    from update_entries [OF this(1)] show "config_index configs r' = Some j"
    proof
      assume "(j, rs) = (i, ?rs @ [r])"
      with r' old i show ?thesis by auto
    next
      assume "(j, rs) \<in> set m"
      with r' Cons.prems(5) show ?thesis by auto
    qed
  qed
  have "distinct (map fst ?m)" using Cons.prems(2) by (simp add: add_result_def)
  from Cons.IH [OF rest this Cons.prems(3,4) keys] dev update_snd [OF Cons.prems(2), of i r]
  show ?case by (simp add: add_result_def)
qed simp

section \<open>The edits of a device\<close>

definition env_edits :: "string list \<Rightarrow> ContainerEdits" where
  "env_edits envs = \<lparr>ce_Env = envs, ce_Mounts = [], ce_DeviceNodes = []\<rparr>"

lemma applyConfig_edits:
  assumes "applyConfig C config results acc = Ok edits"
  shows "d \<notin> ar_Device ` set results \<Longrightarrow> edits d = acc d"
    and "d \<in> ar_Device ` set results \<Longrightarrow> \<exists>envs. device_envs C config d = Ok envs \<and> edits d = Some (env_edits envs)"
  using assms
proof (induction results arbitrary: acc)
  case (Cons r results)
  {
    case 1
    with Cons.IH(1) show ?case by (auto simp: rbind_eq_Ok)
  next
    case 2
    then obtain envs where e: "device_envs C config (ar_Device r) = Ok envs"
      and rest: "applyConfig C config results (acc(ar_Device r \<mapsto> env_edits envs)) = Ok edits"
      by (auto simp: rbind_eq_Ok env_edits_def)
    show ?case
    proof (cases "d \<in> ar_Device ` set results")
      case True
      then show ?thesis by (rule Cons.IH(2) [OF _ rest])
    next
      case False
      with Cons.IH(1) [OF False rest] 2 e show ?thesis by auto
    qed
  }
qed simp_all

text \<open>What a device is given by a group of results\<close>

definition group_edits ::
    "('o, 'c, 'h) config_api \<Rightarrow> 'o OpaqueDeviceConfig list \<Rightarrow> nat \<Rightarrow> string \<Rightarrow> ContainerEdits option \<Rightarrow> bool" where
  "group_edits C configs i d e \<longleftrightarrow>
     (\<exists>c c' envs. as_gpu_config C (oc_Config (configs ! i)) = Some c \<and> normalize_config C c = Inr c' \<and>
        validate_config C c' = Inr () \<and> device_envs C c' d = Ok envs \<and> e = Some (env_edits envs))"

lemma apply_groups_Cons:
  assumes "apply_groups C configs ((k, ks) # groups) acc = Ok edits"
  obtains c config new where "as_gpu_config C (oc_Config (configs ! k)) = Some c" and "normalize_config C c = Inr config"
    and "validate_config C config = Inr ()" and "applyConfig C config ks Map.empty = Ok new"
    and "apply_groups C configs groups (acc ++ new) = Ok edits"
  using assms by (auto simp: rbind_eq_Ok of_sum_def split: option.splits sum.splits)

lemma apply_groups_edits:
  assumes "apply_groups C configs groups acc = Ok edits"
  shows "d \<notin> ar_Device ` set (concat (map snd groups)) \<Longrightarrow> edits d = acc d"
    and "(i, rs) \<in> set groups \<Longrightarrow> d \<in> ar_Device ` set rs \<Longrightarrow>
      \<forall>(j, rs') \<in> set groups. j \<noteq> i \<longrightarrow> d \<notin> ar_Device ` set rs' \<Longrightarrow> distinct (map fst groups) \<Longrightarrow> group_edits C configs i d (edits d)"
  using assms
proof (induction groups arbitrary: acc)
  case (Cons g groups)
  obtain k ks where g: "g = (k, ks)" by (cases g)
  {
    case 1
    from 1(2) [unfolded g] obtain c config new where new: "applyConfig C config ks Map.empty = Ok new"
      and rest: "apply_groups C configs groups (acc ++ new) = Ok edits" by (rule apply_groups_Cons)
    have "d \<notin> ar_Device ` set ks" using 1(1) g by auto
    from applyConfig_edits(1) [OF new this] have "new d = None" by simp
    moreover have "d \<notin> ar_Device ` set (concat (map snd groups))" using 1(1) by auto
    from Cons.IH(1) [OF this rest] have "edits d = (acc ++ new) d" .
    ultimately show ?case by (simp add: map_add_def)
  next
    case 2
    from 2(5) [unfolded g] obtain c config new where c: "as_gpu_config C (oc_Config (configs ! k)) = Some c"
        "normalize_config C c = Inr config" "validate_config C config = Inr ()"
      and new: "applyConfig C config ks Map.empty = Ok new"
      and rest: "apply_groups C configs groups (acc ++ new) = Ok edits" by (rule apply_groups_Cons)
    show ?case
    proof (cases "k = i")
      case True
      have "(k, rs) \<notin> set groups" using 2 g True by (force simp: image_iff)
      with 2 g True have rs: "rs = ks" by auto
      have "d \<notin> ar_Device ` set (concat (map snd groups))"
      proof
        assume "d \<in> ar_Device ` set (concat (map snd groups))"
        then obtain j rs' where j: "(j, rs') \<in> set groups" "d \<in> ar_Device ` set rs'" by auto
        with 2(3) g True have "j = i" by auto
        with j 2(4) g True show False by (force simp: image_iff)
      qed
      from Cons.IH(1) [OF this rest] have "edits d = (acc ++ new) d" .
      moreover obtain envs where "device_envs C config d = Ok envs" "new d = Some (env_edits envs)"
        using applyConfig_edits(2) [OF new] 2(2) rs by blast
      ultimately show ?thesis using c True unfolding group_edits_def by (simp add: map_add_def)
    next
      case False
      then have "(i, rs) \<in> set groups" using 2 g by auto
      from Cons.IH(2) [OF this 2(2) _ _ rest] 2(3,4) g show ?thesis by simp
    qed
  }
qed auto

section \<open>Properties\<close>

lemma prepareDevices_Ok:
  assumes "prepareDevices A C visit1 visit2 allocatable claim = Ok devices"
    and "\<forall>g. mset (visit1 g) = mset g" and "\<forall>g. mset (visit2 g) = mset g"
  obtains cfgs results opaque groups edits where "rc_Allocation claim = Some (cfgs, results)"
    and "GetOpaqueDeviceConfigs C GpuDriverName cfgs = Ok opaque"
    and "group_results allocatable (\<lparr>oc_Requests = [], oc_Config = default_config C\<rparr> # opaque) results [] = Ok groups"
    and "apply_groups C (\<lparr>oc_Requests = [], oc_Config = default_config C\<rparr> # opaque) (visit1 groups) Map.empty = Ok edits"
    and "mset devices = image_mset (prepared_device A (rc_UID claim) edits) (mset results)"
proof -
  obtain cfgs results opaque groups edits where r: "rc_Allocation claim = Some (cfgs, results)"
    and o: "GetOpaqueDeviceConfigs C GpuDriverName cfgs = Ok opaque"
    and g: "group_results allocatable (\<lparr>oc_Requests = [], oc_Config = default_config C\<rparr> # opaque) results [] = Ok groups"
    and e: "apply_groups C (\<lparr>oc_Requests = [], oc_Config = default_config C\<rparr> # opaque) (visit1 groups) Map.empty = Ok edits"
    and d: "devices = concat (map (\<lambda>(i, rs). map (prepared_device A (rc_UID claim) edits) rs) (visit2 groups))"
    using assms(1) by (auto simp: prepareDevices_def Let_def rbind_eq_Ok split: option.splits res.splits)
  let ?f = "prepared_device A (rc_UID claim) edits"
  have "devices = map ?f (concat (map snd (visit2 groups)))"
    unfolding d by (simp add: map_concat split_def comp_def)
  moreover have "mset (concat (map snd xs)) = \<Sum>\<^sub># (image_mset (mset \<circ> snd) (mset xs))" for xs :: "(nat \<times> AllocResult list) list"
    by (induction xs) simp_all
  then have "mset (concat (map snd (visit2 groups))) = mset (concat (map snd groups))"
    by (simp add: assms(3))
  moreover have "mset (concat (map snd groups)) = mset results"
    using group_results_props [OF g] by simp
  ultimately have "mset devices = image_mset ?f (mset results)" by simp
  with r o g e that show ?thesis by blast
qed

lemma apply_groups_dom:
  assumes "apply_groups C configs groups acc = Ok edits"
  shows "dom edits = dom acc \<union> ar_Device ` set (concat (map snd groups))"
  using assms
proof (induction groups arbitrary: acc)
  case (Cons g groups)
  obtain k ks where g: "g = (k, ks)" by (cases g)
  from Cons.prems [unfolded g] obtain c config new where new: "applyConfig C config ks Map.empty = Ok new"
    and rest: "apply_groups C configs groups (acc ++ new) = Ok edits" by (rule apply_groups_Cons)
  have "new d \<noteq> None \<longleftrightarrow> d \<in> ar_Device ` set ks" for d
    using applyConfig_edits [OF new, of d] by (cases "d \<in> ar_Device ` set ks") auto
  then have "dom new = ar_Device ` set ks" by (simp add: dom_def)
  with Cons.IH [OF rest] g show ?case by auto
qed simp

text \<open>
  C27. A claim that is prepared: each result of its allocation is one prepared device, in some order, and the claim's
  CDI file describes, under the name that the last identifier of a device qualifies, what the device adds.
\<close>

theorem gpu_claim_prepared:
  assumes "cdi_ok A" and "\<forall>g. mset (visit1 g) = mset g" and "\<forall>g. mset (visit2 g) = mset g"
    and "PrepareGpus A C visit1 visit2 allocatable claim s = (Ok devices, s')"
  shows "\<exists>cfgs results spec. rc_Allocation claim = Some (cfgs, results) \<and>
    mset (map (\<lambda>d. (pd_RequestNames d, pd_PoolName d, pd_DeviceName d)) devices) =
      mset (map (\<lambda>r. ([ar_Request r], ar_Pool r, ar_Device r)) results) \<and>
    spec_file A (gpu_spec_name A (rc_UID claim)) s' = Some spec \<and> length (cs_Devices spec) = length results \<and>
    (\<forall>d \<in> set devices. \<exists>n e. (n, e) \<in> set (cs_Devices spec) \<and> pd_ContainerEdits d = Some e \<and>
       pd_CDIDeviceIDs d = [qualified_name A cdiVendor cdiClass ''common'', qualified_name A cdiVendor cdiClass n])"
proof -
  have prep: "prepareDevices A C visit1 visit2 allocatable claim = Ok devices"
    and wr: "CreateClaimSpecFile A (rc_UID claim) devices s = (Ok (), s')"
    using assms(4) by (auto simp: PrepareGpus_def split: res.splits prod.splits)
  obtain cfgs results opaque groups edits where r: "rc_Allocation claim = Some (cfgs, results)"
    and g: "group_results allocatable (\<lparr>oc_Requests = [], oc_Config = default_config C\<rparr> # opaque) results [] = Ok groups"
    and e: "apply_groups C (\<lparr>oc_Requests = [], oc_Config = default_config C\<rparr> # opaque) (visit1 groups) Map.empty = Ok edits"
    and d: "mset devices = image_mset (prepared_device A (rc_UID claim) edits) (mset results)"
    using prepareDevices_Ok [OF prep assms(2,3)] by metis
  have "set (visit1 groups) = set groups" using assms(2) mset_eq_setD by blast
  then have "dom edits = ar_Device ` set (concat (map snd groups))" using apply_groups_dom [OF e] by auto
  also have "set (concat (map snd groups)) = set results"
    using group_results_props [OF g] by (intro mset_eq_setD) simp
  finally have dom: "dom edits = ar_Device ` set results" .
  from cdi_files.versioned(1) [OF cdi_files.intro [OF assms(1)] wr [unfolded CreateClaimSpecFile_def]]
  obtain v where v: "spec_file A (gpu_spec_name A (rc_UID claim)) s' =
      Some ((gpu_claim_spec (rc_UID claim) devices)\<lparr>cs_Version := v\<rparr>)" by auto
  have set: "set devices = prepared_device A (rc_UID claim) edits ` set results"
    using d by (metis set_image_mset set_mset_mset)
  have "\<exists>n e. (n, e) \<in> set (cs_Devices (gpu_claim_spec (rc_UID claim) devices)) \<and> pd_ContainerEdits x = Some e \<and>
      pd_CDIDeviceIDs x = [qualified_name A cdiVendor cdiClass ''common'', qualified_name A cdiVendor cdiClass n]"
    if x: "x \<in> set devices" for x
  proof -
    from x set obtain q where q: "q \<in> set results" "x = prepared_device A (rc_UID claim) edits q" by auto
    with dom obtain e where e: "edits (ar_Device q) = Some e" by blast
    have "(rc_UID claim @ ''-'' @ ar_Device q, e) \<in> set (cs_Devices (gpu_claim_spec (rc_UID claim) devices))"
      using x q e by (force simp: gpu_claim_spec_def prepared_device_def image_iff)
    with q e show ?thesis by (force simp: prepared_device_def GetClaimDevices_def cdiCommonDeviceName_def)
  qed
  moreover have "length devices = length results" using arg_cong [OF d, of size] by simp
  moreover have "mset (map (\<lambda>d. (pd_RequestNames d, pd_PoolName d, pd_DeviceName d)) devices) =
      mset (map (\<lambda>r. ([ar_Request r], ar_Pool r, ar_Device r)) results)"
    by (simp add: d image_mset.compositionality comp_def prepared_device_def)
  ultimately show ?thesis using r v by (auto simp: gpu_claim_spec_def)
qed

text \<open>
  C28. Each device gets the environment of the last configuration for its request, the default one when there is
  none, whatever the order in which the runtime visits the configurations.
\<close>

theorem gpu_config_precedence:
  assumes "\<forall>g. mset (visit1 g) = mset g" and "\<forall>g. mset (visit2 g) = mset g"
    and "rc_Allocation claim = Some (cfgs, results)" and "distinct (map ar_Device results)"
    and "GetOpaqueDeviceConfigs C GpuDriverName cfgs = Ok opaque"
    and "configs = \<lparr>oc_Requests = [], oc_Config = default_config C\<rparr> # opaque"
    and "prepareDevices A C visit1 visit2 allocatable claim = Ok devices" and "r \<in> set results"
  shows "\<exists>i < length configs. \<exists>c c' envs. config_matches (configs ! i) r \<and>
    (\<forall>j. i < j \<and> j < length configs \<longrightarrow> \<not> config_matches (configs ! j) r) \<and>
    as_gpu_config C (oc_Config (configs ! i)) = Some c \<and> normalize_config C c = Inr c' \<and> validate_config C c' = Inr () \<and>
    device_envs C c' (ar_Device r) = Ok envs \<and>
    (\<exists>d \<in> set devices. pd_DeviceName d = ar_Device r \<and> pd_RequestNames d = [ar_Request r] \<and>
      pd_ContainerEdits d = Some \<lparr>ce_Env = envs, ce_Mounts = [], ce_DeviceNodes = []\<rparr>)"
proof -
  obtain groups edits where g: "group_results allocatable configs results [] = Ok groups"
    and e: "apply_groups C configs (visit1 groups) Map.empty = Ok edits"
    and d: "mset devices = image_mset (prepared_device A (rc_UID claim) edits) (mset results)"
    using prepareDevices_Ok [OF assms(7,1,2)] assms(3,5,6) by (metis Pair_inject option.inject res.inject(1))
  have ne: "configs \<noteq> []" "oc_Requests (hd configs) = []" using assms(6) by simp_all
  have gr: "distinct (map fst groups)" "mset (concat (map snd groups)) = mset results"
      "\<forall>(i, rs) \<in> set groups. \<forall>r \<in> set rs. config_index configs r = Some i"
    using group_results_props [OF g _ ne] by simp_all
  have sets: "set (visit1 groups) = set groups" using assms(1) mset_eq_setD by blast
  have fst: "distinct (map fst (visit1 groups))"
    using gr(1) assms(1) by (metis mset_eq_imp_distinct_iff mset_map)
  have "r \<in> set (concat (map snd groups))" using gr(2) assms(8) mset_eq_setD by blast
  then obtain i rs where i: "(i, rs) \<in> set groups" "r \<in> set rs" by auto
  have idx: "config_index configs r = Some i" using gr(3) i by auto
  have "r' = r" if "(j, rs') \<in> set groups" "r' \<in> set rs'" "ar_Device r' = ar_Device r" for j rs' r'
  proof -
    have "r' \<in> set (concat (map snd groups))" using that(1,2) by force
    then have "r' \<in> set results" using gr(2) mset_eq_setD by blast
    with assms(4,8) that(3) show ?thesis by (simp add: distinct_map inj_on_def)
  qed
  then have "\<forall>(j, rs') \<in> set (visit1 groups). j \<noteq> i \<longrightarrow> ar_Device r \<notin> ar_Device ` set rs'"
    using gr(3) idx sets by fastforce
  with apply_groups_edits(2) [OF e, of i rs "ar_Device r"] i sets fst
  have "group_edits C configs i (ar_Device r) (edits (ar_Device r))" by simp
  moreover have "prepared_device A (rc_UID claim) edits r \<in> set devices"
    using d assms(8) by (metis image_eqI set_image_mset set_mset_mset)
  ultimately show ?thesis using config_index_props [OF idx]
    by (auto simp: group_edits_def env_edits_def prepared_device_def intro!: exI [of _ i] bexI [of _ "prepared_device A (rc_UID claim) edits r"])
qed

text \<open>
  Whatever the preparation of a claim came to, unpreparing it removes the claim's CDI file and leaves every other
  file as it was before.
\<close>

theorem gpu_unprepare_cleans:
  assumes "cdi_ok A" and "PrepareGpus A C visit1 visit2 allocatable claim s = (r, s1)"
    and "UnprepareGpus A (rc_UID claim) s1 = (Ok (), s2)"
  shows "spec_file A (gpu_spec_name A (rc_UID claim)) s2 = None \<and>
    (\<forall>m. m \<noteq> gpu_spec_name A (rc_UID claim) \<longrightarrow> spec_file A m s2 = spec_file A m s)"
proof -
  note files = cdi_files.intro [OF assms(1)]
  let ?n = "gpu_spec_name A (rc_UID claim)"
  have "m \<noteq> ?n \<Longrightarrow> spec_file A m s1 = spec_file A m s" for m
    using assms(2) cdi_files.versioned(2) [OF files]
    by (auto simp: PrepareGpus_def CreateClaimSpecFile_def split: res.splits prod.splits)
  moreover obtain q where q: "remove_spec A ?n s1 = (q, s2)"
    and "case q of Inr u \<Rightarrow> True | Inl e \<Rightarrow> str_contains (error_text A e) ''not found''"
    using assms(3) by (auto simp: UnprepareGpus_def DeleteClaimSpecFile_def split: prod.splits sum.splits if_splits)
  ultimately show ?thesis using cdi_files.removed [OF files q] by (cases q) auto
qed

lemma opaque_no_panic: "GetOpaqueDeviceConfigs C driver cfgs \<noteq> Panic p"
proof (induction cfgs)
  case (Cons c cfgs)
  then show ?case
    by (cases "GetOpaqueDeviceConfigs C driver cfgs") (auto simp: of_sum_def split: option.splits sum.splits)
qed simp

lemma group_results_unknown:
  "r \<in> set results \<Longrightarrow> ar_Device r \<notin> set allocatable \<Longrightarrow> \<exists>e. group_results allocatable configs results m = Err e"
  by (induction results arbitrary: m) auto

text \<open>
  A claim with a device that the plugin does not have is refused before any file is written, also when the device
  is of another driver, whose results the plugin does not skip.
\<close>

theorem gpu_unknown_device_refused:
  assumes "rc_Allocation claim = Some (cfgs, results)" and "r \<in> set results" and "ar_Device r \<notin> set allocatable"
  shows "PrepareGpus A C visit1 visit2 allocatable claim s = (Err (Msg ''prepare failed''), s)"
proof -
  have "\<exists>e. prepareDevices A C visit1 visit2 allocatable claim = Err e"
  proof (cases "GetOpaqueDeviceConfigs C GpuDriverName cfgs")
    case (Ok opaque)
    then show ?thesis
      using assms(1) group_results_unknown [OF assms(2,3), of "\<lparr>oc_Requests = [], oc_Config = default_config C\<rparr> # opaque" "[]"]
      by (auto simp: prepareDevices_def Let_def)
  qed (use assms(1) in \<open>simp_all add: prepareDevices_def opaque_no_panic\<close>)
  then show ?thesis by (auto simp: PrepareGpus_def)
qed

end
