(* ===== verification/GoJson.thy ===== *)
theory GoJson
  imports GoPrelude
begin

text \<open>
  \<^verbatim>\<open>encoding/json\<close> as the program uses it: a text is decoded into a map whose values are then asked to be
  strings.  Texts are UTF-8; a number keeps its text, so that one that no \<^verbatim>\<open>float64\<close> holds, which the
  library refuses, is not told apart, nor is a nesting of more than ten thousand levels.
\<close>

section \<open>Values\<close>

datatype json =
    JNull
  | JBool bool
  | JNumber string
  | JString string
  | JArray "json list"
  | JObject "(string \<times> json) list"

section \<open>Strings\<close>

definition skip_ws :: "string \<Rightarrow> string" where
  "skip_ws s = dropWhile (\<lambda>c. c = CHR '' '' \<or> c = CHR 0x09 \<or> c = CHR 0x0A \<or> c = CHR 0x0D) s"

definition hex_digit_val :: "char \<Rightarrow> nat option" where
  "hex_digit_val c =
     (let n = of_char c :: nat
      in if 48 \<le> n \<and> n \<le> 57 then Some (n - 48)
         else if 97 \<le> n \<and> n \<le> 102 then Some (n - 87)
         else if 65 \<le> n \<and> n \<le> 70 then Some (n - 55)
         else None)"

fun hex4 :: "nat \<Rightarrow> nat \<Rightarrow> string \<Rightarrow> (nat \<times> string) option" where
  "hex4 0 acc s = Some (acc, s)"
| "hex4 (Suc k) acc [] = None"
| "hex4 (Suc k) acc (c # cs) = (case hex_digit_val c of None \<Rightarrow> None | Some d \<Rightarrow> hex4 k (16 * acc + d) cs)"

text \<open>The UTF-8 bytes of a code point\<close>

definition utf8 :: "nat \<Rightarrow> string" where
  "utf8 u =
     (if u < 0x80 then [char_of u]
      else if u < 0x800 then [char_of (0xC0 + u div 64), char_of (0x80 + u mod 64)]
      else if u < 0x10000 then [char_of (0xE0 + u div 4096), char_of (0x80 + u div 64 mod 64), char_of (0x80 + u mod 64)]
      else [char_of (0xF0 + u div 262144), char_of (0x80 + u div 4096 mod 64), char_of (0x80 + u div 64 mod 64),
            char_of (0x80 + u mod 64)])"

text \<open>
  The code point after \<^verbatim>\<open>\u\<close>: a surrogate pair is one point, a lone surrogate is replaced.
\<close>

definition unicode_escape :: "string \<Rightarrow> (nat \<times> string) option" where
  "unicode_escape s =
     (case hex4 4 0 s of
        None \<Rightarrow> None
      | Some (u, rest) \<Rightarrow>
          if u < 0xD800 \<or> 0xE000 \<le> u then Some (u, rest)
          else if 0xDC00 \<le> u then Some (0xFFFD, rest)
          else if prefix [CHR 0x5C, CHR ''u''] rest
          then (case hex4 4 0 (drop 2 rest) of
                  None \<Rightarrow> None
                | Some (v, rest') \<Rightarrow>
                    if 0xDC00 \<le> v \<and> v < 0xE000 then Some (0x10000 + (u - 0xD800) * 1024 + (v - 0xDC00), rest')
                    else Some (0xFFFD, rest))
          else Some (0xFFFD, rest))"

definition simple_escape :: "char \<Rightarrow> char option" where
  "simple_escape c =
     (if c = CHR 0x22 \<or> c = CHR 0x5C \<or> c = CHR ''/'' then Some c
      else if c = CHR ''b'' then Some (CHR 0x08)
      else if c = CHR ''f'' then Some (CHR 0x0C)
      else if c = CHR ''n'' then Some (CHR 0x0A)
      else if c = CHR ''r'' then Some (CHR 0x0D)
      else if c = CHR ''t'' then Some (CHR 0x09)
      else None)"

text \<open>The rest of a string, after its first quote\<close>

lemma hex4_length: "hex4 k acc s = Some (u, rest) \<Longrightarrow> length rest + k = length s"
  by (induction k acc s rule: hex4.induct) (auto split: option.splits)

lemma unicode_escape_length: "unicode_escape s = Some (u, rest) \<Longrightarrow> length rest < length s"
  by (auto simp: unicode_escape_def split: option.splits if_splits dest!: hex4_length)

function (sequential) scan_string :: "string \<Rightarrow> (string \<times> string) option" where
  "scan_string [] = None"
| "scan_string (c # cs) =
     (if c = CHR 0x22 then Some ([], cs)
      else if c = CHR 0x5C
      then (case cs of
              [] \<Rightarrow> None
            | e # es \<Rightarrow>
                if e = CHR ''u''
                then (case unicode_escape es of
                        None \<Rightarrow> None
                      | Some (u, rest) \<Rightarrow> map_option (apfst (append (utf8 u))) (scan_string rest))
                else (case simple_escape e of
                        None \<Rightarrow> None
                      | Some d \<Rightarrow> map_option (apfst (Cons d)) (scan_string es)))
      else if (of_char c :: nat) < 0x20 then None
      else map_option (apfst (Cons c)) (scan_string cs))"
  by pat_completeness auto
termination
  by (relation "measure length") (auto dest: unicode_escape_length)

section \<open>Numbers\<close>

definition digits_of :: "string \<Rightarrow> string \<times> string" where
  "digits_of s = (takeWhile is_digit s, dropWhile is_digit s)"

definition scan_fraction :: "string \<Rightarrow> (string \<times> string) option" where
  "scan_fraction s =
     (case s of
        [] \<Rightarrow> Some ([], s)
      | c # cs \<Rightarrow>
          if c = CHR ''.'' then (let (ds, rest) = digits_of cs in if ds = [] then None else Some (c # ds, rest))
          else Some ([], s))"

definition scan_exponent :: "string \<Rightarrow> (string \<times> string) option" where
  "scan_exponent s =
     (case s of
        [] \<Rightarrow> Some ([], s)
      | c # cs \<Rightarrow>
          if c = CHR ''e'' \<or> c = CHR ''E''
          then (let (sign, cs') = (case cs of d # ds \<Rightarrow> if d = CHR ''+'' \<or> d = CHR ''-'' then ([d], ds) else ([], cs) | [] \<Rightarrow> ([], cs));
                    (ds, rest) = digits_of cs'
                in if ds = [] then None else Some (c # sign @ ds, rest))
          else Some ([], s))"

definition scan_number :: "string \<Rightarrow> (string \<times> string) option" where
  "scan_number s =
     (let (sign, s1) = (case s of c # cs \<Rightarrow> if c = CHR ''-'' then ([c], cs) else ([], s) | [] \<Rightarrow> ([], s));
          (ds, s2) = (case s1 of c # cs \<Rightarrow> if c = CHR ''0'' then ([c], cs) else digits_of s1 | [] \<Rightarrow> ([], s1))
      in if ds = [] then None
         else (case scan_fraction s2 of
                 None \<Rightarrow> None
               | Some (fr, s3) \<Rightarrow>
                   (case scan_exponent s3 of None \<Rightarrow> None | Some (ex, s4) \<Rightarrow> Some (sign @ ds @ fr @ ex, s4))))"

section \<open>The parser\<close>

text \<open>
  A value, the elements of an array and the members of an object after their opening bracket, each with the text
  after it.  That a part leaves a shorter text is tested, so that the recursion can be seen to end.
\<close>

definition shorter :: "string \<Rightarrow> ('a \<times> string) option \<Rightarrow> ('a \<times> string) option" where
  "shorter s r = (case r of None \<Rightarrow> None | Some (x, rest) \<Rightarrow> if length rest < length s then r else None)"

lemma shorter_Some [simp]: "shorter s r = Some (x, rest) \<longleftrightarrow> r = Some (x, rest) \<and> length rest < length s"
  by (auto simp: shorter_def split: option.splits)

lemma shorter_id [simp]: "length rest < length s \<Longrightarrow> shorter s (Some (x, rest)) = Some (x, rest)"
  by simp

lemma skip_ws_length: "length (skip_ws s) \<le> length s"
  by (simp add: skip_ws_def length_dropWhile_le)

lemma skip_ws_Cons: "skip_ws s = c # cs \<Longrightarrow> length cs < length s"
  using skip_ws_length [of s] by simp

function json_value :: "string \<Rightarrow> (json \<times> string) option"
  and json_elements :: "string \<Rightarrow> (json list \<times> string) option"
  and json_members :: "string \<Rightarrow> ((string \<times> json) list \<times> string) option" where
  "json_value s =
     (case skip_ws s of
        [] \<Rightarrow> None
      | c # cs \<Rightarrow>
          if c = CHR ''{''
          then (case skip_ws cs of
                  [] \<Rightarrow> None
                | d # ds \<Rightarrow> if d = CHR ''}'' then Some (JObject [], ds) else map_option (apfst JObject) (json_members cs))
          else if c = CHR ''[''
          then (case skip_ws cs of
                  [] \<Rightarrow> None
                | d # ds \<Rightarrow> if d = CHR '']'' then Some (JArray [], ds) else map_option (apfst JArray) (json_elements cs))
          else if c = CHR 0x22 then map_option (apfst JString) (scan_string cs)
          else if prefix ''true'' (c # cs) then Some (JBool True, drop 4 (c # cs))
          else if prefix ''false'' (c # cs) then Some (JBool False, drop 5 (c # cs))
          else if prefix ''null'' (c # cs) then Some (JNull, drop 4 (c # cs))
          else map_option (apfst JNumber) (scan_number (c # cs)))"
| "json_elements s =
     (case shorter s (json_value s) of
        None \<Rightarrow> None
      | Some (v, rest) \<Rightarrow>
          (case skip_ws rest of
             [] \<Rightarrow> None
           | c # cs \<Rightarrow>
               if c = CHR '','' then map_option (apfst (Cons v)) (json_elements cs)
               else if c = CHR '']'' then Some ([v], cs)
               else None))"
| "json_members s =
     (case skip_ws s of
        [] \<Rightarrow> None
      | q # qs \<Rightarrow>
          if q \<noteq> CHR 0x22 then None
          else (case shorter s (scan_string qs) of
                  None \<Rightarrow> None
                | Some (k, rest) \<Rightarrow>
                    (case skip_ws rest of
                       [] \<Rightarrow> None
                     | c # cs \<Rightarrow>
                         if c \<noteq> CHR '':'' then None
                         else (case shorter cs (json_value cs) of
                                 None \<Rightarrow> None
                               | Some (v, rest') \<Rightarrow>
                                   (case skip_ws rest' of
                                      [] \<Rightarrow> None
                                    | d # ds \<Rightarrow>
                                        if d = CHR '','' then map_option (apfst (Cons (k, v))) (json_members ds)
                                        else if d = CHR ''}'' then Some ([(k, v)], ds)
                                        else None)))))"
  by pat_completeness auto
termination
  by (relation "measure (case_sum (\<lambda>s. 2 * length s) (case_sum (\<lambda>s. Suc (2 * length s)) (\<lambda>s. Suc (2 * length s))))")
    (auto dest!: skip_ws_Cons)

declare json_value.simps [simp del] json_elements.simps [simp del] json_members.simps [simp del]

text \<open>\<^verbatim>\<open>json.Unmarshal\<close> into a \<^verbatim>\<open>map[string]any\<close>: the members, of which the last of a name counts\<close>

definition unmarshal_map :: "string \<Rightarrow> (gerror + (string \<rightharpoonup> json))" where
  "unmarshal_map s =
     (case json_value s of
        Some (JObject ms, rest) \<Rightarrow> if skip_ws rest = [] then Inr (map_of (rev ms)) else Inl (Msg ''invalid JSON'')
      | Some (JNull, rest) \<Rightarrow> if skip_ws rest = [] then Inr Map.empty else Inl (Msg ''invalid JSON'')
      | _ \<Rightarrow> Inl (Msg ''invalid JSON''))"

section \<open>Strings that need no escape\<close>

definition plain :: "string \<Rightarrow> bool" where
  "plain s \<longleftrightarrow> list_all (\<lambda>c. c \<noteq> CHR 0x22 \<and> c \<noteq> CHR 0x5C \<and> 0x20 \<le> (of_char c :: nat)) s"

lemma scan_plain: "plain s \<Longrightarrow> scan_string (s @ CHR 0x22 # rest) = Some (s, rest)"
  by (induction s) (simp_all add: plain_def)

lemma skip_ws_solid [simp]:
  "c \<noteq> CHR '' '' \<Longrightarrow> c \<noteq> CHR 0x09 \<Longrightarrow> c \<noteq> CHR 0x0A \<Longrightarrow> c \<noteq> CHR 0x0D \<Longrightarrow> skip_ws (c # s) = c # s"
  by (simp add: skip_ws_def)

lemma skip_ws_blank [simp]: "skip_ws (CHR '' '' # s) = skip_ws s"
  by (simp add: skip_ws_def)

section \<open>Integers\<close>

lemma digits_of_prefix:
  assumes "list_all is_digit s" and "\<not> is_digit c"
  shows "digits_of (s @ c # rest) = (s, c # rest)"
  using assms by (induction s) (simp_all add: digits_of_def)

lemma itoa_nat_lead: "hd (itoa_nat n) = CHR ''0'' \<Longrightarrow> itoa_nat n = ''0''"
proof (induction n rule: itoa_nat.induct)
  case (1 n)
  show ?case
  proof (cases "n < 10")
    case True
    then show ?thesis using 1(2) by (simp add: itoa_nat.simps [of n])
  next
    case False
    then have step: "itoa_nat n = itoa_nat (n div 10) @ [digit_char (n mod 10)]" by (simp add: itoa_nat.simps [of n])
    then have h: "hd (itoa_nat n) = hd (itoa_nat (n div 10))" by (simp add: hd_append)
    with 1 False have z: "itoa_nat (n div 10) = ''0''" by simp
    have "digits_val ''0'' = 0" by (simp add: digits_val_def digit_val_def)
    with z digits_val_itoa_nat [of "n div 10"] have "n div 10 = 0" by simp
    with False show ?thesis by simp
  qed
qed

lemma scan_itoa:
  assumes "c = CHR '','' \<or> c = CHR ''}''"
  shows "scan_number (itoa i @ c # rest) = Some (itoa i, c # rest)"
proof -
  have c: "\<not> is_digit c" "c \<noteq> CHR ''.''" "c \<noteq> CHR ''e''" "c \<noteq> CHR ''E''" using assms by (auto simp: is_digit_def)
  have n: "(case itoa_nat n @ c # rest of d # ds \<Rightarrow> if d = CHR ''0'' then ([d], ds) else digits_of (itoa_nat n @ c # rest)
       | [] \<Rightarrow> ([], itoa_nat n @ c # rest)) = (itoa_nat n, c # rest)" for n
  proof (cases "hd (itoa_nat n) = CHR ''0''")
    case True
    then have "itoa_nat n = ''0''" by (rule itoa_nat_lead)
    then show ?thesis by simp
  next
    case False
    obtain d ds where d: "itoa_nat n = d # ds" using itoa_nat_ne [of n] by (cases "itoa_nat n") auto
    have "digits_of (itoa_nat n @ c # rest) = (itoa_nat n, c # rest)"
      by (rule digits_of_prefix) (use c in simp_all)
    with False d show ?thesis by simp
  qed
  have e: "scan_fraction (c # rest) = Some ([], c # rest)" "scan_exponent (c # rest) = Some ([], c # rest)"
    using c by (simp_all add: scan_fraction_def scan_exponent_def)
  show ?thesis
  proof (cases "i < 0")
    case True
    then show ?thesis using n [of "nat (- i)"] by (simp add: scan_number_def itoa_def e Let_def)
  next
    case False
    have "(case itoa_nat m @ c # rest of d # ds \<Rightarrow> if d = CHR ''-'' then ([d], ds) else ([], itoa_nat m @ c # rest)
        | [] \<Rightarrow> ([], itoa_nat m @ c # rest)) = ([], itoa_nat m @ c # rest)" for m
      using itoa_nat_hd [of m] by (auto dest: not_digit_sign(1))
    with False n [of "nat i"] show ?thesis by (simp add: scan_number_def itoa_def e Let_def)
  qed
qed

end
