(* ===== verification/DomainPlugin.thy ===== *)
theory DomainPlugin
  imports Cdi GoPath GoJson ComputeDomain
begin

text \<open>
  \<^verbatim>\<open>internal/compute-domain-dra-plugin\<close> (state.go, checkpoint.go, cdi.go, nvcdi\_device.go, discovery.go,
  health.go): the plugin that prepares the channel of a compute domain for a claim on its node, and remembers in a
  checkpoint which claims it prepared and which domains they are of.  The checkpoint manager of the kubelet and the
  operating system are parameters, the record \<open>plugin_env\<close>.
\<close>

section \<open>The devices\<close>

definition maxChannelID :: nat where "maxChannelID = 2048"

definition deviceNameForChannel :: "nat \<Rightarrow> string" where
  "deviceNameForChannel channelID = ''channel-'' @ itoa (int channelID)"

definition newChannelDevice :: "nat \<Rightarrow> 'q Device" where
  "newChannelDevice channelID =
     \<lparr>dv_Name = deviceNameForChannel channelID,
      dv_Attributes = [''compute-domain.nvidia.com/type'' \<mapsto> StringValue ''channel'',
                       ''compute-domain.nvidia.com/id'' \<mapsto> IntValue (int channelID)],
      dv_Capacity = Map.empty\<rparr>"

text \<open>The map of the devices by their names, which are distinct, in the order in which it is filled\<close>

definition enumerateComputeDomainDevices :: "(string \<times> 'q Device) list" where
  "enumerateComputeDomainDevices = map (\<lambda>i. (deviceNameForChannel i, newChannelDevice i)) [0..<maxChannelID]"

section \<open>The checkpoint\<close>

record DomainInfo =
  di_DomainID :: string
  di_Claims :: "string list"
  di_CreatedAt :: int

text \<open>The maps of a checkpoint, which the plugin never writes with a nil entry\<close>

record ComputeDomainCheckpointV1 =
  ck_PreparedClaims :: "string \<rightharpoonup> PreparedDevice list"
  ck_Domains :: "string \<rightharpoonup> DomainInfo"

record ComputeDomainCheckpoint =
  ck_Checksum :: nat
  ck_V1 :: "ComputeDomainCheckpointV1 option"

definition empty_v1 :: ComputeDomainCheckpointV1 where
  "empty_v1 = \<lparr>ck_PreparedClaims = Map.empty, ck_Domains = Map.empty\<rparr>"

definition newComputeDomainCheckpoint :: ComputeDomainCheckpoint where
  "newComputeDomainCheckpoint = \<lparr>ck_Checksum = 0, ck_V1 = Some empty_v1\<rparr>"

text \<open>The JSON codec and the checksum\<close>

record 'b checkpoint_codec =
  encode_checkpoint :: "ComputeDomainCheckpoint \<Rightarrow> gerror + 'b"
  decode_checkpoint :: "'b \<Rightarrow> gerror + ComputeDomainCheckpoint"
  checksum_new :: "'b \<Rightarrow> nat"
  checksum_verify :: "nat \<Rightarrow> 'b \<Rightarrow> gerror + unit"

definition MarshalCheckpoint :: "'b checkpoint_codec \<Rightarrow> ComputeDomainCheckpoint \<Rightarrow> gerror + 'b" where
  "MarshalCheckpoint J cp =
     (case encode_checkpoint J (cp\<lparr>ck_Checksum := 0\<rparr>) of
        Inl e \<Rightarrow> Inl e
      | Inr out \<Rightarrow> encode_checkpoint J (cp\<lparr>ck_Checksum := checksum_new J out\<rparr>))"

definition UnmarshalCheckpoint :: "'b checkpoint_codec \<Rightarrow> 'b \<Rightarrow> gerror + ComputeDomainCheckpoint" where
  "UnmarshalCheckpoint J data = decode_checkpoint J data"

definition VerifyChecksum :: "'b checkpoint_codec \<Rightarrow> ComputeDomainCheckpoint \<Rightarrow> gerror + unit" where
  "VerifyChecksum J cp =
     (case encode_checkpoint J (cp\<lparr>ck_Checksum := 0\<rparr>) of
        Inl e \<Rightarrow> Inl e
      | Inr out \<Rightarrow> checksum_verify J (ck_Checksum cp) out)"

section \<open>The environment\<close>

text \<open>
  The checkpoint manager; of the operating system, whether the file at a path is a symbolic link, links and
  directories; the clock and a variable of the environment.
\<close>

record 's plugin_env =
  list_checkpoints :: "'s \<Rightarrow> gerror + string list"
  get_checkpoint :: "string \<Rightarrow> 's \<Rightarrow> gerror + ComputeDomainCheckpoint"
  create_checkpoint :: "string \<Rightarrow> ComputeDomainCheckpoint \<Rightarrow> 's \<Rightarrow> (gerror + unit) \<times> 's"
  mkdir_all :: "string \<Rightarrow> 's \<Rightarrow> (gerror + unit) \<times> 's"
  lstat_symlink :: "string \<Rightarrow> 's \<Rightarrow> gerror + bool"
  read_link :: "string \<Rightarrow> 's \<Rightarrow> gerror + string"
  remove_file :: "string \<Rightarrow> 's \<Rightarrow> (gerror + unit) \<times> 's"
  symlink :: "string \<Rightarrow> string \<Rightarrow> 's \<Rightarrow> (gerror + unit) \<times> 's"
  not_exist :: "gerror \<Rightarrow> bool"
  time_now :: "'s \<Rightarrow> int"
  env_NodeName :: string

definition DriverPluginCheckpointFile :: string where "DriverPluginCheckpointFile = ''computedomain-checkpoint.json''"

definition DomainDriverPluginPath :: "string \<Rightarrow> string" where
  "DomainDriverPluginPath pluginsDirectory = path_join [pluginsDirectory, ComputeDomainDriverName]"

section \<open>The device nodes of a domain\<close>

definition defaultHostDeviceTarget :: string where "defaultHostDeviceTarget = ''/dev/null''"

text \<open>What is there is removed, unless it is the link already; an error other than absence ends.\<close>

definition ensureSymlink :: "'s plugin_env \<Rightarrow> string \<Rightarrow> string \<Rightarrow> 's \<Rightarrow> unit res \<times> 's" where
  "ensureSymlink D path target s =
     (case lstat_symlink D path s of
        Inr is_link \<Rightarrow>
          if is_link \<and> read_link D path s = Inr target then (Ok (), s)
          else (case remove_file D path s of
                  (Inl e, s) \<Rightarrow> (Err e, s)
                | (Inr u, s) \<Rightarrow> (case symlink D target path s of (r, s) \<Rightarrow> (of_sum r, s)))
      | Inl e \<Rightarrow>
          if \<not> not_exist D e then (Err e, s)
          else (case symlink D target path s of (r, s) \<Rightarrow> (of_sum r, s)))"

definition channel_node :: "string \<Rightarrow> DeviceNode" where
  "channel_node path = \<lparr>nd_Path = path, nd_Type = ''c'', nd_FileMode = 432, nd_Major = 1, nd_Minor = 3\<rparr>"

definition ensureDomainDeviceNodes :: "'s plugin_env \<Rightarrow> string \<Rightarrow> DomainInfo \<Rightarrow> 's \<Rightarrow> DeviceNode list res \<times> 's" where
  "ensureDomainDeviceNodes D deviceRoot info s =
     (let domainDir = path_join [deviceRoot, di_DomainID info];
          channelPath = path_join [domainDir, ''channel-0'']
      in case mkdir_all D domainDir s of
           (Inl e, s) \<Rightarrow> (Err (Wrap ''prepare domain device directory'' e), s)
         | (Inr u, s) \<Rightarrow>
             (case ensureSymlink D channelPath defaultHostDeviceTarget s of (r, s) \<Rightarrow>
                sbind (wrap_err ''ensure channel device'' r, s) (\<lambda>_ s. (Ok [channel_node channelPath], s))))"

definition DomainContainerEdits :: "'s plugin_env \<Rightarrow> string \<Rightarrow> DomainInfo \<Rightarrow> 's \<Rightarrow> ContainerEdits res \<times> 's" where
  "DomainContainerEdits D deviceRoot info s =
     sbind (ensureDomainDeviceNodes D deviceRoot info s) (\<lambda>nodes s.
       (Ok \<lparr>ce_Env = [], ce_Mounts = [], ce_DeviceNodes = nodes\<rparr>, s))"

definition CreateDomainCDIDevice :: "'s plugin_env \<Rightarrow> string \<Rightarrow> DomainInfo option \<Rightarrow> 's \<Rightarrow> ContainerEdits res \<times> 's" where
  "CreateDomainCDIDevice D deviceRoot domainInfo s =
     (case domainInfo of
        None \<Rightarrow> (Err (Msg ''domain info is required to create CDI device''), s)
      | Some info \<Rightarrow> DomainContainerEdits D deviceRoot info s)"

section \<open>CDI files\<close>

definition computeDomainCDIVendor :: string where "computeDomainCDIVendor = ''k8s.'' @ ComputeDomainDriverName"
definition computeDomainCDIClass :: string where "computeDomainCDIClass = ''computedomain''"
definition computeDomainCDIKind :: string where
  "computeDomainCDIKind = computeDomainCDIVendor @ ''/'' @ computeDomainCDIClass"
definition computeDomainCDICommonDeviceName :: string where "computeDomainCDICommonDeviceName = ''common''"

definition domain_common_spec :: "'s plugin_env \<Rightarrow> CdiSpec" where
  "domain_common_spec D =
     \<lparr>cs_Version = [], cs_Kind = computeDomainCDIKind,
      cs_Devices = [(computeDomainCDICommonDeviceName,
        \<lparr>ce_Env = [''KUBERNETES_NODE_NAME='' @ env_NodeName D, ''DRA_RESOURCE_DRIVER_NAME='' @ ComputeDomainDriverName],
         ce_Mounts = [], ce_DeviceNodes = []\<rparr>)]\<rparr>"

definition CreateDomainCommonSpecFile :: "'s cdi_env \<Rightarrow> 's plugin_env \<Rightarrow> 's \<Rightarrow> unit res \<times> 's" where
  "CreateDomainCommonSpecFile A D s =
     write_versioned A (domain_common_spec D) (\<lambda>spec. generate_name A spec computeDomainCDICommonDeviceName) s"

definition domain_device_edits :: "'s cdi_env \<Rightarrow> string \<Rightarrow> PreparedDevice \<Rightarrow> ContainerEdits" where
  "domain_device_edits A claimUID d =
     (let claimEdits = \<lparr>ce_Env = [''COMPUTE_DOMAIN_DEVICE_'' @ pd_DeviceName d @ ''_RESOURCE_CLAIM='' @ claimUID],
                        ce_Mounts = [], ce_DeviceNodes = []\<rparr>
      in case pd_ContainerEdits d of None \<Rightarrow> claimEdits | Some e \<Rightarrow> append_edits A claimEdits e)"

definition domain_claim_spec :: "'s cdi_env \<Rightarrow> string \<Rightarrow> PreparedDevice list \<Rightarrow> CdiSpec" where
  "domain_claim_spec A claimUID devices =
     \<lparr>cs_Version = [], cs_Kind = computeDomainCDIKind,
      cs_Devices = map (\<lambda>d. (claimUID @ ''-'' @ pd_DeviceName d, domain_device_edits A claimUID d)) devices\<rparr>"

definition domain_spec_name :: "'s cdi_env \<Rightarrow> string \<Rightarrow> string" where
  "domain_spec_name A claimUID = transient_name A computeDomainCDIVendor computeDomainCDIClass claimUID"

definition CreateDomainClaimSpecFile :: "'s cdi_env \<Rightarrow> string \<Rightarrow> PreparedDevice list \<Rightarrow> 's \<Rightarrow> unit res \<times> 's" where
  "CreateDomainClaimSpecFile A claimUID devices s =
     write_versioned A (domain_claim_spec A claimUID devices) (\<lambda>_. Inr (domain_spec_name A claimUID)) s"

definition DeleteDomainClaimSpecFile :: "'s cdi_env \<Rightarrow> string \<Rightarrow> 's \<Rightarrow> unit res \<times> 's" where
  "DeleteDomainClaimSpecFile A claimUID s =
     (case remove_spec A (domain_spec_name A claimUID) s of (r, s) \<Rightarrow> (of_sum r, s))"

definition GetDomainClaimDevices :: "'s cdi_env \<Rightarrow> string \<Rightarrow> string list \<Rightarrow> string list" where
  "GetDomainClaimDevices A claimUID devices =
     map (\<lambda>d. qualified_name A computeDomainCDIVendor computeDomainCDIClass (claimUID @ ''-'' @ d)) devices"

fun set_device_ids :: "'s cdi_env \<Rightarrow> string \<Rightarrow> PreparedDevice list \<Rightarrow> PreparedDevice list res" where
  "set_device_ids A claimUID [] = Ok []"
| "set_device_ids A claimUID (d # ds) =
     (let ids = GetDomainClaimDevices A claimUID [pd_DeviceName d]
      in if ids = [] then Err (Msg ''failed to build CDI device IDs for claim'')
         else rbind (set_device_ids A claimUID ds) (\<lambda>rest. Ok (d\<lparr>pd_CDIDeviceIDs := ids\<rparr> # rest)))"

text \<open>The devices with their identifiers, which the code sets in place\<close>

definition ensureClaimCDIArtifacts ::
    "'s cdi_env \<Rightarrow> string \<Rightarrow> PreparedDevice list \<Rightarrow> 's \<Rightarrow> PreparedDevice list res \<times> 's" where
  "ensureClaimCDIArtifacts A claimUID devices s =
     (if devices = [] then (Err (Msg ''no devices prepared for claim''), s)
      else sbind (set_device_ids A claimUID devices, s) (\<lambda>devices s.
           case CreateDomainClaimSpecFile A claimUID devices s of (r, s) \<Rightarrow>
             sbind (wrap_err ''unable to create CDI spec for claim'' r, s) (\<lambda>_ s. (Ok devices, s))))"

section \<open>Claims\<close>

fun getDeviceClassName :: "string option list \<Rightarrow> string" where
  "getDeviceClassName [] = []"
| "getDeviceClassName (None # reqs) = getDeviceClassName reqs"
| "getDeviceClassName (Some c # reqs) = c"

definition string_param :: "(string \<rightharpoonup> json) \<Rightarrow> string \<Rightarrow> string option" where
  "string_param params k = (case params k of Some (JString v) \<Rightarrow> Some v | _ \<Rightarrow> None)"

text \<open>The identifier of the domain and whether all devices are asked for\<close>

fun extractComputeDomainParams :: "DeviceConfig list \<Rightarrow> string \<times> bool" where
  "extractComputeDomainParams [] = ([], False)"
| "extractComputeDomainParams (config # configs) =
     (case dc_Opaque config of
        Some (driver, raw) \<Rightarrow>
          if driver = ComputeDomainDriverName
          then (case unmarshal_map raw of
                  Inr params \<Rightarrow> (case string_param params ''domainID'' of Some v \<Rightarrow> v | None \<Rightarrow> [],
                                string_param params ''allocationMode'' = Some ''All'')
                | Inl e \<Rightarrow> extractComputeDomainParams configs)
          else extractComputeDomainParams configs
      | None \<Rightarrow> extractComputeDomainParams configs)"

definition getOrCreateDomain :: "int \<Rightarrow> (string \<rightharpoonup> DomainInfo) \<Rightarrow> string \<Rightarrow> string \<Rightarrow> (string \<rightharpoonup> DomainInfo)" where
  "getOrCreateDomain now domains computeDomainID claimUID =
     (case domains computeDomainID of
        Some info \<Rightarrow> domains(computeDomainID \<mapsto> info\<lparr>di_Claims := di_Claims info @ [claimUID]\<rparr>)
      | None \<Rightarrow> domains(computeDomainID \<mapsto>
                 \<lparr>di_DomainID = computeDomainID, di_Claims = [claimUID], di_CreatedAt = now\<rparr>))"

definition channel_prepared :: "string \<Rightarrow> ContainerEdits \<Rightarrow> string \<Rightarrow> PreparedDevice" where
  "channel_prepared poolName edits name =
     \<lparr>pd_RequestNames = [''channel''], pd_PoolName = poolName, pd_DeviceName = name, pd_CDIDeviceIDs = [],
      pd_ContainerEdits = Some edits\<rparr>"

text \<open>\<open>allocatable\<close> are the names of the devices in the order in which the runtime visits their map.\<close>

definition new_claim ::
    "'s cdi_env \<Rightarrow> 's plugin_env \<Rightarrow> string \<Rightarrow> string list \<Rightarrow> ComputeDomainCheckpointV1 \<Rightarrow> ResourceClaim \<Rightarrow> 's
     \<Rightarrow> (PreparedDevice list \<times> ComputeDomainCheckpointV1) res \<times> 's" where
  "new_claim A D deviceRoot allocatable v1 claim s =
     (if getDeviceClassName (rc_Requests claim) = []
      then (Err (Msg ''unable to determine device class from claim''), s)
      else let (computeDomainID, isAllAllocation) = extractComputeDomainParams (rc_Config claim)
           in if computeDomainID = [] then (Err (Msg ''unable to extract ComputeDomain ID from claim''), s)
              else let domains = getOrCreateDomain (time_now D s) (ck_Domains v1) computeDomainID (rc_UID claim)
                   in case CreateDomainCDIDevice D deviceRoot (domains computeDomainID) s of (r, s) \<Rightarrow>
                      sbind (wrap_err ''failed to create CDI device'' r, s) (\<lambda>edits s.
                      sbind (ensureClaimCDIArtifacts A (rc_UID claim)
                               (map (channel_prepared (rc_Namespace claim) edits)
                                  (if isAllAllocation then allocatable else [deviceNameForChannel 0])) s) (\<lambda>devices s.
                        (Ok (devices, \<lparr>ck_PreparedClaims = (ck_PreparedClaims v1)(rc_UID claim \<mapsto> devices),
                                       ck_Domains = domains\<rparr>), s))))"

definition PrepareDomain ::
    "'s cdi_env \<Rightarrow> 's plugin_env \<Rightarrow> string \<Rightarrow> string list \<Rightarrow> ResourceClaim \<Rightarrow> 's \<Rightarrow> PreparedDevice list res \<times> 's" where
  "PrepareDomain A D deviceRoot allocatable claim s =
     (case get_checkpoint D DriverPluginCheckpointFile s of
        Inl e \<Rightarrow> (Err (Msg ''unable to sync from checkpoint''), s)
      | Inr checkpoint \<Rightarrow>
          let v1 = (case ck_V1 checkpoint of None \<Rightarrow> empty_v1 | Some v \<Rightarrow> v)
          in (case ck_PreparedClaims v1 (rc_UID claim) of
                Some devices \<Rightarrow> ensureClaimCDIArtifacts A (rc_UID claim) devices s
              | None \<Rightarrow>
                  sbind (new_claim A D deviceRoot allocatable v1 claim s) (\<lambda>(devices, v1) s.
                    case create_checkpoint D DriverPluginCheckpointFile (checkpoint\<lparr>ck_V1 := Some v1\<rparr>) s of
                      (Inl e, s) \<Rightarrow> (Err (Msg ''unable to sync to checkpoint''), s)
                    | (Inr u, s) \<Rightarrow> (Ok devices, s))))"

text \<open>A claim taken out of a domain, which goes with its last claim\<close>

definition drop_claim :: "string \<Rightarrow> DomainInfo \<Rightarrow> DomainInfo option" where
  "drop_claim claimUID info =
     (if claimUID \<notin> set (di_Claims info) then Some info
      else let claims = remove1 claimUID (di_Claims info)
           in if claims = [] then None else Some (info\<lparr>di_Claims := claims\<rparr>))"

definition UnprepareDomain :: "'s cdi_env \<Rightarrow> 's plugin_env \<Rightarrow> string \<Rightarrow> 's \<Rightarrow> unit res \<times> 's" where
  "UnprepareDomain A D claimUID s =
     (case get_checkpoint D DriverPluginCheckpointFile s of
        Inl e \<Rightarrow> (Err (Msg ''unable to sync from checkpoint''), s)
      | Inr checkpoint \<Rightarrow>
          (case ck_V1 checkpoint of
             None \<Rightarrow> (Ok (), s)
           | Some v1 \<Rightarrow>
               if ck_PreparedClaims v1 claimUID = None then (Ok (), s)
               else let v1 = \<lparr>ck_PreparedClaims = (ck_PreparedClaims v1)(claimUID := None),
                              ck_Domains = (\<lambda>domainID. Option.bind (ck_Domains v1 domainID) (drop_claim claimUID))\<rparr>
                    in (case create_checkpoint D DriverPluginCheckpointFile (checkpoint\<lparr>ck_V1 := Some v1\<rparr>) s of
                          (Inl e, s) \<Rightarrow> (Err (Msg ''unable to sync to checkpoint''), s)
                        | (Inr u, s) \<Rightarrow> (Ok (), snd (DeleteDomainClaimSpecFile A claimUID s)))))"

section \<open>The start\<close>

text \<open>
  What the plugin starts with: its devices and the domains of the checkpoint it found.  The constructors of the CDI
  cache and the checkpoint manager are taken to succeed.
\<close>

record 'q ComputeDomainState =
  st_allocatable :: "(string \<times> 'q Device) list"
  st_Domains :: "string \<rightharpoonup> DomainInfo"

definition load_checkpoint :: "'s plugin_env \<Rightarrow> 'b checkpoint_codec \<Rightarrow> 's \<Rightarrow> (string \<rightharpoonup> DomainInfo) res \<times> 's" where
  "load_checkpoint D J s =
     (case list_checkpoints D s of
        Inl e \<Rightarrow> (Err (Msg ''unable to list checkpoints''), s)
      | Inr checkpoints \<Rightarrow>
          if DriverPluginCheckpointFile \<in> set checkpoints
          then (case get_checkpoint D DriverPluginCheckpointFile s of
                  Inl e \<Rightarrow> (Err (Msg ''unable to get checkpoint''), s)
                | Inr checkpoint \<Rightarrow>
                    (case VerifyChecksum J checkpoint of
                       Inl e \<Rightarrow> (Err (Msg ''checkpoint checksum verification failed''), s)
                     | Inr u \<Rightarrow> (Ok (case ck_V1 checkpoint of None \<Rightarrow> Map.empty | Some v1 \<Rightarrow> ck_Domains v1), s)))
          else (case create_checkpoint D DriverPluginCheckpointFile newComputeDomainCheckpoint s of
                  (Inl e, s) \<Rightarrow> (Err (Msg ''unable to create checkpoint''), s)
                | (Inr u, s) \<Rightarrow> (Ok Map.empty, s)))"

definition newComputeDomainNvcdiDevice :: "'s plugin_env \<Rightarrow> string \<Rightarrow> 's \<Rightarrow> string res \<times> 's" where
  "newComputeDomainNvcdiDevice D deviceRoot s =
     (case mkdir_all D deviceRoot s of
        (Inl e, s) \<Rightarrow> (Err (Wrap ''create device root'' e), s)
      | (Inr u, s) \<Rightarrow> (Ok deviceRoot, s))"

text \<open>The handler of the CDI files, of which the root of the devices is kept\<close>

definition NewComputeDomainCDIHandler :: "'s plugin_env \<Rightarrow> string \<Rightarrow> 's \<Rightarrow> string res \<times> 's" where
  "NewComputeDomainCDIHandler D pluginsDirectory s =
     (case newComputeDomainNvcdiDevice D (path_join [DomainDriverPluginPath pluginsDirectory, ''nvcdi'']) s of
        (r, s) \<Rightarrow> (wrap_err ''unable to initialize nvcdi device helper'' r, s))"

definition NewComputeDomainState ::
    "'s cdi_env \<Rightarrow> 's plugin_env \<Rightarrow> 'b checkpoint_codec \<Rightarrow> string \<Rightarrow> 's \<Rightarrow> 'q ComputeDomainState res \<times> 's" where
  "NewComputeDomainState A D J pluginsDirectory s =
     (case NewComputeDomainCDIHandler D pluginsDirectory s of
        (Err e, s) \<Rightarrow> (Err (Msg ''unable to create CDI handler''), s)
      | (Panic p, s) \<Rightarrow> (Panic p, s)
      | (Ok deviceRoot, s) \<Rightarrow>
          (case CreateDomainCommonSpecFile A D s of
             (Err e, s) \<Rightarrow> (Err (Msg ''unable to create CDI spec file for common edits''), s)
           | (Panic p, s) \<Rightarrow> (Panic p, s)
           | (Ok u, s) \<Rightarrow>
               sbind (load_checkpoint D J s) (\<lambda>domains s.
                 (Ok \<lparr>st_allocatable = enumerateComputeDomainDevices, st_Domains = domains\<rparr>, s))))"

section \<open>Health\<close>

text \<open>\<^verbatim>\<open>Check\<close>: an error for a service it does not know, otherwise whether the plugin serves\<close>

definition Check :: "string \<Rightarrow> (gerror + unit) \<Rightarrow> (gerror + unit) \<Rightarrow> gerror + bool" where
  "Check service getInfo nodePrepare =
     (if service \<noteq> [] \<and> service \<noteq> ''liveness'' then Inl (Msg ''unknown service'')
      else case getInfo of
             Inl e \<Rightarrow> Inr False
           | Inr u \<Rightarrow> (case nodePrepare of Inl e \<Rightarrow> Inr False | Inr u \<Rightarrow> Inr True))"

end
