(* ===== verification/DomainPluginProps.thy ===== *)
theory DomainPluginProps
  imports DomainPlugin
begin

text \<open>
  What the plugin of the compute domains promises about its checkpoint: claims and domains stay consistent in every
  run, a failed preparation changes nothing, a repeated one gives the same answer, and unpreparing a claim undoes its
  preparation.  The contract with the checkpoint manager and the operating system is the locale
  \<open>checkpoint_store\<close>.
\<close>

section \<open>The interface\<close>

abbreviation "stored D s \<equiv> get_checkpoint D DriverPluginCheckpointFile s"

definition plugin_ok :: "'s cdi_env \<Rightarrow> 's plugin_env \<Rightarrow> bool" where
  "plugin_ok A D \<longleftrightarrow>
     (\<forall>cp s r s'. create_checkpoint D DriverPluginCheckpointFile cp s = (r, s') \<longrightarrow>
        (case r of Inr u \<Rightarrow> \<exists>cp'. stored D s' = Inr cp' \<and> ck_V1 cp' = ck_V1 cp | Inl e \<Rightarrow> stored D s' = stored D s)) \<and>
     (\<forall>spec n s. stored D (snd (write_spec A spec n s)) = stored D s) \<and>
     (\<forall>n s. stored D (snd (remove_spec A n s)) = stored D s) \<and>
     (\<forall>p s. stored D (snd (mkdir_all D p s)) = stored D s) \<and>
     (\<forall>p s. stored D (snd (remove_file D p s)) = stored D s) \<and>
     (\<forall>t p s. stored D (snd (symlink D t p s)) = stored D s)"

section \<open>Consistency\<close>

text \<open>
  The prepared claims are those of the domains, each of one domain; a domain has claims, each once; no claim is
  without devices.
\<close>

definition holds_claim :: "(string \<rightharpoonup> DomainInfo) \<Rightarrow> string \<Rightarrow> string \<Rightarrow> bool" where
  "holds_claim domains d uid \<longleftrightarrow> (case domains d of None \<Rightarrow> False | Some info \<Rightarrow> uid \<in> set (di_Claims info))"

definition domains_ok :: "(string \<rightharpoonup> DomainInfo) \<Rightarrow> bool" where
  "domains_ok domains \<longleftrightarrow>
     (\<forall>d info. domains d = Some info \<longrightarrow> di_DomainID info = d \<and> di_Claims info \<noteq> [] \<and> distinct (di_Claims info))"

definition claims_consistent :: "ComputeDomainCheckpointV1 \<Rightarrow> bool" where
  "claims_consistent v1 \<longleftrightarrow>
     domains_ok (ck_Domains v1) \<and>
     (\<forall>uid. ck_PreparedClaims v1 uid \<noteq> None \<longleftrightarrow> (\<exists>d. holds_claim (ck_Domains v1) d uid)) \<and>
     (\<forall>uid d d'. holds_claim (ck_Domains v1) d uid \<and> holds_claim (ck_Domains v1) d' uid \<longrightarrow> d = d') \<and>
     (\<forall>uid. ck_PreparedClaims v1 uid \<noteq> Some [])"

lemma empty_consistent [simp]: "claims_consistent empty_v1"
  by (simp add: claims_consistent_def empty_v1_def holds_claim_def domains_ok_def)

lemma holds_getOrCreate [simp]:
  "holds_claim (getOrCreateDomain now domains d uid) e x \<longleftrightarrow> holds_claim domains e x \<or> (e = d \<and> x = uid)"
  by (auto simp: holds_claim_def getOrCreateDomain_def split: option.splits)

lemma domains_ok_getOrCreate:
  "domains_ok domains \<Longrightarrow> \<forall>e. \<not> holds_claim domains e uid \<Longrightarrow> domains_ok (getOrCreateDomain now domains d uid)"
  by (auto simp: domains_ok_def holds_claim_def getOrCreateDomain_def split: option.splits)

lemma getOrCreate_consistent:
  assumes "claims_consistent v1" and "ck_PreparedClaims v1 uid = None" and "ds \<noteq> []"
  shows "claims_consistent \<lparr>ck_PreparedClaims = (ck_PreparedClaims v1)(uid \<mapsto> ds),
                           ck_Domains = getOrCreateDomain now (ck_Domains v1) d uid\<rparr>"
proof -
  from assms(1,2) have no: "\<forall>e. \<not> holds_claim (ck_Domains v1) e uid" unfolding claims_consistent_def by blast
  from assms(1) have "domains_ok (getOrCreateDomain now (ck_Domains v1) d uid)"
    unfolding claims_consistent_def by (intro domains_ok_getOrCreate no) simp
  with assms no show ?thesis unfolding claims_consistent_def by auto
qed

definition drop_from :: "string \<Rightarrow> (string \<rightharpoonup> DomainInfo) \<Rightarrow> string \<rightharpoonup> DomainInfo" where
  "drop_from uid domains = (\<lambda>d. Option.bind (domains d) (drop_claim uid))"

lemma holds_drop [simp]:
  assumes "domains_ok domains"
  shows "holds_claim (drop_from uid domains) d x \<longleftrightarrow> holds_claim domains d x \<and> x \<noteq> uid"
proof (cases "domains d")
  case (Some info)
  with assms have "set (remove1 uid (di_Claims info)) = set (di_Claims info) - {uid}"
    by (simp add: domains_ok_def set_remove1_eq)
  moreover have "remove1 uid (di_Claims info) = [] \<Longrightarrow> set (di_Claims info) - {uid} = {}" using calculation by simp
  ultimately show ?thesis using Some
    by (auto simp: holds_claim_def drop_from_def drop_claim_def Let_def)
qed (simp add: holds_claim_def drop_from_def)

lemma domains_ok_drop: "domains_ok domains \<Longrightarrow> domains_ok (drop_from uid domains)"
  by (auto simp: domains_ok_def drop_from_def drop_claim_def Let_def distinct_remove1 bind_eq_Some_conv split: if_splits)

lemma drop_consistent:
  assumes "claims_consistent v1"
  shows "claims_consistent \<lparr>ck_PreparedClaims = (ck_PreparedClaims v1)(uid := None), ck_Domains = drop_from uid (ck_Domains v1)\<rparr>"
  using assms domains_ok_drop unfolding claims_consistent_def by auto

text \<open>Dropping a claim that was just added gives the domains back.\<close>

lemma drop_getOrCreate:
  assumes "\<forall>e. \<not> holds_claim domains e uid" and "domains_ok domains"
  shows "drop_from uid (getOrCreateDomain now domains d uid) = domains"
proof
  fix e
  from assms(1) have "\<not> holds_claim domains e uid" "\<not> holds_claim domains d uid" by simp_all
  with assms(2) show "drop_from uid (getOrCreateDomain now domains d uid) e = domains e"
    by (auto simp: drop_from_def getOrCreateDomain_def drop_claim_def holds_claim_def domains_ok_def remove1_append Let_def
        split: option.splits)
qed

section \<open>The operations under the contract\<close>

locale checkpoint_store = cdi_files A for A :: "'s cdi_env" +
  fixes D :: "'s plugin_env"
  assumes store: "plugin_ok A D"
begin

lemma create:
  assumes "create_checkpoint D DriverPluginCheckpointFile cp s = (r, s')"
  shows "r = Inr () \<Longrightarrow> \<exists>cp'. stored D s' = Inr cp' \<and> ck_V1 cp' = ck_V1 cp"
    and "r = Inl e \<Longrightarrow> stored D s' = stored D s"
  using store assms unfolding plugin_ok_def by (fastforce split: sum.splits)+

lemma kept [simp]:
  "stored D (snd (write_spec A spec n s)) = stored D s"
  "stored D (snd (remove_spec A n s)) = stored D s"
  "stored D (snd (mkdir_all D p s)) = stored D s"
  "stored D (snd (remove_file D p s)) = stored D s"
  "stored D (snd (symlink D t p s)) = stored D s"
  using store unfolding plugin_ok_def by blast+

lemma kept_eq:
  "write_spec A spec n s = (r, s') \<Longrightarrow> stored D s' = stored D s"
  "remove_spec A n s = (r, s') \<Longrightarrow> stored D s' = stored D s"
  "mkdir_all D p s = (r, s') \<Longrightarrow> stored D s' = stored D s"
  "remove_file D p s = (r, s') \<Longrightarrow> stored D s' = stored D s"
  "symlink D t p s = (r, s') \<Longrightarrow> stored D s' = stored D s"
  using kept(1) [of spec n s] kept(2) [of n s] kept(3) [of p s] kept(4) [of p s] kept(5) [of t p s] by simp_all

lemma versioned_kept: "write_versioned A spec name s = (r, s') \<Longrightarrow> stored D s' = stored D s"
  by (auto simp: write_versioned_def split: sum.splits prod.splits dest: kept_eq)

lemma artifacts_kept: "ensureClaimCDIArtifacts A uid ds s = (r, s') \<Longrightarrow> stored D s' = stored D s"
  by (auto simp: ensureClaimCDIArtifacts_def CreateDomainClaimSpecFile_def sbind_def wrap_err_def
      split: if_splits res.splits prod.splits dest: versioned_kept)

lemma symlink_kept: "ensureSymlink D p t s = (r, s') \<Longrightarrow> stored D s' = stored D s"
  by (auto simp: ensureSymlink_def split: sum.splits if_splits prod.splits dest!: kept_eq)

lemma device_kept: "CreateDomainCDIDevice D deviceRoot info s = (r, s') \<Longrightarrow> stored D s' = stored D s"
  by (auto simp: CreateDomainCDIDevice_def DomainContainerEdits_def ensureDomainDeviceNodes_def sbind_def wrap_err_def Let_def
      split: option.splits res.splits prod.splits sum.splits dest!: symlink_kept kept_eq(3))

lemma new_claim_kept:
  assumes "new_claim A D deviceRoot allocatable v1 claim s = (r, s')"
  shows "stored D s' = stored D s"
  using assms
  by (auto simp: new_claim_def sbind_def wrap_err_def Let_def split: if_splits res.splits prod.splits
      dest!: device_kept artifacts_kept)

lemma prepare_cases:
  assumes "PrepareDomain A D deviceRoot allocatable claim s = (r, s')" and "stored D s = Inr cp"
    and "v1 = (case ck_V1 cp of None \<Rightarrow> empty_v1 | Some v \<Rightarrow> v)"
  obtains (again) ds where "ck_PreparedClaims v1 (rc_UID claim) = Some ds" and "stored D s' = stored D s"
      and "ensureClaimCDIArtifacts A (rc_UID claim) ds s = (r, s')"
    | (failed) "ck_PreparedClaims v1 (rc_UID claim) = None" and "stored D s' = stored D s" and "\<not> is_ok r"
    | (prepared) ds v1' s1 cp' where "ck_PreparedClaims v1 (rc_UID claim) = None" and "r = Ok ds"
      and "new_claim A D deviceRoot allocatable v1 claim s = (Ok (ds, v1'), s1)"
      and "stored D s' = Inr cp'" and "ck_V1 cp' = Some v1'"
proof (cases "ck_PreparedClaims v1 (rc_UID claim)")
  case (Some ds)
  with assms have "ensureClaimCDIArtifacts A (rc_UID claim) ds s = (r, s')" by (simp add: PrepareDomain_def)
  with Some again artifacts_kept show ?thesis by blast
next
  case None
  obtain q s1 where n: "new_claim A D deviceRoot allocatable v1 claim s = (q, s1)" by fastforce
  note kept = new_claim_kept [OF n]
  show ?thesis
  proof (cases q)
    case (Ok p)
    obtain ds v1' where p: "p = (ds, v1')" by (cases p)
    obtain c s2 where c: "create_checkpoint D DriverPluginCheckpointFile (cp\<lparr>ck_V1 := Some v1'\<rparr>) s1 = (c, s2)" by fastforce
    show ?thesis
    proof (cases c)
      case (Inl e)
      with assms None n Ok p c have "\<not> is_ok r" and "s' = s2" by (auto simp: PrepareDomain_def)
      with Inl None kept create(2) [OF c] failed show ?thesis by simp
    next
      case (Inr u)
      with assms None n Ok p c have "r = Ok ds" and "s' = s2" by (auto simp: PrepareDomain_def)
      moreover obtain cp' where "stored D s2 = Inr cp'" "ck_V1 cp' = Some v1'" using create(1) [OF c] Inr by auto
      ultimately show ?thesis using prepared None n Ok p by blast
    qed
  qed (use assms None n kept failed in \<open>auto simp: PrepareDomain_def\<close>)
qed

lemma unprepare_cases:
  assumes "UnprepareDomain A D uid s = (r, s')"
  obtains (kept) "stored D s' = stored D s" and "r = Ok () \<longrightarrow> (\<forall>cp v1. stored D s = Inr cp \<and> ck_V1 cp = Some v1 \<longrightarrow>
      ck_PreparedClaims v1 uid = None)"
    | (dropped) cp v1 cp' ds where "stored D s = Inr cp" and "ck_V1 cp = Some v1" and "ck_PreparedClaims v1 uid = Some ds"
      and "stored D s' = Inr cp'" and "r = Ok ()"
      and "ck_V1 cp' = Some \<lparr>ck_PreparedClaims = (ck_PreparedClaims v1)(uid := None), ck_Domains = drop_from uid (ck_Domains v1)\<rparr>"
proof (cases "\<exists>cp v1 ds. stored D s = Inr cp \<and> ck_V1 cp = Some v1 \<and> ck_PreparedClaims v1 uid = Some ds")
  case False
  then have "s' = s" using assms by (auto simp: UnprepareDomain_def Let_def split: sum.splits option.splits if_splits)
  with False kept show ?thesis by auto
next
  case True
  then obtain cp v1 ds where v: "stored D s = Inr cp" "ck_V1 cp = Some v1" "ck_PreparedClaims v1 uid = Some ds" by blast
  let ?v = "\<lparr>ck_PreparedClaims = (ck_PreparedClaims v1)(uid := None), ck_Domains = drop_from uid (ck_Domains v1)\<rparr>"
  obtain c s2 where c: "create_checkpoint D DriverPluginCheckpointFile (cp\<lparr>ck_V1 := Some ?v\<rparr>) s = (c, s2)" by fastforce
  show ?thesis
  proof (cases c)
    case (Inl e)
    with assms v c have "s' = s2" and "r \<noteq> Ok ()" by (auto simp: UnprepareDomain_def Let_def drop_from_def)
    with Inl create(2) [OF c] kept show ?thesis by simp
  next
    case (Inr u)
    with assms v c have "r = Ok ()" and "s' = snd (DeleteDomainClaimSpecFile A uid s2)"
      by (auto simp: UnprepareDomain_def Let_def drop_from_def)
    moreover have "stored D (snd (DeleteDomainClaimSpecFile A uid s2)) = stored D s2"
      by (simp add: DeleteDomainClaimSpecFile_def split_def)
    moreover obtain cp' where "stored D s2 = Inr cp'" "ck_V1 cp' = Some ?v" using create(1) [OF c] Inr by auto
    ultimately show ?thesis using dropped v by simp
  qed
qed

end

lemmas store_prepare = checkpoint_store.prepare_cases
  [OF checkpoint_store.intro [OF cdi_files.intro checkpoint_store_axioms.intro], consumes 5, case_names again failed prepared]

lemmas store_unprepare = checkpoint_store.unprepare_cases
  [OF checkpoint_store.intro [OF cdi_files.intro checkpoint_store_axioms.intro], consumes 3, case_names kept dropped]

text \<open>What a claim that is prepared for the first time adds\<close>

lemma set_device_ids_Ok:
  "set_device_ids A uid ds = Ok (map (\<lambda>d. d\<lparr>pd_CDIDeviceIDs := GetDomainClaimDevices A uid [pd_DeviceName d]\<rparr>) ds)"
  by (induction ds) (simp_all add: GetDomainClaimDevices_def)

definition with_ids :: "'s cdi_env \<Rightarrow> string \<Rightarrow> PreparedDevice list \<Rightarrow> PreparedDevice list" where
  "with_ids A uid ds = map (\<lambda>d. d\<lparr>pd_CDIDeviceIDs := GetDomainClaimDevices A uid [pd_DeviceName d]\<rparr>) ds"

lemma with_ids_simps [simp]: "with_ids A uid (with_ids A uid ds) = with_ids A uid ds" "with_ids A uid ds = [] \<longleftrightarrow> ds = []"
  by (simp_all add: with_ids_def)

lemma artifacts_Ok:
  "ensureClaimCDIArtifacts A uid ds s = (Ok ds', s') \<Longrightarrow> ds \<noteq> [] \<and> ds' = with_ids A uid ds"
  by (auto simp: ensureClaimCDIArtifacts_def set_device_ids_Ok with_ids_def elim!: sbind_eq_OkD split: if_splits prod.splits)

text \<open>The container edits of a domain: the node of its channel below the domain's own directory\<close>

definition domain_edits :: "string \<Rightarrow> string \<Rightarrow> ContainerEdits" where
  "domain_edits deviceRoot d =
     \<lparr>ce_Env = [], ce_Mounts = [], ce_DeviceNodes = [channel_node (path_join [path_join [deviceRoot, d], ''channel-0''])]\<rparr>"

lemma device_edits:
  "CreateDomainCDIDevice D deviceRoot (Some info) s = (Ok edits, s') \<Longrightarrow> edits = domain_edits deviceRoot (di_DomainID info)"
  by (auto simp: CreateDomainCDIDevice_def DomainContainerEdits_def ensureDomainDeviceNodes_def domain_edits_def Let_def
      elim!: sbind_eq_OkD split: sum.splits prod.splits)

lemma new_claim_gives:
  assumes "new_claim A D deviceRoot allocatable v1 claim s = (Ok (ds, v1'), s')"
    and "extractComputeDomainParams (rc_Config claim) = (d, every)"
  obtains now edits s1 where
    "v1' = \<lparr>ck_PreparedClaims = (ck_PreparedClaims v1)(rc_UID claim \<mapsto> ds),
            ck_Domains = getOrCreateDomain now (ck_Domains v1) d (rc_UID claim)\<rparr>"
    and "CreateDomainCDIDevice D deviceRoot (getOrCreateDomain now (ck_Domains v1) d (rc_UID claim) d) s = (Ok edits, s1)"
    and "ds = with_ids A (rc_UID claim) (map (channel_prepared (rc_Namespace claim) edits)
                (if every then allocatable else [deviceNameForChannel 0]))"
    and "d \<noteq> []" and "ds \<noteq> []"
proof -
  let ?domains = "getOrCreateDomain (time_now D s) (ck_Domains v1) d (rc_UID claim)"
  from assms have d: "d \<noteq> []" by (auto simp: new_claim_def split: if_splits)
  from assms obtain edits s1 s2 where "CreateDomainCDIDevice D deviceRoot (?domains d) s = (Ok edits, s1)"
    and art: "ensureClaimCDIArtifacts A (rc_UID claim) (map (channel_prepared (rc_Namespace claim) edits)
        (if every then allocatable else [deviceNameForChannel 0])) s1 = (Ok ds, s2)"
    and "v1' = \<lparr>ck_PreparedClaims = (ck_PreparedClaims v1)(rc_UID claim \<mapsto> ds), ck_Domains = ?domains\<rparr>"
    by (auto simp: new_claim_def Let_def elim!: sbind_eq_OkD split: if_splits prod.splits)
  with artifacts_Ok [OF art] d show ?thesis by (intro that [of "time_now D s" edits s1]) auto
qed

lemma new_claim_Ok:
  assumes "new_claim A D deviceRoot allocatable v1 claim s = (Ok (ds, v1'), s')"
  obtains now d where "d \<noteq> []" and "ds \<noteq> []" and "with_ids A (rc_UID claim) ds = ds"
    and "v1' = \<lparr>ck_PreparedClaims = (ck_PreparedClaims v1)(rc_UID claim \<mapsto> ds),
               ck_Domains = getOrCreateDomain now (ck_Domains v1) d (rc_UID claim)\<rparr>"
proof -
  obtain d every where "extractComputeDomainParams (rc_Config claim) = (d, every)" by fastforce
  from new_claim_gives [OF assms this] that show ?thesis by (metis with_ids_simps(1))
qed

section \<open>Properties\<close>

datatype plugin_event = PrepareEvent ResourceClaim | UnprepareEvent string

text \<open>The calls of the kubelet, one after the other: the plugin holds a lock during each.\<close>

inductive plugin_run :: "'s cdi_env \<Rightarrow> 's plugin_env \<Rightarrow> string \<Rightarrow> string list \<Rightarrow> 's \<Rightarrow> plugin_event list \<Rightarrow> 's \<Rightarrow> bool"
  for A D deviceRoot allocatable where
  start: "plugin_run A D deviceRoot allocatable s [] s"
| prepare: "plugin_run A D deviceRoot allocatable s es s1 \<Longrightarrow> PrepareDomain A D deviceRoot allocatable claim s1 = (r, s2)
    \<Longrightarrow> plugin_run A D deviceRoot allocatable s (es @ [PrepareEvent claim]) s2"
| unprepare: "plugin_run A D deviceRoot allocatable s es s1 \<Longrightarrow> UnprepareDomain A D uid s1 = (r', s2)
    \<Longrightarrow> plugin_run A D deviceRoot allocatable s (es @ [UnprepareEvent uid]) s2"

definition consistent_store :: "'s plugin_env \<Rightarrow> 's \<Rightarrow> bool" where
  "consistent_store D s \<longleftrightarrow>
     (case stored D s of Inl e \<Rightarrow> True | Inr cp \<Rightarrow> (case ck_V1 cp of None \<Rightarrow> True | Some v1 \<Rightarrow> claims_consistent v1))"

lemma consistent_prepare:
  assumes "plugin_ok A D" "cdi_ok A" and "consistent_store D s"
    and p: "PrepareDomain A D deviceRoot allocatable claim s = (r, s')"
  shows "consistent_store D s'"
proof (cases "stored D s")
  case (Inl e)
  with p have "s' = s" by (simp add: PrepareDomain_def)
  with assms show ?thesis by simp
next
  case (Inr cp)
  let ?v = "case ck_V1 cp of None \<Rightarrow> empty_v1 | Some v \<Rightarrow> v"
  have v: "claims_consistent ?v" using assms(3) Inr by (auto simp: consistent_store_def split: option.splits)
  from assms(2,1) p Inr refl show ?thesis
  proof (cases rule: store_prepare)
    case (prepared ds v1' s1 cp')
    from new_claim_Ok [OF prepared(3)] obtain now d where "ds \<noteq> []"
      and "v1' = \<lparr>ck_PreparedClaims = (ck_PreparedClaims ?v)(rc_UID claim \<mapsto> ds),
                 ck_Domains = getOrCreateDomain now (ck_Domains ?v) d (rc_UID claim)\<rparr>" by metis
    with getOrCreate_consistent [OF v prepared(1)] prepared(4,5) show ?thesis by (simp add: consistent_store_def)
  qed (use assms(3) in \<open>simp_all add: consistent_store_def\<close>)
qed

lemma consistent_unprepare:
  assumes "plugin_ok A D" "cdi_ok A" and "consistent_store D s" and u: "UnprepareDomain A D uid s = (r, s')"
  shows "consistent_store D s'"
proof -
  from assms(2,1) u show ?thesis
  proof (cases rule: store_unprepare)
    case (dropped cp v1 cp' ds)
    with assms(3) have "claims_consistent v1" by (simp add: consistent_store_def)
    from drop_consistent [OF this] dropped show ?thesis by (simp add: consistent_store_def)
  qed (use assms(3) in \<open>simp add: consistent_store_def\<close>)
qed

text \<open>
  C29. Whatever the kubelet asks for, in whatever order and with whatever failures: the checkpoint stays consistent, so
  that the claims prepared are exactly the claims of the domains, each of one domain and once in it.
\<close>

theorem checkpoint_stays_consistent:
  assumes "plugin_ok A D" and "cdi_ok A" and "consistent_store D s" and "plugin_run A D deviceRoot allocatable s es s'"
  shows "consistent_store D s'"
  using assms(4,1,2,3) by induction (blast intro: consistent_prepare consistent_unprepare)+

text \<open>
  C30. A preparation that fails, at whatever step, leaves the checkpoint as it was; one that succeeds adds the claim to
  one domain, with its devices, and changes no other claim.
\<close>

theorem prepare_all_or_nothing:
  assumes "plugin_ok A D" and "cdi_ok A" and "PrepareDomain A D deviceRoot allocatable claim s = (r, s')"
    and "stored D s = Inr cp" and "ck_V1 cp = Some v1" and "ck_PreparedClaims v1 (rc_UID claim) = None"
  shows "(\<not> is_ok r \<and> stored D s' = Inr cp) \<or>
    (\<exists>ds cp' v1' d. r = Ok ds \<and> ds \<noteq> [] \<and> stored D s' = Inr cp' \<and> ck_V1 cp' = Some v1' \<and>
       ck_PreparedClaims v1' = (ck_PreparedClaims v1)(rc_UID claim \<mapsto> ds) \<and>
       (\<forall>e uid. holds_claim (ck_Domains v1') e uid \<longleftrightarrow> holds_claim (ck_Domains v1) e uid \<or> (e = d \<and> uid = rc_UID claim)))"
proof -
  have v: "v1 = (case ck_V1 cp of None \<Rightarrow> empty_v1 | Some v \<Rightarrow> v)" using assms(5) by simp
  from assms(2,1,3,4) v show ?thesis
  proof (cases rule: store_prepare)
    case (prepared ds v1' s1 cp')
    from new_claim_Ok [OF prepared(3)] obtain now d where "ds \<noteq> []"
      and "v1' = \<lparr>ck_PreparedClaims = (ck_PreparedClaims v1)(rc_UID claim \<mapsto> ds),
                 ck_Domains = getOrCreateDomain now (ck_Domains v1) d (rc_UID claim)\<rparr>" by metis
    with prepared show ?thesis by (intro disjI2 exI [of _ ds] exI [of _ cp'] exI [of _ v1'] exI [of _ d]) simp
  qed (use assms in simp_all)
qed

text \<open>A repeated preparation gives the same devices and leaves the checkpoint as the first left it.\<close>

theorem domain_prepare_idempotent:
  assumes "plugin_ok A D" and "cdi_ok A"
    and "PrepareDomain A D deviceRoot allocatable claim s = (Ok ds, s1)"
    and "PrepareDomain A D deviceRoot' allocatable' claim' s1 = (Ok ds', s2)" and "rc_UID claim' = rc_UID claim"
  shows "ds' = ds \<and> stored D s2 = stored D s1"
proof -
  let ?u = "rc_UID claim"
  obtain cp where cp: "stored D s = Inr cp" using assms(3) by (cases "stored D s") (simp_all add: PrepareDomain_def)
  from assms(2,1,3) cp refl
  obtain cp1 xs where cp1: "stored D s1 = Inr cp1"
    and xs: "ck_PreparedClaims (case ck_V1 cp1 of None \<Rightarrow> empty_v1 | Some v \<Rightarrow> v) ?u = Some xs" and ds: "with_ids A ?u xs = ds"
  proof (cases rule: store_prepare)
    case (again xs)
    show ?thesis by (rule that [of cp xs]) (use again(1,2) cp artifacts_Ok [OF again(3)] in simp_all)
  next
    case (prepared xs v1' s0 cp')
    from prepared(3) have "with_ids A ?u xs = xs" and "ck_PreparedClaims v1' ?u = Some xs" by (rule new_claim_Ok; simp)+
    with prepared that show ?thesis by simp
  qed simp
  from assms(2,1,4) cp1 refl show ?thesis
  proof (cases rule: store_prepare)
    case (again ys)
    have "ys = xs" and "ds' = with_ids A ?u ys" using again(1) xs assms(5) artifacts_Ok [OF again(3)] by simp_all
    with ds again(2) show ?thesis by simp
  qed (use xs assms(5) in simp_all)
qed

text \<open>Unpreparing a claim after its first preparation puts the claims and domains back as they were.\<close>

theorem domain_unprepare_undoes:
  assumes "plugin_ok A D" and "cdi_ok A"
    and "stored D s = Inr cp" and "ck_V1 cp = Some v1" and "claims_consistent v1" and "ck_PreparedClaims v1 (rc_UID claim) = None"
    and "PrepareDomain A D deviceRoot allocatable claim s = (Ok ds, s1)"
    and "UnprepareDomain A D (rc_UID claim) s1 = (Ok (), s2)"
  shows "\<exists>cp2. stored D s2 = Inr cp2 \<and> ck_V1 cp2 = Some v1"
proof -
  have v: "v1 = (case ck_V1 cp of None \<Rightarrow> empty_v1 | Some v \<Rightarrow> v)" using assms(4) by simp
  from assms(2,1,7,3) v
  obtain cp1 v1' s0 where cp1: "stored D s1 = Inr cp1" "ck_V1 cp1 = Some v1'"
    and new: "new_claim A D deviceRoot allocatable v1 claim s = (Ok (ds, v1'), s0)"
    by (cases rule: store_prepare) (use assms(6) in auto)
  from new_claim_Ok [OF new] obtain now d where
    v1': "v1' = \<lparr>ck_PreparedClaims = (ck_PreparedClaims v1)(rc_UID claim \<mapsto> ds),
                 ck_Domains = getOrCreateDomain now (ck_Domains v1) d (rc_UID claim)\<rparr>" by metis
  have "\<forall>e. \<not> holds_claim (ck_Domains v1) e (rc_UID claim)" and "domains_ok (ck_Domains v1)"
    using assms(5,6) unfolding claims_consistent_def by blast+
  note undo = drop_getOrCreate [OF this]
  from assms(2,1,8) show ?thesis
  proof (cases rule: store_unprepare)
    case kept
    with cp1 v1' show ?thesis by simp
  next
    case (dropped cp2 v2 cp' xs)
    with cp1 have "v2 = v1'" by simp
    with dropped v1' undo have "ck_V1 cp' = Some \<lparr>ck_PreparedClaims = (ck_PreparedClaims v1)(rc_UID claim := None),
        ck_Domains = ck_Domains v1\<rparr>" by simp
    moreover have "(ck_PreparedClaims v1)(rc_UID claim := None) = ck_PreparedClaims v1" using assms(6) by auto
    ultimately show ?thesis using dropped by simp
  qed
qed

end
