(* ===== verification/DomainTemplate.thy ===== *)
theory DomainTemplate
  imports DomainPluginProps
begin

text \<open>
  The controller of the compute domains and the plugin on a node meet in a text: the controller formats the
  parameters of a claim template, and the plugin decodes them from a claim made of it.
\<close>

section \<open>The members of a formatted object\<close>

definition blank :: "string \<Rightarrow> bool" where
  "blank s \<longleftrightarrow> list_all (\<lambda>c. c = CHR '' '' \<or> c = CHR 0x09 \<or> c = CHR 0x0A \<or> c = CHR 0x0D) s"

lemma skip_blank: "blank w \<Longrightarrow> skip_ws (w @ s) = skip_ws s"
  by (induction w) (simp_all add: blank_def skip_ws_def)

lemma length_quoted [simp]: "length (quoted s) = length s + 2"
  by (simp add: quoted_def)

lemma value_string: "plain v \<Longrightarrow> json_value (CHR '' '' # quoted v @ rest) = Some (JString v, rest)"
  by (simp add: json_value.simps quoted_def scan_plain)

lemma member_step:
  assumes "blank w" "plain k" "plain v"
  shows "json_members (w @ quoted k @ '': '' @ quoted v @ CHR '','' # rest) =
    map_option (apfst (Cons (k, JString v))) (json_members rest)"
proof -
  have "skip_ws (w @ quoted k @ '': '' @ quoted v @ CHR '','' # rest) =
      CHR 0x22 # k @ CHR 0x22 # CHR '':'' # CHR '' '' # quoted v @ CHR '','' # rest"
    using skip_blank [OF assms(1), of "quoted k @ '': '' @ quoted v @ CHR '','' # rest"] by (simp add: quoted_def)
  then show ?thesis
    by (subst json_members.simps)
      (simp add: scan_plain [OF assms(2)] value_string [OF assms(3)])
qed

lemma member_last:
  assumes "blank w" "blank w'" "plain k" "plain v"
  shows "json_members (w @ quoted k @ '': '' @ quoted v @ w' @ CHR ''}'' # rest) = Some ([(k, JString v)], rest)"
proof -
  have "skip_ws (w @ quoted k @ '': '' @ quoted v @ w' @ CHR ''}'' # rest) =
      CHR 0x22 # k @ CHR 0x22 # CHR '':'' # CHR '' '' # quoted v @ w' @ CHR ''}'' # rest"
    using skip_blank [OF assms(1), of "quoted k @ '': '' @ quoted v @ w' @ CHR ''}'' # rest"] by (simp add: quoted_def)
  then show ?thesis
    by (subst json_members.simps)
      (simp add: scan_plain [OF assms(3)] value_string [OF assms(4)] skip_blank [OF assms(2)]
       )
qed

section \<open>The parameters of a template\<close>

lemma template_decoded:
  assumes "plain (getAllocationMode d)" and "plain (dm_UID d)"
  shows "unmarshal_map (template_parameters d) =
    Inr [''allocationMode'' \<mapsto> JString (getAllocationMode d), ''apiVersion'' \<mapsto> JString ''resource.nvidia.com/v1beta1'',
         ''domainID'' \<mapsto> JString (dm_UID d), ''kind'' \<mapsto> JString ''ComputeDomainChannelConfig'']"
proof -
  let ?w = "CHR 0x0A # replicate 11 (CHR 0x09)" and ?e = "CHR 0x0A # replicate 10 (CHR 0x09)"
  let ?m = "\<lambda>k v rest. ?w @ quoted k @ '': '' @ quoted v @ CHR '','' # rest"
  let ?last = "?w @ quoted ''kind'' @ '': '' @ quoted ''ComputeDomainChannelConfig'' @ ?e @ CHR ''}'' # []"
  have form: "template_parameters d = CHR ''{'' # ?m ''allocationMode'' (getAllocationMode d)
      (?m ''apiVersion'' ''resource.nvidia.com/v1beta1'' (?m ''domainID'' (dm_UID d) ?last))"
    by (simp add: template_parameters_def parameter_line_def del: replicate.simps)
  have blank: "blank ?w" "blank ?e" by (simp_all add: blank_def list_all_iff)
  have plain: "plain ''allocationMode''" "plain ''apiVersion''" "plain ''domainID''" "plain ''kind''"
      "plain ''ComputeDomainChannelConfig''" "plain ''resource.nvidia.com/v1beta1''"
    by code_simp+
  let ?ms = "?m ''allocationMode'' (getAllocationMode d)
      (?m ''apiVersion'' ''resource.nvidia.com/v1beta1'' (?m ''domainID'' (dm_UID d) ?last))"
  have "skip_ws ?ms = CHR 0x22 # drop 1 (quoted ''allocationMode'') @ '': '' @ quoted (getAllocationMode d) @
      CHR '','' # ?m ''apiVersion'' ''resource.nvidia.com/v1beta1'' (?m ''domainID'' (dm_UID d) ?last)"
    unfolding skip_blank [OF blank(1)] by (simp add: quoted_def del: replicate.simps)
  moreover have "json_members ?ms = Some ([(''allocationMode'', JString (getAllocationMode d)),
      (''apiVersion'', JString ''resource.nvidia.com/v1beta1''), (''domainID'', JString (dm_UID d)),
      (''kind'', JString ''ComputeDomainChannelConfig'')], [])"
    unfolding member_step [OF blank(1) plain(1) assms(1)] member_step [OF blank(1) plain(2,6)]
      member_step [OF blank(1) plain(3) assms(2)] member_last [OF blank plain(4,5)] by simp
  ultimately have "json_value (template_parameters d) = Some (JObject [(''allocationMode'', JString (getAllocationMode d)),
      (''apiVersion'', JString ''resource.nvidia.com/v1beta1''), (''domainID'', JString (dm_UID d)),
      (''kind'', JString ''ComputeDomainChannelConfig'')], [])"
    unfolding form by (subst json_value.simps) (simp del: replicate.simps)
  then show ?thesis by (simp add: unmarshal_map_def skip_ws_def)
qed

lemma template_params:
  assumes "plain (dm_UID d)" and "plain (getAllocationMode d)"
    and "template = new_template d name deviceClass templateType"
    and "rc_Config claim = [\<lparr>dc_Requests = requests, dc_Opaque = Some (rt_Driver template, rt_Parameters template)\<rparr>]"
  shows "extractComputeDomainParams (rc_Config claim) = (dm_UID d, getAllocationMode d = ''All'')"
  using assms by (simp add: new_template_def template_decoded string_param_def)

text \<open>
  C31. A claim made of the template of a compute domain, when the plugin prepares it for the first time and with success, is recorded
  as prepared and as a claim of that domain and of no other.  Its devices are all that the node has exactly when the domain asks for all,
  and otherwise the first channel, and each of them shows the device node below the directory of that domain.  The checkpoint
  is taken to be consistent, and the domain's identifier and mode to need no escape in JSON.
\<close>

theorem template_reaches_plugin:
  assumes plain: "plain (dm_UID d)" "plain (getAllocationMode d)"
    and template: "template = new_template d name deviceClass templateType"
      "rc_Config claim = [\<lparr>dc_Requests = requests, dc_Opaque = Some (rt_Driver template, rt_Parameters template)\<rparr>]"
    and K: "plugin_ok A D" "cdi_ok A"
    and cp: "stored D s = Inr cp" "ck_V1 cp = Some v1" "claims_consistent v1" "ck_PreparedClaims v1 (rc_UID claim) = None"
    and run: "PrepareDomain A D deviceRoot allocatable claim s = (Ok ds, s')"
  shows "(\<exists>cp' v1'. stored D s' = Inr cp' \<and> ck_V1 cp' = Some v1' \<and> ck_PreparedClaims v1' (rc_UID claim) = Some ds \<and>
      (\<forall>e. holds_claim (ck_Domains v1') e (rc_UID claim) \<longleftrightarrow> e = dm_UID d)) \<and>
    map pd_DeviceName ds = (if getAllocationMode d = ''All'' then allocatable else [deviceNameForChannel 0]) \<and>
    list_all (\<lambda>x. pd_ContainerEdits x = Some (domain_edits deviceRoot (dm_UID d))) ds"
proof -
  note params = template_params [OF plain template]
  have v: "v1 = (case ck_V1 cp of None \<Rightarrow> empty_v1 | Some v \<Rightarrow> v)" using cp(2) by simp
  from K(2,1) run cp(1) v obtain v1' s0 cp' where new: "new_claim A D deviceRoot allocatable v1 claim s = (Ok (ds, v1'), s0)"
    and stored: "stored D s' = Inr cp'" "ck_V1 cp' = Some v1'"
    by (cases rule: store_prepare) (use cp(4) in auto)
  from new_claim_gives [OF new params] obtain now edits s1 where
    v1': "v1' = \<lparr>ck_PreparedClaims = (ck_PreparedClaims v1)(rc_UID claim \<mapsto> ds),
             ck_Domains = getOrCreateDomain now (ck_Domains v1) (dm_UID d) (rc_UID claim)\<rparr>"
    and dev: "CreateDomainCDIDevice D deviceRoot (getOrCreateDomain now (ck_Domains v1) (dm_UID d) (rc_UID claim) (dm_UID d)) s = (Ok edits, s1)"
    and ds: "ds = with_ids A (rc_UID claim) (map (channel_prepared (rc_Namespace claim) edits)
               (if getAllocationMode d = ''All'' then allocatable else [deviceNameForChannel 0]))" by metis
  from cp(3,4) have fresh: "\<not> holds_claim (ck_Domains v1) e (rc_UID claim)" for e unfolding claims_consistent_def by blast
  from cp(3) have "domains_ok (ck_Domains v1)" by (simp add: claims_consistent_def)
  then obtain info where "getOrCreateDomain now (ck_Domains v1) (dm_UID d) (rc_UID claim) (dm_UID d) = Some info"
    and "di_DomainID info = dm_UID d"
    by (cases "ck_Domains v1 (dm_UID d)") (auto simp: getOrCreateDomain_def domains_ok_def)
  with dev device_edits [of D deviceRoot info s edits s1] have "edits = domain_edits deviceRoot (dm_UID d)" by simp
  then have "map pd_DeviceName ds = (if getAllocationMode d = ''All'' then allocatable else [deviceNameForChannel 0])"
    and "list_all (\<lambda>x. pd_ContainerEdits x = Some (domain_edits deviceRoot (dm_UID d))) ds"
    using ds by (auto simp: with_ids_def channel_prepared_def comp_def list_all_iff)
  with stored v1' fresh show ?thesis by simp
qed

section \<open>The checkpoint file\<close>

text \<open>The codec gives back what it encoded, and a checksum verifies the text it is of.\<close>

definition checkpoint_codec_ok :: "'b checkpoint_codec \<Rightarrow> bool" where
  "checkpoint_codec_ok J \<longleftrightarrow>
     (\<forall>cp b. encode_checkpoint J cp = Inr b \<longrightarrow> decode_checkpoint J b = Inr cp) \<and>
     (\<forall>b. checksum_verify J (checksum_new J b) b = Inr ())"

text \<open>A written checkpoint is read back with its claims and domains, and its checksum verifies.\<close>

theorem checkpoint_round_trip:
  assumes "checkpoint_codec_ok J" and "MarshalCheckpoint J cp = Inr b"
  shows "\<exists>cp'. UnmarshalCheckpoint J b = Inr cp' \<and> ck_V1 cp' = ck_V1 cp \<and> VerifyChecksum J cp' = Inr ()"
proof -
  obtain out where out: "encode_checkpoint J (cp\<lparr>ck_Checksum := 0\<rparr>) = Inr out"
    and b: "encode_checkpoint J (cp\<lparr>ck_Checksum := checksum_new J out\<rparr>) = Inr b"
    using assms(2) by (auto simp: MarshalCheckpoint_def split: sum.splits)
  with assms(1) show ?thesis
    by (auto simp: UnmarshalCheckpoint_def VerifyChecksum_def checkpoint_codec_ok_def)
qed

end
