(* ===== verification/WitnessDra.thy ===== *)
theory WitnessDra
  imports GpuPluginProps DomainPluginProps DomainTemplate
begin

text \<open>
  A concrete node on which the interfaces of the CDI files and of the checkpoint are interpreted, and the properties
  of the two DRA plugins at concrete claims.
\<close>

section \<open>A node\<close>

record dra_state =
  dr_files :: "(string \<times> CdiSpec) list"
  dr_checkpoints :: "(string \<times> ComputeDomainCheckpoint) list"
  dr_links :: "(string \<times> string) list"

definition dra_find :: "('k \<times> 'v) list \<Rightarrow> 'k \<Rightarrow> gerror + 'v" where
  "dra_find xs k = (case map_of xs k of None \<Rightarrow> Inl NotFoundErr | Some v \<Rightarrow> Inr v)"

definition node_cdi :: "dra_state cdi_env" where
  "node_cdi = \<lparr>
     minimum_version = (\<lambda>_. Inr ''0.5.0''),
     generate_name = (\<lambda>spec n. Inr (cs_Kind spec @ ''-'' @ n)),
     transient_name = (\<lambda>vendor class n. vendor @ ''-'' @ class @ ''_'' @ n),
     qualified_name = (\<lambda>vendor class n. vendor @ ''/'' @ class @ ''='' @ n),
     append_edits = (\<lambda>a b. \<lparr>ce_Env = ce_Env a @ ce_Env b, ce_Mounts = ce_Mounts a @ ce_Mounts b,
                           ce_DeviceNodes = ce_DeviceNodes a @ ce_DeviceNodes b\<rparr>),
     error_text = (\<lambda>e. if is_not_found e then ''not found'' else ''failed''),
     write_spec = (\<lambda>spec n s. (Inr (), s\<lparr>dr_files := AList.update n spec (dr_files s)\<rparr>)),
     remove_spec = (\<lambda>n s. case map_of (dr_files s) n of
         None \<Rightarrow> (Inl NotFoundErr, s)
       | Some _ \<Rightarrow> (Inr (), s\<lparr>dr_files := AList.delete n (dr_files s)\<rparr>)),
     spec_file = (\<lambda>n s. map_of (dr_files s) n)\<rparr>"

definition node_plugin :: "dra_state plugin_env" where
  "node_plugin = \<lparr>
     list_checkpoints = (\<lambda>s. Inr (map fst (dr_checkpoints s))),
     get_checkpoint = (\<lambda>n s. dra_find (dr_checkpoints s) n),
     create_checkpoint = (\<lambda>n cp s. (Inr (), s\<lparr>dr_checkpoints := AList.update n cp (dr_checkpoints s)\<rparr>)),
     mkdir_all = (\<lambda>p s. (Inr (), s)),
     lstat_symlink = (\<lambda>p s. case map_of (dr_links s) p of None \<Rightarrow> Inl NotFoundErr | Some _ \<Rightarrow> Inr True),
     read_link = (\<lambda>p s. dra_find (dr_links s) p),
     remove_file = (\<lambda>p s. (Inr (), s\<lparr>dr_links := AList.delete p (dr_links s)\<rparr>)),
     symlink = (\<lambda>target p s. (Inr (), s\<lparr>dr_links := AList.update p target (dr_links s)\<rparr>)),
     not_exist = is_not_found,
     time_now = (\<lambda>s. 7),
     env_NodeName = ''node1''\<rparr>"

lemma node_cdi_ok: "cdi_ok node_cdi"
  by (auto simp: cdi_ok_def node_cdi_def map_of_update map_of_delete split: option.splits)

lemma node_plugin_ok: "plugin_ok node_cdi node_plugin"
  by (auto simp: plugin_ok_def node_cdi_def node_plugin_def dra_find_def map_of_update split: option.splits)

interpretation node_files: cdi_files node_cdi
  by (rule cdi_files.intro [OF node_cdi_ok])

interpretation node_store: checkpoint_store node_cdi node_plugin
  by (rule checkpoint_store.intro [OF node_files.cdi_files_axioms checkpoint_store_axioms.intro [OF node_plugin_ok]])

section \<open>A claim for GPUs\<close>

text \<open>Configurations that are texts: the default one shares nothing, another is an interval of time slices.\<close>

definition text_configs :: "(string, string, string) config_api" where
  "text_configs = \<lparr>
     decode_config = Inr, default_config = ''default'', as_gpu_config = Some, normalize_config = Inr,
     validate_config = (\<lambda>_. Inr ()), gpu_sharing = (\<lambda>c. if c = ''default'' then None else Some c),
     sharing_strategy = (\<lambda>_. ''TimeSlicing''), is_time_slicing = (\<lambda>h. h \<noteq> None), is_space_partitioning = (\<lambda>_. False),
     time_slice_interval = Inr, partition_count = Inr\<rparr>"

definition g_result :: "string \<Rightarrow> string \<Rightarrow> AllocResult" where
  "g_result request device = \<lparr>ar_Request = request, ar_Driver = GpuDriverName, ar_Pool = ''node1'', ar_Device = device\<rparr>"

definition g_results :: "AllocResult list" where
  "g_results = [g_result ''r1'' ''gpu-0'', g_result ''r2'' ''gpu-1'']"

definition g_configs :: "DeviceConfig list" where
  "g_configs = [\<lparr>dc_Requests = [''r2''], dc_Opaque = Some (GpuDriverName, ''Short'')\<rparr>]"

definition g_claim :: ResourceClaim where
  "g_claim = \<lparr>rc_UID = ''u1'', rc_Namespace = ''ns'', rc_Requests = [Some ''gpu.nvidia.com''], rc_Config = [],
     rc_Allocation = Some (g_configs, g_results)\<rparr>"

definition g_node :: dra_state where
  "g_node = \<lparr>dr_files = [], dr_checkpoints = [], dr_links = []\<rparr>"

abbreviation "g_prepare \<equiv> PrepareGpus node_cdi text_configs id rev [''gpu-0'', ''gpu-1''] g_claim g_node"

lemma g_prepare_Ok: "is_ok (fst g_prepare)"
  by code_simp

lemma g_claim_fields: "rc_UID g_claim = ''u1''" "rc_Allocation g_claim = Some (g_configs, g_results)" "length g_results = 2"
  by (simp_all add: g_claim_def g_results_def)

theorem gpu_claim_prepared_witness:
  "\<exists>spec. spec_file node_cdi (gpu_spec_name node_cdi ''u1'') (snd g_prepare) = Some spec \<and> length (cs_Devices spec) = 2"
proof -
  obtain devices where "g_prepare = (Ok devices, snd g_prepare)"
    using g_prepare_Ok by (metis is_ok_iff prod.collapse)
  from gpu_claim_prepared [OF node_cdi_ok _ _ this] show ?thesis
    unfolding g_claim_fields by (auto simp: g_claim_fields)
qed

definition g_opaque :: "string OpaqueDeviceConfig list" where
  "g_opaque = [\<lparr>oc_Requests = [''r2''], oc_Config = ''Short''\<rparr>]"

theorem gpu_config_precedence_witness:
  "\<exists>devices. prepareDevices node_cdi text_configs id rev [''gpu-0'', ''gpu-1''] g_claim = Ok devices \<and>
    (\<exists>d \<in> set devices. pd_DeviceName d = ''gpu-1'' \<and>
       pd_ContainerEdits d = Some \<lparr>ce_Env = [''GPU_DEVICE_gpu_1=gpu-1'', ''GPU_DEVICE_gpu_1_SHARING_STRATEGY=TimeSlicing'',
         ''GPU_DEVICE_gpu_1_TIMESLICE_INTERVAL=Short''], ce_Mounts = [], ce_DeviceNodes = []\<rparr>)"
proof -
  let ?r = "g_result ''r2'' ''gpu-1''" and ?configs = "\<lparr>oc_Requests = [], oc_Config = default_config text_configs\<rparr> # g_opaque"
  have "is_ok (prepareDevices node_cdi text_configs id rev [''gpu-0'', ''gpu-1''] g_claim)" by code_simp
  then obtain devices where p: "prepareDevices node_cdi text_configs id rev [''gpu-0'', ''gpu-1''] g_claim = Ok devices"
    by (metis is_ok_iff)
  have d: "distinct (map ar_Device g_results)" by code_simp
  have o: "GetOpaqueDeviceConfigs text_configs GpuDriverName g_configs = Ok g_opaque" by code_simp
  have r: "?r \<in> set g_results" by (simp add: g_results_def)
  from gpu_config_precedence [OF _ _ g_claim_fields(2) d o refl p r]
  obtain i c c' envs e where i: "i < length ?configs" "\<forall>j. i < j \<and> j < length ?configs \<longrightarrow> \<not> config_matches (?configs ! j) ?r"
    and c: "as_gpu_config text_configs (oc_Config (?configs ! i)) = Some c" "normalize_config text_configs c = Inr c'"
    and envs: "device_envs text_configs c' ''gpu-1'' = Ok envs"
    and e: "e \<in> set devices" "pd_DeviceName e = ''gpu-1''" "pd_ContainerEdits e = Some \<lparr>ce_Env = envs, ce_Mounts = [], ce_DeviceNodes = []\<rparr>"
    by (auto simp: g_result_def)
  have "config_matches (?configs ! 1) ?r" by code_simp
  with i have "i = 1" by (cases "i = 0") (auto simp: g_opaque_def)
  with c have "c' = ''Short''" by (simp add: text_configs_def g_opaque_def)
  moreover have "device_envs text_configs ''Short'' ''gpu-1'' = Ok [''GPU_DEVICE_gpu_1=gpu-1'',
      ''GPU_DEVICE_gpu_1_SHARING_STRATEGY=TimeSlicing'', ''GPU_DEVICE_gpu_1_TIMESLICE_INTERVAL=Short'']" by code_simp
  ultimately show ?thesis using envs e p by auto
qed

theorem gpu_unprepare_cleans_witness:
  "spec_file node_cdi (gpu_spec_name node_cdi ''u1'') (snd (UnprepareGpus node_cdi ''u1'' (snd g_prepare))) = None"
proof -
  have "fst (UnprepareGpus node_cdi (rc_UID g_claim) (snd g_prepare)) = Ok ()" by code_simp
  then have "UnprepareGpus node_cdi (rc_UID g_claim) (snd g_prepare) =
      (Ok (), snd (UnprepareGpus node_cdi (rc_UID g_claim) (snd g_prepare)))" by (metis prod.collapse)
  from gpu_unprepare_cleans [OF node_cdi_ok prod.collapse [symmetric] this] show ?thesis by (simp add: g_claim_def)
qed

section \<open>A claim for channels\<close>

definition c_parameters :: string where
  "c_parameters = [CHR ''{'', CHR 0x22] @ ''domainID'' @ [CHR 0x22, CHR '':'', CHR 0x22] @ ''d1'' @ [CHR 0x22, CHR ''}'']"

definition c_claim :: "string \<Rightarrow> ResourceClaim" where
  "c_claim uid = \<lparr>rc_UID = uid, rc_Namespace = ''ns1'', rc_Requests = [Some ''compute-domain''],
     rc_Config = [\<lparr>dc_Requests = [], dc_Opaque = Some (ComputeDomainDriverName, c_parameters)\<rparr>], rc_Allocation = None\<rparr>"

definition c_node :: dra_state where
  "c_node = \<lparr>dr_files = [], dr_checkpoints = [(DriverPluginCheckpointFile, newComputeDomainCheckpoint)], dr_links = []\<rparr>"

definition c_prepare :: "string \<Rightarrow> dra_state \<Rightarrow> PreparedDevice list res \<times> dra_state" where
  "c_prepare uid s = PrepareDomain node_cdi node_plugin ''/dev'' [''channel-0'', ''channel-1''] (c_claim uid) s"

definition c_once :: dra_state where
  "c_once = snd (c_prepare ''c1'' c_node)"

lemma c_prepare_Ok: "is_ok (fst (c_prepare ''c1'' c_node))"
  by code_simp

lemma c_stored: "stored node_plugin c_node = Inr newComputeDomainCheckpoint"
  by (simp add: c_node_def node_plugin_def dra_find_def)

lemma c_stored_v1: "ck_V1 newComputeDomainCheckpoint = Some empty_v1" "ck_PreparedClaims empty_v1 (rc_UID (c_claim uid)) = None"
  by (simp_all add: newComputeDomainCheckpoint_def empty_v1_def)

lemma c_node_consistent: "consistent_store node_plugin c_node"
  by (simp add: consistent_store_def c_stored c_stored_v1)

theorem checkpoint_stays_consistent_witness: "consistent_store node_plugin (snd (c_prepare ''c2'' c_once))"
proof -
  have "plugin_run node_cdi node_plugin ''/dev'' [''channel-0'', ''channel-1''] c_node
      (([] @ [PrepareEvent (c_claim ''c1'')]) @ [PrepareEvent (c_claim ''c2'')]) (snd (c_prepare ''c2'' c_once))"
    unfolding c_once_def c_prepare_def
    by (rule plugin_run.prepare [OF plugin_run.prepare [OF plugin_run.start prod.collapse [symmetric]] prod.collapse [symmetric]])
  from checkpoint_stays_consistent [OF node_plugin_ok node_cdi_ok c_node_consistent this] show ?thesis .
qed

theorem prepare_all_or_nothing_witness:
  "\<exists>cp v1. stored node_plugin c_once = Inr cp \<and> ck_V1 cp = Some v1 \<and> ck_PreparedClaims v1 ''c1'' \<noteq> None"
proof -
  have "PrepareDomain node_cdi node_plugin ''/dev'' [''channel-0'', ''channel-1''] (c_claim ''c1'') c_node =
      (fst (c_prepare ''c1'' c_node), c_once)" by (simp add: c_prepare_def c_once_def)
  from prepare_all_or_nothing [OF node_plugin_ok node_cdi_ok this c_stored c_stored_v1] c_prepare_Ok
  show ?thesis by (auto simp: c_claim_def)
qed

theorem domain_prepare_idempotent_witness:
  "fst (c_prepare ''c1'' c_once) = fst (c_prepare ''c1'' c_node) \<and> stored node_plugin (snd (c_prepare ''c1'' c_once)) = stored node_plugin c_once"
proof -
  have "is_ok (fst (c_prepare ''c1'' c_once))" by code_simp
  then obtain ds' where ds': "c_prepare ''c1'' c_once = (Ok ds', snd (c_prepare ''c1'' c_once))" by (metis is_ok_iff prod.collapse)
  obtain ds where ds: "c_prepare ''c1'' c_node = (Ok ds, c_once)"
    using c_prepare_Ok unfolding c_once_def by (metis is_ok_iff prod.collapse)
  from domain_prepare_idempotent [OF node_plugin_ok node_cdi_ok ds [unfolded c_prepare_def] ds' [unfolded c_prepare_def] refl]
  have "ds' = ds" "stored node_plugin (snd (c_prepare ''c1'' c_once)) = stored node_plugin c_once"
    by (simp_all add: c_prepare_def)
  then show ?thesis using ds ds' by (metis fst_conv)
qed

theorem domain_unprepare_undoes_witness:
  "\<exists>cp. stored node_plugin (snd (UnprepareDomain node_cdi node_plugin ''c1'' c_once)) = Inr cp \<and> ck_V1 cp = Some empty_v1"
proof -
  have "fst (UnprepareDomain node_cdi node_plugin (rc_UID (c_claim ''c1'')) c_once) = Ok ()" by code_simp
  then have u: "UnprepareDomain node_cdi node_plugin (rc_UID (c_claim ''c1'')) c_once =
      (Ok (), snd (UnprepareDomain node_cdi node_plugin (rc_UID (c_claim ''c1'')) c_once))" by (metis prod.collapse)
  obtain ds where ds: "c_prepare ''c1'' c_node = (Ok ds, c_once)"
    using c_prepare_Ok unfolding c_once_def by (metis is_ok_iff prod.collapse)
  from domain_unprepare_undoes [OF node_plugin_ok node_cdi_ok c_stored c_stored_v1(1) empty_consistent c_stored_v1(2)
      ds [unfolded c_prepare_def] u]
  show ?thesis by (simp add: c_claim_def)
qed

text \<open>The template of a domain that asks for all channels\<close>

definition c_domain :: ComputeDomain where
  "c_domain = \<lparr>dm_Name = ''cd1'', dm_Namespace = ''ns1'', dm_UID = ''d1'', dm_Finalizers = [], dm_Deleting = False, dm_NumNodes = 1,
     dm_Channel = Some \<lparr>ch_TemplateName = ''t1'', ch_AllocationMode = ''All''\<rparr>, dm_Status = \<lparr>sn_Status = [], sn_Nodes = []\<rparr>\<rparr>"

definition c_template :: ResourceClaimTemplate where
  "c_template = new_template c_domain ''t1'' ComputeDomainWorkloadDeviceClass ''workload''"

definition c_made :: ResourceClaim where
  "c_made = (c_claim ''c1'')\<lparr>rc_Config := [\<lparr>dc_Requests = [], dc_Opaque = Some (rt_Driver c_template, rt_Parameters c_template)\<rparr>]\<rparr>"

theorem template_reaches_plugin_witness:
  "\<exists>ds cp v1. PrepareDomain node_cdi node_plugin ''/dev'' [''channel-0'', ''channel-1''] c_made c_node =
      (Ok ds, snd (PrepareDomain node_cdi node_plugin ''/dev'' [''channel-0'', ''channel-1''] c_made c_node)) \<and>
    map pd_DeviceName ds = [''channel-0'', ''channel-1''] \<and>
    stored node_plugin (snd (PrepareDomain node_cdi node_plugin ''/dev'' [''channel-0'', ''channel-1''] c_made c_node)) = Inr cp \<and>
    ck_V1 cp = Some v1 \<and> holds_claim (ck_Domains v1) ''d1'' ''c1''"
proof -
  let ?r = "PrepareDomain node_cdi node_plugin ''/dev'' [''channel-0'', ''channel-1''] c_made c_node"
  have plain: "plain (dm_UID c_domain)" "plain (getAllocationMode c_domain)" by code_simp+
  have "is_ok (fst ?r)" by code_simp
  then obtain ds where ds: "?r = (Ok ds, snd ?r)" by (metis is_ok_iff prod.collapse)
  have made: "rc_Config c_made = [\<lparr>dc_Requests = [], dc_Opaque = Some (rt_Driver c_template, rt_Parameters c_template)\<rparr>]"
    and uid: "rc_UID c_made = ''c1''" by (simp_all add: c_made_def c_claim_def)
  have new: "ck_PreparedClaims empty_v1 (rc_UID c_made) = None" by (simp add: empty_v1_def)
  note reached = template_reaches_plugin [OF plain c_template_def made node_plugin_ok node_cdi_ok c_stored c_stored_v1(1) empty_consistent new ds]
  have "getAllocationMode c_domain = ''All''" and "dm_UID c_domain = ''d1''" by (simp_all add: c_domain_def getAllocationMode_def)
  with reached have "map pd_DeviceName ds = [''channel-0'', ''channel-1'']" by simp
  moreover obtain cp v1 where "stored node_plugin (snd ?r) = Inr cp" "ck_V1 cp = Some v1" "holds_claim (ck_Domains v1) ''d1'' ''c1''"
    using reached uid \<open>dm_UID c_domain = ''d1''\<close> by metis
  ultimately show ?thesis using ds by (intro exI [of _ ds] exI [of _ cp] exI [of _ v1] conjI)
qed

end
