(* ===== verification/MigFaker.thy ===== *)
theory MigFaker
  imports LabelsExport GoJson "HOL-Library.AList" "HOL-Library.List_Lexorder" "HOL-Library.Char_ord"
begin

text \<open>
  \<^verbatim>\<open>internal/migfaker\<close>: a node's annotation asks for a partition of its GPUs, and the faker answers with a
  label and an annotation that pretends the partition was made.  The annotation's value passes from the informer to
  the worker through a variable with a condition, \<^verbatim>\<open>SyncableMigConfig\<close>.
\<close>

section \<open>Configurations and mappings\<close>

record MigDevice =
  md_Name :: string
  md_Position :: int
  md_Size :: int

record SelectedDevices =
  sd_Devices :: "string list"
  sd_MigEnabled :: bool
  sd_MigDevices :: "MigDevice list"

record MigConfigs =
  mc_SelectedDevices :: "SelectedDevices list"

record MigDeviceMappingInfo =
  mi_Position :: int
  mi_DeviceUUID :: string
  mi_GpuInstanceId :: int

text \<open>\<^verbatim>\<open>MigMapping\<close>, a map, by its entries, the last of which counts for an index\<close>

type_synonym MigMapping = "(int \<times> MigDeviceMappingInfo list) list"

definition AnnotationMigMapping :: string where "AnnotationMigMapping = ''run.ai/mig-mapping''"
definition LabelGpuProduct :: string where "LabelGpuProduct = ''nvidia.com/gpu.product''"
definition LabelMigConfigState :: string where "LabelMigConfigState = ''nvidia.com/mig.config.state''"
definition MigConfigAnnotation :: string where "MigConfigAnnotation = ''run.ai/mig.config''"

definition migInstanceNameToGpuInstanceId :: "string \<Rightarrow> string \<Rightarrow> int res" where
  "migInstanceNameToGpuInstanceId gpuProduct migInstanceName =
     (if str_contains gpuProduct ''40GB''
      then (case [''1g.5gb'' \<mapsto> 19, ''1g.5gb+me'' \<mapsto> 20, ''1g.10gb'' \<mapsto> 15, ''2g.10gb'' \<mapsto> 14, ''3g.20gb'' \<mapsto> 9,
                  ''4g.20gb'' \<mapsto> 5, ''7g.40gb'' \<mapsto> 0] migInstanceName of
              None \<Rightarrow> Err (Msg ''failed mapping mig instance name to gpu instance id'')
            | Some i \<Rightarrow> Ok i)
      else if str_contains gpuProduct ''80GB''
      then (case [''1g.10gb'' \<mapsto> 19, ''1g.10gb+me'' \<mapsto> 20, ''1g.20gb'' \<mapsto> 15, ''2g.20gb'' \<mapsto> 14, ''3g.40gb'' \<mapsto> 9,
                  ''4g.40gb'' \<mapsto> 5, ''7g.80gb'' \<mapsto> 0] migInstanceName of
              None \<Rightarrow> Err (Msg ''failed mapping mig instance name to gpu instance id'')
            | Some i \<Rightarrow> Ok i)
      else Err (Msg ''gpuProduct not supported''))"

definition getGpuProduct :: "('s, 'q, 'y) kube_env \<Rightarrow> 's \<Rightarrow> string res" where
  "getGpuProduct K s =
     rbind (wrap_err ''failed to get node labels'' (GetNodeLabels K s)) (\<lambda>labels.
       Ok (case labels LabelGpuProduct of None \<Rightarrow> [] | Some p \<Rightarrow> p))"

text \<open>\<open>uuid\<close> is the sequence that \<^verbatim>\<open>GenerateUuid\<close> draws, of which \<open>k\<close> were drawn before.\<close>

fun mig_devices :: "(nat \<Rightarrow> string) \<Rightarrow> string \<Rightarrow> nat \<Rightarrow> MigDevice list \<Rightarrow> MigDeviceMappingInfo list res" where
  "mig_devices uuid gpuProduct k [] = Ok []"
| "mig_devices uuid gpuProduct k (d # ds) =
     rbind (wrap_err ''failed to get gpu instance id'' (migInstanceNameToGpuInstanceId gpuProduct (md_Name d))) (\<lambda>i.
     rbind (mig_devices uuid gpuProduct (Suc k) ds) (\<lambda>rest.
       Ok (\<lparr>mi_Position = md_Position d, mi_DeviceUUID = ''MIG-'' @ uuid k, mi_GpuInstanceId = i\<rparr> # rest)))"

definition getGpuMigDeviceMappingInfo ::
    "('s, 'q, 'y) kube_env \<Rightarrow> (nat \<Rightarrow> string) \<Rightarrow> nat \<Rightarrow> SelectedDevices \<Rightarrow> 's \<Rightarrow> MigDeviceMappingInfo list res" where
  "getGpuMigDeviceMappingInfo K uuid k devices s =
     rbind (wrap_err ''failed to get gpu product'' (getGpuProduct K s)) (\<lambda>gpuProduct.
       mig_devices uuid gpuProduct k (sd_MigDevices devices))"

fun mig_mappings ::
    "('s, 'q, 'y) kube_env \<Rightarrow> (nat \<Rightarrow> string) \<Rightarrow> nat \<Rightarrow> SelectedDevices list \<Rightarrow> MigMapping \<Rightarrow> 's \<Rightarrow> MigMapping res" where
  "mig_mappings K uuid k [] m s = Ok m"
| "mig_mappings K uuid k (sel # sels) m s =
     (case sd_Devices sel of
        [] \<Rightarrow> mig_mappings K uuid k sels m s
      | dev # _ \<Rightarrow>
          (case atoi dev of
             None \<Rightarrow> Err (Msg ''failed to parse gpu index'')
           | Some gpuIdx \<Rightarrow>
               rbind (wrap_err ''failed to get gpu mig device mapping info'' (getGpuMigDeviceMappingInfo K uuid k sel s)) (\<lambda>infos.
                 mig_mappings K uuid (k + length infos) sels (AList.update gpuIdx infos m) s)))"

section \<open>The annotation\<close>

text \<open>
  \<^verbatim>\<open>json.Marshal\<close> of a mapping: the keys are sorted as strings; the identifiers are hexadecimal and need no
  escape.
\<close>

definition json_info :: "MigDeviceMappingInfo \<Rightarrow> string" where
  "json_info i =
     [CHR ''{'', CHR 0x22] @ ''position'' @ [CHR 0x22, CHR '':''] @ itoa (mi_Position i) @
     [CHR '','', CHR 0x22] @ ''device_uuid'' @ [CHR 0x22, CHR '':'', CHR 0x22] @ mi_DeviceUUID i @ [CHR 0x22] @
     [CHR '','', CHR 0x22] @ ''gpu_instance_id'' @ [CHR 0x22, CHR '':''] @ itoa (mi_GpuInstanceId i) @ ''}''"

definition json_entry :: "int \<times> MigDeviceMappingInfo list \<Rightarrow> string" where
  "json_entry e = [CHR 0x22] @ itoa (fst e) @ [CHR 0x22] @ '':['' @ str_join '','' (map json_info (snd e)) @ '']''"

definition marshal_mapping :: "MigMapping \<Rightarrow> string" where
  "marshal_mapping m = ''{'' @ str_join '','' (map json_entry (sort_key (\<lambda>e. itoa (fst e)) m)) @ ''}''"

text \<open>\<^verbatim>\<open>base64.StdEncoding\<close>\<close>

definition base64_char :: "nat \<Rightarrow> char" where
  "base64_char n =
     (if n < 26 then char_of (65 + n)
      else if n < 52 then char_of (97 + (n - 26))
      else if n < 62 then char_of (48 + (n - 52))
      else if n = 62 then CHR ''+'' else CHR ''/'')"

fun base64_encode :: "string \<Rightarrow> string" where
  "base64_encode [] = []"
| "base64_encode [a] =
     (let n = of_char a :: nat in [base64_char (n div 4), base64_char (n mod 4 * 16), CHR ''='', CHR ''=''])"
| "base64_encode [a, b] =
     (let n = of_char a :: nat; m = of_char b :: nat
      in [base64_char (n div 4), base64_char (n mod 4 * 16 + m div 16), base64_char (m mod 16 * 4), CHR ''=''])"
| "base64_encode (a # b # c # rest) =
     (let n = of_char a :: nat; m = of_char b :: nat; l = of_char c :: nat
      in [base64_char (n div 4), base64_char (n mod 4 * 16 + m div 16), base64_char (m mod 16 * 4 + l div 64),
          base64_char (l mod 64)] @ base64_encode rest)"

definition FakeMapping :: "('s, 'q, 'y) kube_env \<Rightarrow> (nat \<Rightarrow> string) \<Rightarrow> MigConfigs \<Rightarrow> 's \<Rightarrow> unit res \<times> 's" where
  "FakeMapping K uuid config s =
     sbind (mig_mappings K uuid 0 (mc_SelectedDevices config) [] s, s) (\<lambda>mappings s.
     sbind (SetNodeLabels K [(LabelMigConfigState, ''success'')] s) (\<lambda>_ s.
       SetNodeAnnotations K [(AnnotationMigMapping, base64_encode (marshal_mapping mappings))] s))"

section \<open>The shared variable\<close>

text \<open>
  The reader is the one worker: outside \<^verbatim>\<open>Get\<close>, waiting for the condition, or woken and about to take the
  mutex again.  Each operation runs under the mutex, but for the wait.
\<close>

datatype reader = Idle | Waiting | Woken

record SyncableMigConfig =
  sy_current :: string
  sy_lastRead :: string
  sy_reader :: reader

definition NewSyncableMigConfig :: SyncableMigConfig where
  "NewSyncableMigConfig = \<lparr>sy_current = [], sy_lastRead = [], sy_reader = Idle\<rparr>"

definition Set_config :: "string \<Rightarrow> SyncableMigConfig \<Rightarrow> SyncableMigConfig" where
  "Set_config value m =
     (let m = m\<lparr>sy_current := value\<rparr>
      in if sy_current m \<noteq> [] \<and> sy_reader m = Waiting then m\<lparr>sy_reader := Woken\<rparr> else m)"

text \<open>A step of the reader: \<open>None\<close> while it must wait, otherwise what \<^verbatim>\<open>Get\<close> returns, if it does\<close>

definition Get_step :: "SyncableMigConfig \<Rightarrow> (string option \<times> SyncableMigConfig) option" where
  "Get_step m =
     (case sy_reader m of
        Waiting \<Rightarrow> None
      | Idle \<Rightarrow>
          if sy_lastRead m = sy_current m then Some (None, m\<lparr>sy_reader := Waiting\<rparr>)
          else Some (Some (sy_current m), m\<lparr>sy_lastRead := sy_current m\<rparr>)
      | Woken \<Rightarrow> Some (Some (sy_current m), m\<lparr>sy_lastRead := sy_current m, sy_reader := Idle\<rparr>))"

definition annotation_value :: "(string \<rightharpoonup> string) \<Rightarrow> string" where
  "annotation_value annotations = (case annotations MigConfigAnnotation of None \<Rightarrow> [] | Some v \<Rightarrow> v)"

text \<open>\<^verbatim>\<open>ContinuouslySyncMigConfigChanges\<close>: the node as the informer first sees it, and its updates\<close>

definition on_add :: "'q Node \<Rightarrow> SyncableMigConfig \<Rightarrow> SyncableMigConfig" where
  "on_add node m = Set_config (annotation_value (n_Annotations node)) m"

definition on_update :: "'q Node \<Rightarrow> 'q Node \<Rightarrow> SyncableMigConfig \<Rightarrow> SyncableMigConfig" where
  "on_update old new m =
     (if annotation_value (n_Annotations old) \<noteq> annotation_value (n_Annotations new)
      then Set_config (annotation_value (n_Annotations new)) m else m)"

text \<open>\<^verbatim>\<open>Run\<close>: what the worker does with a value; it logs success also after a failure.\<close>

definition apply_config ::
    "('s, 'q, 'y) kube_env \<Rightarrow> (string \<Rightarrow> gerror + MigConfigs) \<Rightarrow> (nat \<Rightarrow> string) \<Rightarrow> string \<Rightarrow> 's \<Rightarrow> unit res \<times> 's" where
  "apply_config K unmarshal uuid value s =
     (case unmarshal value of
        Inl e \<Rightarrow> (Ok (), s)
      | Inr config \<Rightarrow> (case FakeMapping K uuid config s of (Panic p, s') \<Rightarrow> (Panic p, s') | (r, s') \<Rightarrow> (Ok (), s')))"

end
