(* ===== verification/MigProps.thy ===== *)
theory MigProps
  imports MigFaker
begin

text \<open>
  What the MIG faker promises: the worker ends with the last configuration that the node's annotation asked for, the
  mapping it writes reads back as the partition that was asked for, and a partition that the product does not have
  writes nothing.
\<close>

section \<open>The informer and the worker\<close>

text \<open>
  An event is a version of the node that the informer observes, or a moment at which the worker is scheduled; the
  handlers compare a version with the one before.
\<close>

datatype 'q mig_event = Observe "'q Node" | Read

type_synonym 'q mig_state = "'q Node option \<times> SyncableMigConfig"

definition observe :: "'q Node \<Rightarrow> 'q mig_state \<Rightarrow> 'q mig_state" where
  "observe node st =
     (Some node, case fst st of None \<Rightarrow> on_add node (snd st) | Some old \<Rightarrow> on_update old node (snd st))"

definition worker :: "'q mig_state \<Rightarrow> string list \<times> 'q mig_state" where
  "worker st =
     (case Get_step (snd st) of
        None \<Rightarrow> ([], st)
      | Some (v, m) \<Rightarrow> (case v of None \<Rightarrow> [] | Some value \<Rightarrow> [value], fst st, m))"

fun mig_run :: "'q mig_event list \<Rightarrow> 'q mig_state \<Rightarrow> string list \<times> 'q mig_state" where
  "mig_run [] st = ([], st)"
| "mig_run (Observe node # es) st = mig_run es (observe node st)"
| "mig_run (Read # es) st = (let (vs, st) = worker st; (vs', st) = mig_run es st in (vs @ vs', st))"

definition mig_start :: "'q mig_state" where
  "mig_start = (None, NewSyncableMigConfig)"

text \<open>
  Of the values \<open>vs\<close> returned so far: the variable holds the annotation of the last version, and a worker that
  waits has nothing to read.
\<close>

definition mig_ok :: "string list \<Rightarrow> 'q mig_state \<Rightarrow> bool" where
  "mig_ok vs st \<longleftrightarrow>
     sy_lastRead (snd st) = (if vs = [] then [] else last vs) \<and>
     sy_current (snd st) = (case fst st of None \<Rightarrow> [] | Some node \<Rightarrow> annotation_value (n_Annotations node)) \<and>
     (sy_reader (snd st) = Waiting \<longrightarrow> sy_current (snd st) = sy_lastRead (snd st) \<or> sy_current (snd st) = [])"

lemma mig_ok_start: "mig_ok [] mig_start"
  by (simp add: mig_ok_def mig_start_def NewSyncableMigConfig_def)

lemma mig_ok_observe: "mig_ok vs st \<Longrightarrow> mig_ok vs (observe node st)"
  by (auto simp: mig_ok_def observe_def on_add_def on_update_def Set_config_def Let_def split: option.splits)

lemma mig_ok_worker: "mig_ok vs st \<Longrightarrow> worker st = (ws, st') \<Longrightarrow> mig_ok (vs @ ws) st'"
  by (auto simp: mig_ok_def worker_def Get_step_def split: option.splits reader.splits if_splits)

lemma mig_ok_run: "mig_ok vs st \<Longrightarrow> mig_run es st = (ws, st') \<Longrightarrow> mig_ok (vs @ ws) st'"
proof (induction es st arbitrary: vs ws rule: mig_run.induct)
  case (2 node es st)
  show ?case using 2(1) [OF mig_ok_observe [OF 2(2)]] 2(3) by simp
next
  case (3 es st)
  obtain ws1 st1 where w: "worker st = (ws1, st1)" by (rule prod.exhaust)
  obtain ws2 where r: "mig_run es st1 = (ws2, st')" "ws = ws1 @ ws2" using 3(3) w by (cases "mig_run es st1") auto
  show ?case using 3(1) [OF refl w [symmetric] mig_ok_worker [OF 3(2) w] r(1)] r(2) by simp
qed simp

lemma mig_run_append:
  "mig_run (es @ fs) st = (let (vs, st) = mig_run es st; (ws, st) = mig_run fs st in (vs @ ws, st))"
proof (induction es st rule: mig_run.induct)
  case (3 es st)
  show ?case using 3 [OF refl prod.collapse] by (simp add: split_def Let_def)
qed (simp_all add: split_def Let_def)

text \<open>A worker that is scheduled has read the annotation, or reads it\<close>

lemma worker_reads:
  assumes "mig_ok vs st" and "worker st = (ws, st')" and "sy_current (snd st) \<noteq> []"
  shows "vs @ ws \<noteq> [] \<and> last (vs @ ws) = sy_current (snd st) \<and> fst st' = fst st"
  using assms by (auto simp: mig_ok_def worker_def Get_step_def split: option.splits reader.splits if_splits)

text \<open>
  C32. However the informer's versions of the node and the worker's steps are interleaved, once the worker is
  scheduled after the last version, the last configuration it has got is the one that version asks for, if it asks
  for one.
\<close>

theorem worker_catches_up:
  assumes "annotation_value (n_Annotations node) \<noteq> []"
    and "mig_run (es @ Observe node # replicate (Suc n) Read) mig_start = (vs, st)"
  shows "vs \<noteq> [] \<and> last vs = annotation_value (n_Annotations node) \<and> fst st = Some node"
proof -
  obtain vs0 st0 where r: "mig_run es mig_start = (vs0, st0)" by (rule prod.exhaust)
  have ok: "mig_ok vs0 (observe node st0)" using mig_ok_observe mig_ok_run [OF mig_ok_start r] by simp
  have reads: "ws0 @ ws \<noteq> [] \<and> last (ws0 @ ws) = annotation_value (n_Annotations node) \<and> fst st' = Some node"
    if "mig_ok ws0 st1" and "fst st1 = Some node" and "mig_run (replicate (Suc k) Read) st1 = (ws, st')" for ws0 st1 k ws st'
    using that
  proof (induction k arbitrary: ws0 st1 ws)
    case 0
    then have "worker st1 = (ws, st')" by (simp add: split_def Let_def)
    moreover have "sy_current (snd st1) = annotation_value (n_Annotations node)" using 0 by (simp add: mig_ok_def)
    ultimately show ?case using worker_reads [OF 0(1)] assms(1) 0(2) by metis
  next
    case (Suc k)
    obtain ws1 st2 where w: "worker st1 = (ws1, st2)" by (rule prod.exhaust)
    obtain ws2 where r2: "mig_run (replicate (Suc k) Read) st2 = (ws2, st')" "ws = ws1 @ ws2"
      using Suc.prems(3) w by (auto simp: split_def Let_def)
    have "fst st2 = fst st1" using w by (auto simp: worker_def split: option.splits prod.splits)
    with Suc.IH [OF mig_ok_worker [OF Suc.prems(1) w] _ r2(1)] Suc.prems(2) r2(2) show ?case by simp
  qed
  obtain ws where "vs = vs0 @ ws" "mig_run (replicate (Suc n) Read) (observe node st0) = (ws, st)"
    using assms(2) r by (auto simp: mig_run_append split_def Let_def)
  with reads [OF ok] show ?thesis by (simp add: observe_def)
qed

section \<open>Reading the annotation\<close>

text \<open>The inverse of \<^verbatim>\<open>base64.StdEncoding\<close>, and of the encoding of a mapping\<close>

definition base64_digit :: "char \<Rightarrow> nat" where
  "base64_digit c =
     (let n = of_char c :: nat
      in if 65 \<le> n \<and> n \<le> 90 then n - 65 else if 97 \<le> n \<and> n \<le> 122 then n - 71
         else if 48 \<le> n \<and> n \<le> 57 then n + 4 else if c = CHR ''+'' then 62 else 63)"

fun base64_decode :: "string \<Rightarrow> string" where
  "base64_decode (a # b # c # d # rest) =
     (let p = base64_digit a; q = base64_digit b; r = base64_digit c; t = base64_digit d
      in if c = CHR ''='' then [char_of (p * 4 + q div 16)]
         else if d = CHR ''='' then [char_of (p * 4 + q div 16), char_of (q mod 16 * 16 + r div 4)]
         else char_of (p * 4 + q div 16) # char_of (q mod 16 * 16 + r div 4) # char_of (r mod 4 * 64 + t) #
              base64_decode rest)"
| "base64_decode _ = []"

lemma base64_digit_char [simp]: "n < 64 \<Longrightarrow> base64_digit (base64_char n) = n"
  by (auto simp: base64_digit_def base64_char_def Let_def)

lemma base64_char_ne [simp]: "n < 64 \<Longrightarrow> base64_char n \<noteq> CHR ''=''"
proof
  assume lt: "n < 64" and eq: "base64_char n = CHR ''=''"
  have "base64_digit (CHR ''='') = 63" by code_simp
  with base64_digit_char [OF lt] eq have "n = 63" by simp
  with eq show False by (simp add: base64_char_def)
qed

lemma sextets [simp]:
  fixes n :: nat and c :: char
  shows "(of_char c :: nat) div 4 < 64" "(of_char c :: nat) div 16 < 16" "(of_char c :: nat) div 64 < 4"
    "(of_char c :: nat) div 16 div 16 = 0" "(of_char c :: nat) div 64 div 4 = 0"
    "(of_char c :: nat) div 16 mod 16 = of_char c div 16" "(of_char c :: nat) div 64 mod 4 = of_char c div 64"
    "n mod 64 < 64" "n mod 4 * 16 < 64" "n mod 16 * 4 < 64"
    "n mod 4 * 16 + of_char c div 16 < 64" "n mod 16 * 4 + of_char c div 64 < 64"
proof -
  have 1: "(of_char c :: nat) < 256" by simp
  then show "(of_char c :: nat) div 4 < 64" and 2: "(of_char c :: nat) div 16 < 16" and 3: "(of_char c :: nat) div 64 < 4"
    by linarith+
  from 2 3 show "(of_char c :: nat) div 16 div 16 = 0" "(of_char c :: nat) div 64 div 4 = 0"
    "(of_char c :: nat) div 16 mod 16 = of_char c div 16" "(of_char c :: nat) div 64 mod 4 = of_char c div 64"
    by simp_all
  have m: "n mod 4 < 4" "n mod 16 < 16" by simp_all
  with 2 3 show "n mod 4 * 16 + of_char c div 16 < 64" "n mod 16 * 4 + of_char c div 64 < 64" by linarith+
  from m show "n mod 64 < 64" "n mod 4 * 16 < 64" "n mod 16 * 4 < 64" by simp_all
qed

lemma base64_decode_encode: "base64_decode (base64_encode s) = s"
  by (induction s rule: base64_encode.induct) (simp_all add: Let_def)

text \<open>The values a mapping is written as\<close>

definition info_json :: "MigDeviceMappingInfo \<Rightarrow> json" where
  "info_json i = JObject [(''position'', JNumber (itoa (mi_Position i))), (''device_uuid'', JString (mi_DeviceUUID i)),
     (''gpu_instance_id'', JNumber (itoa (mi_GpuInstanceId i)))]"

definition entry_json :: "int \<times> MigDeviceMappingInfo list \<Rightarrow> string \<times> json" where
  "entry_json e = (itoa (fst e), JArray (map info_json (snd e)))"

lemma value_number:
  assumes "c = CHR '','' \<or> c = CHR ''}''"
  shows "json_value (itoa i @ c # rest) = Some (JNumber (itoa i), c # rest)"
proof -
  obtain d ds where d: "itoa i = d # ds" "is_digit d \<or> d = CHR ''-''"
    using itoa_nat_hd [of "nat i"] by (cases "i < 0") (auto simp: itoa_def)
  have "d \<noteq> x" "x \<noteq> d" if "x \<in> {CHR '' '', CHR 0x09, CHR 0x0A, CHR 0x0D, CHR ''{'', CHR ''['', CHR 0x22, CHR ''t'', CHR ''f'', CHR ''n''}" for x
    using d(2) that by (auto simp: is_digit_def)
  then have "json_value (d # ds @ c # rest) = map_option (apfst JNumber) (scan_number (d # ds @ c # rest))"
    by (subst json_value.simps) simp
  with scan_itoa [OF assms, of i rest] d(1) show ?thesis by simp
qed

lemma members_more:
  assumes "plain k" and "w \<noteq> []" and "json_value (w @ CHR '','' # rest) = Some (v, CHR '','' # rest)"
  shows "json_members (CHR 0x22 # k @ CHR 0x22 # CHR '':'' # w @ CHR '','' # rest) =
    map_option (apfst (Cons (k, v))) (json_members rest)"
  using assms by (subst json_members.simps) (simp add: scan_plain)

lemma members_end:
  assumes "plain k" and "w \<noteq> []" and "json_value (w @ CHR ''}'' # rest) = Some (v, CHR ''}'' # rest)"
  shows "json_members (CHR 0x22 # k @ CHR 0x22 # CHR '':'' # w @ CHR ''}'' # rest) = Some ([(k, v)], rest)"
  using assms by (subst json_members.simps) (simp add: scan_plain)

lemma value_quoted: "plain u \<Longrightarrow> json_value (CHR 0x22 # u @ CHR 0x22 # rest) = Some (JString u, rest)"
  by (simp add: json_value.simps scan_plain)

lemma itoa_ne [simp]: "itoa i \<noteq> []"
  by (simp add: itoa_def)

lemma value_info:
  assumes "plain (mi_DeviceUUID i)"
  shows "json_value (json_info i @ rest) = Some (info_json i, rest)"
proof -
  have plain: "plain ''position''" "plain ''device_uuid''" "plain ''gpu_instance_id''" by code_simp+
  let ?last = "CHR 0x22 # ''gpu_instance_id'' @ CHR 0x22 # CHR '':'' # itoa (mi_GpuInstanceId i) @ CHR ''}'' # rest"
  let ?mid = "CHR 0x22 # ''device_uuid'' @ CHR 0x22 # CHR '':'' # (CHR 0x22 # mi_DeviceUUID i @ [CHR 0x22]) @ CHR '','' # ?last"
  let ?all = "CHR 0x22 # ''position'' @ CHR 0x22 # CHR '':'' # itoa (mi_Position i) @ CHR '','' # ?mid"
  have "json_members ?last = Some ([(''gpu_instance_id'', JNumber (itoa (mi_GpuInstanceId i)))], rest)"
    by (rule members_end [OF plain(3)]) (simp_all add: value_number)
  moreover have "json_members ?mid = map_option (apfst (Cons (''device_uuid'', JString (mi_DeviceUUID i)))) (json_members ?last)"
    by (rule members_more [OF plain(2)]) (simp_all add: value_quoted [OF assms])
  moreover have "json_members ?all = map_option (apfst (Cons (''position'', JNumber (itoa (mi_Position i))))) (json_members ?mid)"
    by (rule members_more [OF plain(1)]) (simp_all add: value_number)
  ultimately have "json_members ?all = Some ([(''position'', JNumber (itoa (mi_Position i))),
      (''device_uuid'', JString (mi_DeviceUUID i)), (''gpu_instance_id'', JNumber (itoa (mi_GpuInstanceId i)))], rest)"
    by simp
  moreover have "json_info i @ rest = CHR ''{'' # ?all" by (simp add: json_info_def)
  ultimately show ?thesis by (subst json_value.simps) (simp add: info_json_def)
qed

lemma json_info_cons: "json_info i \<noteq> []" "json_info i @ s = CHR ''{'' # tl (json_info i) @ s"
  by (simp_all add: json_info_def)

lemma elements_infos:
  assumes "list_all (\<lambda>i. plain (mi_DeviceUUID i)) infos" and "infos \<noteq> []"
  shows "json_elements (str_join '','' (map json_info infos) @ CHR '']'' # rest) = Some (map info_json infos, rest)"
  using assms
proof (induction infos rule: induct_list012)
  case (2 i)
  then show ?case by (subst json_elements.simps) (simp add: value_info json_info_cons(1))
next
  case (3 i j js)
  let ?rest = "str_join '','' (map json_info (j # js)) @ CHR '']'' # rest"
  have "json_elements (json_info i @ CHR '','' # ?rest) = map_option (apfst (Cons (info_json i))) (json_elements ?rest)"
    using 3(3) by (subst json_elements.simps) (simp add: value_info json_info_cons(1))
  with 3 show ?case by simp
qed simp

lemma value_infos:
  assumes "list_all (\<lambda>i. plain (mi_DeviceUUID i)) infos"
  shows "json_value (CHR ''['' # str_join '','' (map json_info infos) @ CHR '']'' # rest) =
    Some (JArray (map info_json infos), rest)"
proof (cases "infos")
  case Nil
  then show ?thesis by (simp add: json_value.simps)
next
  case (Cons i js)
  have "str_join '','' (map json_info infos) = CHR ''{'' # tl (str_join '','' (map json_info infos))"
    unfolding Cons by (cases js) (simp_all add: json_info_def)
  then obtain t where t: "str_join '','' (map json_info infos) = CHR ''{'' # t" by blast
  with elements_infos [OF assms, of rest] Cons show ?thesis by (subst json_value.simps) (simp add: t)
qed

lemma entry_text:
  "json_entry e @ rest =
    CHR 0x22 # itoa (fst e) @ CHR 0x22 # CHR '':'' # (CHR ''['' # str_join '','' (map json_info (snd e)) @ '']'') @ rest"
  by (simp add: json_entry_def)

definition plain_entry :: "int \<times> MigDeviceMappingInfo list \<Rightarrow> bool" where
  "plain_entry e \<longleftrightarrow> list_all (\<lambda>i. plain (mi_DeviceUUID i)) (snd e)"

lemma plain_itoa: "plain (itoa i)"
proof -
  have "plain s" if "list_all is_digit s" for s
    using that by (auto simp: plain_def list_all_iff is_digit_def)
  then show ?thesis by (simp add: itoa_def) (simp add: plain_def)
qed

lemma members_entries:
  assumes "list_all plain_entry es" and "es \<noteq> []"
  shows "json_members (str_join '','' (map json_entry es) @ CHR ''}'' # rest) = Some (map entry_json es, rest)"
  using assms
proof (induction es rule: induct_list012)
  case (2 e)
  then have "list_all (\<lambda>i. plain (mi_DeviceUUID i)) (snd e)" by (simp add: plain_entry_def)
  then show ?case
    unfolding str_join.simps list.map entry_text
    by (subst members_end [OF plain_itoa]) (simp_all add: value_infos entry_json_def)
next
  case (3 e f es)
  let ?rest = "str_join '','' (map json_entry (f # es)) @ CHR ''}'' # rest"
  have e: "list_all (\<lambda>i. plain (mi_DeviceUUID i)) (snd e)" using 3(3) by (simp add: plain_entry_def)
  have "json_members (json_entry e @ CHR '','' # ?rest) = map_option (apfst (Cons (entry_json e))) (json_members ?rest)"
    unfolding entry_text by (subst members_more [OF plain_itoa]) (simp_all add: value_infos [OF e] entry_json_def)
  with 3 show ?case by simp
qed simp

lemma value_mapping:
  assumes "list_all plain_entry m"
  shows "json_value (marshal_mapping m) = Some (JObject (map entry_json (sort_key (\<lambda>e. itoa (fst e)) m)), [])"
proof -
  let ?es = "sort_key (\<lambda>e. itoa (fst e)) m"
  have p: "list_all plain_entry ?es" using assms by (simp add: list_all_iff)
  show ?thesis
  proof (cases ?es)
    case Nil
    then show ?thesis by (simp add: marshal_mapping_def json_value.simps)
  next
    case (Cons e es)
    have "str_join '','' (map json_entry ?es) = CHR 0x22 # tl (str_join '','' (map json_entry ?es))"
      unfolding Cons by (cases es) (simp_all add: json_entry_def)
    then obtain t where t: "str_join '','' (map json_entry ?es) = CHR 0x22 # t" by blast
    with members_entries [OF p, of "[]"] Cons show ?thesis
      unfolding marshal_mapping_def by (subst json_value.simps) (simp add: t)
  qed
qed

text \<open>The reader of the annotation\<close>

definition json_int :: "json option \<Rightarrow> int option" where
  "json_int v = (case v of Some (JNumber n) \<Rightarrow> atoi n | _ \<Rightarrow> None)"

definition decode_info :: "json \<Rightarrow> MigDeviceMappingInfo option" where
  "decode_info v =
     (case v of
        JObject ms \<Rightarrow>
          (case (json_int (map_of ms ''position''), map_of ms ''device_uuid'', json_int (map_of ms ''gpu_instance_id'')) of
             (Some p, Some (JString u), Some g) \<Rightarrow> Some \<lparr>mi_Position = p, mi_DeviceUUID = u, mi_GpuInstanceId = g\<rparr>
           | _ \<Rightarrow> None)
      | _ \<Rightarrow> None)"

definition decode_entry :: "string \<times> json \<Rightarrow> (int \<times> MigDeviceMappingInfo list) option" where
  "decode_entry e =
     (case e of
        (k, JArray vs) \<Rightarrow>
          (case (atoi k, those (map decode_info vs)) of (Some i, Some infos) \<Rightarrow> Some (i, infos) | _ \<Rightarrow> None)
      | _ \<Rightarrow> None)"

definition decode_mapping :: "string \<Rightarrow> (int \<rightharpoonup> MigDeviceMappingInfo list) option" where
  "decode_mapping t =
     (case json_value (base64_decode t) of
        Some (JObject ms, []) \<Rightarrow> map_option map_of (those (map decode_entry ms))
      | _ \<Rightarrow> None)"

definition info_ok :: "MigDeviceMappingInfo \<Rightarrow> bool" where
  "info_ok i \<longleftrightarrow> plain (mi_DeviceUUID i) \<and> in64 (mi_Position i) \<and> in64 (mi_GpuInstanceId i)"

definition entry_ok :: "int \<times> MigDeviceMappingInfo list \<Rightarrow> bool" where
  "entry_ok e \<longleftrightarrow> in64 (fst e) \<and> list_all info_ok (snd e)"

lemma those_map: "list_all (\<lambda>x. f (g x) = Some x) xs \<Longrightarrow> those (map f (map g xs)) = Some xs"
  by (induction xs) simp_all

lemma decode_info_json: "info_ok i \<Longrightarrow> decode_info (info_json i) = Some i"
  by (simp add: info_ok_def decode_info_def info_json_def json_int_def atoi_itoa)

lemma decode_entry_json: "entry_ok e \<Longrightarrow> decode_entry (entry_json e) = Some e"
proof -
  assume e: "entry_ok e"
  then have "those (map decode_info (map info_json (snd e))) = Some (snd e)"
    by (intro those_map) (auto simp: entry_ok_def list_all_iff decode_info_json)
  with e show ?thesis by (simp add: decode_entry_def entry_json_def entry_ok_def atoi_itoa)
qed

lemma decode_marshal:
  assumes "list_all entry_ok m" and "distinct (map fst m)"
  shows "decode_mapping (base64_encode (marshal_mapping m)) = Some (map_of m)"
proof -
  let ?es = "sort_key (\<lambda>e. itoa (fst e)) m"
  have "list_all plain_entry m"
    using assms(1) by (auto simp: list_all_iff entry_ok_def info_ok_def plain_entry_def)
  moreover have "those (map decode_entry (map entry_json ?es)) = Some ?es"
    using assms(1) by (intro those_map) (auto simp: list_all_iff decode_entry_json)
  moreover have "map_of ?es = map_of m"
  proof (rule map_of_inject_set [THEN iffD2])
    show "distinct (map fst ?es)" using assms(2) by (simp add: distinct_map inj_on_def)
  qed (use assms(2) in simp_all)
  ultimately show ?thesis by (simp add: decode_mapping_def base64_decode_encode value_mapping del: map_map)
qed

section \<open>The partition that was asked for\<close>

definition for_gpu :: "int \<Rightarrow> SelectedDevices \<Rightarrow> bool" where
  "for_gpu i sel \<longleftrightarrow> (case sd_Devices sel of [] \<Rightarrow> False | dev # _ \<Rightarrow> atoi dev = Some i)"

text \<open>The last selection of a GPU is the one that counts.\<close>

definition selection :: "int \<Rightarrow> SelectedDevices list \<Rightarrow> SelectedDevices option" where
  "selection i sels = find (for_gpu i) (rev sels)"

definition stands_for :: "string \<Rightarrow> MigDevice \<Rightarrow> MigDeviceMappingInfo \<Rightarrow> bool" where
  "stands_for product d j \<longleftrightarrow>
     mi_Position j = md_Position d \<and> migInstanceNameToGpuInstanceId product (md_Name d) = Ok (mi_GpuInstanceId j)"

definition positions_ok :: "SelectedDevices list \<Rightarrow> bool" where
  "positions_ok sels \<longleftrightarrow> list_all (\<lambda>sel. list_all (\<lambda>d. in64 (md_Position d)) (sd_MigDevices sel)) sels"

lemma instance_id_bound: "migInstanceNameToGpuInstanceId product n = Ok i \<Longrightarrow> in64 i"
  by (auto simp: migInstanceNameToGpuInstanceId_def in64_def split: option.splits if_splits)

lemma atoi_bound: "atoi s = Some i \<Longrightarrow> in64 i"
  by (auto simp: atoi_def Let_def split: prod.splits if_splits)

lemma plain_mig: "plain u \<Longrightarrow> plain (''MIG-'' @ u)"
  by (simp add: plain_def)

lemma mig_devices_infos:
  assumes "mig_devices uuid product k ds = Ok infos" and "\<And>j. plain (uuid j)"
    and "list_all (\<lambda>d. in64 (md_Position d)) ds"
  shows "list_all2 (stands_for product) ds infos \<and> list_all info_ok infos"
  using assms
proof (induction ds arbitrary: k infos)
  case (Cons d ds)
  then obtain i rest where i: "migInstanceNameToGpuInstanceId product (md_Name d) = Ok i"
    and r: "mig_devices uuid product (Suc k) ds = Ok rest"
    and infos: "infos = \<lparr>mi_Position = md_Position d, mi_DeviceUUID = ''MIG-'' @ uuid k, mi_GpuInstanceId = i\<rparr> # rest"
    by (auto simp: rbind_eq_Ok)
  with Cons.IH [OF r] Cons.prems plain_mig [of "uuid k"] show ?case
    by (simp add: stands_for_def info_ok_def instance_id_bound [OF i])
qed simp

lemma list_all_update: "list_all P m \<Longrightarrow> P (k, v) \<Longrightarrow> list_all P (AList.update k v m)"
  by (induction m) auto

lemma find_append: "find P (xs @ ys) = (case find P xs of None \<Rightarrow> find P ys | Some x \<Rightarrow> Some x)"
  by (induction xs) simp_all

text \<open>
  Of a GPU: the new map \<open>m'\<close> gives it the devices of its last selection, and what \<open>m\<close> does when it
  has none.
\<close>

definition partitioned ::
    "string \<Rightarrow> SelectedDevices list \<Rightarrow> (int \<rightharpoonup> MigDeviceMappingInfo list) \<Rightarrow> (int \<rightharpoonup> MigDeviceMappingInfo list) \<Rightarrow> int \<Rightarrow> bool" where
  "partitioned product sels m m' i \<longleftrightarrow>
     (case selection i sels of
        None \<Rightarrow> m' i = m i
      | Some sel \<Rightarrow> (case m' i of None \<Rightarrow> False | Some infos \<Rightarrow> list_all2 (stands_for product) (sd_MigDevices sel) infos))"

lemma selection_Cons:
  "selection i (sel # sels) = (case selection i sels of None \<Rightarrow> if for_gpu i sel then Some sel else None | Some x \<Rightarrow> Some x)"
  by (simp add: selection_def find_append split: option.split)

lemma partitioned_skip: "\<not> for_gpu i sel \<Longrightarrow> partitioned product (sel # sels) m m' i = partitioned product sels m m' i"
  by (simp add: partitioned_def selection_Cons split: option.split)

lemma partitioned_step:
  assumes "for_gpu i sel \<longleftrightarrow> i = idx" and "list_all2 (stands_for product) (sd_MigDevices sel) infos"
    and "partitioned product sels (m(idx \<mapsto> infos)) m' i"
  shows "partitioned product (sel # sels) m m' i"
  using assms by (cases "i = idx") (auto simp: partitioned_def selection_Cons split: option.splits)

lemma mig_mappings_spec:
  assumes "mig_mappings K uuid k sels m s = Ok m'" and "getGpuProduct K s = Ok product" and "\<And>j. plain (uuid j)"
    and "positions_ok sels" and "list_all entry_ok m" and "distinct (map fst m)"
  shows "list_all entry_ok m' \<and> distinct (map fst m') \<and> (\<forall>i. partitioned product sels (map_of m) (map_of m') i)"
  using assms
proof (induction sels arbitrary: k m)
  case Nil
  then show ?case by (simp add: partitioned_def selection_def)
next
  case (Cons sel sels)
  have ok: "positions_ok sels" "list_all (\<lambda>d. in64 (md_Position d)) (sd_MigDevices sel)"
    using Cons.prems(4) by (simp_all add: positions_ok_def)
  show ?case
  proof (cases "sd_Devices sel")
    case Nil
    then have none: "\<not> for_gpu i sel" for i by (simp add: for_gpu_def)
    have "mig_mappings K uuid k sels m s = Ok m'" using Nil Cons.prems(1) by simp
    then show ?thesis
      unfolding partitioned_skip [OF none] by (rule Cons.IH [OF _ Cons.prems(2,3) ok(1) Cons.prems(5,6)])
  next
    case (Cons dev devs)
    then obtain idx infos where idx: "atoi dev = Some idx"
      and infos: "mig_devices uuid product k (sd_MigDevices sel) = Ok infos"
      and rest: "mig_mappings K uuid (k + length infos) sels (AList.update idx infos m) s = Ok m'"
      using Cons.prems(1,2)
      by (auto simp: getGpuMigDeviceMappingInfo_def rbind_eq_Ok split: option.splits)
    have new: "list_all2 (stands_for product) (sd_MigDevices sel) infos" "list_all info_ok infos"
      using mig_devices_infos [OF infos Cons.prems(3) ok(2)] by simp_all
    have m: "list_all entry_ok (AList.update idx infos m)"
      by (intro list_all_update Cons.prems(5)) (simp add: entry_ok_def new(2) atoi_bound [OF idx])
    have d: "distinct (map fst (AList.update idx infos m))" using Cons.prems(6) by (rule distinct_update)
    have "for_gpu i sel \<longleftrightarrow> i = idx" for i using Cons idx by (auto simp: for_gpu_def)
    from partitioned_step [OF this new(1)] show ?thesis
      using Cons.IH [OF rest Cons.prems(2,3) ok(1) m d] unfolding update_conv' by blast
  qed
qed

text \<open>An accepted update is what the API then has of the node.\<close>

definition node_update_ok :: "('s, 'q, 'y) kube_env \<Rightarrow> bool" where
  "node_update_ok K \<longleftrightarrow> (\<forall>node s s'. node_update K node s = (Inr (), s') \<longrightarrow> node_get K (n_Name node) s' = Inr node)"

text \<open>
  C33. After a partition was faked, the node's label says so, and its annotation reads back, through base64 and JSON,
  as a mapping that gives each GPU that a selection names the devices of the last such selection, in order, at their
  positions and with the instance identifiers of the node's product, and no other GPU any device.
\<close>

theorem mapping_published:
  assumes "node_update_ok K" and "node_get K (EnvNodeName K) s = Inr node" and "n_Name node = EnvNodeName K"
    and "n_Labels node LabelGpuProduct = Some product" and "\<And>k. plain (uuid k)"
    and "positions_ok (mc_SelectedDevices config)" and "FakeMapping K uuid config s = (Ok (), s')"
  shows "\<exists>node' t m. node_get K (EnvNodeName K) s' = Inr node' \<and> n_Labels node' LabelMigConfigState = Some ''success'' \<and>
    n_Annotations node' AnnotationMigMapping = Some t \<and> decode_mapping t = Some m \<and>
    (\<forall>i. partitioned product (mc_SelectedDevices config) Map.empty m i)"
proof -
  from assms(7) obtain mappings s1 where m: "mig_mappings K uuid 0 (mc_SelectedDevices config) [] s = Ok mappings"
    and l: "SetNodeLabels K [(LabelMigConfigState, ''success'')] s = (Ok (), s1)"
    and a: "SetNodeAnnotations K [(AnnotationMigMapping, base64_encode (marshal_mapping mappings))] s1 = (Ok (), s')"
    unfolding FakeMapping_def by (elim sbind_eq_OkD) simp
  have product: "getGpuProduct K s = Ok product" using assms(2,4) by (simp add: getGpuProduct_def GetNodeLabels_def)
  have spec: "list_all entry_ok mappings \<and> distinct (map fst mappings) \<and>
      (\<forall>i. partitioned product (mc_SelectedDevices config) (map_of []) (map_of mappings) i)"
    by (rule mig_mappings_spec [OF m product assms(5,6)]) simp_all
  let ?n1 = "node\<lparr>n_Labels := n_Labels node ++ map_of [(LabelMigConfigState, ''success'')]\<rparr>"
  have "node_update K ?n1 s = (Inr (), s1)"
    using l assms(2) by (auto simp: SetNodeLabels_def put_labels_def split: if_splits)
  then have g1: "node_get K (EnvNodeName K) s1 = Inr ?n1"
    using assms(1,3) unfolding node_update_ok_def by fastforce
  let ?t = "base64_encode (marshal_mapping mappings)"
  let ?n2 = "?n1\<lparr>n_Annotations := n_Annotations node ++ map_of [(AnnotationMigMapping, ?t)]\<rparr>"
  have "node_update K ?n2 s1 = (Inr (), s')"
    using a g1 by (auto simp: SetNodeAnnotations_def put_annotations_def split: if_splits)
  then have g2: "node_get K (EnvNodeName K) s' = Inr ?n2"
    using assms(1,3) unfolding node_update_ok_def by fastforce
  show ?thesis
    using g2 spec decode_marshal [of mappings] by (intro exI [of _ ?n2] exI [of _ ?t] exI [of _ "map_of mappings"] conjI) auto
qed

lemma rbind_eq_Panic: "rbind r f = Panic p \<longleftrightarrow> r = Panic p \<or> (\<exists>x. r = Ok x \<and> f x = Panic p)"
  by (cases r) simp_all

lemma wrap_err_eq_Panic [simp]: "wrap_err t r = Panic p \<longleftrightarrow> r = Panic p"
  by (cases r) simp_all

lemma instance_id_no_panic [simp]: "migInstanceNameToGpuInstanceId product n \<noteq> Panic p"
  by (simp add: migInstanceNameToGpuInstanceId_def split: option.split)

lemma mig_devices_no_panic [simp]: "mig_devices uuid product k ds \<noteq> Panic p"
  by (induction ds arbitrary: k) (simp_all add: rbind_eq_Panic)

lemma mig_mappings_no_panic [simp]: "mig_mappings K uuid k sels m s \<noteq> Panic p"
  by (induction sels arbitrary: k m)
    (simp_all add: rbind_eq_Panic getGpuMigDeviceMappingInfo_def getGpuProduct_def GetNodeLabels_def
      split: list.split option.split)

lemma mig_devices_known:
  "mig_devices uuid product k ds = Ok infos \<Longrightarrow> d \<in> set ds \<Longrightarrow> \<exists>i. migInstanceNameToGpuInstanceId product (md_Name d) = Ok i"
  by (induction ds arbitrary: k infos) (auto simp: rbind_eq_Ok)

lemma mig_mappings_known:
  assumes "mig_mappings K uuid k sels m s = Ok m'" and "sel \<in> set sels" and "sd_Devices sel \<noteq> []"
    and "getGpuProduct K s = Ok product"
  shows "\<exists>k infos. mig_devices uuid product k (sd_MigDevices sel) = Ok infos"
  using assms(1,2)
proof (induction sels arbitrary: k m)
  case (Cons c sels)
  then show ?case using assms(3,4)
    by (auto simp: rbind_eq_Ok getGpuMigDeviceMappingInfo_def split: list.splits option.splits)
qed simp

text \<open>
  When one of the devices asked for is not one of the product's, or the product is unknown, nothing is written
  and the caller is told.
\<close>

theorem unsupported_mig_refused:
  assumes "getGpuProduct K s = Ok product" and "sel \<in> set (mc_SelectedDevices config)" and "sd_Devices sel \<noteq> []"
    and "d \<in> set (sd_MigDevices sel)" and "migInstanceNameToGpuInstanceId product (md_Name d) = Err e"
  shows "\<exists>e. FakeMapping K uuid config s = (Err e, s)"
proof (cases "mig_mappings K uuid 0 (mc_SelectedDevices config) [] s")
  case (Ok m)
  from mig_mappings_known [OF Ok assms(2,3,1)] mig_devices_known [OF _ assms(4)] assms(5) show ?thesis by fastforce
qed (simp_all add: FakeMapping_def)

end
