(* ===== verification/FsExporter.thy ===== *)
theory FsExporter
  imports Topology GoPath
begin

text \<open>
  \<^verbatim>\<open>internal/status-exporter/export/fs\<close>: the statistics of the pods on shared GPUs, as files that the
  toolkit of the cluster shows to their containers.  The file system, the random draw made for a pod on a GPU and
  the order in which \<^verbatim>\<open>range\<close> visits a map are parameters, the record \<open>fs_env\<close>;
  \<open>fs_ok\<close> and \<open>fs_grants\<close> say what is relied on.
\<close>

section \<open>The file system\<close>

record 'f fs_env =
  fs_RemoveAll :: "string \<Rightarrow> 'f \<Rightarrow> (gerror + unit) \<times> 'f"
  fs_MkdirAll :: "string \<Rightarrow> 'f \<Rightarrow> (gerror + unit) \<times> 'f"
  fs_WriteFile :: "string \<Rightarrow> string \<Rightarrow> 'f \<Rightarrow> (gerror + unit) \<times> 'f"
  \<comment> \<open>the contents of a file, and whether a path is a directory, which the program does not ask\<close>
  fs_read :: "string \<Rightarrow> 'f \<Rightarrow> string option"
  fs_dir :: "string \<Rightarrow> 'f \<Rightarrow> bool"
  fs_draw :: "nat \<Rightarrow> string \<Rightarrow> int \<Rightarrow> int"
  fs_range :: "(string \<rightharpoonup> GpuUsageStatus) \<Rightarrow> (string \<times> GpuUsageStatus) list"

text \<open>A name that is a path element of its own\<close>

definition good_elem :: "string \<Rightarrow> bool" where
  "good_elem x \<longleftrightarrow> x \<noteq> [] \<and> x \<noteq> ''.'' \<and> x \<noteq> ''..'' \<and> CHR ''/'' \<notin> set x"

text \<open>An absolute path in its shortest form, which is the only one of its kind for a file; a path at or below a directory\<close>

definition abs_path :: "string \<Rightarrow> bool" where
  "abs_path p \<longleftrightarrow> (let xs = split_on (CHR ''/'') p in hd xs = [] \<and> tl xs \<noteq> [] \<and> list_all good_elem (tl xs))"

definition below :: "string \<Rightarrow> string \<Rightarrow> bool" where
  "below dir path \<longleftrightarrow> path = dir \<or> prefix (dir @ ''/'') path"

text \<open>
  What the calls do to the files and the directories.  A removal that succeeds leaves nothing at or below its path and the rest as it was.
  The making of a directory changes no file, makes nothing but the directory and those above it, and has made it when it succeeds.
  A write changes its file only, no directory, and one that succeeds leaves there what was written.
\<close>

definition fs_ok :: "'f fs_env \<Rightarrow> bool" where
  "fs_ok F \<longleftrightarrow>
     (\<forall>d f f' p. abs_path d \<and> abs_path p \<and> fs_RemoveAll F d f = (Inr (), f') \<longrightarrow>
        fs_read F p f' = (if below d p then None else fs_read F p f) \<and> (fs_dir F p f' \<longleftrightarrow> \<not> below d p \<and> fs_dir F p f)) \<and>
     (\<forall>d f p. abs_path d \<and> abs_path p \<longrightarrow> fs_read F p (snd (fs_MkdirAll F d f)) = fs_read F p f \<and>
        (fs_dir F p (snd (fs_MkdirAll F d f)) \<longrightarrow> fs_dir F p f \<or> below p d)) \<and>
     (\<forall>d f f'. abs_path d \<and> fs_MkdirAll F d f = (Inr (), f') \<longrightarrow> fs_dir F d f') \<and>
     (\<forall>p q c f. abs_path p \<and> abs_path q \<longrightarrow> (q \<noteq> p \<longrightarrow> fs_read F q (snd (fs_WriteFile F p c f)) = fs_read F q f) \<and>
        fs_dir F q (snd (fs_WriteFile F p c f)) = fs_dir F q f) \<and>
     (\<forall>p c f f'. abs_path p \<and> fs_WriteFile F p c f = (Inr (), f') \<longrightarrow> fs_read F p f' = Some c)"

text \<open>
  What the operating system grants a process that has the permissions, on a disk with room: it makes a directory
  unless there is a file in its way, and writes a file in a directory that exists unless the file's name is that of a directory.
\<close>

definition fs_grants :: "'f fs_env \<Rightarrow> bool" where
  "fs_grants F \<longleftrightarrow>
     (\<forall>d f. abs_path d \<and> (\<forall>q. abs_path q \<and> below q d \<longrightarrow> fs_read F q f = None) \<longrightarrow> fst (fs_MkdirAll F d f) = Inr ()) \<and>
     (\<forall>d n c f. abs_path d \<and> good_elem n \<and> fs_dir F d f \<and> \<not> fs_dir F (d @ ''/'' @ n) f \<longrightarrow>
        fst (fs_WriteFile F (d @ ''/'' @ n) c f) = Inr ())"

lemma fs_RemoveAllD:
  assumes "fs_ok F" "abs_path d" "abs_path p" "fs_RemoveAll F d f = (Inr (), f')"
  shows "fs_read F p f' = (if below d p then None else fs_read F p f)" and "fs_dir F p f' \<longleftrightarrow> \<not> below d p \<and> fs_dir F p f"
  using assms unfolding fs_ok_def by blast+

lemma fs_MkdirAllD:
  assumes "fs_ok F" "abs_path d" "abs_path p"
  shows "fs_read F p (snd (fs_MkdirAll F d f)) = fs_read F p f" and "fs_dir F p (snd (fs_MkdirAll F d f)) \<Longrightarrow> fs_dir F p f \<or> below p d"
  using assms unfolding fs_ok_def by blast+

lemma fs_MkdirAll_made: "fs_ok F \<Longrightarrow> abs_path d \<Longrightarrow> fst (fs_MkdirAll F d f) = Inr () \<Longrightarrow> fs_dir F d (snd (fs_MkdirAll F d f))"
  unfolding fs_ok_def by (metis prod.collapse)

lemma fs_WriteFileD:
  assumes "fs_ok F" "abs_path p" "abs_path q"
  shows "q \<noteq> p \<Longrightarrow> fs_read F q (snd (fs_WriteFile F p c f)) = fs_read F q f"
    and "fs_dir F q (snd (fs_WriteFile F p c f)) = fs_dir F q f"
  using assms unfolding fs_ok_def by blast+

lemma fs_WriteFile_this:
  "fs_ok F \<Longrightarrow> abs_path p \<Longrightarrow> fst (fs_WriteFile F p c f) = Inr () \<Longrightarrow> fs_read F p (snd (fs_WriteFile F p c f)) = Some c"
  unfolding fs_ok_def by (metis prod.collapse)

section \<open>exporter.go\<close>

definition podProcDir :: string where "podProcDir = ''/runai/proc/pod''"
definition eventsDir :: string where "eventsDir = ''/runai/proc/events''"

definition mbToBytes :: "int \<Rightarrow> int" where
  "mbToBytes mb = wrap64 (mb * (1000 * 1000))"

definition writeFile :: "'f fs_env \<Rightarrow> string \<Rightarrow> string \<Rightarrow> 'f \<Rightarrow> unit res \<times> 'f" where
  "writeFile F path content f =
     (case fs_WriteFile F path content f of
        (Inl e, f) \<Rightarrow> (Err (Wrap ''failed writing file'' e), f)
      | (Inr _, f) \<Rightarrow> (Ok (), f))"

definition pod_path :: "string \<Rightarrow> nat \<Rightarrow> string" where
  "pod_path podUuid gpuIdx = podProcDir @ ''/'' @ podUuid @ ''/metrics/gpu/'' @ itoa (int gpuIdx)"

text \<open>The loop over the pods of a GPU: errors of the file system are logged, and the loop goes on.\<close>

fun export_usages :: "'f fs_env \<Rightarrow> nat \<Rightarrow> (string \<times> GpuUsageStatus) list \<Rightarrow> 'f \<Rightarrow> unit res \<times> 'f" where
  "export_usages F gpuIdx [] f = (Ok (), f)"
| "export_usages F gpuIdx ((podUuid, usage) # rest) f =
     (let path = pod_path podUuid gpuIdx;
          f = snd (fs_MkdirAll F path f)
      in sbind (Random (fs_draw F gpuIdx podUuid) (Utilization_field usage), f) (\<lambda>utilization f.
           let f = snd (writeFile F (path_join [path, ''utilization.sm'']) (itoa utilization) f);
               f = snd (writeFile F (path_join [path, ''memory.allocated'']) (itoa (mbToBytes (FbUsed_field usage))) f)
           in export_usages F gpuIdx rest f))"

fun export_pod_gpus :: "'f fs_env \<Rightarrow> string \<Rightarrow> nat \<Rightarrow> GpuDetails list \<Rightarrow> 'f \<Rightarrow> unit res \<times> 'f" where
  "export_pod_gpus F resourceReservationNs gpuIdx [] f = (Ok (), f)"
| "export_pod_gpus F resourceReservationNs gpuIdx (gpu # gpus) f =
     (if cd_Namespace (AllocatedBy (Status gpu)) \<noteq> resourceReservationNs
      then export_pod_gpus F resourceReservationNs (Suc gpuIdx) gpus f
      else sbind (export_usages F gpuIdx (fs_range F (usage_lookup (PodGpuUsageStatus (Status gpu)))) f) (\<lambda>_ f.
             export_pod_gpus F resourceReservationNs (Suc gpuIdx) gpus f))"

definition exportPods :: "'f fs_env \<Rightarrow> NodeTopology \<Rightarrow> string \<Rightarrow> 'f \<Rightarrow> unit res \<times> 'f" where
  "exportPods F nodeTopology resourceReservationNs f =
     export_pod_gpus F resourceReservationNs 0 (Gpus nodeTopology) (snd (fs_RemoveAll F podProcDir f))"

definition exportEvents :: "'f fs_env \<Rightarrow> 'f \<Rightarrow> 'f" where
  "exportEvents F f = snd (fs_MkdirAll F eventsDir f)"

definition export_fs :: "'f fs_env \<Rightarrow> string \<Rightarrow> NodeTopology \<Rightarrow> 'f \<Rightarrow> unit res \<times> 'f" where
  "export_fs F resourceReservationNs nodeTopology f =
     sbind (exportPods F nodeTopology resourceReservationNs f) (\<lambda>_ f. (Ok (), exportEvents F f))"

section \<open>Lemmas\<close>

lemma snd_writeFile [simp]: "snd (writeFile F p c f) = snd (fs_WriteFile F p c f)"
  by (simp add: writeFile_def split: prod.split sum.split)

lemma clean_good: "list_all good_elem xs \<Longrightarrow> clean_elems rooted stack xs = rev stack @ xs"
  by (induction xs arbitrary: stack) (simp_all add: good_elem_def)

lemma path_clean_good:
  assumes "list_all good_elem xs" and "xs \<noteq> []"
  shows "path_clean (''/'' @ str_join ''/'' xs) = ''/'' @ str_join ''/'' xs"
proof -
  have "split_on (CHR ''/'') (str_join ''/'' ([] # xs)) = [] # xs"
    using assms by (intro split_join) (auto simp: good_elem_def list_all_iff)
  moreover have "str_join ''/'' ([] # xs) = ''/'' @ str_join ''/'' xs" using assms(2) by (cases xs) simp_all
  ultimately show ?thesis using assms clean_good [OF assms(1), of True "[]"] by (simp add: path_clean_def)
qed

lemma itoa_nat_chars: "c \<in> set (itoa (int n)) \<Longrightarrow> is_digit c"
  using itoa_nat_digits [of n] by (simp add: itoa_def list_all_iff)

lemma good_itoa [simp]: "good_elem (itoa (int n))"
proof -
  have "c \<noteq> CHR ''.'' \<and> c \<noteq> CHR ''/''" if "c \<in> set (itoa (int n))" for c
    using itoa_nat_chars [OF that] by (auto simp: is_digit_def)
  moreover have "itoa (int n) \<noteq> []" by (simp add: itoa_def)
  ultimately show ?thesis by (auto simp: good_elem_def)
qed

definition pod_file :: "string \<Rightarrow> nat \<Rightarrow> string \<Rightarrow> string" where
  "pod_file podUuid gpuIdx name = ''/'' @ str_join ''/'' [''runai'', ''proc'', ''pod'', podUuid, ''metrics'', ''gpu'', itoa (int gpuIdx), name]"

lemma path_join_pod:
  assumes "good_elem u" and "good_elem name"
  shows "path_join [pod_path u i, name] = pod_file u i name"
proof -
  let ?xs = "[''runai'', ''proc'', ''pod'', u, ''metrics'', ''gpu'', itoa (int i), name]"
  have "list_all good_elem ?xs" using assms by simp (simp add: good_elem_def)
  moreover have "pod_path u i @ ''/'' @ name = ''/'' @ str_join ''/'' ?xs" by (simp add: pod_path_def podProcDir_def)
  moreover have "name \<noteq> []" "pod_path u i \<noteq> []" using assms(2) by (simp_all add: good_elem_def pod_path_def podProcDir_def)
  ultimately show ?thesis using path_clean_good [of ?xs] by (simp add: path_join_def pod_file_def)
qed

lemma abs_join:
  assumes "list_all good_elem xs" and "xs \<noteq> []"
  shows "abs_path (''/'' @ str_join ''/'' xs)"
proof -
  have "split_on (CHR ''/'') (str_join ''/'' ([] # xs)) = [] # xs"
    using assms by (intro split_join) (auto simp: good_elem_def list_all_iff)
  moreover have "str_join ''/'' ([] # xs) = ''/'' @ str_join ''/'' xs" using assms(2) by (cases xs) simp_all
  ultimately show ?thesis using assms by (simp add: abs_path_def)
qed

lemma abs_pod [simp]:
  assumes "good_elem u"
  shows "abs_path podProcDir" and "abs_path (pod_path u i)" and "good_elem n \<Longrightarrow> abs_path (pod_file u i n)"
proof -
  have good: "list_all good_elem [''runai'', ''proc'', ''pod'', u, ''metrics'', ''gpu'', itoa (int i)]"
    using assms by simp (simp add: good_elem_def)
  show "abs_path podProcDir" using abs_join [of "[''runai'', ''proc'', ''pod'']"] by (simp add: podProcDir_def good_elem_def)
  show "abs_path (pod_path u i)" using abs_join [OF good] by (simp add: pod_path_def podProcDir_def)
  show "abs_path (pod_file u i n)" if "good_elem n"
    unfolding pod_file_def using good that by (intro abs_join) simp_all
qed

lemma pod_file_in_path: "pod_file u i n = pod_path u i @ ''/'' @ n"
  by (simp add: pod_file_def pod_path_def podProcDir_def)

lemma slashes_good: "good_elem x \<Longrightarrow> count_list x (CHR ''/'') = 0"
  by (simp add: good_elem_def count_list_0_iff)

text \<open>The file of a pod is not a directory on the way to a file of a pod.\<close>

lemma pod_file_not_above:
  assumes "good_elem u" "good_elem n" "good_elem v"
  shows "\<not> below (pod_file u i n) (pod_path v j)"
proof -
  have "count_list (pod_path v j) (CHR ''/'') < count_list (pod_file u i n) (CHR ''/'')"
    using assms by (simp add: pod_file_def pod_path_def podProcDir_def slashes_good)
  then show ?thesis by (auto simp: below_def prefix_def)
qed

lemma above_pod_path:
  assumes "below q (pod_path u i)"
  shows "below podProcDir q \<or> below q podProcDir \<and> q \<noteq> podProcDir"
proof -
  have path: "pod_path u i = (podProcDir @ ''/'') @ u @ ''/metrics/gpu/'' @ itoa (int i)" by (simp add: pod_path_def)
  consider "q = pod_path u i" | "prefix (q @ ''/'') (pod_path u i)" using assms by (auto simp: below_def)
  then show ?thesis
  proof cases
    case 1
    then show ?thesis by (simp add: path below_def)
  next
    case 2
    have "prefix (podProcDir @ ''/'') (pod_path u i)" unfolding path by simp
    from prefix_same_cases [OF 2 this] show ?thesis by (auto simp: below_def)
  qed
qed

lemma pod_file_inj:
  assumes "good_elem u" "good_elem v" "good_elem x" "good_elem y" and eq: "pod_file u i x = pod_file v j y"
  shows "u = v \<and> i = j \<and> x = y"
proof -
  have split: "split_on (CHR ''/'') (str_join ''/'' [''runai'', ''proc'', ''pod'', w, ''metrics'', ''gpu'', itoa (int k), n]) =
      [''runai'', ''proc'', ''pod'', w, ''metrics'', ''gpu'', itoa (int k), n]" if "good_elem w" "good_elem n" for w k n
    using that good_itoa [of k] by (intro split_join) (auto simp: good_elem_def)
  from eq have "str_join ''/'' [''runai'', ''proc'', ''pod'', u, ''metrics'', ''gpu'', itoa (int i), x] =
      str_join ''/'' [''runai'', ''proc'', ''pod'', v, ''metrics'', ''gpu'', itoa (int j), y]"
    by (simp add: pod_file_def)
  then have "[''runai'', ''proc'', ''pod'', u, ''metrics'', ''gpu'', itoa (int i), x] =
      [''runai'', ''proc'', ''pod'', v, ''metrics'', ''gpu'', itoa (int j), y]"
    using split [OF assms(1,3), of i] split [OF assms(2,4), of j] by simp
  then show ?thesis using itoa_nat_inj [of i j] by (simp add: itoa_def)
qed

end
