(* ===== verification/FsProps.thy ===== *)
theory FsProps
  imports FsExporter
begin

text \<open>
  What the file system exporter promises: the files after an export are those of the pods that use the GPUs of the
  reservation namespace, and no others, because the directories they go to are emptied, made and free of other files.
\<close>

section \<open>The files of an export\<close>

definition drawn :: "'f fs_env \<Rightarrow> nat \<Rightarrow> string \<Rightarrow> GpuUsageStatus \<Rightarrow> int" where
  "drawn F i u v = (case Random (fs_draw F i u) (Utilization_field v) of Ok x \<Rightarrow> x | _ \<Rightarrow> 0)"

fun usage_files :: "'f fs_env \<Rightarrow> nat \<Rightarrow> (string \<times> GpuUsageStatus) list \<Rightarrow> (string \<times> string) list" where
  "usage_files F i [] = []"
| "usage_files F i ((u, v) # es) =
     (pod_file u i ''utilization.sm'', itoa (drawn F i u v)) #
     (pod_file u i ''memory.allocated'', itoa (mbToBytes (FbUsed_field v))) # usage_files F i es"

fun gpu_files :: "'f fs_env \<Rightarrow> string \<Rightarrow> nat \<Rightarrow> GpuDetails list \<Rightarrow> (string \<times> string) list" where
  "gpu_files F ns i [] = []"
| "gpu_files F ns i (g # gs) =
     (if cd_Namespace (AllocatedBy (Status g)) = ns then usage_files F i (fs_range F (usage_lookup (PodGpuUsageStatus (Status g)))) else []) @
     gpu_files F ns (Suc i) gs"

lemma good_names [simp]: "good_elem ''utilization.sm''" "good_elem ''memory.allocated''"
  by (simp_all add: good_elem_def)

section \<open>Nothing is in the way\<close>

text \<open>No file stands where the directory of a pod goes, and no directory where one of its files goes.\<close>

definition clear_way :: "'f fs_env \<Rightarrow> 'f \<Rightarrow> bool" where
  "clear_way F f \<longleftrightarrow> (\<forall>u i. good_elem u \<longrightarrow>
     (\<forall>q. abs_path q \<and> below q (pod_path u i) \<longrightarrow> fs_read F q f = None) \<and>
     (\<forall>n. good_elem n \<longrightarrow> \<not> fs_dir F (pod_file u i n) f))"

lemma clear_removed:
  assumes "fs_ok F" and "fs_RemoveAll F podProcDir f = (Inr (), f')"
    and "\<forall>q. abs_path q \<and> below q podProcDir \<and> q \<noteq> podProcDir \<longrightarrow> fs_read F q f = None"
  shows "clear_way F f'"
  unfolding clear_way_def
proof (intro allI impI conjI)
  fix u i q
  assume u: "good_elem u" and q: "abs_path q \<and> below q (pod_path u i)"
  from q have "fs_read F q f' = (if below podProcDir q then None else fs_read F q f)"
    using fs_RemoveAllD(1) [OF assms(1) abs_pod(1) [OF u] _ assms(2)] by blast
  with above_pod_path [of q u i] q assms(3) show "fs_read F q f' = None" by auto
next
  fix u i n
  assume u: "good_elem u" and n: "good_elem n"
  have "below podProcDir (pod_file u i n)" by (simp add: below_def pod_file_def podProcDir_def)
  then show "\<not> fs_dir F (pod_file u i n) f'"
    using fs_RemoveAllD(2) [OF assms(1) abs_pod(1) [OF u] abs_pod(3) [OF u n] assms(2)] by simp
qed

lemma clear_made:
  assumes "fs_ok F" and "clear_way F f" and "good_elem v"
  shows "clear_way F (snd (fs_MkdirAll F (pod_path v j) f))"
  using assms(2) fs_MkdirAllD [OF assms(1) abs_pod(2) [OF assms(3)]] pod_file_not_above [OF _ _ assms(3)] abs_pod(3)
  unfolding clear_way_def by metis

lemma clear_written:
  assumes "fs_ok F" and "clear_way F f" and v: "good_elem v" "good_elem m"
  shows "clear_way F (snd (fs_WriteFile F (pod_file v j m) c f))"
proof -
  note w = fs_WriteFileD [OF assms(1) abs_pod(3) [OF v]]
  have "q \<noteq> pod_file v j m" if "good_elem u" "below q (pod_path u i)" for u i q
    using that pod_file_not_above [OF v that(1)] by auto
  with assms(2) w show ?thesis unfolding clear_way_def by (metis abs_pod(3))
qed

text \<open>Once the directory of a pod is made, a write of one of its files succeeds.\<close>

lemma made_dir:
  assumes "fs_ok F" "fs_grants F" "clear_way F f" "good_elem u"
  shows "fs_dir F (pod_path u i) (snd (fs_MkdirAll F (pod_path u i) f))"
proof (rule fs_MkdirAll_made [OF assms(1) abs_pod(2) [OF assms(4)]])
  show "fst (fs_MkdirAll F (pod_path u i) f) = Inr ()"
    using assms(2-4) abs_pod(2) [OF assms(4), of i] unfolding fs_grants_def clear_way_def by blast
qed

lemma written_in_dir:
  assumes "fs_ok F" "fs_grants F" "clear_way F f" and good: "good_elem u" "good_elem n" and dir: "fs_dir F (pod_path u i) f"
  shows "abs_path q \<Longrightarrow> fs_read F q (snd (fs_WriteFile F (pod_file u i n) c f)) = (if q = pod_file u i n then Some c else fs_read F q f)"
proof -
  have "\<not> fs_dir F (pod_path u i @ ''/'' @ n) f"
    using assms(3) good by (simp add: clear_way_def pod_file_in_path)
  with assms(2) good dir have "fst (fs_WriteFile F (pod_file u i n) c f) = Inr ()"
    using abs_pod(2) [OF good(1), of i] unfolding fs_grants_def pod_file_in_path by blast
  from fs_WriteFile_this [OF assms(1) abs_pod(3) [OF good] this]
  show "abs_path q \<Longrightarrow> ?thesis" using fs_WriteFileD(1) [OF assms(1) abs_pod(3) [OF good], of q] by simp
qed

lemma read_usages:
  assumes "fs_ok F" and "fs_grants F" and "list_all (\<lambda>e. good_elem (fst e)) es" and "clear_way F f"
    and "export_usages F i es f = (Ok (), f')"
  shows "clear_way F f' \<and> (\<forall>q. abs_path q \<longrightarrow>
    fs_read F q f' = (case map_of (rev (usage_files F i es)) q of None \<Rightarrow> fs_read F q f | Some c \<Rightarrow> Some c))"
  using assms(3-5)
proof (induction es arbitrary: f)
  case (Cons e es)
  obtain u v where e: "e = (u, v)" by (rule prod.exhaust)
  let ?d = "itoa (drawn F i u v)" and ?m = "itoa (mbToBytes (FbUsed_field v))"
  let ?f1 = "snd (fs_MkdirAll F (pod_path u i) f)"
  let ?f2 = "snd (fs_WriteFile F (pod_file u i ''utilization.sm'') ?d ?f1)"
  let ?f3 = "snd (fs_WriteFile F (pod_file u i ''memory.allocated'') ?m ?f2)"
  have good: "good_elem u" using Cons.prems(1) e by simp
  note c1 = clear_made [OF assms(1) Cons.prems(2) good, of i]
  note c2 = clear_written [OF assms(1) c1 good good_names(1), of i ?d]
  note c3 = clear_written [OF assms(1) c2 good good_names(2), of i ?m]
  note d1 = made_dir [OF assms(1,2) Cons.prems(2) good, of i]
  have d2: "fs_dir F (pod_path u i) ?f2"
    using d1 fs_WriteFileD(2) [OF assms(1) abs_pod(3) [OF good good_names(1)] abs_pod(2) [OF good]] by blast
  have "export_usages F i es ?f3 = (Ok (), f')"
    using Cons.prems(3) good e
    by (cases "Random (fs_draw F i u) (Utilization_field v)") (simp_all add: drawn_def path_join_pod Let_def)
  with Cons.IH [OF _ c3] Cons.prems(1) have ih: "clear_way F f'"
    "abs_path q \<Longrightarrow> fs_read F q f' = (case map_of (rev (usage_files F i es)) q of None \<Rightarrow> fs_read F q ?f3 | Some c \<Rightarrow> Some c)" for q
    by simp_all
  have "fs_read F q ?f3 = (if q = pod_file u i ''memory.allocated'' then Some ?m
      else if q = pod_file u i ''utilization.sm'' then Some ?d else fs_read F q f)" if q: "abs_path q" for q
    using written_in_dir [OF assms(1,2) c2 good good_names(2) d2 q] written_in_dir [OF assms(1,2) c1 good good_names(1) d1 q]
      fs_MkdirAllD(1) [OF assms(1) abs_pod(2) [OF good] q] by simp
  with ih show ?case by (auto simp: e map_add_def split: option.splits)
qed simp

lemma read_gpus:
  assumes "fs_ok F" and "fs_grants F"
    and "list_all (\<lambda>g. cd_Namespace (AllocatedBy (Status g)) = ns \<longrightarrow>
           list_all (\<lambda>e. good_elem (fst e)) (fs_range F (usage_lookup (PodGpuUsageStatus (Status g))))) gs"
    and "clear_way F f" and "export_pod_gpus F ns i gs f = (Ok (), f')"
  shows "clear_way F f' \<and> (\<forall>q. abs_path q \<longrightarrow>
    fs_read F q f' = (case map_of (rev (gpu_files F ns i gs)) q of None \<Rightarrow> fs_read F q f | Some c \<Rightarrow> Some c))"
  using assms(3-5)
proof (induction gs arbitrary: i f)
  case (Cons g gs)
  let ?es = "fs_range F (usage_lookup (PodGpuUsageStatus (Status g)))"
  show ?case
  proof (cases "cd_Namespace (AllocatedBy (Status g)) = ns")
    case True
    with Cons.prems(3) obtain f1 where f1: "export_usages F i ?es f = (Ok (), f1)"
      and rest: "export_pod_gpus F ns (Suc i) gs f1 = (Ok (), f')"
      by (auto elim: sbind_eq_OkD)
    have es: "clear_way F f1"
      "\<forall>q. abs_path q \<longrightarrow> fs_read F q f1 = (case map_of (rev (usage_files F i ?es)) q of None \<Rightarrow> fs_read F q f | Some c \<Rightarrow> Some c)"
      using read_usages [OF assms(1,2) _ Cons.prems(2) f1] Cons.prems(1) True by auto
    have gs: "list_all (\<lambda>g. cd_Namespace (AllocatedBy (Status g)) = ns \<longrightarrow>
           list_all (\<lambda>e. good_elem (fst e)) (fs_range F (usage_lookup (PodGpuUsageStatus (Status g))))) gs"
      using Cons.prems(1) by simp
    from Cons.IH [OF gs es(1) rest] es(2) True show ?thesis by (auto simp: map_add_def split: option.splits)
  next
    case False
    with Cons show ?thesis by simp
  qed
qed simp

section \<open>The files and the usages\<close>

text \<open>The contents that a file of a pod on a GPU must have\<close>

definition usage_file :: "'f fs_env \<Rightarrow> nat \<Rightarrow> string \<Rightarrow> GpuUsageStatus \<Rightarrow> string \<Rightarrow> string \<Rightarrow> bool" where
  "usage_file F i u v p c \<longleftrightarrow>
     p = pod_file u i ''utilization.sm'' \<and> c = itoa (drawn F i u v) \<or>
     p = pod_file u i ''memory.allocated'' \<and> c = itoa (mbToBytes (FbUsed_field v))"

definition gpu_usage :: "string \<Rightarrow> GpuDetails list \<Rightarrow> nat \<Rightarrow> string \<Rightarrow> GpuUsageStatus \<Rightarrow> bool" where
  "gpu_usage ns gs i u v \<longleftrightarrow>
     i < length gs \<and> cd_Namespace (AllocatedBy (Status (gs ! i))) = ns \<and>
     usage_lookup (PodGpuUsageStatus (Status (gs ! i))) u = Some v"

lemma in_usage_files: "(p, c) \<in> set (usage_files F i es) \<longleftrightarrow> (\<exists>u v. (u, v) \<in> set es \<and> usage_file F i u v p c)"
  by (induction F i es rule: usage_files.induct) (auto simp: usage_file_def)

lemma visits_set: "visits es m \<Longrightarrow> (u, v) \<in> set es \<longleftrightarrow> m u = Some v"
  unfolding visits_def using map_of_eq_Some_iff by metis

text \<open>The visits of the maps of a topology meet every entry once.\<close>

definition ranges_ok :: "'f fs_env \<Rightarrow> GpuDetails list \<Rightarrow> bool" where
  "ranges_ok F gs \<longleftrightarrow>
     list_all (\<lambda>g. visits (fs_range F (usage_lookup (PodGpuUsageStatus (Status g)))) (usage_lookup (PodGpuUsageStatus (Status g)))) gs"

lemma in_gpu_files:
  assumes "ranges_ok F gs"
  shows "(p, c) \<in> set (gpu_files F ns i gs) \<longleftrightarrow> (\<exists>k u v. gpu_usage ns gs k u v \<and> usage_file F (i + k) u v p c)"
  using assms
proof (induction gs arbitrary: i)
  case Nil
  then show ?case by (simp add: gpu_usage_def)
next
  case (Cons g gs)
  then have v: "visits (fs_range F (usage_lookup (PodGpuUsageStatus (Status g)))) (usage_lookup (PodGpuUsageStatus (Status g)))"
    and gs: "ranges_ok F gs" by (simp_all add: ranges_ok_def)
  have split: "(\<exists>k. P k) \<longleftrightarrow> P 0 \<or> (\<exists>k. P (Suc k))" for P :: "nat \<Rightarrow> bool" by (metis not0_implies_Suc)
  show ?case
    by (subst split) (auto simp: Cons.IH [OF gs] in_usage_files visits_set [OF v] gpu_usage_def)
qed

lemma usage_names:
  assumes "ranges_ok F gs" and "\<And>i u v. gpu_usage ns gs i u v \<Longrightarrow> good_elem u"
  shows "list_all (\<lambda>g. cd_Namespace (AllocatedBy (Status g)) = ns \<longrightarrow>
    list_all (\<lambda>e. good_elem (fst e)) (fs_range F (usage_lookup (PodGpuUsageStatus (Status g))))) gs"
  unfolding list_all_iff
proof (intro ballI impI)
  fix g e
  assume g: "g \<in> set gs" "cd_Namespace (AllocatedBy (Status g)) = ns"
    and e: "e \<in> set (fs_range F (usage_lookup (PodGpuUsageStatus (Status g))))"
  from g(1) obtain i where "i < length gs" "gs ! i = g" by (auto simp: in_set_conv_nth)
  moreover have "visits (fs_range F (usage_lookup (PodGpuUsageStatus (Status g)))) (usage_lookup (PodGpuUsageStatus (Status g)))"
    using assms(1) g(1) by (simp add: ranges_ok_def list_all_iff)
  from visits_set [OF this] e have "usage_lookup (PodGpuUsageStatus (Status g)) (fst e) = Some (snd e)" by (metis prod.collapse)
  ultimately have "gpu_usage ns gs i (fst e) (snd e)" using g(2) by (simp add: gpu_usage_def)
  then show "good_elem (fst e)" by (rule assms(2))
qed

lemma usage_file_unique:
  assumes "gpu_usage ns gs i u v" "gpu_usage ns gs j u' v'" "good_elem u" "good_elem u'"
    and "usage_file F i u v p c" "usage_file F j u' v' p c'"
  shows "c = c'"
proof -
  have same: "u = u' \<and> i = j \<and> x = y"
    if "p = pod_file u i x" "p = pod_file u' j y" "good_elem x" "good_elem y" for x y
    using pod_file_inj [of u u' x y i j] assms(3,4) that by simp
  from assms(1,2) have vs: "v = v'" if "u = u'" "i = j" using that by (simp add: gpu_usage_def)
  from assms(5,6) show ?thesis
    unfolding usage_file_def
    by (elim disjE conjE) (use same vs in \<open>fastforce+\<close>)
qed

lemma map_of_rev_functional:
  assumes "\<And>c c'. (p, c) \<in> set ws \<Longrightarrow> (p, c') \<in> set ws \<Longrightarrow> c = c'"
  shows "map_of (rev ws) p = Some c \<longleftrightarrow> (p, c) \<in> set ws"
proof
  assume "(p, c) \<in> set ws"
  then obtain c' where "map_of (rev ws) p = Some c'" by (metis map_of_eq_None_iff not_None_eq set_rev weak_map_of_SomeI)
  moreover from map_of_SomeD [OF this] have "(p, c') \<in> set ws" by simp
  ultimately show "map_of (rev ws) p = Some c" using assms \<open>(p, c) \<in> set ws\<close> by metis
qed (auto dest: map_of_SomeD)

lemma pod_file_below: "below podProcDir (pod_file u i n)"
  by (simp add: below_def pod_file_def podProcDir_def)

text \<open>
  C34. The files below the directory after an export that could empty it are exactly those of the pods that use the GPUs of the
  reservation namespace: the memory in bytes and the utilization that was drawn; files elsewhere are as they were.
  This is so on a file system that has the room and the permissions to make a directory with no file in its way and
  to write a file in a directory that exists, when no file stands above the exporter's directory and the pods' UIDs are names of path elements.
\<close>

theorem files_show_usage:
  assumes "fs_ok F" and "fs_grants F" and "fst (fs_RemoveAll F podProcDir f) = Inr ()"
    and free: "\<forall>q. abs_path q \<and> below q podProcDir \<and> q \<noteq> podProcDir \<longrightarrow> fs_read F q f = None"
    and "ranges_ok F (Gpus nt)" and good: "\<And>i u v. gpu_usage ns (Gpus nt) i u v \<Longrightarrow> good_elem u"
    and "exportPods F nt ns f = (Ok (), f')" and p: "abs_path p"
  shows "fs_read F p f' = Some c \<longleftrightarrow>
    (if below podProcDir p then \<exists>i u v. gpu_usage ns (Gpus nt) i u v \<and> usage_file F i u v p c else fs_read F p f = Some c)"
proof -
  let ?ws = "gpu_files F ns 0 (Gpus nt)"
  obtain f0 where f0: "fs_RemoveAll F podProcDir f = (Inr (), f0)" using assms(3) by (metis prod.collapse)
  have run: "export_pod_gpus F ns 0 (Gpus nt) f0 = (Ok (), f')" using assms(7) f0 by (simp add: exportPods_def)
  have ws: "(p, c) \<in> set ?ws \<longleftrightarrow> (\<exists>i u v. gpu_usage ns (Gpus nt) i u v \<and> usage_file F i u v p c)" for p c
    using in_gpu_files [OF assms(5), of p c ns 0] by simp
  have names: "list_all (\<lambda>g. cd_Namespace (AllocatedBy (Status g)) = ns \<longrightarrow>
    list_all (\<lambda>e. good_elem (fst e)) (fs_range F (usage_lookup (PodGpuUsageStatus (Status g))))) (Gpus nt)"
    by (rule usage_names [OF assms(5)]) (rule good)
  from read_gpus [OF assms(1,2) names clear_removed [OF assms(1) f0 free] run] p
  have read: "fs_read F p f' = (case map_of (rev ?ws) p of None \<Rightarrow> fs_read F p f0 | Some c \<Rightarrow> Some c)" by blast
  have iff: "map_of (rev ?ws) p = Some c \<longleftrightarrow> (p, c) \<in> set ?ws" for p c
    by (rule map_of_rev_functional) (metis ws usage_file_unique good)
  have "(p, c) \<in> set ?ws \<Longrightarrow> below podProcDir p" for c
    unfolding ws usage_file_def using pod_file_below by blast
  moreover have "abs_path podProcDir" by (rule abs_pod(1) [OF good_names(1)])
  ultimately show ?thesis
    using iff [of p] by (cases "map_of (rev ?ws) p") (auto simp: read ws [symmetric] fs_RemoveAllD(1) [OF assms(1) _ p f0])
qed

end
