(* ===== verification/RunaiController.thy ===== *)
theory RunaiController
  imports Topology
begin

text \<open>
  \<^verbatim>\<open>internal/status-updater/controllers/runai\<close>: a controller that, once the monitoring API and the
  namespace of the platform are there, creates a rule that makes the platform see the metrics of simulated nodes.
  The API server is a parameter, the record \<open>runai_env\<close>.
\<close>

section \<open>prometheusrule.go\<close>

definition runaiNamespace :: string where "runaiNamespace = ''runai''"
definition prometheusRuleName :: string where "prometheusRuleName = ''fake-gpu-operator-kwok-dcgm''"

text \<open>An unstructured object is a map of the YAML values.\<close>

definition label_replace :: "string \<Rightarrow> string \<Rightarrow> string \<Rightarrow> string \<Rightarrow> string" where
  "label_replace indent dst src expr =
     indent @ ''label_replace('' @ [CHR 0x0A] @ expr @ '','' @ [CHR 0x0A] @ indent @ ''  '' @
     str_join '', '' (map (\<lambda>x. [CHR 0x22] @ x @ [CHR 0x22]) [dst, ''$1'', src, ''(.+)'']) @ [CHR 0x0A] @ indent @ '')''"

definition labelReplaceExpr :: "string \<Rightarrow> string" where
  "labelReplaceExpr metric =
     label_replace [] ''node'' ''Hostname''
       (label_replace ''  '' ''pod_namespace'' ''exported_namespace''
         (label_replace ''    '' ''pod_name'' ''exported_pod'' (''      '' @ metric))) @ [CHR 0x0A] @
     ''* on(node) group_left(nodepool)'' @ [CHR 0x0A] @ ''runai_node_nodepool_excluded''"

definition recording_rule :: "string \<Rightarrow> string \<Rightarrow> gval" where
  "recording_rule record metric = GMap [(''record'', GStr record), (''expr'', GStr (labelReplaceExpr metric))]"

definition buildKwokPrometheusRule :: "string \<Rightarrow> gmap" where
  "buildKwokPrometheusRule namespace =
     [(''apiVersion'', GStr ''monitoring.coreos.com/v1''),
      (''kind'', GStr ''PrometheusRule''),
      (''metadata'', GMap
         [(''name'', GStr prometheusRuleName),
          (''namespace'', GStr namespace),
          (''labels'', GMap [(''app'', GStr ''nvidia-dcgm-exporter''), (''component'', GStr ''status-exporter-kwok'')])]),
      (''spec'', GMap
         [(''groups'', GList
             [GMap
                [(''name'', GStr ''kwok-dcgm-metrics''),
                 (''rules'', GList
                    [recording_rule ''runai_dcgm_gpu_utilization'' ''DCGM_FI_DEV_GPU_UTIL'',
                     recording_rule ''runai_dcgm_gpu_used_mebibytes'' ''DCGM_FI_DEV_FB_USED'',
                     recording_rule ''runai_dcgm_gpu_total_mebibytes'' ''(DCGM_FI_DEV_FB_USED + DCGM_FI_DEV_FB_FREE)''])]])])]"

section \<open>controller.go\<close>

text \<open>
  The calls of the API: the discovery of a group's version, the lookup of a namespace, and the lookup and creation of
  rules by namespace and name.
\<close>

record 's runai_env =
  discovery :: "string \<Rightarrow> 's \<Rightarrow> gerror + unit"
  namespace_get :: "string \<Rightarrow> 's \<Rightarrow> gerror + unit"
  rule_get :: "string \<Rightarrow> string \<Rightarrow> 's \<Rightarrow> gerror + gmap"
  rule_create :: "string \<Rightarrow> gmap \<Rightarrow> 's \<Rightarrow> (gerror + unit) \<times> 's"

text \<open>The controller's state is the cached discovery, \<open>None\<close> for a nil pointer.\<close>

type_synonym api_cache = "bool option"

definition isPrometheusAPIAvailable :: "'s runai_env \<Rightarrow> 's \<Rightarrow> api_cache \<Rightarrow> bool \<times> api_cache" where
  "isPrometheusAPIAvailable R s apiAvailable =
     (case apiAvailable of
        Some b \<Rightarrow> (b, apiAvailable)
      | None \<Rightarrow> (case discovery R ''monitoring.coreos.com/v1'' s of Inl e \<Rightarrow> (False, None) | Inr _ \<Rightarrow> (True, Some True)))"

definition ReconcileRunai :: "'s runai_env \<Rightarrow> 's \<times> api_cache \<Rightarrow> unit res \<times> 's \<times> api_cache" where
  "ReconcileRunai R st =
     (let (s, cache) = st;
          (available, cache) = isPrometheusAPIAvailable R s cache
      in if \<not> available then (Ok (), s, cache)
         else case namespace_get R runaiNamespace s of
           Inl e \<Rightarrow> if is_not_found e then (Ok (), s, cache) else (Err e, s, cache)
         | Inr _ \<Rightarrow>
             (case rule_get R runaiNamespace prometheusRuleName s of
                Inr _ \<Rightarrow> (Ok (), s, cache)
              | Inl e \<Rightarrow>
                  if \<not> is_not_found e then (Err e, s, cache)
                  else (case rule_create R runaiNamespace (buildKwokPrometheusRule runaiNamespace) s of
                          (Inl e, s) \<Rightarrow> (Err e, s, cache)
                        | (Inr _, s) \<Rightarrow> (Ok (), s, cache))))"

text \<open>\<^verbatim>\<open>Run\<close>: a pass at the start and one at each tick; between two, others may have changed the state.\<close>

fun RunRunai :: "'s runai_env \<Rightarrow> ('s \<Rightarrow> 's) list \<Rightarrow> 's \<times> api_cache \<Rightarrow> 's \<times> api_cache" where
  "RunRunai R [] st = snd (ReconcileRunai R st)"
| "RunRunai R (others # ticks) st = (case snd (ReconcileRunai R st) of (s, cache) \<Rightarrow> RunRunai R ticks (others s, cache))"

section \<open>Properties\<close>

text \<open>
  What the API server promises of a creation: the object is found under the name in its metadata, with every field
  that was sent, and with whatever the server adds, as the UID and the version in the metadata.
\<close>

definition object_name :: "gmap \<Rightarrow> string option" where
  "object_name obj =
     (case map_of obj ''metadata'' of
        Some (GMap m) \<Rightarrow> (case map_of m ''name'' of Some (GStr n) \<Rightarrow> Some n | _ \<Rightarrow> None)
      | _ \<Rightarrow> None)"

definition field_stored :: "gval \<Rightarrow> gval option \<Rightarrow> bool" where
  "field_stored v found =
     (case (v, found) of
        (GMap m, Some (GMap m')) \<Rightarrow> list_all (\<lambda>(k, w). map_of m' k = Some w) m
      | (_, found) \<Rightarrow> found = Some v)"

definition stored_as :: "gmap \<Rightarrow> gmap \<Rightarrow> bool" where
  "stored_as obj found \<longleftrightarrow> list_all (\<lambda>(k, v). field_stored v (map_of found k)) obj"

definition rules_ok :: "'s runai_env \<Rightarrow> bool" where
  "rules_ok R \<longleftrightarrow>
     (\<forall>ns rule n s s'. rule_create R ns rule s = (Inr (), s') \<and> object_name rule = Some n \<longrightarrow>
        (\<exists>found. rule_get R ns n s' = Inr found \<and> stored_as rule found))"

lemma rule_name: "object_name (buildKwokPrometheusRule ns) = Some prometheusRuleName"
  by (simp add: object_name_def buildKwokPrometheusRule_def)

text \<open>What a pass must do, of the state before and after\<close>

definition rule_reconciled :: "'s runai_env \<Rightarrow> 's \<Rightarrow> 's \<Rightarrow> bool" where
  "rule_reconciled R s s' \<longleftrightarrow>
     (case rule_get R runaiNamespace prometheusRuleName s of
        Inr found \<Rightarrow> s' = s
      | Inl e \<Rightarrow> \<exists>found. rule_get R runaiNamespace prometheusRuleName s' = Inr found \<and>
                          stored_as (buildKwokPrometheusRule runaiNamespace) found)"

text \<open>
  C35. Where the monitoring API or the namespace is missing, a pass writes nothing.  Where both are there, a pass that reports success
  leaves a rule of the controller's name as it finds it, also one that somebody changed, and otherwise creates it, so that it is found
  under that name with the fields and expressions of the program; the availability of the API is remembered; and as long as the
  namespace exists a second pass writes nothing.
\<close>

theorem rule_installed:
  assumes "rules_ok R" and run: "ReconcileRunai R (s, cache) = (r, s', cache')"
  shows "if fst (isPrometheusAPIAvailable R s cache) \<and> namespace_get R runaiNamespace s = Inr ()
    then r = Ok () \<longrightarrow> rule_reconciled R s s' \<and> cache' = Some True \<and>
           (namespace_get R runaiNamespace s' = Inr () \<longrightarrow> ReconcileRunai R (s', cache') = (Ok (), s', cache'))
    else s' = s"
proof (cases "fst (isPrometheusAPIAvailable R s cache) \<and> namespace_get R runaiNamespace s = Inr ()")
  case False
  then show ?thesis
    using run by (auto simp: ReconcileRunai_def split_def Let_def split: sum.splits if_splits)
next
  case True
  then have cache: "isPrometheusAPIAvailable R s cache = (True, Some True)"
    by (auto simp: isPrometheusAPIAvailable_def split: option.splits sum.splits)
  have again: "isPrometheusAPIAvailable R s' (Some True) = (True, Some True)" by (simp add: isPrometheusAPIAvailable_def)
  have "rule_reconciled R s s' \<and> cache' = Some True \<and>
      (namespace_get R runaiNamespace s' = Inr () \<longrightarrow> ReconcileRunai R (s', cache') = (Ok (), s', cache'))" if ok: "r = Ok ()"
  proof (cases "rule_get R runaiNamespace prometheusRuleName s")
    case (Inr found)
    then show ?thesis using run True cache again by (simp add: ReconcileRunai_def rule_reconciled_def)
  next
    case (Inl e)
    with run True cache ok have "cache' = Some True"
      and "rule_create R runaiNamespace (buildKwokPrometheusRule runaiNamespace) s = (Inr (), s')"
      by (auto simp: ReconcileRunai_def split: if_splits prod.splits sum.splits)
    moreover from assms(1) this(2) rule_name obtain found where "rule_get R runaiNamespace prometheusRuleName s' = Inr found"
      and "stored_as (buildKwokPrometheusRule runaiNamespace) found"
      unfolding rules_ok_def by blast
    ultimately show ?thesis using Inl again by (simp add: rule_reconciled_def ReconcileRunai_def)
  qed
  with True show ?thesis unfolding if_P [OF True] by blast
qed

text \<open>A pass that finds the API or the namespace missing, or fails to read, writes nothing.\<close>

lemma no_api_no_write:
  assumes "\<not> fst (isPrometheusAPIAvailable R s cache) \<or> (\<exists>e. namespace_get R runaiNamespace s = Inl e)"
  shows "fst (snd (ReconcileRunai R (s, cache))) = s"
  using assms by (auto simp: ReconcileRunai_def split_def Let_def split: sum.split)

end
