(* ===== verification/WitnessNode.thy ===== *)
theory WitnessNode
  imports RefServer MigProps FsProps RunaiController
begin

text \<open>
  The MIG faker, the file system exporter and the controller of the platform's rule at concrete inputs.
\<close>

section \<open>MIG\<close>

definition x_node :: "string \<Rightarrow> int Node" where
  "x_node config = \<lparr>n_Name = ''node1'', n_UID = ''uid'', n_Labels = [LabelGpuProduct \<mapsto> ''A100-SXM4-40GB''],
     n_Annotations = (if config = [] then Map.empty else [MigConfigAnnotation \<mapsto> config]), n_Allocatable = Map.empty,
     n_LabelsNil = False, n_AnnotationsNil = False\<rparr>"

theorem worker_catches_up_witness:
  "last (fst (mig_run ([Observe (x_node []), Read] @ Observe (x_node ''a'') # replicate (Suc 1) Read) mig_start)) = ''a''"
proof -
  have a: "annotation_value (n_Annotations (x_node ''a'')) = ''a''"
    by (simp add: annotation_value_def x_node_def)
  show ?thesis
    using worker_catches_up [OF _ prod.collapse [symmetric], of "x_node ''a''" "[Observe (x_node []), Read]" 1] unfolding a by blast
qed

text \<open>Two GPUs, the first of which is named by two selections\<close>

definition x_device :: "string \<Rightarrow> int \<Rightarrow> MigDevice" where
  "x_device name position = \<lparr>md_Name = name, md_Position = position, md_Size = 1\<rparr>"

definition x_selected :: "string \<Rightarrow> MigDevice list \<Rightarrow> SelectedDevices" where
  "x_selected gpu devices = \<lparr>sd_Devices = [gpu], sd_MigEnabled = True, sd_MigDevices = devices\<rparr>"

definition x_config :: MigConfigs where
  "x_config = \<lparr>mc_SelectedDevices =
     [x_selected ''0'' [x_device ''7g.40gb'' 0], x_selected ''1'' [], x_selected ''0'' [x_device ''3g.20gb'' 0, x_device ''1g.5gb'' 4]]\<rparr>"

definition x_uuid :: "nat \<Rightarrow> string" where
  "x_uuid k = itoa (int k)"

definition x_state :: ref_state where
  "x_state = \<lparr>rs_cms = [], rs_pods = [], rs_nodes = [(''node1'', x_node [])], rs_claims = [], rs_classes = []\<rparr>"

lemma ref_node_update_ok: "node_update_ok ref_env"
  by (simp add: node_update_ok_def ref_env_def map_of_update)

theorem mapping_published_witness:
  "\<exists>node t m infos. node_get ref_env ''node1'' (snd (FakeMapping ref_env x_uuid x_config x_state)) = Inr node \<and>
    n_Annotations node AnnotationMigMapping = Some t \<and> decode_mapping t = Some m \<and>
    m 0 = Some infos \<and> map mi_GpuInstanceId infos = [9, 19] \<and> m 2 = None"
proof -
  let ?r = "FakeMapping ref_env x_uuid x_config x_state"
  have "fst ?r = Ok ()" by code_simp
  then have r: "?r = (Ok (), snd ?r)" by (metis prod.collapse)
  have env: "EnvNodeName ref_env = ''node1''" by (simp add: ref_env_def)
  have get: "node_get ref_env (EnvNodeName ref_env) x_state = Inr (x_node [])"
    by (simp add: ref_env_def x_state_def)
  have node: "n_Name (x_node []) = EnvNodeName ref_env" "n_Labels (x_node []) LabelGpuProduct = Some ''A100-SXM4-40GB''"
    by (simp_all add: x_node_def env)
  have plain: "plain (x_uuid k)" for k by (simp add: x_uuid_def plain_itoa)
  have pos: "positions_ok (mc_SelectedDevices x_config)" by code_simp
  from mapping_published [OF ref_node_update_ok get node plain pos r]
  obtain node' t m where "node_get ref_env ''node1'' (snd ?r) = Inr node'" "n_Annotations node' AnnotationMigMapping = Some t"
    "decode_mapping t = Some m" and p: "\<forall>i. partitioned ''A100-SXM4-40GB'' (mc_SelectedDevices x_config) Map.empty m i"
    unfolding env by blast
  moreover have s0: "selection 0 (mc_SelectedDevices x_config) = Some (x_selected ''0'' [x_device ''3g.20gb'' 0, x_device ''1g.5gb'' 4])"
    and s2: "selection 2 (mc_SelectedDevices x_config) = None"
    by code_simp+
  moreover have ids: "migInstanceNameToGpuInstanceId ''A100-SXM4-40GB'' ''3g.20gb'' = Ok 9"
    "migInstanceNameToGpuInstanceId ''A100-SXM4-40GB'' ''1g.5gb'' = Ok 19" by code_simp+
  moreover have "m 2 = None" using p [rule_format, of 2] by (simp add: partitioned_def s2)
  moreover obtain infos where "m 0 = Some infos"
    and "list_all2 (stands_for ''A100-SXM4-40GB'') [x_device ''3g.20gb'' 0, x_device ''1g.5gb'' 4] infos"
    using p [rule_format, of 0] by (auto simp: partitioned_def s0 x_selected_def split: option.splits)
  ultimately show ?thesis by (auto simp: list_all2_Cons1 stands_for_def x_device_def)
qed

theorem unsupported_mig_refused_witness:
  "\<exists>e. FakeMapping ref_env x_uuid \<lparr>mc_SelectedDevices = [x_selected ''0'' [x_device ''9g.90gb'' 0]]\<rparr> x_state = (Err e, x_state)"
proof (rule unsupported_mig_refused)
  show "getGpuProduct ref_env x_state = Ok ''A100-SXM4-40GB''" by code_simp
  show "migInstanceNameToGpuInstanceId ''A100-SXM4-40GB'' (md_Name (x_device ''9g.90gb'' 0)) =
      Err (Msg ''failed mapping mig instance name to gpu instance id'')" by code_simp
  show "x_selected ''0'' [x_device ''9g.90gb'' 0] \<in> set (mc_SelectedDevices \<lparr>mc_SelectedDevices = [x_selected ''0'' [x_device ''9g.90gb'' 0]]\<rparr>)"
    by simp
  show "sd_Devices (x_selected ''0'' [x_device ''9g.90gb'' 0]) \<noteq> []"
    and "x_device ''9g.90gb'' 0 \<in> set (sd_MigDevices (x_selected ''0'' [x_device ''9g.90gb'' 0]))"
    by (simp_all add: x_selected_def)
qed

section \<open>Files\<close>

text \<open>An in-memory file system: the files with their contents, and the directories\<close>

type_synonym x_disk = "(string \<times> string) list \<times> string list"

definition path_parent :: "string \<Rightarrow> string" where
  "path_parent p = rev (tl (dropWhile (\<lambda>c. c \<noteq> CHR ''/'') (rev p)))"

definition x_remove :: "string \<Rightarrow> x_disk \<Rightarrow> (gerror + unit) \<times> x_disk" where
  "x_remove d f = (Inr (), filter (\<lambda>e. \<not> below d (fst e)) (fst f), filter (\<lambda>e. \<not> below d e) (snd f))"

definition x_mkdir :: "string \<Rightarrow> x_disk \<Rightarrow> (gerror + unit) \<times> x_disk" where
  "x_mkdir d f =
     (if list_ex (\<lambda>e. abs_path (fst e) \<and> below (fst e) d) (fst f) then (Inl (Msg ''not a directory''), f)
      else (Inr (), fst f, filter (\<lambda>q. below q d) (prefixes d) @ snd f))"

definition x_write :: "string \<Rightarrow> string \<Rightarrow> x_disk \<Rightarrow> (gerror + unit) \<times> x_disk" where
  "x_write p c f =
     (if path_parent p \<in> set (snd f) \<and> p \<notin> set (snd f) then (Inr (), AList.update p c (fst f), snd f)
      else (Inl (Msg ''no such file or directory''), f))"

definition x_fs :: "x_disk fs_env" where
  "x_fs = \<lparr>
     fs_RemoveAll = x_remove, fs_MkdirAll = x_mkdir, fs_WriteFile = x_write,
     fs_read = (\<lambda>p f. map_of (fst f) p), fs_dir = (\<lambda>p f. p \<in> set (snd f)),
     fs_draw = (\<lambda>i u n. 0),
     fs_range = (\<lambda>m. if m ''p1'' = None then [] else [(''p1'', the (m ''p1''))])\<rparr>"

definition x_usage :: GpuUsageStatus where
  "x_usage = \<lparr>Utilization_field = \<lparr>Min = 30, Max = 50\<rparr>, FbUsed_field = 5, UseKnativeUtilization = False\<rparr>"

definition x_gpu :: "usage_map \<Rightarrow> GpuDetails" where
  "x_gpu m = \<lparr>ID = ''g'', Status = \<lparr>AllocatedBy = \<lparr>cd_Namespace = ''runai-reservation'', cd_Pod = ''r'', cd_Container = ''c''\<rparr>,
     PodGpuUsageStatus = m\<rparr>\<rparr>"

definition x_gpus :: "GpuDetails list" where
  "x_gpus = [x_gpu None, x_gpu (Some [''p1'' \<mapsto> x_usage])]"

definition x_topology :: NodeTopology where
  "x_topology = zero_nt\<lparr>Gpus := x_gpus\<rparr>"

definition x_files :: x_disk where
  "x_files = ([(pod_file ''gone'' 0 ''memory.allocated'', ''1''), (''/etc/hosts'', ''h'')],
     [pod_path ''gone'' 0, ''/runai/proc/pod'', ''/runai/proc'', ''/runai'', ''/etc''])"

lemma map_of_removed: "map_of (filter (\<lambda>e. \<not> below d (fst e)) f) p = (if below d p then None else map_of f p)"
  by (induction f) auto

lemma parent_of_file: "good_elem n \<Longrightarrow> path_parent (d @ ''/'' @ n) = d"
proof -
  assume "good_elem n"
  then have "dropWhile (\<lambda>c. c \<noteq> CHR ''/'') (rev n @ CHR ''/'' # rev d) = CHR ''/'' # rev d"
    by (subst dropWhile_append2) (auto simp: good_elem_def)
  then show ?thesis by (simp add: path_parent_def)
qed

lemma x_fs_ok: "fs_ok x_fs" "fs_grants x_fs"
proof -
  show "fs_ok x_fs"
    by (auto simp: fs_ok_def x_fs_def x_remove_def x_mkdir_def x_write_def map_of_update map_of_removed split: if_splits) (simp add: below_def)
  show "fs_grants x_fs"
    unfolding fs_grants_def
  proof (intro conjI allI impI)
    fix d f
    assume "abs_path d \<and> (\<forall>q. abs_path q \<and> below q d \<longrightarrow> fs_read x_fs q f = None)"
    then have "\<not> list_ex (\<lambda>e. abs_path (fst e) \<and> below (fst e) d) (fst f)"
      by (auto simp: list_ex_iff x_fs_def map_of_eq_None_iff image_iff)
    then show "fst (fs_MkdirAll x_fs d f) = Inr ()" by (simp add: x_fs_def x_mkdir_def)
  next
    fix d n c f
    assume "abs_path d \<and> good_elem n \<and> fs_dir x_fs d f \<and> \<not> fs_dir x_fs (d @ ''/'' @ n) f"
    then show "fst (fs_WriteFile x_fs (d @ ''/'' @ n) c f) = Inr ()"
      by (simp add: x_fs_def x_write_def parent_of_file [simplified])
  qed
qed

lemma x_way_free: "\<forall>q. abs_path q \<and> below q podProcDir \<and> q \<noteq> podProcDir \<longrightarrow> fs_read x_fs q x_files = None"
proof (intro allI impI)
  fix q
  assume q: "abs_path q \<and> below q podProcDir \<and> q \<noteq> podProcDir"
  have "\<not> below (pod_file ''gone'' 0 ''memory.allocated'') podProcDir" "\<not> below ''/etc/hosts'' podProcDir" by code_simp+
  with q show "fs_read x_fs q x_files = None" by (auto simp: x_fs_def x_files_def)
qed

theorem files_show_usage_witness:
  "fs_read x_fs (pod_file ''p1'' 1 ''memory.allocated'') (snd (exportPods x_fs x_topology ''runai-reservation'' x_files)) = Some ''5000000'' \<and>
    fs_read x_fs (pod_file ''gone'' 0 ''memory.allocated'') (snd (exportPods x_fs x_topology ''runai-reservation'' x_files)) = None"
proof -
  let ?r = "exportPods x_fs x_topology ''runai-reservation'' x_files"
  have "fst ?r = Ok ()"
    by (simp add: exportPods_def x_topology_def x_gpus_def x_gpu_def x_fs_def x_usage_def Random_def Let_def wrap64_def)
  then have r: "?r = (Ok (), snd ?r)" by (metis prod.collapse)
  have gs: "Gpus x_topology = x_gpus" by (simp add: x_topology_def)
  have ranges: "ranges_ok x_fs (Gpus x_topology)"
    by (simp add: gs ranges_ok_def visits_def x_gpus_def x_gpu_def x_fs_def fun_eq_iff)
  have usage: "gpu_usage ''runai-reservation'' (Gpus x_topology) i u v \<longleftrightarrow> i = 1 \<and> u = ''p1'' \<and> v = x_usage" for i u v
    by (auto simp: gs gpu_usage_def x_gpus_def x_gpu_def less_Suc_eq split: if_splits)
  have good: "good_elem ''p1''" "good_elem ''gone''" by (simp_all add: good_elem_def)
  then have names: "good_elem u" if "gpu_usage ''runai-reservation'' (Gpus x_topology) i u v" for i u v
    using that by (simp add: usage)
  have removed: "fst (fs_RemoveAll x_fs podProcDir x_files) = Inr ()" by (simp add: x_fs_def x_remove_def)
  have shown: "fs_read x_fs p (snd ?r) = Some c \<longleftrightarrow>
      (if below podProcDir p then usage_file x_fs 1 ''p1'' x_usage p c else fs_read x_fs p x_files = Some c)" if "abs_path p" for p c
    using files_show_usage [OF x_fs_ok removed x_way_free ranges names r that] by (simp add: usage)
  have "itoa (mbToBytes (FbUsed_field x_usage)) = ''5000000''"
    by (simp add: x_usage_def mbToBytes_def wrap64_def itoa_def itoa_nat.simps digit_char_def) code_simp
  then have "usage_file x_fs 1 ''p1'' x_usage (pod_file ''p1'' 1 ''memory.allocated'') ''5000000''"
    unfolding usage_file_def by (metis (no_types))
  moreover have "\<not> usage_file x_fs 1 ''p1'' x_usage (pod_file ''gone'' 0 ''memory.allocated'') c" for c
    using pod_file_inj [OF good(2,1) good_names(2,1)] pod_file_inj [OF good(2,1) good_names(2,2)]
    by (auto simp: usage_file_def)
  ultimately have "fs_read x_fs (pod_file ''p1'' 1 ''memory.allocated'') (snd ?r) = Some ''5000000''"
    and "\<And>c. fs_read x_fs (pod_file ''gone'' 0 ''memory.allocated'') (snd ?r) \<noteq> Some c"
    unfolding shown [OF abs_pod(3) [OF good(1) good_names(2)]] shown [OF abs_pod(3) [OF good(2) good_names(2)]] if_P [OF pod_file_below]
    by blast+
  then show ?thesis by blast
qed

section \<open>The rule\<close>

text \<open>A server that adds a UID to the metadata of what it stores\<close>

definition add_uid :: "string \<Rightarrow> gval \<Rightarrow> gval" where
  "add_uid k v = (case v of GMap m \<Rightarrow> if k = ''metadata'' then GMap (m @ [(''uid'', GStr ''u1'')]) else v | _ \<Rightarrow> v)"

definition with_uid :: "gmap \<Rightarrow> gmap" where
  "with_uid = map (\<lambda>(k, v). (k, add_uid k v))"

definition plain_field :: "gval \<Rightarrow> bool" where
  "plain_field v = (case v of GMap m \<Rightarrow> distinct (map fst m) | _ \<Rightarrow> True)"

definition x_runai :: "((string \<times> string) \<times> gmap) list runai_env" where
  "x_runai = \<lparr>
     discovery = (\<lambda>g s. Inr ()), namespace_get = (\<lambda>n s. Inr ()),
     rule_get = (\<lambda>ns n s. ref_find s (ns, n)),
     rule_create = (\<lambda>ns rule s.
       case object_name rule of
         None \<Rightarrow> (Inl (Msg ''name is required''), s)
       | Some n \<Rightarrow>
           if distinct (map fst rule) \<and> list_all (\<lambda>(k, v). plain_field v) rule
           then (Inr (), AList.update (ns, n) (with_uid rule) s) else (Inl (Msg ''a field occurs twice''), s))\<rparr>"

lemma map_of_with_uid: "map_of (with_uid rule) k = map_option (add_uid k) (map_of rule k)"
  by (induction rule) (auto simp: with_uid_def)

lemma add_uid_stored: "plain_field v \<Longrightarrow> field_stored v (Some (add_uid k v))"
  by (cases v) (auto simp: field_stored_def add_uid_def plain_field_def list_all_iff map_add_Some_iff)

lemma with_uid_stored:
  assumes "distinct (map fst rule)" and "list_all (\<lambda>(k, v). plain_field v) rule"
  shows "stored_as rule (with_uid rule)"
  using assms by (auto simp: stored_as_def list_all_iff map_of_with_uid add_uid_stored)

lemma x_rules_ok: "rules_ok x_runai"
  by (auto simp: rules_ok_def x_runai_def ref_find_def map_of_update with_uid_stored split: option.splits if_splits)

theorem rule_installed_witness:
  "\<exists>found. rule_get x_runai runaiNamespace prometheusRuleName (fst (snd (ReconcileRunai x_runai ([], None)))) = Inr found \<and>
    stored_as (buildKwokPrometheusRule runaiNamespace) found"
proof -
  let ?r = "ReconcileRunai x_runai ([], None)"
  have "fst ?r = Ok ()" by code_simp
  then have r: "?r = (Ok (), fst (snd ?r), snd (snd ?r))" by (metis prod.collapse)
  from rule_installed [OF x_rules_ok r] show ?thesis
    by (simp add: isPrometheusAPIAvailable_def rule_reconciled_def x_runai_def ref_find_def)
qed

end
