(* ===== verification/Apps.thy ===== *)
theory Apps
  imports DevicePlugins NodeHandler MockPools RunaiController MigFaker
begin

text \<open>
  The applications around the components: the settings they are started with, the controllers and exporters they
  start for them (status-updater/app.go, status-exporter/app.go), the loop of the MIG faker (migfaker/app.go), the
  device plugin of a node (cmd/device-plugin) and the one for simulated nodes
  (\<^verbatim>\<open>internal/kwok-gpu-device-plugin/controllers\<close>).  The library that holds settings, the host's file system
  and the parsing of durations are parameters.
\<close>

section \<open>apprunner.go and env.go\<close>

text \<open>
  The calls of the settings library: a variable of the environment is bound to a key, a default is set, the settings
  are decoded into a structure and the structure is validated.
\<close>

record ('v, 'c) config_lib =
  bind_env :: "string \<Rightarrow> 'v \<Rightarrow> gerror + 'v"
  set_default :: "string \<Rightarrow> string \<Rightarrow> 'v \<Rightarrow> 'v"
  automatic_env :: "'v \<Rightarrow> 'v"
  unmarshal_config :: "'v \<Rightarrow> gerror + 'c"
  validate_struct :: "'c \<Rightarrow> gerror + unit"

fun bindStruct :: "('v, 'c) config_lib \<Rightarrow> string list \<Rightarrow> 'v \<Rightarrow> gerror + 'v" where
  "bindStruct L [] v = Inr v"
| "bindStruct L (key # keys) v = (case bind_env L key v of Inl e \<Rightarrow> Inl e | Inr v \<Rightarrow> bindStruct L keys v)"

definition setDefaults :: "('v, 'c) config_lib \<Rightarrow> 'v \<Rightarrow> 'v" where
  "setDefaults L v =
     foldl (\<lambda>v (key, value). set_default L key value v) v
       [(''TOPOLOGY_CM_NAME'', ''topology''), (''TOPOLOGY_CM_NAMESPACE'', ''gpu-operator''),
        (''RESOURCE_RESERVATION_NAMESPACE'', ''runai-reservation''),
        (''PROMETHEUS_URL'', ''http://prometheus-operated.runai:9090'')]"

text \<open>\<open>keys\<close> are the fields of the configuration of an application, \<open>None\<close> when it has none; an error ends the process.\<close>

definition LoadConfig :: "('v, 'c) config_lib \<Rightarrow> string list option \<Rightarrow> 'v \<Rightarrow> 'v res" where
  "LoadConfig L keys v =
     (case keys of
        None \<Rightarrow> Ok v
      | Some ks \<Rightarrow>
          (case bindStruct L ks v of
             Inl e \<Rightarrow> Err (Msg ''Error binding environment variables'')
           | Inr v \<Rightarrow>
               let v = automatic_env L (setDefaults L v)
               in (case unmarshal_config L v of
                     Inl e \<Rightarrow> Err (Msg ''unable to unmarshall the config'')
                   | Inr config \<Rightarrow>
                       (case validate_struct L config of
                          Inl e \<Rightarrow> Err (Msg ''Missing required attributes'')
                        | Inr u \<Rightarrow> Ok v))))"

text \<open>\<open>getenv\<close> gives the empty text for a variable that is not set.\<close>

definition validateEnvs :: "(string \<Rightarrow> string) \<Rightarrow> string list \<Rightarrow> gerror + unit" where
  "validateEnvs getenv envVars =
     (case find (\<lambda>env. getenv env = []) envVars of None \<Rightarrow> Inr () | Some env \<Rightarrow> Inl (Msg (env @ '' is not set'')))"

definition ValidateConfig :: "(string \<Rightarrow> string) \<Rightarrow> string list \<Rightarrow> unit res" where
  "ValidateConfig getenv envVars =
     (case validateEnvs getenv envVars of Inl e \<Rightarrow> Panic (Raised e) | Inr u \<Rightarrow> Ok ())"

section \<open>status-updater/app.go\<close>

record settings =
  get_string :: "string \<Rightarrow> string"
  get_bool :: "string \<Rightarrow> bool"

datatype controller = PodController | NodeController bool | MockController ReconcileParams | RunaiController int

definition polling_interval :: "(string \<Rightarrow> int option) \<Rightarrow> string \<Rightarrow> int" where
  "polling_interval parse_duration text =
     (case parse_duration text of
        None \<Rightarrow> 30 * 1000000000
      | Some interval \<Rightarrow> if interval = 0 then 30 * 1000000000 else interval)"

definition pull_policy :: "settings \<Rightarrow> string" where
  "pull_policy V = (let p = get_string V ''IMAGE_PULL_POLICY'' in if p = [] then ''Always'' else p)"

definition updater_controllers :: "settings \<Rightarrow> (string \<Rightarrow> int option) \<Rightarrow> controller list" where
  "updater_controllers V parse_duration =
     [PodController, NodeController (get_bool V ''DISABLE_NODE_LABELING''),
      MockController \<lparr>rc_Namespace = get_string V ''FAKE_GPU_OPERATOR_NAMESPACE'',
        rc_Image = get_string V ''NVML_MOCK_IMAGE'', rc_ImagePullPolicy = pull_policy V\<rparr>] @
     (if get_bool V ''RUNAI_INTEGRATION_ENABLED''
      then [RunaiController (polling_interval parse_duration (get_string V ''RUNAI_INTEGRATION_POLLING_INTERVAL''))]
      else [])"

text \<open>
  The run of the Run:ai controller with an interval: the first pass is before the ticker is made, which panics unless
  the interval is positive.
\<close>

definition run_runai :: "'s runai_env \<Rightarrow> int \<Rightarrow> ('s \<Rightarrow> 's) list \<Rightarrow> 's \<times> api_cache \<Rightarrow> unit res \<times> 's \<times> api_cache" where
  "run_runai R interval ticks st =
     (if interval \<le> 0 then (Panic (BadArgument ''non-positive interval for NewTicker''), snd (ReconcileRunai R st))
      else (Ok (), RunRunai R ticks st))"

section \<open>status-exporter/app.go\<close>

datatype exporter_kind = Metrics_exporter | Labels_exporter | Fs_exporter | NRT_exporter | PodResources_exporter

definition node_exporters :: "settings \<Rightarrow> exporter_kind list" where
  "node_exporters V =
     [Metrics_exporter, Labels_exporter, Fs_exporter] @
     (if get_bool V ''NODE_RESOURCE_TOPOLOGY_ENABLED'' then [NRT_exporter] else []) @
     (if get_bool V ''POD_RESOURCES_ENABLED'' then [PodResources_exporter] else [])"

text \<open>The goroutines that \<^verbatim>\<open>Run\<close> starts, with the number it waits for\<close>

datatype routine = Watcher_routine | Exporter_routine exporter_kind

definition run_exporters :: "exporter_kind list \<Rightarrow> nat \<times> routine list" where
  "run_exporters exporters =
     (let add = (\<lambda>k (n, rs). if k \<in> set exporters then (Suc n, rs @ [Exporter_routine k]) else (n, rs));
          base = (4, [Watcher_routine, Exporter_routine Metrics_exporter, Exporter_routine Labels_exporter, Exporter_routine Fs_exporter])
      in add PodResources_exporter (add NRT_exporter base))"

section \<open>migfaker/app.go\<close>

text \<open>A turn of the worker: \<open>None\<close> while it must wait\<close>

definition mig_worker_turn ::
    "('s, 'q, 'y) kube_env \<Rightarrow> (string \<Rightarrow> gerror + MigConfigs) \<Rightarrow> (nat \<Rightarrow> string) \<Rightarrow> SyncableMigConfig \<times> 's
     \<Rightarrow> (unit res \<times> SyncableMigConfig \<times> 's) option" where
  "mig_worker_turn K unmarshal uuid ms =
     (case Get_step (fst ms) of
        None \<Rightarrow> None
      | Some (None, m) \<Rightarrow> Some (Ok (), m, snd ms)
      | Some (Some value, m) \<Rightarrow> (case apply_config K unmarshal uuid value (snd ms) of (r, s) \<Rightarrow> Some (r, m, s)))"

section \<open>cmd/topology-server\<close>

text \<open>The answer to \<^verbatim>\<open>/topology\<close>\<close>

definition cluster_server :: "('s, 'q, 'y) kube_env \<Rightarrow> 's \<Rightarrow> int \<times> ClusterTopology option" where
  "cluster_server K s = (case GetClusterTopologyFromCM K s of Ok ct \<Rightarrow> (200, Some ct) | _ \<Rightarrow> (500, None))"

section \<open>cmd/device-plugin\<close>

text \<open>
  The host's files: the modification time of a file, the copy of a file onto another; which errors say that a file
  is not there.
\<close>

record 'f host_files =
  stat_file :: "string \<Rightarrow> 'f \<Rightarrow> gerror + int"
  copy_file :: "string \<Rightarrow> string \<Rightarrow> 'f \<Rightarrow> (gerror + unit) \<times> 'f"
  file_missing :: "gerror \<Rightarrow> bool"

definition publish :: "'f host_files \<Rightarrow> string \<Rightarrow> string \<Rightarrow> 'f \<Rightarrow> unit res \<times> 'f" where
  "publish H srcFile destFile f =
     (let copy = (Ok (), snd (copy_file H srcFile destFile f)); src = stat_file H srcFile f
      in if (case src of Inl e \<Rightarrow> file_missing H e | Inr t \<Rightarrow> False) then (Ok (), f)
         else case stat_file H destFile f of
           Inl e \<Rightarrow> if file_missing H e then copy else (Panic NilDeref, f)
         | Inr dest_time \<Rightarrow>
             (case src of
                Inl e \<Rightarrow> (Panic NilDeref, f)
              | Inr src_time \<Rightarrow> if dest_time < src_time then copy else (Ok (), f)))"

definition published_files :: "(string \<times> string) list" where
  "published_files =
     [(''/bin/nvidia-smi'', ''/runai/bin/nvidia-smi''),
      (''/shared/memory/preloader.so'', ''/runai/shared/memory/preloader.so''),
      (''/shared/pid/preloader.so'', ''/runai/shared/pid/preloader.so'')]"

fun publish_all :: "'f host_files \<Rightarrow> (string \<times> string) list \<Rightarrow> 'f \<Rightarrow> unit res \<times> 'f" where
  "publish_all H [] f = (Ok (), f)"
| "publish_all H ((src, dest) # files) f = sbind (publish H src dest f) (\<lambda>_ f. publish_all H files f)"

text \<open>
  The plugins are served one after the other; the first failure ends the process.  The state is that of the cluster
  and that of the node's operating system.
\<close>

fun serve_plugins ::
    "('s, 'q, 'y) kube_env \<Rightarrow> ('s, 'q, 'j) status_env \<Rightarrow> ((string \<rightharpoonup> int) \<Rightarrow> (string \<times> int) list) \<Rightarrow> 'o node_os
     \<Rightarrow> DevicePlugin list \<Rightarrow> 's \<times> 'o \<Rightarrow> unit res \<times> 's \<times> 'o" where
  "serve_plugins K D visit os [] so = (Ok (), so)"
| "serve_plugins K D visit os (FakeNodePlugin f # ps) (s, o') =
     (case Serve_fake K D visit f s of (r, s) \<Rightarrow> sbind (r, s, o') (\<lambda>_. serve_plugins K D visit os ps))"
| "serve_plugins K D visit os (RealNodePlugin m # ps) (s, o') =
     (case Serve_real os m o' of (r, _, o') \<Rightarrow> sbind (r, s, o') (\<lambda>_. serve_plugins K D visit os ps))"

definition device_plugin_main ::
    "('s, 'q, 'y) kube_env \<Rightarrow> ('s, 'q, 'j) status_env \<Rightarrow> ((string \<rightharpoonup> int) \<Rightarrow> (string \<times> int) list) \<Rightarrow> 'o node_os \<Rightarrow> 'f host_files
     \<Rightarrow> (string \<Rightarrow> string) \<Rightarrow> settings \<Rightarrow> string \<Rightarrow> (string \<Rightarrow> nat \<Rightarrow> string) \<Rightarrow> 's \<times> 'o \<times> 'f \<Rightarrow> unit res \<times> 's \<times> 'o \<times> 'f" where
  "device_plugin_main K D visit os H getenv V devicePluginPath uuid st =
     (let (s, o', f) = st
      in case ValidateConfig getenv [''TOPOLOGY_CM_NAME'', ''TOPOLOGY_CM_NAMESPACE'', ''NODE_NAME''] of
        Ok u \<Rightarrow>
          (case GetNodeTopologyFromCM K (getenv ''NODE_NAME'') s of
             Ok nt \<Rightarrow>
               (case publish_all H published_files f of
                  (Ok u, f) \<Rightarrow>
                    (case NewDevicePlugins (get_bool V ''FAKE_NODE'') devicePluginPath uuid (Some nt) of
                       Ok plugins \<Rightarrow>
                         (case serve_plugins K D visit os plugins (s, o') of (r, s, o') \<Rightarrow> (r, s, o', f))
                     | Err e \<Rightarrow> (Err e, s, o', f)
                     | Panic p \<Rightarrow> (Panic p, s, o', f))
                | (r, f) \<Rightarrow> (r, s, o', f))
           | Err e \<Rightarrow> (Err (Msg ''Failed to get topology''), st)
           | Panic p \<Rightarrow> (Panic p, st))
      | Err e \<Rightarrow> (Err e, st)
      | Panic p \<Rightarrow> (Panic p, st))"

section \<open>kwok-gpu-device-plugin/controllers\<close>

definition isFakeGpuKWOKNodeConfigMap :: "'y ConfigMap option \<Rightarrow> bool" where
  "isFakeGpuKWOKNodeConfigMap cm =
     (case cm of
        None \<Rightarrow> False
      | Some cm \<Rightarrow> cm_Labels cm LabelTopologyCMNodeName \<noteq> None \<and> cm_Annotations cm AnnotationKwokNode = Some ''fake'')"

text \<open>The addition of a ConfigMap, as the informer reports it; the handler's error is logged only.\<close>

definition on_cm_add :: "('s, 'q, 'y) kube_env \<Rightarrow> ('s, 'q, 'j) status_env \<Rightarrow> 'y ConfigMap \<Rightarrow> 's \<Rightarrow> unit res \<times> 's" where
  "on_cm_add K D cm s =
     (if \<not> isFakeGpuKWOKNodeConfigMap (Some cm) then (Ok (), s)
      else case HandleAddKwok K D cm s of (Err e, s) \<Rightarrow> (Ok (), s) | r \<Rightarrow> r)"

text \<open>The controller is not made without a topology of the cluster, which nothing uses.\<close>

definition NewConfigMapController :: "('s, 'q, 'y) kube_env \<Rightarrow> 's \<Rightarrow> ClusterTopology res" where
  "NewConfigMapController K s = (case GetClusterTopologyFromCM K s of Err e \<Rightarrow> Err (Msg ''Failed to get cluster topology'') | r \<Rightarrow> r)"

section \<open>Properties\<close>

text \<open>Every goroutine is awaited, and each exporter that was made has one.\<close>

lemma exporters_awaited:
  "fst (run_exporters (node_exporters V)) = length (snd (run_exporters (node_exporters V)))"
  "snd (run_exporters (node_exporters V)) = Watcher_routine # map Exporter_routine (node_exporters V)"
  by (simp_all add: run_exporters_def node_exporters_def)

text \<open>
  An interval below zero is neither refused nor replaced: the controller makes one pass, and then the panic of its
  ticker ends the process of all controllers.
\<close>

lemma negative_interval_panics:
  assumes "parse_duration text = Some d" and "d < 0"
  shows "fst (run_runai R (polling_interval parse_duration text) ticks st) = Panic (BadArgument ''non-positive interval for NewTicker'')"
  using assms by (simp add: polling_interval_def run_runai_def)

lemma other_interval_runs:
  assumes "\<forall>d. parse_duration text = Some d \<longrightarrow> 0 \<le> d"
  shows "fst (run_runai R (polling_interval parse_duration text) ticks st) = Ok ()"
  using assms by (cases "parse_duration text") (auto simp: polling_interval_def run_runai_def)

text \<open>
  What a merge patch of a node's status does, over \<open>capacity\<close>, which reads the capacity of a node: it sets the
  resources of the patch, keeps the others and touches no other node.
\<close>

definition status_ok :: "('s, 'q, 'j) status_env \<Rightarrow> (string \<Rightarrow> 's \<Rightarrow> string \<rightharpoonup> 'q) \<Rightarrow> bool" where
  "status_ok D capacity \<longleftrightarrow>
     (\<forall>st j n s s'. marshal_status D st = Inr j \<and> patch_status D n j s = (Inr (), s') \<longrightarrow>
        capacity n s' = capacity n s ++ ns_Capacity st \<and> (\<forall>m. m \<noteq> n \<longrightarrow> capacity m s' = capacity m s))"

lemma send_status_Ok:
  assumes "status_ok D capacity" and "send_status D n st s = (Ok (), s')"
  shows "capacity n s' = capacity n s ++ ns_Capacity st" and "m \<noteq> n \<Longrightarrow> capacity m s' = capacity m s"
proof -
  obtain j where "marshal_status D st = Inr j" and "patch_status D n j s = (Inr (), s')"
    using assms(2) by (auto simp: send_status_def split: sum.splits prod.splits)
  with assms(1) show "capacity n s' = capacity n s ++ ns_Capacity st" and "m \<noteq> n \<Longrightarrow> capacity m s' = capacity m s"
    unfolding status_ok_def by blast+
qed

text \<open>The resources of a topology: its GPUs, and its other devices, of which the last of a name counts\<close>

definition topology_resources :: "(int \<Rightarrow> 'q) \<Rightarrow> int \<Rightarrow> GenericDevice list \<Rightarrow> string \<rightharpoonup> 'q" where
  "topology_resources quantity n ds =
     map_option quantity \<circ> (map_of ((nvidiaGPUResourceName, n) # []) ++ map_of (rev (map (\<lambda>d. (gd_Name d, gd_Count d)) ds)))"

lemma kwok_capacity: "ns_Capacity (kwok_node_status quantity nt) = topology_resources quantity (int (length (Gpus nt))) (OtherDevices nt)"
proof -
  have "kwok_node_status quantity nt = foldl (put_device quantity) (gpu_status quantity (int (length (Gpus nt))))
      (map (\<lambda>d. (gd_Name d, gd_Count d)) (OtherDevices nt))"
    by (simp add: kwok_node_status_def foldl_map)
  then show ?thesis
    by (simp add: fun_eq_iff foldl_put_device topology_resources_def gpu_status_def map_add_def split: option.splits)
qed

text \<open>
  C25. When a simulated node of a known pool is added, the ConfigMap that the status updater stores for it is one that
  the plugin for simulated nodes takes up; and when the plugin's handler succeeds, the node's capacity is what it was,
  with the pool's count of GPUs and its other devices, and no other node's changes.
\<close>

theorem kwok_node_gets_capacity:
  assumes K: "store_ok K" "codec_ok K" "nodes_ok K" and D: "status_ok D capacity"
    and pool: "n_Labels node (NodePoolLabelKey cfg) = Some p" "map_of (NodePools cfg) p = Some pc"
      "ResolveNodePool K f (TopologyCmNamespace K) pc s = Ok r"
    and new: "GetNodeTopologyFromCM K (n_Name node) s = Err e"
    and add: "HandleAddNode K f uuid cfg nolabels node s = (Ok (), s')" and fake: "isFakeNode node"
  shows "\<exists>cm. cm_get K (TopologyCmNamespace K) (GetNodeTopologyCMName K (n_Name node)) s' = Inr cm \<and>
    isFakeGpuKWOKNodeConfigMap (Some cm) \<and>
    (\<forall>s''. HandleAddKwok K D cm s' = (Ok (), s'') \<longrightarrow> on_cm_add K D cm s' = (Ok (), s'') \<and>
      capacity (n_Name node) s'' =
        capacity (n_Name node) s' ++ topology_resources (q_new K) (rp_GpuCount r) (rp_OtherDevices r) \<and>
      (\<forall>m. m \<noteq> n_Name node \<longrightarrow> capacity m s'' = capacity m s'))"
proof (rule node_add_created [OF K pool new add])
  fix cm gs
  let ?nt = "norm_nt \<lparr>GpuMemory = rp_GpuMemory r, GpuProduct = rp_GpuProduct r, DriverVersion = rp_DriverVersion r,
    CudaVersion = rp_CudaVersion r, Gpus = gs, MigStrategy = cc_MigStrategy cfg, OtherDevices = rp_OtherDevices r\<rparr>"
  assume cm: "cm_get K (TopologyCmNamespace K) (GetNodeTopologyCMName K (n_Name node)) s' = Inr cm"
    and l: "cm_Labels cm LabelTopologyCMNodeName = Some (n_Name node)"
    and "cm_Annotations cm AnnotationKwokNode = n_Annotations node AnnotationKwokNode"
    and gs: "generateGpuDetails uuid (rp_GpuCount r) (n_Name node) = Ok gs" and nt: "FromNodeTopologyCM K cm = Ok ?nt"
  then have kwok: "isFakeGpuKWOKNodeConfigMap (Some cm)" using fake by (simp add: isFakeGpuKWOKNodeConfigMap_def isFakeNode_def)
  note props = gpu_details_props [OF gs]
  have "int (length gs) = rp_GpuCount r" using arg_cong [OF props(1), of length] props(3) by simp
  then have "ns_Capacity (kwok_node_status (q_new K) ?nt) = topology_resources (q_new K) (rp_GpuCount r) (rp_OtherDevices r)"
    by (simp add: kwok_capacity) (simp add: norm_nt_def)
  moreover have "HandleAddKwok K D cm s' = send_status D (n_Name node) (kwok_node_status (q_new K) ?nt) s'"
    using l nt by (simp add: HandleAddKwok_def Let_def)
  ultimately show ?thesis using cm kwok send_status_Ok [OF D] by (auto simp: on_cm_add_def)
qed

text \<open>
  A start of the device plugin on a node that is marked as simulated, when it succeeds, gives the node the GPUs
  and other devices of its topology, whatever the order in which the runtime visits them, and touches no other node.
\<close>

theorem fake_start_reports:
  assumes "device_plugin_main K D visit os H getenv V devicePluginPath uuid (s, o', f) = (Ok (), s', o'', f')"
    and "get_bool V ''FAKE_NODE''" and "getenv ''NODE_NAME'' = EnvNodeName K"
    and "GetNodeTopologyFromCM K (EnvNodeName K) s = Ok nt" and D: "status_ok D capacity"
    and visit: "others = visit (other_counts (OtherDevices nt))" "distinct (map fst others)"
      "map_of others = other_counts (OtherDevices nt)"
  shows "capacity (EnvNodeName K) s' =
      capacity (EnvNodeName K) s ++ topology_resources (q_new K) (int (length (Gpus nt))) (OtherDevices nt) \<and>
    (\<forall>m. m \<noteq> EnvNodeName K \<longrightarrow> capacity m s' = capacity m s) \<and> o'' = o'"
proof -
  define fn where "fn = \<lparr>fn_gpuCount = getGpuCount nt, fn_otherDevices = other_counts (OtherDevices nt)\<rparr>"
  have new: "NewDevicePlugins True devicePluginPath uuid (Some nt) = Ok [FakeNodePlugin fn]"
    by (simp add: NewDevicePlugins_def fn_def)
  have "Serve_fake K D visit fn s = (Ok (), s') \<and> o'' = o'"
    using assms(1-4) new
    by (auto simp: device_plugin_main_def split: res.splits prod.splits elim!: sbind_eq_OkD)
  moreover have "fake_node_status (q_new K) fn (visit (fn_otherDevices fn)) = kwok_node_status (q_new K) nt"
    using visit by (intro plugins_agree [OF new]) (simp_all add: fn_def)
  ultimately show ?thesis using send_status_Ok [OF D] by (auto simp: Serve_fake_def kwok_capacity)
qed

end
