(* ===== verification/KwokNodes.thy ===== *)
theory KwokNodes
  imports Apps SliceProps
begin

text \<open>
  What becomes of a new simulated node: the ConfigMap that the status updater stores for it passes the event filters of
  the plugins for simulated nodes and of their status exporter, and the DRA plugin publishes its GPUs.
\<close>

text \<open>
  C40. When a simulated node of a known pool is added, the ConfigMap that the status updater stores for it passes the
  event filters of both plugins for simulated nodes and of the exporter; and when the DRA plugin's reconciliation
  succeeds, the node's ResourceSlice has a device for each GPU of the pool's count, in their order and named after
  their identifiers.
\<close>

theorem kwok_node_gets_slice:
  assumes K: "store_ok K" "codec_ok K" "nodes_ok K" and A: "slices_ok A"
    and pool: "n_Labels node (NodePoolLabelKey cfg) = Some p" "map_of (NodePools cfg) p = Some pc"
      "ResolveNodePool K f (TopologyCmNamespace K) pc s = Ok r"
    and new: "GetNodeTopologyFromCM K (n_Name node) s = Err e" and n: "n_Name node \<noteq> []"
    and add: "HandleAddNode K f uuid cfg nolabels node s = (Ok (), s')" and fake: "isFakeNode node"
  shows "\<exists>cm. cm_get K (TopologyCmNamespace K) (TopologyCmName K @ ''-'' @ n_Name node) s' = Inr cm \<and>
    slice_watched (TopologyCmNamespace K) cm \<and> watched (TopologyCmNamespace K) cm \<and> isFakeGpuKWOKNodeConfigMap (Some cm) \<and>
    (\<forall>s''. ReconcileSlice K A (TopologyCmName K) (TopologyCmNamespace K) (TopologyCmName K @ ''-'' @ n_Name node) s' = (Ok (), s'') \<longrightarrow>
      (\<exists>x. slice_get A (resourceSliceName (n_Name node)) s'' = Inr x \<and> sl_NodeName x = n_Name node \<and>
        map dv_Name (sl_Devices x) = map (\<lambda>i. to_lower (gpu_id uuid (n_Name node) i)) [0..<nat (rp_GpuCount r)]))"
proof (rule node_add_created [OF K pool new add])
  fix cm gs
  let ?nt = "norm_nt \<lparr>GpuMemory = rp_GpuMemory r, GpuProduct = rp_GpuProduct r, DriverVersion = rp_DriverVersion r,
    CudaVersion = rp_CudaVersion r, Gpus = gs, MigStrategy = cc_MigStrategy cfg, OtherDevices = rp_OtherDevices r\<rparr>"
  assume cm: "cm_get K (TopologyCmNamespace K) (GetNodeTopologyCMName K (n_Name node)) s' = Inr cm"
    and l: "cm_Labels cm LabelTopologyCMNodeName = Some (n_Name node)"
    and a: "cm_Annotations cm AnnotationKwokNode = n_Annotations node AnnotationKwokNode"
    and gs: "generateGpuDetails uuid (rp_GpuCount r) (n_Name node) = Ok gs" and nt: "FromNodeTopologyCM K cm = Ok ?nt"
    and ns: "cm_Namespace cm = TopologyCmNamespace K"
  note cm' = cm [unfolded GetNodeTopologyCMName_def]
  have ids: "map ID (Gpus ?nt) = map (gpu_id uuid (n_Name node)) [0..<nat (rp_GpuCount r)]"
    using gpu_details_props(1) [OF gs] by (simp add: norm_nt_def comp_def)
  have "ID g \<noteq> []" if "g \<in> set (Gpus ?nt)" for g
  proof -
    have "ID g \<in> set (map (gpu_id uuid (n_Name node)) [0..<nat (rp_GpuCount r)])"
      using that unfolding ids [symmetric] set_map by (rule imageI)
    then show ?thesis by (auto simp: gpu_id_def)
  qed
  then have "filter (\<lambda>gpu. ID gpu \<noteq> []) (Gpus ?nt) = Gpus ?nt" by (intro filter_True) blast
  then have devs: "map dv_Name (devicesFromTopology A ?nt) = map (\<lambda>i. to_lower (gpu_id uuid (n_Name node) i)) [0..<nat (rp_GpuCount r)]"
    using arg_cong [OF ids, of "map to_lower"] by (simp only: devicesFromTopology_def gpu_device_def map_map comp_def Device.select_convs)
  have "\<exists>x. slice_get A (resourceSliceName (n_Name node)) s'' = Inr x \<and> sl_NodeName x = n_Name node \<and>
      sl_Devices x = devicesFromTopology A ?nt"
    if "ReconcileSlice K A (TopologyCmName K) (TopologyCmNamespace K) (TopologyCmName K @ ''-'' @ n_Name node) s' = (Ok (), s'')" for s''
    using slice_server.reconciled(1) [OF slice_server.intro [OF A] that n] cm' l nt by auto
  with devs show ?thesis using cm' l a ns fake
    by (auto simp: slice_watched_def watched_def isKWOKNodeConfigMap_def isFakeGpuKWOKNodeConfigMap_def isFakeNode_def)
qed

end
