(* ===== verification/WitnessApps.thy ===== *)
theory WitnessApps
  imports KwokNodes WitnessCluster WitnessPlugins
begin

text \<open>The theorems on simulated nodes, applied to the in-memory server and the store of slices beside it\<close>

section \<open>A server that patches the status of its nodes\<close>

definition v_capacity :: "string \<Rightarrow> ref_state \<Rightarrow> string \<rightharpoonup> int" where
  "v_capacity n s = (case map_of (rs_nodes s) n of None \<Rightarrow> Map.empty | Some nd \<Rightarrow> n_Allocatable nd)"

definition v_status :: "(ref_state, int, string \<rightharpoonup> int) status_env" where
  "v_status = \<lparr>marshal_status = (\<lambda>st. Inr (ns_Capacity st)),
     patch_status = (\<lambda>n cap s. case map_of (rs_nodes s) n of
        None \<Rightarrow> (Inl NotFoundErr, s)
      | Some nd \<Rightarrow> (Inr (), s\<lparr>rs_nodes := AList.update n (nd\<lparr>n_Allocatable := n_Allocatable nd ++ cap\<rparr>) (rs_nodes s)\<rparr>))\<rparr>"

lemma v_status_ok: "status_ok v_status v_capacity"
  by (auto simp: status_ok_def v_status_def v_capacity_def map_of_update split: option.splits)

section \<open>A node of a known pool\<close>

definition v_node :: "int Node" where
  "v_node = w_node\<lparr>n_Annotations := [AnnotationKwokNode \<mapsto> ''fake''], n_AnnotationsNil := False\<rparr>"

definition v_added :: "unit res \<times> ref_state" where
  "v_added = HandleAddNode ref_env w_sort (\<lambda>x. x) w_cfg True v_node (w_state [] [] [v_node])"

definition v_cm :: "ref_text ConfigMap" where
  "v_cm = \<lparr>cm_Name = ''topology-node1'', cm_Namespace = ''gpu-operator'',
     cm_Labels = [LabelTopologyCMNodeTopology \<mapsto> ''true'', LabelTopologyCMNodeName \<mapsto> ''node1''],
     cm_Annotations = [AnnotationKwokNode \<mapsto> ''fake''],
     cm_Data = [CmTopologyKey \<mapsto> TNode (norm_nt \<lparr>GpuMemory = 0, GpuProduct = ''H100'', DriverVersion = [], CudaVersion = [],
       Gpus = map (\<lambda>idx. \<lparr>ID = gpu_id (\<lambda>x. x) ''node1'' idx, Status = zero_status\<rparr>) [0..<4], MigStrategy = ''none'',
       OtherDevices = [\<lparr>gd_Name = ''nic'', gd_Count = 2\<rparr>, \<lparr>gd_Name = ''rdma'', gd_Count = 1\<rparr>]\<rparr>)]\<rparr>"

lemma v_added_eq:
  "v_added = (Ok (), (w_state [] [] [v_node])\<lparr>rs_cms := [((''gpu-operator'', ''topology-node1''), v_cm)]\<rparr>)"
  by (simp add: v_added_def HandleAddNode_def createNodeTopologyCM_def w_cfg_def v_node_def w_node_def w_pool_resolved [unfolded ref_env_simps]
      generateGpuDetails_def GetNodeTopologyFromCM_def ref_find_def CreateNodeTopologyCM_def ToNodeTopologyCM_def ref_env_simps
      ref_create_def w_state_def v_cm_def zero_pool_def GetNodeTopologyCMName_def Let_def split_def)

theorem kwok_node_gets_capacity_witness:
  "\<exists>s. on_cm_add ref_env v_status v_cm (snd v_added) = (Ok (), s) \<and>
    v_capacity ''node1'' s ''nvidia.com/gpu'' = Some 4000 \<and> v_capacity ''node1'' s ''nic'' = Some 2000 \<and>
    v_capacity ''node1'' s ''cpu'' = Some 4000"
proof -
  let ?r = "zero_pool\<lparr>rp_OtherDevices := [\<lparr>gd_Name = ''nic'', gd_Count = 2\<rparr>, \<lparr>gd_Name = ''rdma'', gd_Count = 1\<rparr>],
        rp_GpuProduct := ''H100'', rp_GpuCount := 4\<rparr>"
  have r: "HandleAddNode ref_env w_sort (\<lambda>x. x) w_cfg True v_node (w_state [] [] [v_node]) = (Ok (), snd v_added)"
    using v_added_eq by (simp add: v_added_def)
  have cm: "cm_get ref_env (TopologyCmNamespace ref_env) (GetNodeTopologyCMName ref_env (n_Name v_node)) (snd v_added) = Inr v_cm"
    by (simp add: v_added_eq ref_env_simps GetNodeTopologyCMName_def v_node_def w_node_def)
  have "fst (HandleAddKwok ref_env v_status v_cm (snd v_added)) = Ok ()"
    by (simp add: HandleAddKwok_def FromNodeTopologyCM_def v_cm_def ref_env_simps send_status_def v_status_def v_added_eq w_state_def
        v_node_def w_node_def Let_def)
  then obtain s where s: "HandleAddKwok ref_env v_status v_cm (snd v_added) = (Ok (), s)" by (metis prod.collapse)
  have "on_cm_add ref_env v_status v_cm (snd v_added) = (Ok (), s) \<and>
      v_capacity (n_Name v_node) s = v_capacity (n_Name v_node) (snd v_added) ++
        topology_resources (q_new ref_env) (rp_GpuCount ?r) (rp_OtherDevices ?r)"
    using kwok_node_gets_capacity [OF ref_store_ok ref_codec_ok ref_nodes_ok v_status_ok _ _ w_pool_resolved _ r, of "''a''" NotFoundErr]
      cm s by (auto simp: v_node_def w_node_def w_cfg_def isFakeNode_def)
  moreover have "v_capacity ''node1'' (snd v_added) ''cpu'' = Some 4000"
    by (simp add: v_capacity_def v_added_eq w_state_def v_node_def w_node_def)
  ultimately show ?thesis
    by (intro exI [of _ s])
      (simp add: topology_resources_def nvidiaGPUResourceName_def ref_env_def zero_pool_def map_add_def v_node_def w_node_def)
qed

section \<open>The slice of the node\<close>

lemma beside_simps:
  "cm_get (beside K) ns n s = cm_get K ns n (fst s)"
  "cm_create (beside K) ns cm s = apsnd (\<lambda>x. (x, snd s)) (cm_create K ns cm (fst s))"
  "cm_apply (beside K) ns ap s = apsnd (\<lambda>x. (x, snd s)) (cm_apply K ns ap (fst s))"
  "cm_delete (beside K) ns n s = apsnd (\<lambda>x. (x, snd s)) (cm_delete K ns n (fst s))"
  "pod_annotate (beside K) ns n k v s = apsnd (\<lambda>x. (x, snd s)) (pod_annotate K ns n k v (fst s))"
  "node_patch_labels (beside K) n ls s = apsnd (\<lambda>x. (x, snd s)) (node_patch_labels K n ls (fst s))"
  "unmarshal_nt (beside K) = unmarshal_nt K" "marshal_nt (beside K) = marshal_nt K" "empty_text (beside K) = empty_text K"
  "TopologyCmName (beside K) = TopologyCmName K" "TopologyCmNamespace (beside K) = TopologyCmNamespace K"
  by (simp_all add: beside_def)

lemma beside_kept:
  "others_kept (beside K) ns n s s' = others_kept K ns n (fst s) (fst s')" "applied (beside K) ns ap s cm = applied K ns ap (fst s) cm"
  by (simp_all add: others_kept_def applied_def beside_simps)

lemma apsnd_eq: "apsnd (\<lambda>x. (x, t)) m = (r, s') \<longleftrightarrow> (\<exists>s1. m = (r, s1) \<and> s' = (s1, t))"
  by (cases m) auto

lemma beside_ok:
  "store_ok K \<Longrightarrow> store_ok (beside K)" "codec_ok K \<Longrightarrow> codec_ok (beside K)" "nodes_ok K \<Longrightarrow> nodes_ok (beside K)"
proof -
  assume K: "store_ok K"
  have "apply_ok (beside K)"
    unfolding apply_ok_def beside_kept beside_simps apsnd_eq using K [unfolded store_ok_def apply_ok_def] by (auto split: sum.split)
  moreover have "create_ok (beside K)"
    unfolding create_ok_def beside_kept beside_simps apsnd_eq using K [unfolded store_ok_def create_ok_def] by auto
  moreover have "delete_ok (beside K)"
    unfolding delete_ok_def beside_kept beside_simps apsnd_eq using K [unfolded store_ok_def delete_ok_def] by auto
  moreover have "annotate_ok (beside K)"
    using K by (simp add: store_ok_def annotate_ok_def beside_simps)
  ultimately show "store_ok (beside K)" by (simp add: store_ok_def)
next
  assume "codec_ok K"
  then show "codec_ok (beside K)" by (simp add: codec_ok_def beside_simps)
next
  assume "nodes_ok K"
  then show "nodes_ok (beside K)" by (simp add: nodes_ok_def same_cms_def beside_simps)
qed

lemma slice_kube_ok: "store_ok slice_kube_env" "codec_ok slice_kube_env" "nodes_ok slice_kube_env"
  by (simp_all add: slice_kube_env_def beside_ok)

lemma slice_kube_simps:
  "cm_get slice_kube_env ns n s = ref_find (rs_cms (fst s)) (ns, n)"
  "cm_create slice_kube_env ns cm s = apsnd (\<lambda>x. (x, snd s)) (ref_create ns cm (fst s))"
  "unmarshal_nt slice_kube_env (TNode nt) = Inr nt" "marshal_nt slice_kube_env nt = Inr (TNode (norm_nt nt))"
  "TopologyCmName slice_kube_env = ''topology''" "TopologyCmNamespace slice_kube_env = ''gpu-operator''"
  by (simp_all add: slice_kube_env_def beside_simps ref_env_simps)

lemma v_pool_resolved:
  "ResolveNodePool slice_kube_env w_sort namespace w_pool s =
    Ok (zero_pool\<lparr>rp_OtherDevices := [\<lparr>gd_Name = ''nic'', gd_Count = 2\<rparr>, \<lparr>gd_Name = ''rdma'', gd_Count = 1\<rparr>],
        rp_GpuProduct := ''H100'', rp_GpuCount := 4\<rparr>)"
  by (simp add: ResolveNodePool_def resolveFromOverrides_def w_pool_def w_over_def getMap_def DeviceCount_def
      other_devices_def w_sort_def zero_pool_def)

lemma v_slice_added:
  "HandleAddNode slice_kube_env w_sort (\<lambda>x. x) w_cfg True v_node (w_state [] [] [v_node], []) = (Ok (), snd v_added, [])"
  by (simp add: HandleAddNode_def createNodeTopologyCM_def w_cfg_def v_node_def w_node_def v_pool_resolved
      generateGpuDetails_def GetNodeTopologyFromCM_def ref_find_def CreateNodeTopologyCM_def ToNodeTopologyCM_def
      slice_kube_simps v_added_eq v_cm_def
      ref_create_def w_state_def zero_pool_def GetNodeTopologyCMName_def Let_def split_def)

theorem kwok_node_gets_slice_witness:
  "\<exists>s x. ReconcileSlice slice_kube_env ref_slice_env ''topology'' ''gpu-operator'' (''topology-node1'') (snd v_added, []) = (Ok (), s) \<and>
    slice_get ref_slice_env (resourceSliceName ''node1'') s = Inr x \<and> length (sl_Devices x) = 4"
proof -
  let ?r = "ReconcileSlice slice_kube_env ref_slice_env ''topology'' ''gpu-operator'' ''topology-node1'' (snd v_added, [])"
  have cm: "cm_get slice_kube_env ''gpu-operator'' ''topology-node1'' (snd v_added, []) = Inr v_cm"
    by (simp add: slice_kube_simps v_added_eq ref_find_def)
  obtain nt where nt: "FromNodeTopologyCM slice_kube_env v_cm = Ok nt" "cm_Labels v_cm LabelTopologyCMNodeName = Some ''node1''"
    by (simp add: FromNodeTopologyCM_def slice_kube_simps v_cm_def)
  have "fst (createOrUpdateResourceSlice ref_slice_env ''node1'' nt (snd v_added, [])) = Ok ()"
    by (simp add: createOrUpdateResourceSlice_def upsert_slice_def ref_slice_simps ref_find_def of_sum_def wrap_err_def)
  then have "fst ?r = Ok ()" unfolding ReconcileSlice_def cm by (simp add: HandleAddOrUpdateSlice_def nt wrap_err_def)
  then obtain s where r: "?r = (Ok (), s)" by (metis prod.collapse)
  have env: "TopologyCmName slice_kube_env = ''topology''" "TopologyCmNamespace slice_kube_env = ''gpu-operator''"
    by (simp_all add: slice_kube_simps)
  have node: "n_Name v_node = ''node1''" "n_Labels v_node (NodePoolLabelKey w_cfg) = Some ''a''" "map_of (NodePools w_cfg) ''a'' = Some w_pool"
    "isFakeNode v_node" "GetNodeTopologyFromCM slice_kube_env (n_Name v_node) (w_state [] [] [v_node], []) = Err NotFoundErr"
    by (simp_all add: v_node_def w_node_def w_cfg_def isFakeNode_def GetNodeTopologyFromCM_def slice_kube_simps
        ref_find_def w_state_def)
  note taken = kwok_node_gets_slice [OF slice_kube_ok ref_slices_ok node(2,3) v_pool_resolved node(5) _ v_slice_added node(4)]
  have "\<exists>x. slice_get ref_slice_env (resourceSliceName ''node1'') s = Inr x \<and>
      map dv_Name (sl_Devices x) = map (\<lambda>i. to_lower (gpu_id (\<lambda>x. x) ''node1'' i)) [0..<4]"
    using taken r by (cases s) (auto simp: node(1) env zero_pool_def)
  then obtain x where x: "slice_get ref_slice_env (resourceSliceName ''node1'') s = Inr x"
    and d: "map dv_Name (sl_Devices x) = map (\<lambda>i. to_lower (gpu_id (\<lambda>x. x) ''node1'' i)) [0..<4]" by blast
  have "length (sl_Devices x) = 4" using arg_cong [OF d, of length] by simp
  with r x show ?thesis by blast
qed

section \<open>The device plugin on a node that is marked as simulated\<close>

definition v_nt :: NodeTopology where
  "v_nt = w_nt [w_gpu ''g0'' [] (Some Map.empty), w_gpu ''g1'' [] (Some Map.empty)]\<lparr>OtherDevices := [\<lparr>gd_Name = ''nic'', gd_Count = 2\<rparr>]\<rparr>"

text \<open>A host without the files to publish, and an operating system that no plugin of this node calls\<close>

definition v_files :: "unit host_files" where
  "v_files = \<lparr>stat_file = (\<lambda>_ _. Inl NotFoundErr), copy_file = (\<lambda>_ _ f. (Inr (), f)), file_missing = is_not_found\<rparr>"

definition v_os :: "unit node_os" where
  "v_os = \<lparr>os_remove = (\<lambda>_ s. (Inr (), s)), is_not_exist = is_not_found, net_listen = (\<lambda>_ s. (Inr (), s)),
           dial = (\<lambda>_ s. (Inr (), s)), close_conn = (\<lambda>_ s. (Inr (), s)),
           kubelet_register = (\<lambda>_ _ _ s. (Inr (), s)), kubelet_socket = ''kubelet.sock''\<rparr>"

definition v_start :: "unit res \<times> ref_state \<times> unit \<times> unit" where
  "v_start = device_plugin_main ref_env v_status (\<lambda>_. [(''nic'', 2)]) v_os v_files (\<lambda>_. ''node1'')
     \<lparr>get_string = (\<lambda>_. []), get_bool = (\<lambda>_. True)\<rparr> ''/plugins/'' (\<lambda>_ _. []) (w_state [(''node1'', v_nt)] [] [w_node], (), ())"

lemma v_start_ok: "fst v_start = Ok ()"
proof -
  have t: "GetNodeTopologyFromCM ref_env ''node1'' (w_state [(''node1'', v_nt)] [] [w_node]) = Ok v_nt" by simp
  have f: "publish_all v_files published_files () = (Ok (), ())"
    by (simp add: published_files_def publish_def v_files_def)
  have serve: "fst (Serve_fake ref_env v_status (\<lambda>_. [(''nic'', 2)]) fn (w_state [(''node1'', v_nt)] [] [w_node])) = Ok ()" for fn
    by (simp add: Serve_fake_def send_status_def v_status_def ref_env_simps w_state_def w_node_def)
  show ?thesis
    by (simp add: v_start_def device_plugin_main_def ValidateConfig_def validateEnvs_def NewDevicePlugins_def t f split_def serve)
qed

theorem fake_start_reports_witness:
  "v_capacity ''node1'' (fst (snd v_start)) ''nvidia.com/gpu'' = Some 2000 \<and> v_capacity ''node1'' (fst (snd v_start)) ''nic'' = Some 2000 \<and>
    v_capacity ''node1'' (fst (snd v_start)) ''cpu'' = Some 4000"
proof -
  have run: "device_plugin_main ref_env v_status (\<lambda>_. [(''nic'', 2)]) v_os v_files (\<lambda>_. ''node1'')
      \<lparr>get_string = (\<lambda>_. []), get_bool = (\<lambda>_. True)\<rparr> ''/plugins/'' (\<lambda>_ _. []) (w_state [(''node1'', v_nt)] [] [w_node], (), ()) =
      (Ok (), fst (snd v_start), (), ())"
    using v_start_ok unfolding v_start_def by (simp add: prod_eq_iff)
  have node: "EnvNodeName ref_env = ''node1''" by (simp add: ref_env_simps)
  have "v_capacity ''node1'' (fst (snd v_start)) =
      v_capacity ''node1'' (w_state [(''node1'', v_nt)] [] [w_node]) ++ topology_resources (q_new ref_env) 2 (OtherDevices v_nt)"
    using fake_start_reports [OF run _ _ _ v_status_ok refl, of v_nt]
    by (auto simp: node v_nt_def other_counts_def fun_eq_iff)
  then show ?thesis
    by (simp add: topology_resources_def nvidiaGPUResourceName_def ref_env_def map_add_def v_capacity_def w_state_def w_node_def v_nt_def)
qed

end
