(* ===== verification/Interleaving.thy ===== *)
theory Interleaving
  imports PodHandler NodeHandler
begin

text \<open>
  The controllers of the status updater at the same time.  The informer of the pods runs its handlers one after the
  other; the informer of the nodes starts a goroutine for each event (controllers/node/controller.go), and both
  controllers run in goroutines of one process (status-updater/app.go), over one API server.  Here the handlers are cut into
  the steps between which another goroutine may run, a schedule picks the goroutine that takes the next step, and
  the theorems hold of every schedule, or show what a schedule can do.
\<close>

section \<open>The handlers of pods in steps\<close>

datatype handler = AddPod | UpdatePod | DeletePod

definition run_handler :: "('s, 'q, 'y) kube_env \<Rightarrow> handler \<Rightarrow> 'q Pod \<Rightarrow> 's \<Rightarrow> unit res \<times> 's" where
  "run_handler K h = (case h of AddPod \<Rightarrow> HandleAdd K | UpdatePod \<Rightarrow> HandleUpdate K | DeletePod \<Rightarrow> HandleDelete K)"

text \<open>The handler that an event runs, if any\<close>

definition event_handler :: "('s, 'q, 'y) kube_env \<Rightarrow> 'q pod_event \<Rightarrow> (handler \<times> 'q Pod) option res" where
  "event_handler K ev =
     (case ev of
        Added pod \<Rightarrow> rbind (pod_filter K pod) (\<lambda>b. Ok (if b then Some (AddPod, pod) else None))
      | Updated old new \<Rightarrow>
          rbind (pod_filter K new) (\<lambda>newer. rbind (pod_filter K old) (\<lambda>older.
            Ok (if newer \<and> older then Some (UpdatePod, new) else if newer then Some (AddPod, new)
                else if older then Some (DeletePod, old) else None)))
      | Deleted pod \<Rightarrow> rbind (pod_filter K pod) (\<lambda>b. Ok (if b then Some (DeletePod, pod) else None))
      | Tombstone \<Rightarrow> Ok None)"

text \<open>What a handler does between its read of the topology and its write\<close>

definition pod_work :: "('s, 'q, 'y) kube_env \<Rightarrow> handler \<Rightarrow> 'q Pod \<Rightarrow> NodeTopology \<Rightarrow> 's \<Rightarrow> NodeTopology res \<times> 's" where
  "pod_work K h pod nt s =
     (case h of
        AddPod \<Rightarrow> sbind (handleDedicatedGpuPodAddition K pod nt s) (\<lambda>nt s.
          sbind (handleSharedGpuPodAddition K pod nt s, s) (\<lambda>nt s. (handleDraGpuPodAddition K pod nt s, s)))
      | UpdatePod \<Rightarrow> sbind (handleDedicatedGpuPodUpdate K pod nt s, s) (\<lambda>nt s.
          sbind (handleSharedGpuPodUpdate K pod nt s, s) (\<lambda>nt s. (handleDraGpuPodUpdate K pod nt s, s)))
      | DeletePod \<Rightarrow> sbind (handleDedicatedGpuPodDeletion K pod nt, s) (\<lambda>nt s.
          sbind (handleSharedGpuPodDeletion K pod nt s, s) (\<lambda>nt s. (Ok (handleDraGpuPodDeletion pod nt), s))))"

datatype 'q pod_thread = Waiting_pod | Reading handler "'q Pod" | Working handler "'q Pod" NodeTopology | Writing "'q Pod" NodeTopology

text \<open>A step of the pod controller; an error is logged, and a panic (\<open>None\<close>) ends the process.\<close>

definition pod_turn :: "('s, 'q, 'y) kube_env \<Rightarrow> 'q pod_thread \<Rightarrow> 's \<Rightarrow> 'q pod_thread option \<times> 's" where
  "pod_turn K th s =
     (case th of
        Waiting_pod \<Rightarrow> (Some Waiting_pod, s)
      | Reading h pod \<Rightarrow>
          (case GetNodeTopologyFromCM K (p_NodeName pod) s of
             Ok nt \<Rightarrow> (Some (Working h pod nt), s) | Err e \<Rightarrow> (Some Waiting_pod, s) | Panic p \<Rightarrow> (None, s))
      | Working h pod nt \<Rightarrow>
          (case pod_work K h pod nt s of
             (Ok nt, s) \<Rightarrow> (Some (Writing pod nt), s) | (Err e, s) \<Rightarrow> (Some Waiting_pod, s) | (Panic p, s) \<Rightarrow> (None, s))
      | Writing pod nt \<Rightarrow>
          (case UpdateNodeTopologyCM K nt (p_NodeName pod) s of
             (Panic p, s) \<Rightarrow> (None, s) | (r, s) \<Rightarrow> (Some Waiting_pod, s)))"

section \<open>The handlers of nodes in steps\<close>

text \<open>
  A goroutine of the node controller, by what it does next.  The controller itself lists nodes and topologies and
  prunes what it has listed, one ConfigMap after the other, before it starts its informer.
\<close>

datatype ('q, 'y) node_job =
    AddNode "'q Node" | CreateTopology "'q Node" NodeTopology | LabelNode "'q Node"
  | DeleteNode "'q Node" | UnlabelNode "'q Node"
  | ListTopologies | Prune "string list" "'y ConfigMap list"

text \<open>A goroutine goes on, ends, or ends the process, by a panic or \<^verbatim>\<open>log.Fatalf\<close>.\<close>

datatype 'j outcome = Then 'j | Ended | Died

record ('s, 'q, 'y) updater =
  up_kube :: "('s, 'q, 'y) kube_env"
  up_sort :: "GenericDevice list \<Rightarrow> GenericDevice list"
  up_uuid :: "string \<Rightarrow> string"
  up_config :: ClusterConfig
  up_disableLabeling :: bool

text \<open>The topology that \<^verbatim>\<open>createNodeTopologyCM\<close> makes for a node without one\<close>

definition new_topology :: "('s, 'q, 'y) updater \<Rightarrow> 'q Node \<Rightarrow> 's \<Rightarrow> NodeTopology res" where
  "new_topology U node s =
     (case n_Labels node (NodePoolLabelKey (up_config U)) of
        None \<Rightarrow> Err (Msg ''node does not have a nodepool label'')
      | Some nodePoolName \<Rightarrow>
          (case map_of (NodePools (up_config U)) nodePoolName of
             None \<Rightarrow> Err (Msg ''nodepool not found in cluster topology'')
           | Some poolConfig \<Rightarrow>
               rbind (wrap_err ''failed to resolve nodepool''
                        (ResolveNodePool (up_kube U) (up_sort U) (TopologyCmNamespace (up_kube U)) poolConfig s)) (\<lambda>r.
               rbind (generateGpuDetails (up_uuid U) (rp_GpuCount r) (n_Name node)) (\<lambda>gpus.
                 Ok \<lparr>GpuMemory = rp_GpuMemory r, GpuProduct = rp_GpuProduct r, DriverVersion = rp_DriverVersion r,
                     CudaVersion = rp_CudaVersion r, Gpus = gpus, MigStrategy = cc_MigStrategy (up_config U),
                     OtherDevices = rp_OtherDevices r\<rparr>))))"

definition outcome_of :: "('a \<Rightarrow> 'j outcome) \<Rightarrow> 'a res \<times> 's \<Rightarrow> 'j outcome \<times> 's" where
  "outcome_of f m = (case m of (Ok x, s) \<Rightarrow> (f x, s) | (Err e, s) \<Rightarrow> (Ended, s) | (Panic p, s) \<Rightarrow> (Died, s))"

lemma outcome_of_simps [simp]:
  "outcome_of f (Ok x, s) = (f x, s)" "outcome_of f (Err e, s) = (Ended, s)" "outcome_of f (Panic p, s) = (Died, s)"
  by (simp_all add: outcome_of_def)

definition job_turn :: "('s, 'q, 'y) updater \<Rightarrow> ('q, 'y) node_job \<Rightarrow> 's \<Rightarrow> ('q, 'y) node_job outcome \<times> 's" where
  "job_turn U job s =
     (let K = up_kube U in
      case job of
        AddNode node \<Rightarrow>
          (case GetNodeTopologyFromCM K (n_Name node) s of
             Ok nt \<Rightarrow> (Then (LabelNode node), s)
           | Panic p \<Rightarrow> (Died, s)
           | Err e \<Rightarrow> outcome_of (\<lambda>nt. Then (CreateTopology node nt)) (new_topology U node s, s))
      | CreateTopology node nt \<Rightarrow> outcome_of (\<lambda>_. Then (LabelNode node)) (CreateNodeTopologyCM K nt node s)
      | LabelNode node \<Rightarrow> if up_disableLabeling U then (Ended, s) else outcome_of (\<lambda>_. Ended) (labelNode K node s)
      | DeleteNode node \<Rightarrow>
          (case DeleteNodeTopologyCM K (n_Name node) s of
             (Err e, s) \<Rightarrow> (if is_not_found e then Then (UnlabelNode node) else Ended, s)
           | m \<Rightarrow> outcome_of (\<lambda>_. Then (UnlabelNode node)) m)
      | UnlabelNode node \<Rightarrow> if up_disableLabeling U then (Ended, s) else outcome_of (\<lambda>_. Ended) (unlabelNode K node s)
      | ListTopologies \<Rightarrow>
          (case (node_list K (NodePoolLabelKey (up_config U)) s, cm_list K (TopologyCmNamespace K) LabelTopologyCMNodeTopology ''true'' s) of
             (Inr nodes, Inr cms) \<Rightarrow> (Then (Prune (map (\<lambda>n. GetNodeTopologyCMName K (n_Name n)) nodes) cms), s)
           | _ \<Rightarrow> (Died, s))
      | Prune valid cms \<Rightarrow>
          (case cms of
             [] \<Rightarrow> (Ended, s)
           | cm # cms \<Rightarrow>
               (case pruneTopologyConfigMap K cm (cm_Name cm \<in> set valid) s of
                  (Panic p, s) \<Rightarrow> (Died, s) | (r, s) \<Rightarrow> (Then (Prune valid cms), s))))"

text \<open>
  An event of the nodes' informer and the goroutine that \<^verbatim>\<open>FilteringResourceEventHandler\<close> starts for it: a
  node that gets the label of a pool is added, one that loses it is deleted in its old state; there is no handler of
  updates, and an object that is not a node is dropped.
\<close>

datatype 'q node_event = NodeAdded "'q Node" | NodeUpdated "'q Node" "'q Node" | NodeDeleted "'q Node" | NodeTombstone

definition node_event_job :: "ClusterConfig \<Rightarrow> 'q node_event \<Rightarrow> ('q, 'y) node_job option" where
  "node_event_job cfg ev =
     (case ev of
        NodeAdded node \<Rightarrow> if isFakeGpuNode cfg node then Some (AddNode node) else None
      | NodeUpdated old new \<Rightarrow>
          if isFakeGpuNode cfg new then (if isFakeGpuNode cfg old then None else Some (AddNode new))
          else if isFakeGpuNode cfg old then Some (DeleteNode old) else None
      | NodeDeleted node \<Rightarrow> if isFakeGpuNode cfg node then Some (DeleteNode node) else None
      | NodeTombstone \<Rightarrow> None)"

section \<open>Schedules\<close>

text \<open>
  What happens next: an event of a pod, which waits for the handler before it; a step of the pod controller; an event
  of a node, which starts a goroutine, and waits for the pruning; a step of a goroutine, by its position; a restart of
  the process; or a change by others, to a state.
\<close>

datatype ('s, 'q) choice = PodEvent "'q pod_event" | PodTurn | NodeEvent "'q node_event" | JobTurn nat | Restart | World 's

type_synonym ('s, 'q, 'y) cluster = "'s \<times> 'q pod_thread \<times> ('q, 'y) node_job list"

text \<open>A process that has just started: its handlers wait, and its node controller prunes.\<close>

definition started :: "'s \<Rightarrow> ('s, 'q, 'y) cluster" where
  "started s = (s, Waiting_pod, [ListTopologies])"

definition pruning :: "('s, 'q, 'y) cluster \<Rightarrow> bool" where
  "pruning cl = (case cl of (s, th, jobs) \<Rightarrow> list_ex (\<lambda>job. case job of ListTopologies \<Rightarrow> True | Prune valid cms \<Rightarrow> True | _ \<Rightarrow> False) jobs)"

definition turn :: "('s, 'q, 'y) updater \<Rightarrow> ('s, 'q) choice \<Rightarrow> ('s, 'q, 'y) cluster \<Rightarrow> ('s, 'q, 'y) cluster" where
  "turn U c cl =
     (let (s, th, jobs) = cl in
      case c of
        PodEvent ev \<Rightarrow>
          (case th of
             Waiting_pod \<Rightarrow>
               (case event_handler (up_kube U) ev of
                  Ok (Some (h, pod)) \<Rightarrow> (s, Reading h pod, jobs) | Panic p \<Rightarrow> started s | _ \<Rightarrow> cl)
           | _ \<Rightarrow> cl)
      | PodTurn \<Rightarrow> (case pod_turn (up_kube U) th s of (Some th, s) \<Rightarrow> (s, th, jobs) | (None, s) \<Rightarrow> started s)
      | NodeEvent ev \<Rightarrow>
          if pruning cl then cl
          else (case node_event_job (up_config U) ev of None \<Rightarrow> cl | Some job \<Rightarrow> (s, th, jobs @ [job]))
      | JobTurn i \<Rightarrow>
          if i < length jobs
          then (case job_turn U (jobs ! i) s of
                  (Then job, s) \<Rightarrow> (s, th, jobs[i := job])
                | (Ended, s) \<Rightarrow> (s, th, take i jobs @ drop (Suc i) jobs)
                | (Died, s) \<Rightarrow> started s)
          else cl
      | Restart \<Rightarrow> started s
      | World s \<Rightarrow> (s, th, jobs))"

definition run_schedule :: "('s, 'q, 'y) updater \<Rightarrow> ('s, 'q) choice list \<Rightarrow> ('s, 'q, 'y) cluster \<Rightarrow> ('s, 'q, 'y) cluster" where
  "run_schedule U cs cl = foldl (\<lambda>cl c. turn U c cl) cl cs"

lemma run_schedule_simps [simp]:
  "run_schedule U [] cl = cl" "run_schedule U (c # cs) cl = run_schedule U cs (turn U c cl)"
  "run_schedule U (cs @ cs') cl = run_schedule U cs' (run_schedule U cs cl)"
  by (simp_all add: run_schedule_def)

section \<open>Steps that are not interrupted make the handlers\<close>

lemma sbind_assoc: "sbind (sbind m f) g = sbind m (\<lambda>x s. sbind (f x s) g)"
  by (cases m; cases "fst m") auto

lemma sbind_rbind: "sbind (rbind r f, s) g = sbind (r, s) (\<lambda>x s. sbind (f x, s) g)"
  by (cases r) simp_all

lemma dispatch_handler:
  "dispatch K ev s =
    (case event_handler K ev of
       Ok None \<Rightarrow> (Ok (), s) | Ok (Some (h, pod)) \<Rightarrow> logged (run_handler K h pod s) | Err e \<Rightarrow> (Err e, s) | Panic p \<Rightarrow> (Panic p, s))"
proof (cases ev)
  case (Added p)
  then show ?thesis by (cases "pod_filter K p") (simp_all add: dispatch_def event_handler_def run_handler_def)
next
  case (Updated old new)
  then show ?thesis by (cases "pod_filter K new"; cases "pod_filter K old")
    (simp_all add: dispatch_def event_handler_def run_handler_def)
next
  case (Deleted p)
  then show ?thesis by (cases "pod_filter K p") (simp_all add: dispatch_def event_handler_def run_handler_def)
qed (simp add: dispatch_def event_handler_def)

lemma run_handler_steps:
  "run_handler K h pod s =
    sbind (wrap_err ''could not get node topology'' (GetNodeTopologyFromCM K (p_NodeName pod) s), s) (\<lambda>nt s.
    sbind (pod_work K h pod nt s) (\<lambda>nt s. UpdateNodeTopologyCM K nt (p_NodeName pod) s))"
  by (cases h) (simp_all add: run_handler_def HandleAdd_def HandleUpdate_def HandleDelete_def pod_work_def sbind_assoc)

lemma createNodeTopologyCM_steps:
  "createNodeTopologyCM (up_kube U) (up_sort U) (up_uuid U) (up_config U) node s =
    (case GetNodeTopologyFromCM (up_kube U) (n_Name node) s of
       Ok nt \<Rightarrow> (Ok (), s)
     | Panic p \<Rightarrow> (Panic p, s)
     | Err e \<Rightarrow> sbind (new_topology U node s, s) (\<lambda>nt s.
         let (r, s') = CreateNodeTopologyCM (up_kube U) nt node s in (wrap_err ''failed to create node topology'' r, s')))"
  by (cases "n_Labels node (NodePoolLabelKey (up_config U))";
      cases "map_of (NodePools (up_config U)) (the (n_Labels node (NodePoolLabelKey (up_config U))))";
      cases "wrap_err ''failed to resolve nodepool'' (ResolveNodePool (up_kube U) (up_sort U) (TopologyCmNamespace (up_kube U))
        (the (map_of (NodePools (up_config U)) (the (n_Labels node (NodePoolLabelKey (up_config U)))))) s)")
    (simp_all add: createNodeTopologyCM_def new_topology_def sbind_rbind Let_def split: res.splits)

text \<open>An event whose handler is not interrupted does to the cluster what \<open>dispatch\<close> says.\<close>

lemma uninterrupted_pod_event:
  assumes "event_handler (up_kube U) ev = Ok (Some (h, pod))" and "\<not> is_panic (fst (dispatch (up_kube U) ev s))"
  shows "run_schedule U [PodEvent ev, PodTurn, PodTurn, PodTurn] (s, Waiting_pod, jobs) =
    (snd (dispatch (up_kube U) ev s), Waiting_pod, jobs)"
proof (cases "GetNodeTopologyFromCM (up_kube U) (p_NodeName pod) s")
  case (Ok nt)
  obtain r s1 where w: "pod_work (up_kube U) h pod nt s = (r, s1)" by force
  obtain r2 s2 where "UpdateNodeTopologyCM (up_kube U) (case r of Ok nt \<Rightarrow> nt) (p_NodeName pod) s1 = (r2, s2)" by force
  with Ok assms w show ?thesis
    by (cases r; cases r2) (simp_all add: turn_def pod_turn_def dispatch_handler run_handler_steps logged_def)
qed (use assms in \<open>simp_all add: turn_def pod_turn_def dispatch_handler run_handler_steps logged_def\<close>)

lemma idle_job [simp]: "turn U (JobTurn (length jobs)) (s, th, jobs) = (s, th, jobs)"
  by (simp add: turn_def)

lemma turn_last:
  "turn U (JobTurn (length jobs)) (s, th, jobs @ [job]) =
    (case job_turn U job s of
       (Then job, s) \<Rightarrow> (s, th, jobs @ [job]) | (Ended, s) \<Rightarrow> (s, th, jobs) | (Died, s) \<Rightarrow> started s)"
  by (simp add: turn_def split: outcome.split prod.split)

lemma uninterrupted_addition:
  assumes ok: "\<not> is_panic (fst (HandleAddNode (up_kube U) (up_sort U) (up_uuid U) (up_config U) (up_disableLabeling U) node s))"
  shows "run_schedule U [JobTurn (length jobs), JobTurn (length jobs), JobTurn (length jobs)] (s, th, jobs @ [AddNode node]) =
    (snd (HandleAddNode (up_kube U) (up_sort U) (up_uuid U) (up_config U) (up_disableLabeling U) node s), th, jobs)"
proof -
  note defs = HandleAddNode_def createNodeTopologyCM_steps split_def Let_def
  show ?thesis
  proof (cases "GetNodeTopologyFromCM (up_kube U) (n_Name node) s")
    case (Ok nt)
    obtain r s1 where "labelNode (up_kube U) node s = (r, s1)" by force
    with Ok ok show ?thesis
      by (cases r; cases "up_disableLabeling U") (simp_all add: turn_last job_turn_def defs)
  next
    case (Err e)
    show ?thesis
    proof (cases "new_topology U node s")
      case (Ok nt)
      obtain r s1 where c: "CreateNodeTopologyCM (up_kube U) nt node s = (r, s1)" by force
      obtain r2 s2 where "labelNode (up_kube U) node s1 = (r2, s2)" by force
      with Err Ok c ok show ?thesis
        by (cases r; cases r2; cases "up_disableLabeling U") (simp_all add: turn_last job_turn_def defs)
    qed (use Err ok in \<open>simp_all add: turn_last job_turn_def defs\<close>)
  qed (use ok in \<open>simp_all add: turn_last job_turn_def defs\<close>)
qed

lemma uninterrupted_deletion:
  assumes ok: "\<not> is_panic (fst (HandleDeleteNode (up_kube U) (up_disableLabeling U) node s))"
  shows "run_schedule U [JobTurn (length jobs), JobTurn (length jobs)] (s, th, jobs @ [DeleteNode node]) =
    (snd (HandleDeleteNode (up_kube U) (up_disableLabeling U) node s), th, jobs)"
proof -
  obtain r s1 where d: "DeleteNodeTopologyCM (up_kube U) (n_Name node) s = (r, s1)" by force
  obtain r2 s2 where "unlabelNode (up_kube U) node s1 = (r2, s2)" by force
  with d ok show ?thesis
    by (cases r; cases r2; cases "up_disableLabeling U")
      (simp_all add: turn_last job_turn_def HandleDeleteNode_def split_def Let_def split: if_splits)
qed

text \<open>The pruning of the node controller, when nothing comes in between\<close>

lemma uninterrupted_prune_loop:
  assumes "\<not> is_panic (fst (prune_loop (up_kube U) valid cms s))"
  shows "run_schedule U (replicate (Suc (length cms)) (JobTurn (length jobs))) (s, th, jobs @ [Prune valid cms]) =
    (snd (prune_loop (up_kube U) valid cms s), th, jobs)"
  using assms
proof (induction cms arbitrary: s)
  case Nil
  then show ?case by (simp add: turn_last job_turn_def)
next
  case (Cons cm cms)
  obtain r s1 where "pruneTopologyConfigMap (up_kube U) cm (cm_Name cm \<in> set valid) s = (r, s1)" by force
  with Cons show ?case by (cases r) (simp_all add: turn_last job_turn_def)
qed

lemma uninterrupted_pruning:
  assumes ok: "pruneTopologyConfigMaps (up_kube U) (up_config U) s = (Ok (), s')"
  shows "\<exists>k. run_schedule U (replicate k (JobTurn 0)) (started s) = (s', Waiting_pod, [])"
proof -
  from ok obtain nodes cms where l: "node_list (up_kube U) (NodePoolLabelKey (up_config U)) s = Inr nodes"
      "cm_list (up_kube U) (TopologyCmNamespace (up_kube U)) LabelTopologyCMNodeTopology ''true'' s = Inr cms"
    and p: "prune_loop (up_kube U) (map (\<lambda>n. GetNodeTopologyCMName (up_kube U) (n_Name n)) nodes) cms s = (Ok (), s')"
    by (auto simp: pruneTopologyConfigMaps_def split: sum.splits)
  have "run_schedule U (replicate (Suc (Suc (length cms))) (JobTurn 0)) (started s) = (s', Waiting_pod, [])"
    using l p uninterrupted_prune_loop [of U _ cms s "[]" Waiting_pod] turn_last [of U "[]" s Waiting_pod ListTopologies]
    by (simp add: started_def job_turn_def)
  then show ?thesis by blast
qed

section \<open>What every schedule keeps\<close>

text \<open>A create or delete that is answered with an error stores nothing.\<close>

definition failures_ok :: "('s, 'q, 'y) kube_env \<Rightarrow> bool" where
  "failures_ok K \<longleftrightarrow>
     (\<forall>ns cm s e s'. cm_create K ns cm s = (Inl e, s') \<longrightarrow> same_cms K s s') \<and>
     (\<forall>ns n s e s'. cm_delete K ns n s = (Inl e, s') \<longrightarrow> same_cms K s s')"

text \<open>
  Schedules that may do anything but handle pods outside \<open>P\<close> and delete the node \<open>n\<close>, as long as \<open>E\<close> holds
  between any two steps; what others do changes no ConfigMap.
\<close>

definition deletes :: "string \<Rightarrow> ('q, 'y) node_job \<Rightarrow> bool" where
  "deletes n job = (case job of DeleteNode node \<Rightarrow> n_Name node = n | _ \<Rightarrow> False)"

definition choice_ok :: "('s, 'q, 'y) updater \<Rightarrow> string \<Rightarrow> ('q Pod \<Rightarrow> bool) \<Rightarrow> ('s, 'q) choice \<Rightarrow> bool" where
  "choice_ok U n P c =
     (case c of
        PodEvent ev \<Rightarrow> \<forall>pod \<in> ev_pods ev. P pod
      | NodeEvent ev \<Rightarrow> (case node_event_job (up_config U) ev :: ('q, 'y) node_job option of None \<Rightarrow> True | Some job \<Rightarrow> \<not> deletes n job)
      | _ \<Rightarrow> True)"

fun admissible ::
    "('s, 'q, 'y) updater \<Rightarrow> string \<Rightarrow> ('q Pod \<Rightarrow> bool) \<Rightarrow> (('s, 'q, 'y) cluster \<Rightarrow> bool) \<Rightarrow> ('s, 'q) choice list \<Rightarrow> ('s, 'q, 'y) cluster
     \<Rightarrow> bool" where
  "admissible U n P E [] cl = E cl"
| "admissible U n P E (c # cs) cl \<longleftrightarrow>
     E cl \<and> choice_ok U n P c \<and> (\<forall>s. c = World s \<longrightarrow> same_cms (up_kube U) (fst cl) s) \<and> admissible U n P E cs (turn U c cl)"

lemma pod_work_kept:
  assumes "pod_work K h pod nt s = (Ok nt', s')"
  shows "nt_kept pod nt nt'"
proof (cases h)
  case AddPod
  with assms obtain nt1 s1 where d: "handleDedicatedGpuPodAddition K pod nt s = (Ok nt1, s1)"
      and r: "sbind (handleSharedGpuPodAddition K pod nt1 s1, s1) (\<lambda>nt s. (handleDraGpuPodAddition K pod nt s, s)) = (Ok nt', s')"
    by (auto simp: pod_work_def elim!: sbind_eq_OkD)
  have "nt_kept pod nt nt1" using ded_add.kept [of K pod nt s] d by simp
  with r show ?thesis by (auto simp: sbind_pure_Ok dest: sh_add.then_kept dra_add.then_kept)
next
  case UpdatePod
  with assms show ?thesis
    by (auto simp: pod_work_def sbind_pure_Ok dest: ded_update.kept sh_update.then_kept dra_update.then_kept)
next
  case DeletePod
  with assms show ?thesis
    by (auto simp: pod_work_def sbind_pure_Ok intro: dra_delete.then_kept dest: ded_delete.kept sh_delete.then_kept)
qed

lemma pod_work_same_cms:
  assumes "store_ok K"
  shows "same_cms K s (snd (pod_work K h pod nt s))"
proof (cases h)
  case AddPod
  obtain r s1 where d: "handleDedicatedGpuPodAddition K pod nt s = (r, s1)" by force
  then have "same_cms K s s1" using dedicated_add_same_cms [OF assms, of s pod nt] by simp
  moreover have "snd (pod_work K h pod nt s) = s1"
    using AddPod d by (cases r; cases "handleSharedGpuPodAddition K pod (case r of Ok nt \<Rightarrow> nt) s1") (simp_all add: pod_work_def)
  ultimately show ?thesis by simp
next
  case UpdatePod
  then show ?thesis
    by (cases "handleDedicatedGpuPodUpdate K pod nt s";
        cases "handleSharedGpuPodUpdate K pod (case handleDedicatedGpuPodUpdate K pod nt s of Ok nt \<Rightarrow> nt) s")
      (simp_all add: pod_work_def)
next
  case DeletePod
  then show ?thesis
    by (cases "handleDedicatedGpuPodDeletion K pod nt";
        cases "handleSharedGpuPodDeletion K pod (case handleDedicatedGpuPodDeletion K pod nt of Ok nt \<Rightarrow> nt) s")
      (simp_all add: pod_work_def)
qed

text \<open>A goroutine of the node controller changes no topology that is there, unless it deletes that node.\<close>

lemma create_keeps:
  assumes K: "store_ok K" "failures_ok K" and nt: "GetNodeTopologyFromCM K n s = Ok nt"
    and c: "CreateNodeTopologyCM K t node s = (r, s')"
  shows "GetNodeTopologyFromCM K n s' = Ok nt"
proof (cases "marshal_nt K t")
  case (Inr y)
  have "\<exists>cm. cm_Name cm = GetNodeTopologyCMName K (n_Name node) \<and>
      CreateNodeTopologyCM K t node s = api_call (cm_create K (TopologyCmNamespace K) cm s)"
    using Inr by (cases "n_Annotations node AnnotationKwokNode")
      (simp_all add: CreateNodeTopologyCM_def ToNodeTopologyCM_def Let_def, (intro exI conjI [rotated], rule refl, simp)+)
  then obtain cm where name: "cm_Name cm = GetNodeTopologyCMName K (n_Name node)"
      and c': "CreateNodeTopologyCM K t node s = api_call (cm_create K (TopologyCmNamespace K) cm s)" by blast
  obtain q s1 where q: "cm_create K (TopologyCmNamespace K) cm s = (q, s1)" by force
  with c c' have s': "s' = s1" by (simp add: api_call_def)
  show ?thesis
  proof (cases q)
    case (Inl e)
    with q K(2) have "same_cms K s s'" unfolding s' failures_ok_def by blast
    from same_cms_get [OF this] nt show ?thesis by simp
  next
    case q': (Inr u)
    note created = store_ok_create [OF K(1) q [unfolded q']]
    have "n \<noteq> n_Name node" using created(2) nt name by (auto simp: GetNodeTopologyFromCM_def)
    with others_keptD [OF created(3)] name nt show ?thesis by (simp add: s' GetNodeTopologyFromCM_def)
  qed
qed (use c nt in \<open>simp add: CreateNodeTopologyCM_def ToNodeTopologyCM_def\<close>)

lemma delete_keeps:
  assumes K: "store_ok K" "failures_ok K" and nt: "GetNodeTopologyFromCM K n s = Ok nt" and "m \<noteq> n"
    and d: "DeleteNodeTopologyCM K m s = (r, s')"
  shows "GetNodeTopologyFromCM K n s' = Ok nt"
proof -
  obtain q s1 where q: "cm_delete K (TopologyCmNamespace K) (GetNodeTopologyCMName K m) s = (q, s1)" by force
  with d have s': "s' = s1" by (simp add: DeleteNodeTopologyCM_def)
  show ?thesis
  proof (cases q)
    case (Inl e)
    with q K(2) have "same_cms K s s'" unfolding s' failures_ok_def by blast
    from same_cms_get [OF this] nt show ?thesis by simp
  next
    case (Inr u)
    with others_keptD [OF store_ok_delete(2) [OF K(1) q [unfolded Inr]]] nt assms(4) show ?thesis
      by (simp add: s' GetNodeTopologyFromCM_def)
  qed
qed

text \<open>The pruning of a ConfigMap changes the topology of the node that it names only.\<close>

lemma event_handler_pod: "event_handler K ev = Ok (Some (h, pod)) \<Longrightarrow> pod \<in> ev_pods ev"
  by (cases ev) (auto simp: event_handler_def ev_pods_def rbind_eq_Ok split: if_splits)

lemma prune_one:
  assumes K: "store_ok K" "codec_ok K" "failures_ok K" and nt: "GetNodeTopologyFromCM K n s = Ok nt"
    and valid: "cm_Labels cm LabelTopologyCMNodeName = Some n \<or> cm_Name cm = GetNodeTopologyCMName K n \<Longrightarrow> v"
    and p: "pruneTopologyConfigMap K cm v s = (r, s')"
  shows "GetNodeTopologyFromCM K n s' = Ok nt \<or>
    (\<exists>nt1 gs. cm_Labels cm LabelTopologyCMNodeName = Some n \<and> FromNodeTopologyCM K cm = Ok nt1 \<and>
      prune_gpus K s (Gpus nt1) = Ok gs \<and> GetNodeTopologyFromCM K n s' = Ok (norm_nt (nt1\<lparr>Gpus := gs\<rparr>)))"
proof -
  define s1 where "s1 = (if \<not> v then snd (cm_delete K (TopologyCmNamespace K) (cm_Name cm) s) else s)"
  have nt1: "GetNodeTopologyFromCM K n s1 = Ok nt"
  proof (cases v)
    case False
    obtain q s2 where q: "cm_delete K (TopologyCmNamespace K) (cm_Name cm) s = (q, s2)" by force
    show ?thesis
    proof (cases q)
      case (Inl e)
      with q K(3) have "same_cms K s s2" unfolding failures_ok_def by blast
      from same_cms_get [OF this, of n] nt show ?thesis by (simp add: s1_def False q)
    next
      case (Inr u)
      have "cm_Name cm \<noteq> GetNodeTopologyCMName K n" using valid False by blast
      with others_keptD [OF store_ok_delete(2) [OF K(1) q [unfolded Inr]]] nt False show ?thesis
        by (simp add: s1_def q GetNodeTopologyFromCM_def)
    qed
  qed (use nt in \<open>simp add: s1_def\<close>)
  show ?thesis
  proof (cases "\<exists>ntl gs m. FromNodeTopologyCM K cm = Ok ntl \<and> prune_gpus K s1 (Gpus ntl) = Ok gs \<and> cm_Labels cm LabelTopologyCMNodeName = Some m")
    case True
    then obtain ntl gs m where c: "FromNodeTopologyCM K cm = Ok ntl" "prune_gpus K s1 (Gpus ntl) = Ok gs"
      "cm_Labels cm LabelTopologyCMNodeName = Some m" by blast
    obtain r2 s2 where u: "UpdateNodeTopologyCM K (ntl\<lparr>Gpus := gs\<rparr>) m s1 = (r2, s2)" by force
    with p c have s': "s' = s2" by (cases r2) (simp_all add: pruneTopologyConfigMap_def s1_def [symmetric])
    show ?thesis
    proof (cases "r2 = Ok ()")
      case True
      note store = topo_store_of [OF K(1,2)] and u' = u [unfolded True]
      show ?thesis
      proof (cases "m = n")
        case m: True
        with valid c(3) have "s1 = s" by (simp add: s1_def)
        with topo_store.get_put [OF store u'] c m s' show ?thesis by auto
      next
        case False
        with topo_store.get_put_other [OF store u', of n] nt1 s' show ?thesis by simp
      qed
    next
      case False
      with UpdateNodeTopologyCM_Err [OF K(1)] u have "same_cms K s1 s2" by (metis fst_conv snd_conv)
      from same_cms_get [OF this, of n] nt1 s' show ?thesis by simp
    qed
  next
    case False
    with p have "s' = s1"
      by (cases "FromNodeTopologyCM K cm"; cases "prune_gpus K s1 (Gpus (case FromNodeTopologyCM K cm of Ok ntl \<Rightarrow> ntl))";
          cases "cm_Labels cm LabelTopologyCMNodeName")
        (auto simp: pruneTopologyConfigMap_def s1_def [symmetric])
    with nt1 show ?thesis by simp
  qed
qed

lemma outcome_keeps:
  assumes "outcome_of f m = (out, s')" and "\<And>x. Q (f x)" and "Q Ended" and "Q Died" and "A (snd m)"
  shows "A s' \<and> Q out"
  using assms by (cases m; cases "fst m") auto

text \<open>
  What is to be shown of every schedule: a property \<open>R\<close> of the topologies of the node \<open>n\<close>, which no handler of a pod in
  \<open>P\<close> breaks, and no pruning between whose steps \<open>E\<close> holds.  It then holds of every copy of that topology: of the one that
  is stored, of those that handlers have read and worked on, and of those that are listed for the pruning.
\<close>

locale topology_inv =
  fixes U :: "('s, 'q, 'y) updater" and n :: string and P :: "'q Pod \<Rightarrow> bool" and R :: "NodeTopology \<Rightarrow> bool"
    and E :: "('s, 'q, 'y) cluster \<Rightarrow> bool"
  assumes server: "store_ok (up_kube U)" "codec_ok (up_kube U)" "nodes_ok (up_kube U)" "failures_ok (up_kube U)"
    and handled: "P pod \<Longrightarrow> R nt \<Longrightarrow> nt_kept pod nt nt' \<Longrightarrow> R nt'"
    and listed: "E (s, th, jobs) \<Longrightarrow> ListTopologies \<in> set jobs \<Longrightarrow> GetNodeTopologyFromCM (up_kube U) n s = Ok nt \<Longrightarrow> R nt \<Longrightarrow>
      node_list (up_kube U) (NodePoolLabelKey (up_config U)) s = Inr nodes \<Longrightarrow>
      cm_list (up_kube U) (TopologyCmNamespace (up_kube U)) LabelTopologyCMNodeTopology ''true'' s = Inr cms \<Longrightarrow>
      n \<in> n_Name ` set nodes \<and> (\<forall>cm \<in> set cms. cm_Labels cm LabelTopologyCMNodeName = Some n \<longrightarrow>
        cm_Name cm = GetNodeTopologyCMName (up_kube U) n \<and> (\<forall>nt. FromNodeTopologyCM (up_kube U) cm = Ok nt \<longrightarrow> R nt))"
    and pruned: "E (s, th, jobs) \<Longrightarrow> Prune valid cms \<in> set jobs \<Longrightarrow> R nt \<Longrightarrow> prune_gpus (up_kube U) s (Gpus nt) = Ok gs \<Longrightarrow>
      R (norm_nt (nt\<lparr>Gpus := gs\<rparr>))"
begin

abbreviation "K \<equiv> up_kube U"

definition job_ok :: "('q, 'y) node_job \<Rightarrow> bool" where
  "job_ok job \<longleftrightarrow> \<not> deletes n job \<and>
     (case job of
        Prune valid cms \<Rightarrow> GetNodeTopologyCMName K n \<in> set valid \<and>
          (\<forall>cm \<in> set cms. cm_Labels cm LabelTopologyCMNodeName = Some n \<longrightarrow>
            cm_Name cm = GetNodeTopologyCMName K n \<and> (\<forall>nt. FromNodeTopologyCM K cm = Ok nt \<longrightarrow> R nt))
      | _ \<Rightarrow> True)"

definition thread_ok :: "'q pod_thread \<Rightarrow> bool" where
  "thread_ok th =
     (case th of
        Waiting_pod \<Rightarrow> True
      | Reading h pod \<Rightarrow> P pod
      | Working h pod nt \<Rightarrow> P pod \<and> (p_NodeName pod = n \<longrightarrow> R nt)
      | Writing pod nt \<Rightarrow> P pod \<and> (p_NodeName pod = n \<longrightarrow> R nt))"

definition stored_ok :: "'s \<Rightarrow> bool" where
  "stored_ok s \<longleftrightarrow> (\<exists>nt. GetNodeTopologyFromCM K n s = Ok nt \<and> R nt)"

definition cluster_ok :: "('s, 'q, 'y) cluster \<Rightarrow> bool" where
  "cluster_ok cl \<longleftrightarrow> (case cl of (s, th, jobs) \<Rightarrow> stored_ok s \<and> thread_ok th \<and> (\<forall>job \<in> set jobs. job_ok job))"

definition outcome_ok :: "('q, 'y) node_job outcome \<Rightarrow> bool" where
  "outcome_ok out = (case out of Then job \<Rightarrow> job_ok job | _ \<Rightarrow> True)"

lemma outcome_ok_simps [simp]: "outcome_ok (Then job) = job_ok job" "outcome_ok Ended" "outcome_ok Died"
  by (simp_all add: outcome_ok_def)

lemma job_ok_simps [simp]:
  "job_ok (AddNode node)" "job_ok (CreateTopology node nt)" "job_ok (LabelNode node)" "job_ok (UnlabelNode node)" "job_ok ListTopologies"
  by (simp_all add: job_ok_def deletes_def)

lemma same_cms_stored: "same_cms K s s' \<Longrightarrow> stored_ok s' = stored_ok s"
  by (simp add: stored_ok_def same_cms_get)

lemma started_ok: "stored_ok s \<Longrightarrow> cluster_ok (started s)"
  by (simp add: cluster_ok_def started_def thread_ok_def)

lemma job_turn_ok:
  assumes E: "E (s, th, jobs)" and mem: "job \<in> set jobs" and st: "stored_ok s" and job: "job_ok job"
    and t: "job_turn U job s = (out, s')"
  shows "stored_ok s' \<and> outcome_ok out"
proof -
  obtain nt where nt: "GetNodeTopologyFromCM K n s = Ok nt" "R nt" using st by (auto simp: stored_ok_def)
  note kept = outcome_keeps [where Q = outcome_ok and A = stored_ok, simplified]
  show ?thesis
  proof (cases job)
    case (AddNode node)
    with t st show ?thesis
      by (cases "new_topology U node s") (auto simp: job_turn_def split: res.splits)
  next
    case (CreateTopology node nt')
    have "stored_ok (snd (CreateNodeTopologyCM K nt' node s))"
      using create_keeps [OF server(1,4) nt(1) surjective_pairing] nt(2) by (auto simp: stored_ok_def)
    with t CreateTopology show ?thesis by (intro kept) (auto simp: job_turn_def)
  next
    case (LabelNode node)
    have "stored_ok (snd (labelNode K node s))" using same_cms_stored [OF labelNode_same_cms [OF server(3)]] st by simp
    with t st LabelNode show ?thesis
      by (cases "up_disableLabeling U") (auto simp: job_turn_def dest!: kept)
  next
    case (DeleteNode node)
    obtain r s1 where d: "DeleteNodeTopologyCM K (n_Name node) s = (r, s1)" by force
    have "stored_ok s1" using delete_keeps [OF server(1,4) nt(1) _ d] job DeleteNode nt(2)
      by (auto simp: job_ok_def deletes_def stored_ok_def)
    with t d DeleteNode show ?thesis by (cases r) (auto simp: job_turn_def split: if_splits)
  next
    case (UnlabelNode node)
    have "stored_ok (snd (unlabelNode K node s))" using same_cms_stored [OF unlabelNode_same_cms [OF server(3)]] st by simp
    with t st UnlabelNode show ?thesis
      by (cases "up_disableLabeling U") (auto simp: job_turn_def dest!: kept)
  next
    case ListTopologies
    then show ?thesis
      using t st listed [OF E mem [unfolded ListTopologies] nt]
      by (auto simp: job_turn_def Let_def job_ok_def deletes_def image_iff split: sum.splits)
  next
    case (Prune valid cms)
    show ?thesis
    proof (cases cms)
      case (Cons cm cms')
      obtain r s1 where p: "pruneTopologyConfigMap K cm (cm_Name cm \<in> set valid) s = (r, s1)" by force
      have "stored_ok s1"
        using prune_one [OF server(1,2,4) nt(1) _ p] pruned [OF E mem [unfolded Prune]] job Prune Cons nt(2)
        by (auto simp: job_ok_def stored_ok_def)
      with t p job Prune Cons show ?thesis by (cases r) (auto simp: job_turn_def job_ok_def deletes_def)
    qed (use t st Prune in \<open>simp add: job_turn_def\<close>)
  qed
qed

lemma pod_turn_ok:
  assumes st: "stored_ok s" and th: "thread_ok th" and t: "pod_turn K th s = (next_th, s')"
  shows "stored_ok s' \<and> (\<forall>th'. next_th = Some th' \<longrightarrow> thread_ok th')"
proof (cases th)
  case (Reading h pod)
  with assms show ?thesis
    by (cases "GetNodeTopologyFromCM K (p_NodeName pod) s") (auto simp: pod_turn_def thread_ok_def stored_ok_def)
next
  case (Working h pod nt)
  obtain r s1 where w: "pod_work K h pod nt s = (r, s1)" by force
  then have "same_cms K s s1" using pod_work_same_cms [OF server(1), of s h pod nt] by simp
  then have "stored_ok s1" using same_cms_stored st by simp
  moreover have "r = Ok nt2 \<Longrightarrow> nt_kept pod nt nt2" for nt2 using pod_work_kept [of K h pod nt s nt2 s1] w by simp
  ultimately show ?thesis using t w th Working by (cases r) (auto simp: pod_turn_def thread_ok_def dest: handled)
next
  case (Writing pod nt)
  obtain r s1 where u: "UpdateNodeTopologyCM K nt (p_NodeName pod) s = (r, s1)" by force
  have "stored_ok s1"
  proof (cases "r = Ok ()")
    case True
    note store = topo_store_of [OF server(1,2)] and u' = u [unfolded True]
    show ?thesis
    proof (cases "p_NodeName pod = n")
      case True
      with th Writing have "R (norm_nt nt)" using handled [OF _ _ nt_kept_norm] by (auto simp: thread_ok_def)
      with topo_store.get_put [OF store u'] True show ?thesis by (simp add: stored_ok_def)
    next
      case False
      with topo_store.get_put_other [OF store u', of n] st show ?thesis by (simp add: stored_ok_def)
    qed
  next
    case False
    with UpdateNodeTopologyCM_Err [OF server(1)] u have "same_cms K s s1" by (metis fst_conv snd_conv)
    with same_cms_stored st show ?thesis by simp
  qed
  with t u Writing show ?thesis by (cases r) (auto simp: pod_turn_def thread_ok_def)
qed (use assms in \<open>auto simp: pod_turn_def\<close>)

lemma turn_ok:
  assumes E: "E cl" and cl: "cluster_ok cl" and c: "choice_ok U n P c" "\<forall>s. c = World s \<longrightarrow> same_cms K (fst cl) s"
  shows "cluster_ok (turn U c cl)"
proof -
  obtain s th jobs where cl_eq: "cl = (s, th, jobs)" by (cases cl)
  with cl have ok: "stored_ok s" "thread_ok th" "\<forall>job \<in> set jobs. job_ok job" by (simp_all add: cluster_ok_def)
  show ?thesis
  proof (cases c)
    case (PodEvent ev)
    with c(1) ok event_handler_pod [of K ev] started_ok [OF ok(1)] show ?thesis
      by (auto simp: cl_eq turn_def cluster_ok_def choice_ok_def thread_ok_def split: pod_thread.splits res.splits option.splits)
  next
    case PodTurn
    obtain th' s' where t: "pod_turn K th s = (th', s')" by force
    from pod_turn_ok [OF ok(1,2) t] ok(3) started_ok show ?thesis
      by (cases th') (auto simp: cl_eq PodTurn turn_def t cluster_ok_def)
  next
    case (NodeEvent ev)
    with c(1) cl ok show ?thesis
      by (cases "node_event_job (up_config U) ev :: ('q, 'y) node_job option")
        (auto simp: cl_eq turn_def cluster_ok_def choice_ok_def job_ok_def node_event_job_def split: node_event.splits if_splits)
  next
    case (JobTurn i)
    show ?thesis
    proof (cases "i < length jobs")
      case True
      obtain out s' where t: "job_turn U (jobs ! i) s = (out, s')" by force
      have mem: "jobs ! i \<in> set jobs" using True by simp
      from job_turn_ok [OF E [unfolded cl_eq] mem ok(1) _ t] ok(2,3) mem True started_ok show ?thesis
        by (cases out) (auto simp: cl_eq JobTurn turn_def t cluster_ok_def dest!: in_set_takeD in_set_dropD
            subsetD [OF set_update_subset_insert])
    qed (use cl in \<open>simp add: cl_eq JobTurn turn_def\<close>)
  next
    case Restart
    with started_ok ok show ?thesis by (simp add: cl_eq turn_def)
  next
    case (World s')
    then have "same_cms K s s'" using c(2) by (simp add: cl_eq)
    with same_cms_stored ok show ?thesis by (simp add: cl_eq World turn_def cluster_ok_def)
  qed
qed

lemma schedule_ok: "cluster_ok cl \<Longrightarrow> admissible U n P E cs cl \<Longrightarrow> cluster_ok (run_schedule U cs cl)"
  by (induction cs arbitrary: cl) (simp_all add: turn_ok)

lemma stored_kept:
  assumes "GetNodeTopologyFromCM K n s0 = Ok nt0" "R nt0" "admissible U n P E cs (s0, Waiting_pod, [])"
    and "run_schedule U cs (s0, Waiting_pod, []) = (s, th, jobs)"
  shows "\<exists>nt. GetNodeTopologyFromCM K n s = Ok nt \<and> R nt"
  using schedule_ok [OF _ assms(3)] assms by (simp add: cluster_ok_def stored_ok_def thread_ok_def)

end

section \<open>Properties\<close>

text \<open>The topologies in which a GPU has the same owner; the pods that an owner is not confused with\<close>

definition same_owner :: "NodeTopology \<Rightarrow> nat \<Rightarrow> NodeTopology \<Rightarrow> bool" where
  "same_owner nt0 i nt \<longleftrightarrow>
     map ID (Gpus nt) = map ID (Gpus nt0) \<and> AllocatedBy (Status (Gpus nt ! i)) = AllocatedBy (Status (Gpus nt0 ! i))"

definition other_pod :: "'q Pod \<Rightarrow> 'q Pod \<Rightarrow> bool" where
  "other_pod q p \<longleftrightarrow> (p_Namespace p, p_Name p) \<noteq> (p_Namespace q, p_Name q) \<and> p_UID p \<noteq> p_UID q"

lemma same_owner_kept:
  assumes "owned_by q (Gpus nt0 ! i)" "p_Name q \<noteq> []" "i < length (Gpus nt0)"
    and "other_pod q p" "same_owner nt0 i nt" "nt_kept p nt nt'"
  shows "same_owner nt0 i nt'" and "usage_of (Gpus nt' ! i) (p_UID q) = usage_of (Gpus nt ! i) (p_UID q)"
proof -
  have "foreign p (Gpus nt ! i)" using assms by (auto simp: same_owner_def other_pod_def foreign_def is_free_def owned_by_def)
  moreover have "i < length (Gpus nt)" using assms(3,5) by (metis same_owner_def length_map)
  ultimately show "same_owner nt0 i nt'" and "usage_of (Gpus nt' ! i) (p_UID q) = usage_of (Gpus nt ! i) (p_UID q)"
    using assms(4,5) nt_kept_foreign [OF assms(6), of i] nt_kept_ids [OF assms(6)] by (auto simp: same_owner_def other_pod_def)
qed

text \<open>Without a pruning, the usage is kept too.\<close>

lemma usage_inv:
  fixes U :: "('s, 'q, 'y) updater"
  assumes "store_ok (up_kube U)" "codec_ok (up_kube U)" "nodes_ok (up_kube U)" "failures_ok (up_kube U)"
    and "owned_by q (Gpus nt0 ! i)" "p_Name q \<noteq> []" "i < length (Gpus nt0)"
  shows "topology_inv U n (other_pod q)
    (\<lambda>nt. same_owner nt0 i nt \<and> usage_of (Gpus nt ! i) (p_UID q) = usage_of (Gpus nt0 ! i) (p_UID q)) (\<lambda>cl. \<not> pruning cl)"
proof
  fix pod nt nt'
  assume "other_pod q pod" and nt: "same_owner nt0 i nt \<and> usage_of (Gpus nt ! i) (p_UID q) = usage_of (Gpus nt0 ! i) (p_UID q)"
    and "nt_kept pod nt nt'"
  from same_owner_kept [OF assms(5-7) this(1) conjunct1 [OF nt] this(3)] nt
  show "same_owner nt0 i nt' \<and> usage_of (Gpus nt' ! i) (p_UID q) = usage_of (Gpus nt0 ! i) (p_UID q)" by simp
next
  fix s th and jobs :: "('q, 'y) node_job list"
  assume "\<not> pruning (s, th, jobs)"
  then have none: "ListTopologies \<notin> set jobs" "Prune valid cms \<notin> set jobs" for valid cms
    by (auto simp: pruning_def list_ex_iff)
  show "ListTopologies \<in> set jobs \<Longrightarrow> thesis1" "Prune valid cms \<in> set jobs \<Longrightarrow> thesis2" for thesis1 thesis2 valid cms
    using none by blast+
qed (use assms(1-4) in simp_all)

text \<open>
  While the pod is there, and its node is listed with the topologies that are stored, the owner is kept by prunings too.
\<close>

definition pod_lives :: "('s, 'q, 'y) updater \<Rightarrow> string \<Rightarrow> 'q Pod \<Rightarrow> ('s, 'q, 'y) cluster \<Rightarrow> bool" where
  "pod_lives U n q cl =
     (let K = up_kube U; s = fst cl
      in (case pod_get K (p_Namespace q) (p_Name q) s of Inl e \<Rightarrow> False | Inr p \<Rightarrow> True) \<and>
         (case node_list K (NodePoolLabelKey (up_config U)) s of Inl e \<Rightarrow> True | Inr nodes \<Rightarrow> n \<in> n_Name ` set nodes) \<and>
         (case cm_list K (TopologyCmNamespace K) LabelTopologyCMNodeTopology ''true'' s of
            Inl e \<Rightarrow> True
          | Inr cms \<Rightarrow> \<forall>cm \<in> set cms. cm_Labels cm LabelTopologyCMNodeName = Some n \<longrightarrow>
              cm_Name cm = GetNodeTopologyCMName K n \<and> cm_get K (TopologyCmNamespace K) (GetNodeTopologyCMName K n) s = Inr cm))"

lemma owner_pruned:
  assumes "owned_by q (Gpus nt0 ! i)" "i < length (Gpus nt0)" "pod_lives U n q (s, th, jobs)"
    and "same_owner nt0 i nt" "prune_gpus (up_kube U) s (Gpus nt) = Ok gs"
  shows "same_owner nt0 i (norm_nt (nt\<lparr>Gpus := gs\<rparr>))"
proof -
  have i: "i < length (Gpus nt)" using assms(2,4) by (metis same_owner_def length_map)
  obtain p where "pod_get (up_kube U) (p_Namespace q) (p_Name q) s = Inr p"
    using assms(3) by (auto simp: pod_lives_def Let_def split: sum.splits)
  then have "isPodExist (up_kube U) (cd_Pod (AllocatedBy (Status (Gpus nt ! i)))) (cd_Namespace (AllocatedBy (Status (Gpus nt ! i)))) s = Ok True"
    using assms(1,4) by (simp add: isPodExist_def same_owner_def owned_by_def)
  with pruned_gpus(1) [OF assms(5)] pruned_gpus(2) [OF assms(5) i] assms(4) show ?thesis by (auto simp: same_owner_def)
qed

lemma owner_inv:
  fixes U :: "('s, 'q, 'y) updater"
  assumes "store_ok (up_kube U)" "codec_ok (up_kube U)" "nodes_ok (up_kube U)" "failures_ok (up_kube U)"
    and q: "owned_by q (Gpus nt0 ! i)" "p_Name q \<noteq> []" "i < length (Gpus nt0)"
  shows "topology_inv U n (other_pod q) (same_owner nt0 i) (pod_lives U n q)"
proof
  fix s th jobs nt nodes cms
  assume "pod_lives U n q (s, th, jobs)" "GetNodeTopologyFromCM (up_kube U) n s = Ok nt" "same_owner nt0 i nt"
    "node_list (up_kube U) (NodePoolLabelKey (up_config U)) s = Inr nodes"
    "cm_list (up_kube U) (TopologyCmNamespace (up_kube U)) LabelTopologyCMNodeTopology ''true'' s = Inr cms"
  then show "n \<in> n_Name ` set nodes \<and> (\<forall>cm \<in> set cms. cm_Labels cm LabelTopologyCMNodeName = Some n \<longrightarrow>
      cm_Name cm = GetNodeTopologyCMName (up_kube U) n \<and> (\<forall>nt. FromNodeTopologyCM (up_kube U) cm = Ok nt \<longrightarrow> same_owner nt0 i nt))"
    by (auto simp: pod_lives_def Let_def GetNodeTopologyFromCM_def)
qed (use assms(1-4) same_owner_kept(1) [OF q] owner_pruned [OF q(1,3)] in auto)

text \<open>
  C4. However the steps of the pod controller, of any number of node additions and of deletions of other nodes are
  interleaved, with failures in between: a GPU that a pod holds keeps its owner and the pod's usage on it, as long as
  no event is of that pod, its node is not deleted and the process is not restarted, so that nothing is pruned.
\<close>

theorem allocation_kept_under_interleaving:
  fixes U :: "('s, 'q, 'y) updater"
  assumes K: "store_ok (up_kube U)" "codec_ok (up_kube U)" "nodes_ok (up_kube U)" "failures_ok (up_kube U)"
    and nt0: "GetNodeTopologyFromCM (up_kube U) n s0 = Ok nt0" "i < length (Gpus nt0)"
    and q: "owned_by q (Gpus nt0 ! i)" "p_Name q \<noteq> []"
    and sched: "admissible U n (other_pod q) (\<lambda>cl. \<not> pruning cl) cs (s0, Waiting_pod, [])"
    and run: "run_schedule U cs (s0, Waiting_pod, []) = (s, th, jobs)"
  shows "\<exists>nt. GetNodeTopologyFromCM (up_kube U) n s = Ok nt \<and> map ID (Gpus nt) = map ID (Gpus nt0) \<and>
    AllocatedBy (Status (Gpus nt ! i)) = AllocatedBy (Status (Gpus nt0 ! i)) \<and>
    usage_of (Gpus nt ! i) (p_UID q) = usage_of (Gpus nt0 ! i) (p_UID q)"
  using topology_inv.stored_kept [OF usage_inv [OF K q nt0(2)] nt0(1) _ sched run] by (auto simp: same_owner_def)

text \<open>
  C5. The owner of a GPU survives also restarts of the process, and the prunings that overlap with handlers then, as
  long as the pod is there, its node is listed, and no event is of that pod or deletes its node.
\<close>

theorem owner_survives_restarts:
  fixes U :: "('s, 'q, 'y) updater"
  assumes K: "store_ok (up_kube U)" "codec_ok (up_kube U)" "nodes_ok (up_kube U)" "failures_ok (up_kube U)"
    and nt0: "GetNodeTopologyFromCM (up_kube U) n s0 = Ok nt0" "i < length (Gpus nt0)"
    and q: "owned_by q (Gpus nt0 ! i)" "p_Name q \<noteq> []"
    and sched: "admissible U n (other_pod q) (pod_lives U n q) cs (s0, Waiting_pod, [])"
    and run: "run_schedule U cs (s0, Waiting_pod, []) = (s, th, jobs)"
  shows "\<exists>nt. GetNodeTopologyFromCM (up_kube U) n s = Ok nt \<and> map ID (Gpus nt) = map ID (Gpus nt0) \<and>
    AllocatedBy (Status (Gpus nt ! i)) = AllocatedBy (Status (Gpus nt0 ! i))"
  using topology_inv.stored_kept [OF owner_inv [OF K q nt0(2)] nt0(1) _ sched run] by (auto simp: same_owner_def)

text \<open>Steps of goroutines that are already there\<close>

definition only_turns :: "('s, 'q) choice list \<Rightarrow> bool" where
  "only_turns cs = list_all (\<lambda>c. case c of PodTurn \<Rightarrow> True | JobTurn i \<Rightarrow> True | _ \<Rightarrow> False) cs"

text \<open>
  C37. The goroutines of an addition and a later deletion of a node may overtake one another: when the deletion runs
  first and finds nothing to delete, the addition then creates the topology of the node that is gone, and nothing is
  left that would remove it.
\<close>

theorem deletion_overtaken:
  assumes K: "store_ok (up_kube U)" "codec_ok (up_kube U)" "nodes_ok (up_kube U)"
    and pool: "n_Labels node (NodePoolLabelKey (up_config U)) = Some p" "map_of (NodePools (up_config U)) p = Some pc"
      "ResolveNodePool (up_kube U) (up_sort U) (TopologyCmNamespace (up_kube U)) pc s1 = Ok r"
    and del: "HandleDeleteNode (up_kube U) (up_disableLabeling U) node s = (d, s1)" "\<not> is_panic d"
      "GetNodeTopologyFromCM (up_kube U) (n_Name node) s1 = Err e"
    and add: "HandleAddNode (up_kube U) (up_sort U) (up_uuid U) (up_config U) (up_disableLabeling U) node s1 = (Ok (), s2)"
  shows "\<exists>cs. only_turns cs \<and>
    run_schedule U ([NodeEvent (NodeAdded node), NodeEvent (NodeDeleted node)] @ cs) (s, Waiting_pod, []) = (s2, Waiting_pod, []) \<and>
    (\<exists>nt. GetNodeTopologyFromCM (up_kube U) (n_Name node) s2 = Ok nt \<and> int (length (Gpus nt)) = rp_GpuCount r)"
proof -
  let ?cs = "[JobTurn 1, JobTurn 1, JobTurn 0, JobTurn 0, JobTurn 0]"
  have fake: "isFakeGpuNode (up_config U) node" using pool(1) by (simp add: isFakeGpuNode_def)
  have "run_schedule U ([NodeEvent (NodeAdded node), NodeEvent (NodeDeleted node)] @ ?cs) (s, Waiting_pod, []) = (s2, Waiting_pod, [])"
    using uninterrupted_deletion [of U node s "[AddNode node]" Waiting_pod] uninterrupted_addition [of U node s1 "[]" Waiting_pod]
    by (simp add: turn_def [of U "NodeEvent _"] pruning_def node_event_job_def fake del(1,2) add)
  then show ?thesis using node_added [OF K pool del(3) add] by (intro exI [of _ ?cs]) (auto simp: only_turns_def)
qed

text \<open>
  C38. A handler of a pod that has read the topology of its node before the node is deleted writes it afterwards: the
  topology of the deleted node is there again, and nothing is left that would remove it.
\<close>

theorem deleted_topology_rewritten:
  assumes K: "store_ok (up_kube U)" "codec_ok (up_kube U)"
    and fake: "isFakeGpuNode (up_config U) node"
    and ev: "event_handler (up_kube U) ev = Ok (Some (h, pod))" "p_NodeName pod = n_Name node"
    and work: "GetNodeTopologyFromCM (up_kube U) (n_Name node) s = Ok nt" "pod_work (up_kube U) h pod nt s = (Ok nt', s1)"
    and del: "HandleDeleteNode (up_kube U) (up_disableLabeling U) node s1 = (d, s2)" "\<not> is_panic d"
    and wr: "UpdateNodeTopologyCM (up_kube U) nt' (n_Name node) s2 = (Ok (), s3)"
  shows "\<exists>cs. only_turns cs \<and>
    run_schedule U ([PodEvent ev, NodeEvent (NodeDeleted node)] @ cs) (s, Waiting_pod, []) = (s3, Waiting_pod, []) \<and>
    GetNodeTopologyFromCM (up_kube U) (n_Name node) s3 = Ok (norm_nt nt')"
proof -
  let ?cs = "[PodTurn, PodTurn, JobTurn 0, JobTurn 0, PodTurn]"
  have "run_schedule U ([PodEvent ev, NodeEvent (NodeDeleted node)] @ ?cs) (s, Waiting_pod, []) = (s3, Waiting_pod, [])"
    using uninterrupted_deletion [of U node s1 "[]" "Writing pod nt'"]
    by (simp add: turn_def [of U "NodeEvent _"] pruning_def node_event_job_def fake turn_def [of U "PodEvent _"] turn_def [of U PodTurn] pod_turn_def ev work del wr)
  then show ?thesis using topo_store.get_put [OF topo_store_of [OF K] wr]
    by (intro exI [of _ ?cs]) (simp add: only_turns_def)
qed

text \<open>
  C39. An addition of a pod that is handled before the topology of its new node is created is lost: its error is only
  logged, and when everything has ended the node's GPUs are all free.
\<close>

theorem early_pod_not_allocated:
  assumes K: "store_ok (up_kube U)" "codec_ok (up_kube U)" "nodes_ok (up_kube U)"
    and pool: "n_Labels node (NodePoolLabelKey (up_config U)) = Some p" "map_of (NodePools (up_config U)) p = Some pc"
      "ResolveNodePool (up_kube U) (up_sort U) (TopologyCmNamespace (up_kube U)) pc s = Ok r"
    and new: "GetNodeTopologyFromCM (up_kube U) (n_Name node) s = Err e"
    and add: "HandleAddNode (up_kube U) (up_sort U) (up_uuid U) (up_config U) (up_disableLabeling U) node s = (Ok (), s')"
    and ev: "event_handler (up_kube U) ev = Ok (Some (AddPod, pod))" "p_NodeName pod = n_Name node"
  shows "\<exists>cs. only_turns cs \<and>
    run_schedule U ([NodeEvent (NodeAdded node), PodEvent ev] @ cs) (s, Waiting_pod, []) = (s', Waiting_pod, []) \<and>
    (\<exists>nt. GetNodeTopologyFromCM (up_kube U) (n_Name node) s' = Ok nt \<and> int (length (Gpus nt)) = rp_GpuCount r \<and>
      list_all is_free (Gpus nt))"
proof -
  let ?cs = "[PodTurn, JobTurn 0, JobTurn 0, JobTurn 0]"
  have fake: "isFakeGpuNode (up_config U) node" using pool(1) by (simp add: isFakeGpuNode_def)
  have "run_schedule U ([NodeEvent (NodeAdded node), PodEvent ev] @ ?cs) (s, Waiting_pod, []) = (s', Waiting_pod, [])"
    using uninterrupted_addition [of U node s "[]" Waiting_pod]
    by (simp add: turn_def [of U "NodeEvent _"] pruning_def node_event_job_def fake turn_def [of U "PodEvent _"] turn_def [of U PodTurn] pod_turn_def ev new add)
  then show ?thesis using node_added [OF K pool new add] by (intro exI [of _ ?cs]) (auto simp: only_turns_def)
qed

text \<open>
  C36. The controllers start together: while the node controller prunes what it listed at the start, the pod
  controller already handles events.  What a handler stored for a pod in between is overwritten, without a word: no GPU
  of the node has a usage record, and each has the owner that was listed or none.
\<close>

theorem pruning_overwrites_handlers:
  fixes U :: "('s, 'q, 'y) updater" and ev :: "'q pod_event"
  assumes K: "store_ok (up_kube U)" "codec_ok (up_kube U)"
    and lists: "node_list (up_kube U) (NodePoolLabelKey (up_config U)) s = Inr nodes"
      "cm_list (up_kube U) (TopologyCmNamespace (up_kube U)) LabelTopologyCMNodeTopology ''true'' s = Inr (cm # cms)"
    and cm: "FromNodeTopologyCM (up_kube U) cm = Ok nt" "cm_Labels cm LabelTopologyCMNodeName = Some n"
      "node \<in> set nodes" "cm_Name cm = GetNodeTopologyCMName (up_kube U) (n_Name node)"
    and ev: "event_handler (up_kube U) ev = Ok (Some (h, pod))" "run_handler (up_kube U) h pod s = (Ok (), s1)"
    and prune: "pruneTopologyConfigMap (up_kube U) cm True s1 = (Ok (), s2)"
    and run: "run_schedule U [Restart, JobTurn 0, PodEvent ev, PodTurn, PodTurn, PodTurn, JobTurn 0] (s, th, jobs) = (s', th', jobs')"
  shows "th' = Waiting_pod \<and> (\<exists>nt'. GetNodeTopologyFromCM (up_kube U) n s' = Ok nt' \<and> map ID (Gpus nt') = map ID (Gpus nt) \<and>
    (\<forall>i < length (Gpus nt). usage_of (Gpus nt' ! i) = Map.empty \<and>
      AllocatedBy (Status (Gpus nt' ! i)) \<in> {AllocatedBy (Status (Gpus nt ! i)), zero_container}))"
proof -
  let ?valid = "map (\<lambda>n. GetNodeTopologyCMName (up_kube U) (n_Name n)) nodes"
  have valid: "cm_Name cm \<in> set ?valid" using cm(3,4) by auto
  have handled: "dispatch (up_kube U) ev s = (Ok (), s1)" using ev by (simp add: dispatch_handler logged_def)
  have "run_schedule U [Restart, JobTurn 0] (s, th, jobs) = (s, Waiting_pod, [Prune ?valid (cm # cms)])"
    using lists by (simp add: turn_def [of U Restart] turn_def [of U "JobTurn 0"] started_def job_turn_def)
  moreover have "run_schedule U [PodEvent ev, PodTurn, PodTurn, PodTurn] (s, Waiting_pod, [Prune ?valid (cm # cms)]) =
      (s1, Waiting_pod, [Prune ?valid (cm # cms)])"
    using uninterrupted_pod_event [OF ev(1)] by (simp add: handled)
  moreover have "turn U (JobTurn 0) (s1, Waiting_pod, [Prune ?valid (cm # cms)]) = (s2, Waiting_pod, [Prune ?valid cms])"
    using prune valid by (simp add: turn_def job_turn_def del: set_map)
  ultimately have "s' = s2" "th' = Waiting_pod" using run by simp_all
  moreover obtain gs where gs: "prune_gpus (up_kube U) s1 (Gpus nt) = Ok gs"
    and "UpdateNodeTopologyCM (up_kube U) (nt\<lparr>Gpus := gs\<rparr>) n s1 = (Ok (), s2)"
    using prune_writes [OF cm(1,2) prune] by blast
  moreover have "AllocatedBy (Status (Gpus (norm_nt (nt\<lparr>Gpus := gs\<rparr>)) ! i)) \<in> {AllocatedBy (Status (Gpus nt ! i)), zero_container}"
    if "i < length (Gpus nt)" for i using pruned_gpus(2) [OF gs that] by (auto split: if_splits)
  ultimately show ?thesis
    using topo_store.get_put [OF topo_store_of [OF K]] pruned_gpus [OF gs]
    by (intro conjI exI [of _ "norm_nt (nt\<lparr>Gpus := gs\<rparr>)"]) auto
qed

end
