(* ===== verification/WitnessInterleaving.thy ===== *)
theory WitnessInterleaving
  imports Interleaving WitnessPods WitnessCluster
begin

text \<open>The theorems on interleaved handlers, applied to the in-memory server and concrete schedules\<close>

definition u_updater :: "(ref_state, int, ref_text) updater" where
  "u_updater = \<lparr>up_kube = ref_env, up_sort = w_sort, up_uuid = (\<lambda>x. x), up_config = w_cfg, up_disableLabeling = True\<rparr>"

lemma u_simps [simp]:
  "up_kube u_updater = ref_env" "up_sort u_updater = w_sort" "up_uuid u_updater = (\<lambda>x. x)"
  "up_config u_updater = w_cfg" "up_disableLabeling u_updater = True"
  by (simp_all add: u_updater_def)

lemma ref_failures_ok: "failures_ok ref_env"
  by (auto simp: failures_ok_def ref_env_simps ref_create_def ref_delete_def ref_env_def split: option.splits)

lemma u_filter: "pod_filter ref_env (w_pod n) = Ok True"
  by (simp add: pod_filter_def) (simp add: w_pod_def IsPodScheduled_def IsPodTerminated_def)

lemma u_handlers:
  "event_handler ref_env (Added (w_pod n)) = Ok (Some (AddPod, w_pod n))"
  "event_handler ref_env (Deleted (w_pod n)) = Ok (Some (DeletePod, w_pod n))"
  by (simp_all add: event_handler_def u_filter)

section \<open>An addition of a pod between the steps of an addition of a node\<close>

definition w_node2 :: "int Node" where
  "w_node2 = w_node\<lparr>n_Name := ''node2''\<rparr>"

definition u_schedule :: "(ref_state, int) choice list" where
  "u_schedule = [NodeEvent (NodeAdded w_node), PodEvent (Added (w_pod ''p'')), PodTurn, JobTurn 0,
     NodeEvent (NodeDeleted w_node2), JobTurn 1, JobTurn 0, PodTurn, PodTurn, JobTurn 1]"

lemma u_nodes [simp]:
  "n_Name w_node = ''node1''" "n_Name w_node2 = ''node2''" "isFakeGpuNode w_cfg w_node" "isFakeGpuNode w_cfg w_node2"
  by (simp_all add: w_node2_def w_node_def isFakeGpuNode_def w_cfg_def)

lemma u_missing: "DeleteNodeTopologyCM ref_env ''node2'' w_s = (Err NotFoundErr, w_s)"
  by (simp add: DeleteNodeTopologyCM_def ref_env_simps ref_delete_def w_s_def w_state_def GetNodeTopologyCMName_def)

lemma u_turns:
  "turn u_updater (NodeEvent (NodeAdded w_node)) (w_s, Waiting_pod, []) = (w_s, Waiting_pod, [AddNode w_node])"
  "turn u_updater (PodEvent (Added (w_pod ''p''))) (w_s, Waiting_pod, [AddNode w_node]) = (w_s, Reading AddPod (w_pod ''p''), [AddNode w_node])"
  "turn u_updater PodTurn (w_s, Reading AddPod (w_pod ''p''), [AddNode w_node]) = (w_s, Working AddPod (w_pod ''p'') w_two, [AddNode w_node])"
  "turn u_updater (JobTurn 0) (w_s, th, [AddNode w_node]) = (w_s, th, [LabelNode w_node])"
  "turn u_updater (NodeEvent (NodeDeleted w_node2)) (w_s, th, [LabelNode w_node]) = (w_s, th, [LabelNode w_node, DeleteNode w_node2])"
  "turn u_updater (JobTurn 1) (w_s, th, [LabelNode w_node, DeleteNode w_node2]) = (w_s, th, [LabelNode w_node, UnlabelNode w_node2])"
  "turn u_updater (JobTurn 0) (w_s, th, [LabelNode w_node, UnlabelNode w_node2]) = (w_s, th, [UnlabelNode w_node2])"
  "turn u_updater (JobTurn 1) (s, th, [UnlabelNode w_node2]) = (s, th, [UnlabelNode w_node2])"
  by (simp_all add: turn_def node_event_job_def pruning_def u_handlers pod_turn_def job_turn_def u_missing)

lemma u_pod_turns:
  "\<exists>s' nt s''. turn u_updater PodTurn (w_s, Working AddPod (w_pod ''p'') w_two, jobs) = (s', Writing (w_pod ''p'') nt, jobs) \<and>
    turn u_updater PodTurn (s', Writing (w_pod ''p'') nt, jobs) = (s'', Waiting_pod, jobs)"
proof -
  have "run_handler ref_env AddPod (w_pod ''p'') w_s = (Ok (), snd (HandleAdd ref_env (w_pod ''p'') w_s))"
    using w_added by (simp add: run_handler_def)
  then obtain nt s1 where "pod_work ref_env AddPod (w_pod ''p'') w_two w_s = (Ok nt, s1)"
      "UpdateNodeTopologyCM ref_env nt (p_NodeName (w_pod ''p'')) s1 = (Ok (), snd (HandleAdd ref_env (w_pod ''p'') w_s))"
    by (auto simp: run_handler_steps elim!: sbind_eq_OkD)
  then show ?thesis by (auto simp: turn_def pod_turn_def)
qed

lemma w_other_owner:
  "1 < length (Gpus w_two)" "owned_by (w_pod ''other'') (Gpus w_two ! 1)" "cd_Pod (AllocatedBy (Status (Gpus w_two ! 1))) = ''other''"
  by (simp_all add: owned_by_def w_two_def w_gpu_def)

lemma u_server: "store_ok (up_kube u_updater)" "codec_ok (up_kube u_updater)" "nodes_ok (up_kube u_updater)" "failures_ok (up_kube u_updater)"
  by (simp_all add: ref_failures_ok)

interpretation ref_usage: topology_inv u_updater "''node1''" "other_pod (w_pod ''other'')"
    "\<lambda>nt. same_owner w_two 1 nt \<and> usage_of (Gpus nt ! 1) (p_UID (w_pod ''other'')) = usage_of (Gpus w_two ! 1) (p_UID (w_pod ''other''))"
    "\<lambda>cl. \<not> pruning cl"
  by (rule usage_inv [OF u_server w_other_owner(2) _ w_other_owner(1)]) simp

interpretation ref_owner: topology_inv u_updater "''node1''" "other_pod (w_pod ''other'')" "same_owner w_two 1"
    "pod_lives u_updater ''node1'' (w_pod ''other'')"
  by (rule owner_inv [OF u_server w_other_owner(2) _ w_other_owner(1)]) simp

theorem interleaving_witness:
  "\<exists>nt. GetNodeTopologyFromCM ref_env ''node1'' (fst (run_schedule u_updater u_schedule (w_s, Waiting_pod, []))) = Ok nt \<and>
    cd_Pod (AllocatedBy (Status (Gpus nt ! 1))) = ''other''"
proof -
  obtain s' nt s'' where pt: "turn u_updater PodTurn (w_s, Working AddPod (w_pod ''p'') w_two, [UnlabelNode w_node2]) = (s', Writing (w_pod ''p'') nt, [UnlabelNode w_node2])"
    "turn u_updater PodTurn (s', Writing (w_pod ''p'') nt, [UnlabelNode w_node2]) = (s'', Waiting_pod, [UnlabelNode w_node2])"
    using u_pod_turns by blast
  have sched: "admissible u_updater ''node1'' (other_pod (w_pod ''other'')) (\<lambda>cl. \<not> pruning cl) u_schedule (w_s, Waiting_pod, [])"
    unfolding u_schedule_def
    by (simp only: admissible.simps u_turns pt)
      (simp add: choice_ok_def ev_pods_def other_pod_def node_event_job_def deletes_def pruning_def w_node2_def)
  note g = w_other_owner
  obtain s th jobs where run: "run_schedule u_updater u_schedule (w_s, Waiting_pod, []) = (s, th, jobs)"
    by (rule prod_cases3)
  have "\<exists>nt. GetNodeTopologyFromCM ref_env ''node1'' s = Ok nt \<and> AllocatedBy (Status (Gpus nt ! 1)) = AllocatedBy (Status (Gpus w_two ! 1))"
    using allocation_kept_under_interleaving [OF u_server _ g(1,2) _ sched run] by simp blast
  then show ?thesis using g(3) by (auto simp: run)
qed

section \<open>A deletion that overtakes an addition\<close>

lemma u_nothing_deleted: "HandleDeleteNode ref_env True w_node (w_state [] [] [w_node]) = (Ok (), w_state [] [] [w_node])"
  by (simp add: HandleDeleteNode_def DeleteNodeTopologyCM_def ref_env_simps ref_delete_def w_state_def GetNodeTopologyCMName_def)

lemma u_node_added:
  "HandleAddNode ref_env w_sort (\<lambda>x. x) w_cfg True w_node (w_state [] [] [w_node]) =
    (Ok (), snd (HandleAddNode ref_env w_sort (\<lambda>x. x) w_cfg True w_node (w_state [] [] [w_node])))"
  by (rule ok_pair)
    (simp add: HandleAddNode_def createNodeTopologyCM_def w_cfg_def w_node_def w_pool_resolved [unfolded ref_env_simps] generateGpuDetails_def
      GetNodeTopologyFromCM_def ref_find_def CreateNodeTopologyCM_def ToNodeTopologyCM_def ref_env_simps ref_create_def w_state_def Let_def split_def)

theorem deletion_overtaken_witness:
  "\<exists>cs s. run_schedule u_updater ([NodeEvent (NodeAdded w_node), NodeEvent (NodeDeleted w_node)] @ cs) (w_state [] [] [w_node], Waiting_pod, []) =
      (s, Waiting_pod, []) \<and> (\<exists>nt. GetNodeTopologyFromCM ref_env ''node1'' s = Ok nt \<and> length (Gpus nt) = 4)"
proof -
  have "n_Labels w_node (NodePoolLabelKey (up_config u_updater)) = Some ''a''" "map_of (NodePools (up_config u_updater)) ''a'' = Some w_pool"
    by (simp_all add: w_node_def w_cfg_def)
  note r = deletion_overtaken [of u_updater, OF _ _ _ this w_pool_resolved [folded u_simps] _ _ _, simplified, OF u_nothing_deleted]
  from r [of NotFoundErr] u_node_added show ?thesis by (fastforce simp: zero_pool_def)
qed

section \<open>A pod of a deleted node, and a pod before its node\<close>

lemma u_work: "\<exists>nt. pod_work ref_env DeletePod (w_pod ''other'') w_two w_s = (Ok nt, w_s)"
  by (simp add: pod_work_def handleDedicatedGpuPodDeletion_def)

theorem deleted_topology_rewritten_witness:
  "\<exists>cs s nt. run_schedule u_updater ([PodEvent (Deleted (w_pod ''other'')), NodeEvent (NodeDeleted w_node)] @ cs) (w_s, Waiting_pod, []) =
      (s, Waiting_pod, []) \<and> GetNodeTopologyFromCM ref_env ''node1'' s = Ok nt"
proof -
  obtain nt where w: "pod_work ref_env DeletePod (w_pod ''other'') w_two w_s = (Ok nt, w_s)" using u_work by blast
  let ?s2 = "snd (HandleDeleteNode ref_env True w_node w_s)"
  have "UpdateNodeTopologyCM ref_env nt ''node1'' ?s2 = (Ok (), snd (UpdateNodeTopologyCM ref_env nt ''node1'' ?s2))"
    by (rule ok_pair) simp
  moreover have "HandleDeleteNode ref_env True w_node w_s = (Ok (), ?s2)"
    by (rule ok_pair) (simp add: HandleDeleteNode_def DeleteNodeTopologyCM_def ref_env_simps ref_delete_def w_s_def w_state_def
        GetNodeTopologyCMName_def w_node_def)
  ultimately show ?thesis
    using deleted_topology_rewritten [of u_updater w_node "Deleted (w_pod ''other'')" DeletePod "w_pod ''other''" w_s w_two nt w_s "Ok ()" ?s2] w
    by (fastforce simp: u_handlers)
qed

theorem early_pod_witness:
  "\<exists>cs s. run_schedule u_updater ([NodeEvent (NodeAdded w_node), PodEvent (Added (w_pod ''p''))] @ cs) (w_state [] [] [w_node], Waiting_pod, []) =
      (s, Waiting_pod, []) \<and> (\<exists>nt. GetNodeTopologyFromCM ref_env ''node1'' s = Ok nt \<and> list_all is_free (Gpus nt))"
proof -
  have pool: "n_Labels w_node (NodePoolLabelKey (up_config u_updater)) = Some ''a''" "map_of (NodePools (up_config u_updater)) ''a'' = Some w_pool"
    by (simp_all add: w_node_def w_cfg_def)
  from early_pod_not_allocated [of u_updater, OF _ _ _ pool w_pool_resolved [folded u_simps], of "w_state [] [] [w_node]" NotFoundErr _
      "Added (w_pod ''p'')" "w_pod ''p''"] u_node_added
  show ?thesis by (fastforce simp: u_handlers)
qed

section \<open>A pod that is handled while the topologies are pruned\<close>

definition w_full :: NodeTopology where
  "w_full = w_nt [w_gpu ''g0'' ''p'' (Some Map.empty), w_gpu ''g1'' ''other'' (Some Map.empty)]"

definition w_full_s :: ref_state where
  "w_full_s = w_state [(''node1'', w_full)] [] [w_node]"

lemma w_full_lists:
  "node_list ref_env (NodePoolLabelKey w_cfg) w_full_s = Inr [w_node]"
  "cm_list ref_env (TopologyCmNamespace ref_env) LabelTopologyCMNodeTopology ''true'' w_full_s = Inr [w_cm ''node1'' w_full]"
  by (simp_all add: ref_env_def w_full_s_def w_state_def w_cfg_def w_node_def w_cm_def LabelTopologyCMNodeTopology_def LabelTopologyCMNodeName_def)

lemma w_full_handled: "HandleAdd ref_env (w_pod ''p'') w_full_s = (Ok (), snd (HandleAdd ref_env (w_pod ''p'') w_full_s))"
  by (rule w_add_ok [of _ w_full]) (simp_all add: w_full_s_def w_full_def maps_made_def w_gpu_def)

lemma w_full_pruned:
  "pruneTopologyConfigMap ref_env (w_cm ''node1'' w_full) True s = (Ok (), snd (pruneTopologyConfigMap ref_env (w_cm ''node1'' w_full) True s))"
proof (rule ok_pair)
  have "\<exists>b. isPodExist ref_env n ''ns1'' s = Ok b" if "n \<noteq> []" for n
    using that by (auto simp: isPodExist_def ref_env_simps ref_find_def split: option.split)
  from this [of "''p''"] this [of "''other''"] show "fst (pruneTopologyConfigMap ref_env (w_cm ''node1'' w_full) True s) = Ok ()"
    by (auto simp: pruneTopologyConfigMap_def w_full_def w_gpu_def split_def split: res.split)
qed

theorem pruning_overwrites_witness:
  "\<exists>s' th' jobs' nt'. run_schedule u_updater [Restart, JobTurn 0, PodEvent (Added (w_pod ''p'')), PodTurn, PodTurn, PodTurn, JobTurn 0]
      (w_full_s, Waiting_pod, []) = (s', th', jobs') \<and> GetNodeTopologyFromCM ref_env ''node1'' s' = Ok nt' \<and> usage_of (Gpus nt' ! 0) = Map.empty"
proof -
  let ?cs = "[Restart, JobTurn 0, PodEvent (Added (w_pod ''p'')), PodTurn, PodTurn, PodTurn, JobTurn 0] :: (ref_state, int) choice list"
  obtain s' th' jobs' where run: "run_schedule u_updater ?cs (w_full_s, Waiting_pod, []) = (s', th', jobs')" by (rule prod_cases3)
  let ?K = "up_kube u_updater"
  have cm: "FromNodeTopologyCM ?K (w_cm ''node1'' w_full) = Ok w_full" "cm_Labels (w_cm ''node1'' w_full) LabelTopologyCMNodeName = Some ''node1''"
    "w_node \<in> set [w_node]" "cm_Name (w_cm ''node1'' w_full) = GetNodeTopologyCMName ?K (n_Name w_node)"
    by (simp_all add: GetNodeTopologyCMName_def ref_env_simps) (simp add: w_cm_def)
  have ev: "event_handler ?K (Added (w_pod ''p'')) = Ok (Some (AddPod, w_pod ''p''))"
    "run_handler ?K AddPod (w_pod ''p'') w_full_s = (Ok (), snd (HandleAdd ref_env (w_pod ''p'') w_full_s))"
    using w_full_handled by (simp_all add: u_handlers run_handler_def)
  have "\<exists>nt'. GetNodeTopologyFromCM ?K ''node1'' s' = Ok nt' \<and> (\<forall>i < length (Gpus w_full). usage_of (Gpus nt' ! i) = Map.empty)"
    using pruning_overwrites_handlers [OF _ _ w_full_lists [folded u_simps(1,4)] cm ev w_full_pruned [folded u_simps(1)] run] by auto
  then show ?thesis using run by (auto simp: w_full_def)
qed

section \<open>A restart, and a handler that holds what it read before the pruning\<close>

definition w_live_s :: ref_state where
  "w_live_s = w_state [(''node1'', w_full)] [w_pod ''other''] [w_node]"

definition restart_schedule :: "(ref_state, int) choice list" where
  "restart_schedule = [Restart, JobTurn 0, PodEvent (Deleted (w_pod ''p'')), PodTurn, JobTurn 0, JobTurn 0]"

definition w_pruned_s :: ref_state where
  "w_pruned_s = snd (pruneTopologyConfigMap ref_env (w_cm ''node1'' w_full) True w_live_s)"

lemma w_live_lists:
  "node_list ref_env (NodePoolLabelKey w_cfg) w_live_s = Inr [w_node]"
  "cm_list ref_env (TopologyCmNamespace ref_env) LabelTopologyCMNodeTopology ''true'' w_live_s = Inr [w_cm ''node1'' w_full]"
  by (simp_all add: ref_env_def w_live_s_def w_state_def w_cfg_def w_node_def w_cm_def LabelTopologyCMNodeTopology_def LabelTopologyCMNodeName_def)

lemma restart_turns:
  "turn u_updater Restart (w_live_s, Waiting_pod, []) = (w_live_s, Waiting_pod, [ListTopologies])"
  "turn u_updater (JobTurn 0) (w_live_s, Waiting_pod, [ListTopologies]) = (w_live_s, Waiting_pod, [Prune [''topology-node1''] [w_cm ''node1'' w_full]])"
  "turn u_updater (PodEvent (Deleted (w_pod ''p''))) (w_live_s, Waiting_pod, jobs) = (w_live_s, Reading DeletePod (w_pod ''p''), jobs)"
  "turn u_updater PodTurn (w_live_s, Reading DeletePod (w_pod ''p''), jobs) = (w_live_s, Working DeletePod (w_pod ''p'') w_full, jobs)"
  "turn u_updater (JobTurn 0) (w_live_s, th, [Prune [''topology-node1''] [w_cm ''node1'' w_full]]) = (w_pruned_s, th, [Prune [''topology-node1''] []])"
  "turn u_updater (JobTurn 0) (s, th, [Prune [''topology-node1''] []]) = (s, th, [])"
proof -
  have nt: "GetNodeTopologyFromCM ref_env ''node1'' w_live_s = Ok w_full" by (simp add: w_live_s_def)
  have name: "cm_Name (w_cm ''node1'' w_full) = ''topology-node1''" by (simp add: w_cm_def)
  show "turn u_updater Restart (w_live_s, Waiting_pod, []) = (w_live_s, Waiting_pod, [ListTopologies])"
    by (simp add: turn_def started_def)
  show "turn u_updater (JobTurn 0) (w_live_s, Waiting_pod, [ListTopologies]) = (w_live_s, Waiting_pod, [Prune [''topology-node1''] [w_cm ''node1'' w_full]])"
    by (simp add: turn_def job_turn_def w_live_lists GetNodeTopologyCMName_def) (simp add: ref_env_simps)
  show "turn u_updater (PodEvent (Deleted (w_pod ''p''))) (w_live_s, Waiting_pod, jobs) = (w_live_s, Reading DeletePod (w_pod ''p''), jobs)"
    by (simp add: turn_def u_handlers)
  show "turn u_updater PodTurn (w_live_s, Reading DeletePod (w_pod ''p''), jobs) = (w_live_s, Working DeletePod (w_pod ''p'') w_full, jobs)"
    by (simp add: turn_def pod_turn_def nt)
  show "turn u_updater (JobTurn 0) (w_live_s, th, [Prune [''topology-node1''] [w_cm ''node1'' w_full]]) = (w_pruned_s, th, [Prune [''topology-node1''] []])"
  proof -
    obtain s' where "pruneTopologyConfigMap ref_env (w_cm ''node1'' w_full) True w_live_s = (Ok (), s')" using w_full_pruned by blast
    then show ?thesis by (simp add: turn_def job_turn_def name w_pruned_s_def)
  qed
  show "turn u_updater (JobTurn 0) (s, th, [Prune [''topology-node1''] []]) = (s, th, [])"
    by (simp add: turn_def job_turn_def)
qed

lemma w_pruned_eq:
  obtains cm where "w_pruned_s = w_live_s\<lparr>rs_cms := [((''gpu-operator'', ''topology-node1''), cm)]\<rparr>" "cm_Name cm = ''topology-node1''"
proof -
  have "isPodExist ref_env ''p'' ''ns1'' w_live_s = Ok False" "isPodExist ref_env ''other'' ''ns1'' w_live_s = Ok True"
    by (simp_all add: isPodExist_def ref_env_simps ref_find_def w_live_s_def)
  then obtain gs where "prune_gpus ref_env w_live_s (Gpus w_full) = Ok gs" by (simp add: w_full_def w_gpu_def)
  moreover have "cm_Name (w_cm ''node1'' w_full) = ''topology-node1''" by (simp add: w_cm_def)
  ultimately show thesis
    by (intro that [of "case map_of (rs_cms w_pruned_s) (''gpu-operator'', ''topology-node1'') of Some cm \<Rightarrow> cm"])
      (simp_all add: w_pruned_s_def pruneTopologyConfigMap_def UpdateNodeTopologyCM_def ToNodeTopologyCM_def GetNodeTopologyCMName_def
        ref_env_simps ref_apply_def w_live_s_def w_state_def Let_def)
qed

lemma w_lives:
  "pod_lives u_updater ''node1'' (w_pod ''other'') (w_live_s, th, jobs)"
  "pod_lives u_updater ''node1'' (w_pod ''other'') (w_pruned_s, th, jobs)"
proof -
  have nodes: "node_list ref_env (NodePoolLabelKey w_cfg) w_live_s = Inr [w_node]"
    "node_list ref_env (NodePoolLabelKey w_cfg) (w_live_s\<lparr>rs_cms := cms\<rparr>) = Inr [w_node]" for cms
    by (simp_all add: ref_env_def w_live_s_def w_state_def w_cfg_def w_node_def)
  have cms: "cm_list ref_env ns k v (w_live_s\<lparr>rs_cms := [((ns, n), cm)]\<rparr>) = Inr (if cm_Labels cm k = Some v then [cm] else [])" for ns k v n cm
    by (simp add: ref_env_def)
  have ns: "TopologyCmNamespace ref_env = ''gpu-operator''" by (simp add: ref_env_simps)
  show "pod_lives u_updater ''node1'' (w_pod ''other'') (w_live_s, th, jobs)"
    by (simp add: pod_lives_def w_live_lists Let_def) (simp add: ref_env_simps w_live_s_def w_state_def ref_find_def w_cm_def GetNodeTopologyCMName_def)
  show "pod_lives u_updater ''node1'' (w_pod ''other'') (w_pruned_s, th, jobs)"
  proof (rule w_pruned_eq)
    fix cm assume s: "w_pruned_s = w_live_s\<lparr>rs_cms := [((''gpu-operator'', ''topology-node1''), cm)]\<rparr>" and "cm_Name cm = ''topology-node1''"
    then show ?thesis
      by (simp add: s pod_lives_def nodes cms ns Let_def GetNodeTopologyCMName_def)
        (simp add: ref_env_simps w_live_s_def ref_find_def)
  qed
qed

theorem owner_survives_witness:
  "\<exists>nt. GetNodeTopologyFromCM ref_env ''node1'' (fst (run_schedule u_updater restart_schedule (w_live_s, Waiting_pod, []))) = Ok nt \<and>
    cd_Pod (AllocatedBy (Status (Gpus nt ! 1))) = ''other''"
proof -
  have sched: "admissible u_updater ''node1'' (other_pod (w_pod ''other'')) (pod_lives u_updater ''node1'' (w_pod ''other'')) restart_schedule (w_live_s, Waiting_pod, [])"
    unfolding restart_schedule_def
    by (simp only: admissible.simps restart_turns w_lives) (simp add: choice_ok_def ev_pods_def other_pod_def)
  have g: "1 < length (Gpus w_full)" "owned_by (w_pod ''other'') (Gpus w_full ! 1)" "cd_Pod (AllocatedBy (Status (Gpus w_full ! 1))) = ''other''"
    by (simp_all add: owned_by_def w_full_def w_gpu_def)
  obtain s th jobs where run: "run_schedule u_updater restart_schedule (w_live_s, Waiting_pod, []) = (s, th, jobs)"
    by (rule prod_cases3)
  have "GetNodeTopologyFromCM ref_env ''node1'' w_live_s = Ok w_full" by (simp add: w_live_s_def)
  then have "\<exists>nt. GetNodeTopologyFromCM ref_env ''node1'' s = Ok nt \<and> AllocatedBy (Status (Gpus nt ! 1)) = AllocatedBy (Status (Gpus w_full ! 1))"
    using owner_survives_restarts [OF u_server _ g(1,2) _ sched run] by simp blast
  then show ?thesis using g(3) by (auto simp: run)
qed

end
