(* ===== verification/PluginDrivers.thy ===== *)
theory PluginDrivers
  imports GpuPlugin DomainPlugin
begin

text \<open>
  The two DRA plugins around their states: \<^verbatim>\<open>driver.go\<close>, \<^verbatim>\<open>health.go\<close> and \<^verbatim>\<open>app.go\<close> of
  \<^verbatim>\<open>internal/dra-plugin-gpu\<close> and \<^verbatim>\<open>internal/compute-domain-dra-plugin\<close>.  The kubelet's plugin
  library, sockets and the operating system are parameters, the record \<open>driver_env\<close>.
\<close>

section \<open>The environment\<close>

record ('q, 's) driver_env =
  \<comment> \<open>\<^verbatim>\<open>kubeletplugin.Start\<close>: node, driver, registrar directory, data directory\<close>
  kubelet_start :: "string \<Rightarrow> string \<Rightarrow> string \<Rightarrow> string \<Rightarrow> 's \<Rightarrow> (gerror + unit) \<times> 's"
  kubelet_stop :: "'s \<Rightarrow> 's"
  \<comment> \<open>the pool of a node and its devices\<close>
  publish_resources :: "string \<Rightarrow> 'q Device list \<Rightarrow> 's \<Rightarrow> (gerror + unit) \<times> 's"
  recoverable :: "gerror \<Rightarrow> bool"
  tcp_listen :: "string \<Rightarrow> 's \<Rightarrow> (gerror + unit) \<times> 's"
  grpc_client :: "string \<Rightarrow> gerror + unit"
  grpc_serve :: "'s \<Rightarrow> 's"
  grpc_stop :: "'s \<Rightarrow> 's"
  dir_make :: "string \<Rightarrow> 's \<Rightarrow> (gerror + unit) \<times> 's"
  \<comment> \<open>whether what is at a path is a directory\<close>
  stat_is_dir :: "string \<Rightarrow> 's \<Rightarrow> gerror + bool"
  kubelet_registry_dir :: string
  kubelet_plugins_dir :: string

record Flags =
  fl_NodeName :: string
  fl_CDIRoot :: string
  fl_RegistrarDirectory :: string
  fl_PluginsDirectory :: string
  fl_HealthcheckPort :: int

section \<open>health.go\<close>

text \<open>A URL of scheme \<^verbatim>\<open>unix\<close>, of a path whose characters need no escape\<close>

definition unix_url :: "string \<Rightarrow> string" where
  "unix_url p = ''unix://'' @ p"

text \<open>Whether there is a server; there is none for a negative port.\<close>

definition start_health ::
    "('q, 's) driver_env \<Rightarrow> string \<Rightarrow> Flags \<Rightarrow> string \<Rightarrow> 's \<Rightarrow> bool res \<times> 's" where
  "start_health E driverName fl pluginPath s =
     (if fl_HealthcheckPort fl < 0 then (Ok False, s)
      else case tcp_listen E ('':'' @ itoa (fl_HealthcheckPort fl)) s of
        (Inl e, s) \<Rightarrow> (Err (Wrap ''failed to listen for healthcheck service'' e), s)
      | (Inr _, s) \<Rightarrow>
          (case grpc_client E (unix_url (path_join [fl_RegistrarDirectory fl, driverName @ ''-reg.sock''])) of
             Inl e \<Rightarrow> (Err (Wrap ''connect to registration socket'' e), s)
           | Inr _ \<Rightarrow>
               (case grpc_client E (unix_url (path_join [pluginPath, ''dra.sock''])) of
                  Inl e \<Rightarrow> (Err (Wrap ''connect to DRA socket'' e), s)
                | Inr _ \<Rightarrow> (Ok True, grpc_serve E s))))"

definition StartHealthcheck :: "('q, 's) driver_env \<Rightarrow> Flags \<Rightarrow> 's \<Rightarrow> bool res \<times> 's" where
  "StartHealthcheck E fl s = start_health E GpuDriverName fl (DriverPluginPath (fl_PluginsDirectory fl)) s"

definition startDomainHealthcheck :: "('q, 's) driver_env \<Rightarrow> Flags \<Rightarrow> 's \<Rightarrow> bool res \<times> 's" where
  "startDomainHealthcheck E fl s =
     start_health E ComputeDomainDriverName fl (DomainDriverPluginPath (fl_PluginsDirectory fl)) s"

text \<open>The answer to a health request is that of the other plugin.\<close>

definition CheckGpuPlugin :: "string \<Rightarrow> (gerror + unit) \<Rightarrow> (gerror + unit) \<Rightarrow> gerror + bool" where
  "CheckGpuPlugin service getInfo nodePrepare = Check service getInfo nodePrepare"

section \<open>The driver for GPUs\<close>

text \<open>The state, \<open>None\<close> for the nil pointer it is until it is made, and whether there is a health check\<close>

record 'q Driver =
  drv_state :: "(string \<times> 'q Device) list option"
  drv_healthcheck :: bool

text \<open>
  The driver is registered, so that the kubelet may call it, before its state is made.  \<open>visit\<close> is the order in
  which the runtime visits the map of the devices.
\<close>

definition NewDriver ::
    "('q, 's) driver_env \<Rightarrow> 's cdi_env \<Rightarrow> (int \<Rightarrow> 'q) \<Rightarrow> (string \<Rightarrow> (int \<times> NodeTopology option) option) list
     \<Rightarrow> ((string \<times> 'q Device) list \<Rightarrow> (string \<times> 'q Device) list) \<Rightarrow> Flags \<Rightarrow> 's \<Rightarrow> 'q Driver res \<times> 's" where
  "NewDriver E A quantity ticks visit fl s =
     sbind (api_call (kubelet_start E (fl_NodeName fl) GpuDriverName (fl_RegistrarDirectory fl)
                        (DriverPluginPath (fl_PluginsDirectory fl)) s)) (\<lambda>_ s.
     sbind (NewDeviceState A quantity ticks (fl_NodeName fl) s) (\<lambda>allocatable s.
     case StartHealthcheck E fl s of (r, s) \<Rightarrow>
     sbind (wrap_err ''start healthcheck'' r, s) (\<lambda>health s.
     sbind (api_call (publish_resources E (fl_NodeName fl) (map snd (visit allocatable)) s)) (\<lambda>_ s.
       (Ok \<lparr>drv_state = Some allocatable, drv_healthcheck = health\<rparr>, s)))))"

text \<open>The calls of the kubelet: a nil state is dereferenced by the lock of the first claim.\<close>

definition call_prepare ::
    "'s cdi_env \<Rightarrow> ('o, 'c, 'h) config_api
     \<Rightarrow> ((nat \<times> AllocResult list) list \<Rightarrow> (nat \<times> AllocResult list) list)
     \<Rightarrow> ((nat \<times> AllocResult list) list \<Rightarrow> (nat \<times> AllocResult list) list)
     \<Rightarrow> 'q Driver \<Rightarrow> ResourceClaim list \<Rightarrow> 's \<Rightarrow> (string \<rightharpoonup> PreparedDevice list res) res \<times> 's" where
  "call_prepare A C visit1 visit2 d claims s =
     PrepareResourceClaims
       (\<lambda>claim s. case drv_state d of
                    None \<Rightarrow> (Panic NilDeref, s)
                  | Some allocatable \<Rightarrow> PrepareGpus A C visit1 visit2 (map fst allocatable) claim s) claims Map.empty s"

definition Shutdown :: "('q, 's) driver_env \<Rightarrow> 'q Driver \<Rightarrow> 's \<Rightarrow> 's" where
  "Shutdown E d s = kubelet_stop E (if drv_healthcheck d then grpc_stop E s else s)"

text \<open>\<^verbatim>\<open>HandleError\<close>: whether the main context is cancelled\<close>

definition HandleError :: "('q, 's) driver_env \<Rightarrow> gerror \<Rightarrow> bool" where
  "HandleError E err \<longleftrightarrow> \<not> recoverable E err"

text \<open>\<^verbatim>\<open>Init\<close>: the defaults, and the directories\<close>

definition gpu_flags :: "('q, 's) driver_env \<Rightarrow> Flags \<Rightarrow> Flags" where
  "gpu_flags E fl = fl
     \<lparr>fl_RegistrarDirectory := (if fl_RegistrarDirectory fl = [] then kubelet_registry_dir E else fl_RegistrarDirectory fl),
      fl_PluginsDirectory := (if fl_PluginsDirectory fl = [] then kubelet_plugins_dir E else fl_PluginsDirectory fl),
      fl_CDIRoot := (if fl_CDIRoot fl = [] then ''/etc/cdi'' else fl_CDIRoot fl),
      fl_HealthcheckPort := (if fl_HealthcheckPort fl = 0 then -1 else fl_HealthcheckPort fl)\<rparr>"

definition validateAndCreateDirectories :: "('q, 's) driver_env \<Rightarrow> Flags \<Rightarrow> 's \<Rightarrow> unit res \<times> 's" where
  "validateAndCreateDirectories E fl s =
     (case dir_make E (DriverPluginPath (fl_PluginsDirectory fl)) s of
        (Inl e, s) \<Rightarrow> (Err (Wrap ''failed to create driver plugin directory'' e), s)
      | (Inr _, s) \<Rightarrow>
          (case dir_make E (fl_CDIRoot fl) s of
             (Inl e, s) \<Rightarrow> (Err (Wrap ''failed to create CDI root directory'' e), s)
           | (Inr _, s) \<Rightarrow> (Ok (), s)))"

section \<open>The driver for compute domains\<close>

record 'q computeDomainDriver =
  dd_state :: "'q ComputeDomainState"
  dd_healthcheck :: bool

text \<open>Of the channels only the first is published.\<close>

definition published_channels :: "'q ComputeDomainState \<Rightarrow> 'q Device list" where
  "published_channels st = (case map_of (st_allocatable st) (deviceNameForChannel 0) of None \<Rightarrow> [] | Some d \<Rightarrow> [d])"

definition NewComputeDomainDriver ::
    "('q, 's) driver_env \<Rightarrow> 's cdi_env \<Rightarrow> 's plugin_env \<Rightarrow> 'b checkpoint_codec \<Rightarrow> Flags \<Rightarrow> 's
     \<Rightarrow> 'q computeDomainDriver res \<times> 's" where
  "NewComputeDomainDriver E A D J fl s =
     sbind (NewComputeDomainState A D J (fl_PluginsDirectory fl) s) (\<lambda>st s.
     sbind (api_call (kubelet_start E (fl_NodeName fl) ComputeDomainDriverName (fl_RegistrarDirectory fl)
                        (DomainDriverPluginPath (fl_PluginsDirectory fl)) s)) (\<lambda>_ s.
     case startDomainHealthcheck E fl s of (r, s) \<Rightarrow>
     sbind (wrap_err ''start healthcheck'' r, s) (\<lambda>health s.
     sbind (api_call (publish_resources E (fl_NodeName fl) (published_channels st) s)) (\<lambda>_ s.
       (Ok \<lparr>dd_state = st, dd_healthcheck = health\<rparr>, s)))))"

definition prepareDomainClaims ::
    "'s cdi_env \<Rightarrow> 's plugin_env \<Rightarrow> string \<Rightarrow> string list \<Rightarrow> ResourceClaim list \<Rightarrow> 's
     \<Rightarrow> (string \<rightharpoonup> PreparedDevice list res) res \<times> 's" where
  "prepareDomainClaims A D deviceRoot allocatable claims s =
     PrepareResourceClaims (PrepareDomain A D deviceRoot allocatable) claims Map.empty s"

definition unprepareDomainClaims :: "'s cdi_env \<Rightarrow> 's plugin_env \<Rightarrow> string list \<Rightarrow> 's \<Rightarrow> (string \<rightharpoonup> unit res) res \<times> 's" where
  "unprepareDomainClaims A D uids s = UnprepareResourceClaims (UnprepareDomain A D) uids Map.empty s"

definition ShutdownDomain :: "('q, 's) driver_env \<Rightarrow> 'q computeDomainDriver \<Rightarrow> 's \<Rightarrow> 's" where
  "ShutdownDomain E d s = kubelet_stop E (if dd_healthcheck d then grpc_stop E s else s)"

definition HandleDomainError :: "('q, 's) driver_env \<Rightarrow> gerror \<Rightarrow> bool" where
  "HandleDomainError E err \<longleftrightarrow> \<not> recoverable E err"

definition default_domain_flags :: "('q, 's) driver_env \<Rightarrow> Flags" where
  "default_domain_flags E =
     \<lparr>fl_NodeName = [], fl_CDIRoot = ''/etc/cdi'', fl_RegistrarDirectory = kubelet_registry_dir E,
      fl_PluginsDirectory = kubelet_plugins_dir E, fl_HealthcheckPort = -1\<rparr>"

definition ensure_cdi_root :: "('q, 's) driver_env \<Rightarrow> (gerror \<Rightarrow> bool) \<Rightarrow> string \<Rightarrow> 's \<Rightarrow> unit res \<times> 's" where
  "ensure_cdi_root E isNotExist cdiRoot s =
     (case stat_is_dir E cdiRoot s of
        Inl e \<Rightarrow> if isNotExist e then api_call (dir_make E cdiRoot s) else (Err e, s)
      | Inr isDir \<Rightarrow> if isDir then (Ok (), s) else (Err (Msg ''path for cdi file generation is not a directory''), s))"

text \<open>
  \<^verbatim>\<open>runPlugin\<close>: the driver runs from its start to the end of the context, in the meantime \<open>serve\<close>; its
  shutdown follows.  \<open>clients\<close> is the outcome of making the API clients.
\<close>

definition runPlugin ::
    "('q, 's) driver_env \<Rightarrow> 's cdi_env \<Rightarrow> 's plugin_env \<Rightarrow> 'b checkpoint_codec \<Rightarrow> (gerror + unit)
     \<Rightarrow> ('q computeDomainDriver \<Rightarrow> 's \<Rightarrow> 's) \<Rightarrow> Flags \<Rightarrow> 's \<Rightarrow> unit res \<times> 's" where
  "runPlugin E A D J clients serve fl s =
     (if fl_NodeName fl = [] then (Err (Msg ''NODE_NAME is required''), s)
      else case clients of
        Inl e \<Rightarrow> (Err (Msg ''create client''), s)
      | Inr _ \<Rightarrow>
          sbind (api_call (dir_make E (DomainDriverPluginPath (fl_PluginsDirectory fl)) s)) (\<lambda>_ s.
          sbind (ensure_cdi_root E (not_exist D) (fl_CDIRoot fl) s) (\<lambda>_ s.
          sbind (NewComputeDomainDriver E A D J fl s) (\<lambda>d s. (Ok (), ShutdownDomain E d (serve d s))))))"

section \<open>Lemmas\<close>

text \<open>
  While the GPU plugin waits for the topology it is registered without a state: the preparation of a claim that the
  kubelet asks for then is a nil dereference.
\<close>

lemma early_claim_panics:
  assumes "drv_state d = None"
  shows "call_prepare A C visit1 visit2 d (claim # claims) s = (Panic NilDeref, s)"
  using assms by (simp add: call_prepare_def prepareResourceClaim_def)

text \<open>A driver that started has a state: what it published are the devices of that state.\<close>

lemma started_with_state:
  assumes "NewDriver E A quantity ticks visit fl s = (Ok d, s')"
  shows "\<exists>allocatable s1. drv_state d = Some allocatable \<and>
    publish_resources E (fl_NodeName fl) (map snd (visit allocatable)) s1 = (Inr (), s')"
  using assms unfolding NewDriver_def by (auto elim!: sbind_eq_OkD split: prod.splits) blast

text \<open>The one channel a compute domain plugin publishes is the one it prepares for a claim of a single channel.\<close>

lemma published_first_channel:
  assumes "st_allocatable st = enumerateComputeDomainDevices"
  shows "map dv_Name (published_channels st) = [deviceNameForChannel 0]"
proof -
  have "[0..<maxChannelID] = 0 # [1..<maxChannelID]" by (simp only: maxChannelID_def upt_rec [of 0] One_nat_def) simp
  then have "map_of (st_allocatable st) (deviceNameForChannel 0) = Some (newChannelDevice 0)"
    unfolding assms enumerateComputeDomainDevices_def by (simp only: list.map map_of.simps) simp
  then show ?thesis by (simp add: published_channels_def newChannelDevice_def)
qed

end
