(* ===== verification/Spec2Isabelle.thy ===== *)
theory Spec2Isabelle
  imports WitnessPods WitnessCluster WitnessExport WitnessMock WitnessDomain WitnessPlugins
    WitnessDra WitnessNode WitnessApps WitnessInterleaving PluginDrivers
begin

text \<open>
  The fake GPU operator makes a Kubernetes cluster believe that its nodes have GPUs.  Its state is one
  ConfigMap for each node, the node's topology: the list of its simulated GPUs, with the container each is
  allocated to and the usage of each pod on it.  This development models the parts of the Go program that read
  and write that state, in the order in which the program composes them.

  \<^bold>\<open>Writers.\<close>  The status-updater (\<^verbatim>\<open>internal/status-updater\<close>) creates a node's topology from
  the cluster configuration when the node appears (theory \<open>NodeHandler\<close>: controllers/node, handlers/node),
  allocates and releases GPUs as pods come and go (\<open>PodDedicated\<close>, \<open>PodShared\<close>, \<open>PodDra\<close>,
  \<open>PodHandler\<close>, \<open>UsageCalc\<close>: controllers/pod, handlers/pod), and deploys a mock driver for the pools
  that ask for one (\<open>Reconcile\<close>, \<open>MockPools\<close>, \<open>MockProps\<close>: controllers/mock).  The
  configuration itself, in two formats and with profiles, is \<open>Normalize\<close> and \<open>Profile\<close>
  (internal/common/topology, internal/common/profile).

  \<^bold>\<open>Readers.\<close>  The status-exporter (\<^verbatim>\<open>internal/status-exporter\<close>) watches topologies
  (\<open>Watch\<close>) and shows them as Prometheus gauges (\<open>Metrics\<close>), node labels (\<open>LabelsExport\<close>),
  NodeResourceTopology objects over a NUMA layout (\<open>NumaZones\<close>, \<open>Nrt\<close>), the kubelet's PodResources
  answer and core lists (\<open>PodResources\<close>), and files for each pod (\<open>FsExporter\<close>, \<open>FsProps\<close>).  The topology server (cmd/topology-server) answers with a
  node's topology, from which nvidia-smi (\<open>NvidiaSmi\<close>: cmd/nvidia-smi) and the DRA plugin on a node read it;
  the plugins for simulated nodes publish it as ResourceSlices (\<open>ResourceSlices\<close>, \<open>SliceProps\<close>:
  internal/kwok-dra-plugin, internal/kwok-compute-domain-dra-plugin, internal/dra-plugin-gpu), and the device plugins
  as the capacity of a node (\<open>DevicePlugins\<close>: internal/deviceplugin, internal/kwok-gpu-device-plugin).

  \<^bold>\<open>Beside them\<close> stand the compute domains (\<open>ComputeDomain\<close>, \<open>DomainProps\<close>:
  internal/compute-domain-controller), whose claim templates the compute-domain plugin reads
  (\<open>DomainPlugin\<close>, \<open>DomainPluginProps\<close>, \<open>DomainTemplate\<close>: internal/compute-domain-dra-plugin: the checkpoint of
  domains and claims, the preparation of claims, device nodes, CDI files).  The GPU plugin prepares claims likewise
  (\<open>GpuPlugin\<close>, \<open>GpuPluginProps\<close>: internal/dra-plugin-gpu: configurations, their precedence, CDI files); what
  both have of the CDI library and of claims is \<open>Cdi\<close>, and the JSON the program writes and reads itself is
  \<open>GoJson\<close>.  \<open>PluginDrivers\<close> holds the drivers around both states: registration with the kubelet, the
  calls for claims, health checks, the order of the start.  The MIG faker (\<open>MigFaker\<close>, \<open>MigProps\<close>:
  internal/migfaker) publishes a mapping of MIG instances for the configuration that an annotation of its node asks
  for, and the Run:ai controller (\<open>RunaiController\<close>: status-updater/controllers/runai) installs a recording rule.
  \<open>Apps\<close> holds the applications around the components: their settings, the controllers and exporters they start,
  the start of the device plugin, and how a new simulated node comes to its capacity; \<open>KwokNodes\<close> how it comes
  to its ResourceSlice.

  \<^bold>\<open>At the same time.\<close>  \<open>Interleaving\<close> runs the pod controller and the goroutines of the node controller
  over one cluster: \<open>turn\<close> is one step of one of them, \<open>run_schedule\<close> a sequence of steps chosen by a schedule,
  with restarts of the process and changes by others in between.  A step ends where the code has read or written the
  cluster, so that a handler's read of a topology, its work on it and its write are three steps; a patch of a
  node's labels, and the pruning of one ConfigMap, are one step each.  Steps that are not interrupted are shown to make
  the handlers of \<open>PodHandler\<close> and \<open>NodeHandler\<close>, so that nothing is modelled twice.

  \<^bold>\<open>How the code is modelled.\<close>  A Go struct is a record, a slice a list, a map a partial function, or an
  association list where the code iterates over it; \<open>int\<close> is an integer with its 64-bit wrap-around written
  out where the code computes with it (\<open>wrap64\<close>), \<open>float64\<close> the type \<open>gofloat\<close> of rationals
  rounded to 53 bits (\<open>GoFloat\<close>), a string a list of bytes.  A call that fails returns \<open>Err\<close>, a panic
  is \<open>Panic\<close>, and a step on the cluster takes and returns the state (\<open>GoPrelude\<close>).  What is not code
  of this repository is a parameter: the API server, the YAML codec, quantities and settings are fields of
  \<open>kube_env\<close> (\<open>KubeApi\<close>), and likewise \<open>gauge_env\<close>, \<open>metrics_env\<close>, \<open>kind_api\<close>,
  \<open>domain_env\<close>, \<open>slice_env\<close>, \<open>status_env\<close>, \<open>node_os\<close>, \<open>smi_env\<close>, \<open>cdi_env\<close>, \<open>config_api\<close>, \<open>plugin_env\<close>,
  \<open>checkpoint_codec\<close>, \<open>driver_env\<close>, \<open>fs_env\<close>, \<open>runai_env\<close>,
  \<open>config_lib\<close>, \<open>host_files\<close>.  What the theorems rely on is stated by named predicates (\<open>codec_ok\<close>,
  \<open>store_ok\<close>, \<open>gauges_ok\<close>, \<open>kind_ok\<close>, \<open>domain_ok\<close>, \<open>slices_ok\<close>,
  \<open>retry_ok\<close>, \<open>cdi_ok\<close>, \<open>plugin_ok\<close>, \<open>checkpoint_codec_ok\<close>, \<open>node_update_ok\<close>, \<open>fs_ok\<close>, \<open>fs_grants\<close>,
  \<open>rules_ok\<close>, \<open>status_ok\<close>, \<open>nodes_ok\<close>, \<open>failures_ok\<close>), and each is shown
  to hold of a concrete implementation (\<open>RefServer\<close>, \<open>MockStore\<close> and the theories whose names begin with \<open>Witness\<close>,
  which apply the theorems to concrete inputs).  The order in which the runtime visits a map is a parameter
  wherever it can matter.

  \<^bold>\<open>Interfaces\<close> are locales, interpreted on the model's own operations or on the concrete server:
  \<open>topo_store\<close> for the topologies of the nodes in the API server, \<open>pod_op\<close> and \<open>safe_pod_op\<close>
  for the pod handlers (what an event of one pod may change of a topology),
  \<open>object_kind\<close> for the objects a reconciler compares and writes, \<open>metrics_exporter\<close> for the watcher,
  \<open>domain_server\<close> for the compute domains, \<open>topology_inv\<close> for what every interleaving keeps, \<open>slice_server\<close> for the published slices,
  \<open>cdi_files\<close> for the files of the CDI library, \<open>checkpoint_store\<close> for the checkpoint of the compute-domain plugin.

  \<^bold>\<open>What the lemmas show.\<close>  For pods: allocation of exactly the first free GPUs, release of exactly the
  held ones, idempotence, the invariant that no event of another pod touches a GPU, the absence of panics.  For
  nodes and configuration: creation, deletion and pruning of topologies, independence of the order of maps,
  round trips of the legacy format.  For exporters: gauges, labels, zones and core lists that show exactly the
  topology, rounding that adds up.  For reconcilers: a pass establishes the desired state and the next pass has
  nothing to do.  For the DRA plugins: the checkpoint stays consistent whatever fails, a failed preparation changes no
  claim, unpreparing undoes preparing, and each device gets the last configuration for its request.  For the MIG faker:
  the worker gets the last configuration however its steps and the informer's are interleaved, and the published
  mapping decodes to what was asked for.  For the controllers together: the owner of a GPU
  survives every interleaving and, while its pod is there, every restart; the pod's usage survives as long as nothing is
  pruned; and the four races that lose or resurrect a topology are shown by schedules that run into them.

  \<^bold>\<open>Bounds and fuel.\<close>  All functions are total; the only fuel is that of \<open>retry_loop\<close>, which stands
  for the client library's five attempts.  SHA-1 and SHA-256, which the code takes from the standard library, are
  written out (\<open>Sha1\<close>, \<open>Sha256\<close>) with a number of rounds read off the length of the message.

  \<^bold>\<open>Not modelled\<close>: signals, flags, the construction of clients and the wiring of informers and managers, gRPC and HTTP
  serving, the helm chart, log output, the decoding of YAML and of the vendor package that defines the configurations of GPUs, the rendering of tables by nvidia-smi.
\<close>

end
